(* ===== verification/Prelude.thy ===== *)
theory Prelude
  imports Main "HOL-Library.Word" "HOL-Library.AList"
begin

text \<open>
  Shared vocabulary of the development: the fact collections the component proofs use, Go's
  string-keyed maps as association lists with an executable equality, and the few functions of
  Go's standard library (strconv, strings, path) that the operator calls.
\<close>

named_theorems go_rules \<open>syntax-directed rules for triples over Go computations\<close>
named_theorems go_specs \<open>triples of the operator's own operations\<close>
named_theorems go_simps \<open>unfolding equations of Go computations\<close>

subsection \<open>Go maps\<close>

text \<open>
  A Go map is an association list read with \<^const>\<open>map_of\<close>. \<open>map_eq\<close> is
  \<^verbatim>\<open>reflect.DeepEqual\<close> on two such maps: the same keys with the same values.
\<close>

type_synonym 'v gomap = "(string \<times> 'v) list"
type_synonym labels = "string gomap"

definition map_eq :: "'v gomap \<Rightarrow> 'v gomap \<Rightarrow> bool" where
  "map_eq m n = list_all (\<lambda>k. map_of m k = map_of n k) (map fst m @ map fst n)"

lemma map_eq_iff: "map_eq m n \<longleftrightarrow> map_of m = map_of n"
proof
  assume eq: "map_eq m n"
  show "map_of m = map_of n"
  proof
    fix k
    show "map_of m k = map_of n k"
    proof (cases "k \<in> set (map fst m) \<union> set (map fst n)")
      case True
      with eq show ?thesis by (auto simp: map_eq_def list_all_iff)
    next
      case False
      then have "map_of m k = None" "map_of n k = None" by (auto simp: map_of_eq_None_iff)
      then show ?thesis by simp
    qed
  qed
qed (simp add: map_eq_def list_all_iff)

lemma map_eq_refl [simp]: "map_eq m m"
  by (simp add: map_eq_iff)

subsection \<open>strconv and fmt: decimal and hexadecimal numerals\<close>

definition digit_char :: "nat \<Rightarrow> char" where
  "digit_char d = (if d < 10 then char_of (48 + d) else char_of (87 + d))"

fun format_nat :: "nat \<Rightarrow> nat \<Rightarrow> string" where
  "format_nat b n =
     (if b < 2 \<or> n < b then [digit_char n]
      else format_nat b (n div b) @ [digit_char (n mod b)])"

declare format_nat.simps [simp del]

text \<open>\<^verbatim>\<open>strconv.FormatInt(i, b)\<close>; \<^verbatim>\<open>%d\<close> and \<^verbatim>\<open>strconv.Itoa\<close> are base 10.\<close>

definition format_int :: "nat \<Rightarrow> int \<Rightarrow> string" where
  "format_int b i = (if i < 0 then CHR ''-'' # format_nat b (nat (- i)) else format_nat b (nat i))"

definition itoa :: "int \<Rightarrow> string" where
  "itoa i = format_int 10 i"

lemma format_nat_nonempty [simp]: "format_nat b n \<noteq> []"
  by (subst format_nat.simps) simp

lemma itoa_nonempty [simp]: "itoa i \<noteq> []"
  by (simp add: itoa_def format_int_def)

subsection \<open>strings.Join\<close>

fun join :: "string \<Rightarrow> string list \<Rightarrow> string" where
  "join sep [] = []"
| "join sep [x] = x"
| "join sep (x # y # zs) = x @ sep @ join sep (y # zs)"

subsection \<open>path.Join and path.Clean\<close>

text \<open>
  Go's \<^verbatim>\<open>path.Clean\<close> works on the slash-separated elements: empty elements and
  \<^verbatim>\<open>.\<close> vanish, \<^verbatim>\<open>..\<close> drops the element before it, is dropped itself at the root of
  a rooted path, and is kept at the front of a relative one. \<open>path_join2\<close> is
  \<^verbatim>\<open>path.Join(a, b)\<close>: empty arguments are ignored and the rest, joined with slashes, is
  cleaned; if both are empty the result is the empty string.
\<close>

fun split_on :: "char \<Rightarrow> string \<Rightarrow> string list" where
  "split_on c [] = [[]]"
| "split_on c (x # xs) =
     (if x = c then [] # split_on c xs
      else (case split_on c xs of [] \<Rightarrow> [[x]] | p # ps \<Rightarrow> (x # p) # ps))"

fun clean_elems :: "bool \<Rightarrow> string list \<Rightarrow> string list \<Rightarrow> string list" where
  "clean_elems rooted acc [] = rev acc"
| "clean_elems rooted acc (e # es) =
     (if e = [] \<or> e = ''.'' then clean_elems rooted acc es
      else if e = ''..'' then
        (case acc of
           [] \<Rightarrow> clean_elems rooted (if rooted then [] else [e]) es
         | a # as \<Rightarrow> if a = ''..'' then clean_elems rooted (e # acc) es
                     else clean_elems rooted as es)
      else clean_elems rooted (e # acc) es)"

definition path_clean :: "string \<Rightarrow> string" where
  "path_clean p =
     (let rooted = (case p of [] \<Rightarrow> False | c # _ \<Rightarrow> c = CHR ''/'');
          es = clean_elems rooted [] (split_on (CHR ''/'') p)
      in if rooted then CHR ''/'' # join ''/'' es
         else if es = [] then ''.'' else join ''/'' es)"

definition path_join2 :: "string \<Rightarrow> string \<Rightarrow> string" where
  "path_join2 a b =
     (let xs = filter (\<lambda>x. x \<noteq> []) [a, b]
      in if xs = [] then [] else path_clean (join ''/'' xs))"

subsection \<open>Lists\<close>

text \<open>The first element with a property, as Go's \<^verbatim>\<open>for ... if ... return\<close> loops find it.\<close>

lemma find_Some_iff2: "find P xs = Some x \<Longrightarrow> x \<in> set xs \<and> P x"
  by (auto simp: find_Some_iff)

lemma find_not_None: "x \<in> set xs \<Longrightarrow> P x \<Longrightarrow> find P xs \<noteq> None"
  by (auto simp: find_None_iff)

end
