(* ===== verification/Go_Monad.thy ===== *)
theory Go_Monad
  imports Prelude
begin

text \<open>
  Go computations: a function of the state that returns a value or panics (a nil dereference),
  together with the state it leaves behind. Go's error values are ordinary results. A small
  Hoare logic comes with it: \<open>triple P m Q E\<close> says that from a state with \<open>P\<close> the
  computation ends with \<open>Q\<close> of its result and state, or panics in a state with \<open>E\<close>.
\<close>

datatype 'a outcome = Ret 'a | Panic

type_synonym ('s, 'a) go = "'s \<Rightarrow> 'a outcome \<times> 's"

definition return_go :: "'a \<Rightarrow> ('s, 'a) go" where
  "return_go x = (\<lambda>s. (Ret x, s))"

definition panic_go :: "('s, 'a) go" where
  "panic_go = (\<lambda>s. (Panic, s))"

definition bind_go :: "('s, 'a) go \<Rightarrow> ('a \<Rightarrow> ('s, 'b) go) \<Rightarrow> ('s, 'b) go" where
  "bind_go m f = (\<lambda>s. case m s of (Ret x, t) \<Rightarrow> f x t | (Panic, t) \<Rightarrow> (Panic, t))"

definition then_go :: "('s, 'a) go \<Rightarrow> ('s, 'b) go \<Rightarrow> ('s, 'b) go" where
  "then_go m n = bind_go m (\<lambda>_. n)"

definition gets_go :: "('s \<Rightarrow> 'a) \<Rightarrow> ('s, 'a) go" where
  "gets_go f = (\<lambda>s. (Ret (f s), s))"

definition modify_go :: "('s \<Rightarrow> 's) \<Rightarrow> ('s, unit) go" where
  "modify_go f = (\<lambda>s. (Ret (), f s))"

text \<open>Dereferencing a pointer: a nil pointer panics.\<close>

definition deref_go :: "'a option \<Rightarrow> ('s, 'a) go" where
  "deref_go p = (case p of None \<Rightarrow> panic_go | Some x \<Rightarrow> return_go x)"

lemma return_go_run [go_simps]: "return_go x s = (Ret x, s)"
  by (simp add: return_go_def)

lemma panic_go_run [go_simps]: "panic_go s = (Panic, s)"
  by (simp add: panic_go_def)

lemma gets_go_run [go_simps]: "gets_go f s = (Ret (f s), s)"
  by (simp add: gets_go_def)

lemma modify_go_run [go_simps]: "modify_go f s = (Ret (), f s)"
  by (simp add: modify_go_def)

lemma bind_go_run [go_simps]:
  "bind_go m f s = (case m s of (Ret x, t) \<Rightarrow> f x t | (Panic, t) \<Rightarrow> (Panic, t))"
  by (simp add: bind_go_def)

lemma then_go_run [go_simps]:
  "then_go m n s = (case m s of (Ret x, t) \<Rightarrow> n t | (Panic, t) \<Rightarrow> (Panic, t))"
  by (simp add: then_go_def bind_go_def)

lemma deref_go_run [go_simps]:
  "deref_go None s = (Panic, s)" "deref_go (Some x) s = (Ret x, s)"
  by (simp_all add: deref_go_def go_simps)

lemma bind_go_assoc: "bind_go (bind_go m f) g = bind_go m (\<lambda>x. bind_go (f x) g)"
  by (auto simp: bind_go_def fun_eq_iff split: prod.splits outcome.splits)

lemma bind_return_go [simp]: "bind_go (return_go x) f = f x"
  by (simp add: bind_go_def return_go_def)

lemma return_bind_go [simp]: "bind_go m return_go = m"
  by (auto simp: bind_go_def return_go_def fun_eq_iff split: prod.splits outcome.splits)

subsection \<open>Inverting a run\<close>

lemma bind_RetE:
  assumes "bind_go m f s = (Ret y, t)"
  obtains x u where "m s = (Ret x, u)" and "f x u = (Ret y, t)"
  using assms by (auto simp: bind_go_def split: prod.splits outcome.splits)

lemma then_RetE:
  assumes "then_go m n s = (Ret y, t)"
  obtains x u where "m s = (Ret x, u)" and "n u = (Ret y, t)"
  using assms unfolding then_go_def by (rule bind_RetE)

subsection \<open>Triples\<close>

definition triple ::
  "('s \<Rightarrow> bool) \<Rightarrow> ('s, 'a) go \<Rightarrow> ('a \<Rightarrow> 's \<Rightarrow> bool) \<Rightarrow> ('s \<Rightarrow> bool) \<Rightarrow> bool" where
  "triple P m Q E =
     (\<forall>s. P s \<longrightarrow> (case m s of (Ret x, t) \<Rightarrow> Q x t | (Panic, t) \<Rightarrow> E t))"

text \<open>An invariant kept by a computation, also along the runs that panic.\<close>

abbreviation keeps :: "('s \<Rightarrow> bool) \<Rightarrow> ('s, 'a) go \<Rightarrow> bool" where
  "keeps I m \<equiv> triple I m (\<lambda>_. I) I"

lemma tripleI:
  assumes "\<And>s x t. P s \<Longrightarrow> m s = (Ret x, t) \<Longrightarrow> Q x t"
    and "\<And>s t. P s \<Longrightarrow> m s = (Panic, t) \<Longrightarrow> E t"
  shows "triple P m Q E"
  using assms by (auto simp: triple_def split: prod.splits outcome.splits)

lemma tripleD: "triple P m Q E \<Longrightarrow> P s \<Longrightarrow> m s = (Ret x, t) \<Longrightarrow> Q x t"
  by (force simp: triple_def)

lemma triple_panicD: "triple P m Q E \<Longrightarrow> P s \<Longrightarrow> m s = (Panic, t) \<Longrightarrow> E t"
  by (force simp: triple_def)

lemma triple_snd: "triple P m (\<lambda>_. Q) Q \<Longrightarrow> P s \<Longrightarrow> Q (snd (m s))"
  by (cases "m s"; cases "fst (m s)") (auto simp: triple_def split: prod.splits outcome.splits)

lemmas keepsD = triple_snd

lemma triple_case:
  "triple P m Q E \<Longrightarrow> P s \<Longrightarrow>
     (case m s of (Ret x, t) \<Rightarrow> Q x t | (Panic, t) \<Rightarrow> E t)"
  by (simp add: triple_def)

lemma triple_weaken:
  assumes "triple P m Q E" and "\<And>s. P' s \<Longrightarrow> P s" and "\<And>x s. Q x s \<Longrightarrow> Q' x s"
    and "\<And>s. E s \<Longrightarrow> E' s"
  shows "triple P' m Q' E'"
  using assms by (fastforce simp: triple_def split: prod.splits outcome.splits)

lemma triple_post:
  "triple P m Q E \<Longrightarrow> (\<And>x s. Q x s \<Longrightarrow> Q' x s) \<Longrightarrow> triple P m Q' E"
  by (erule triple_weaken) auto

lemma triple_pre: "triple P m Q E \<Longrightarrow> (\<And>s. P' s \<Longrightarrow> P s) \<Longrightarrow> triple P' m Q E"
  by (erule triple_weaken) auto

lemma triple_conj:
  "triple P m Q E \<Longrightarrow> triple P' m Q' E' \<Longrightarrow>
     triple (\<lambda>s. P s \<and> P' s) m (\<lambda>x s. Q x s \<and> Q' x s) (\<lambda>s. E s \<and> E' s)"
  by (fastforce simp: triple_def split: prod.splits outcome.splits)

lemma triple_False [simp]: "triple (\<lambda>_. False) m Q E"
  by (simp add: triple_def)

subsection \<open>Syntax-directed rules\<close>

lemma triple_return [go_rules]: "(\<And>s. P s \<Longrightarrow> Q x s) \<Longrightarrow> triple P (return_go x) Q E"
  by (simp add: triple_def return_go_def)

lemma triple_panic [go_rules]: "(\<And>s. P s \<Longrightarrow> E s) \<Longrightarrow> triple P panic_go Q E"
  by (simp add: triple_def panic_go_def)

lemma triple_gets: "(\<And>s. P s \<Longrightarrow> Q (f s) s) \<Longrightarrow> triple P (gets_go f) Q E"
  by (simp add: triple_def gets_go_def)

lemma triple_modify: "(\<And>s. P s \<Longrightarrow> Q () (f s)) \<Longrightarrow> triple P (modify_go f) Q E"
  by (simp add: triple_def modify_go_def)

lemma triple_bind:
  assumes "triple P m R E" and "\<And>x. triple (R x) (f x) Q E"
  shows "triple P (bind_go m f) Q E"
  using assms by (fastforce simp: triple_def bind_go_def split: prod.splits outcome.splits)

lemma triple_then:
  "triple P m (\<lambda>_. R) E \<Longrightarrow> triple R n Q E \<Longrightarrow> triple P (then_go m n) Q E"
  unfolding then_go_def by (rule triple_bind)

lemma triple_deref: "(\<And>s x. P s \<Longrightarrow> p = Some x \<Longrightarrow> Q x s) \<Longrightarrow> (\<And>s. P s \<Longrightarrow> p = None \<Longrightarrow> E s)
    \<Longrightarrow> triple P (deref_go p) Q E"
  by (cases p) (auto simp: triple_def go_simps)

lemma triple_if [go_rules]:
  "(b \<Longrightarrow> triple P m Q E) \<Longrightarrow> (\<not> b \<Longrightarrow> triple P n Q E) \<Longrightarrow> triple P (if b then m else n) Q E"
  by simp

lemma triple_case_option [go_rules]:
  "(p = None \<Longrightarrow> triple P m Q E) \<Longrightarrow> (\<And>x. p = Some x \<Longrightarrow> triple P (f x) Q E)
    \<Longrightarrow> triple P (case p of None \<Rightarrow> m | Some x \<Rightarrow> f x) Q E"
  by (cases p) auto

lemma triple_case_sum [go_rules]:
  "(\<And>e. r = Inl e \<Longrightarrow> triple P (f e) Q E) \<Longrightarrow> (\<And>x. r = Inr x \<Longrightarrow> triple P (g x) Q E)
    \<Longrightarrow> triple P (case r of Inl e \<Rightarrow> f e | Inr x \<Rightarrow> g x) Q E"
  by (cases r) auto

lemma triple_case_prod [go_rules]:
  "(\<And>a b. p = (a, b) \<Longrightarrow> triple P (f a b) Q E)
    \<Longrightarrow> triple P (case p of (a, b) \<Rightarrow> f a b) Q E"
  by (cases p) auto

lemma triple_case_list [go_rules]:
  "(xs = [] \<Longrightarrow> triple P m Q E) \<Longrightarrow> (\<And>y ys. xs = y # ys \<Longrightarrow> triple P (f y ys) Q E)
    \<Longrightarrow> triple P (case xs of [] \<Rightarrow> m | y # ys \<Rightarrow> f y ys) Q E"
  by (cases xs) auto

text \<open>The same rules specialised to an invariant, for which no intermediate assertion is needed.\<close>

lemma keeps_bind [go_rules]:
  "keeps I m \<Longrightarrow> (\<And>x. keeps I (f x)) \<Longrightarrow> keeps I (bind_go m f)"
  by (rule triple_bind)

lemma keeps_then [go_rules]: "keeps I m \<Longrightarrow> keeps I n \<Longrightarrow> keeps I (then_go m n)"
  by (rule triple_then)

lemma keeps_gets [go_rules]: "keeps I (gets_go f)"
  by (rule triple_gets)

lemma keeps_deref [go_rules]: "keeps I (deref_go p)"
  by (rule triple_deref)

lemma keeps_conj: "keeps I m \<Longrightarrow> keeps J m \<Longrightarrow> keeps (\<lambda>s. I s \<and> J s) m"
  by (rule triple_conj)

subsection \<open>What a computation can return\<close>

text \<open>\<open>yields m A\<close>: whatever the state, a value returned by \<open>m\<close> is in \<open>A\<close>.\<close>

definition yields :: "('s, 'a) go \<Rightarrow> ('a \<Rightarrow> bool) \<Rightarrow> bool" where
  "yields m A = (\<forall>s x t. m s = (Ret x, t) \<longrightarrow> A x)"

named_theorems yield_rules \<open>syntax-directed rules for the values a computation returns\<close>

lemma yieldsD: "yields m A \<Longrightarrow> m s = (Ret x, t) \<Longrightarrow> A x"
  by (auto simp: yields_def)

lemma yields_return [yield_rules]: "A x \<Longrightarrow> yields (return_go x) A"
  by (simp add: yields_def return_go_def)

lemma yields_panic [yield_rules]: "yields panic_go A"
  by (simp add: yields_def panic_go_def)

lemma yields_bind [yield_rules]: "(\<And>x. yields (f x) A) \<Longrightarrow> yields (bind_go m f) A"
  by (auto simp: yields_def bind_go_def split: prod.splits outcome.splits)

lemma yields_bind_strong:
  "yields m B \<Longrightarrow> (\<And>x. B x \<Longrightarrow> yields (f x) A) \<Longrightarrow> yields (bind_go m f) A"
  by (fastforce simp: yields_def bind_go_def split: prod.splits outcome.splits)

lemma yields_then [yield_rules]: "yields n A \<Longrightarrow> yields (then_go m n) A"
  by (auto simp: yields_def then_go_def bind_go_def split: prod.splits outcome.splits)

lemma yields_if [yield_rules]:
  "(b \<Longrightarrow> yields m A) \<Longrightarrow> (\<not> b \<Longrightarrow> yields n A) \<Longrightarrow> yields (if b then m else n) A"
  by simp

lemma yields_case_option [yield_rules]:
  "(p = None \<Longrightarrow> yields m A) \<Longrightarrow> (\<And>x. p = Some x \<Longrightarrow> yields (f x) A)
    \<Longrightarrow> yields (case p of None \<Rightarrow> m | Some x \<Rightarrow> f x) A"
  by (cases p) auto

lemma yields_case_sum [yield_rules]:
  "(\<And>e. r = Inl e \<Longrightarrow> yields (f e) A) \<Longrightarrow> (\<And>x. r = Inr x \<Longrightarrow> yields (g x) A)
    \<Longrightarrow> yields (case r of Inl e \<Rightarrow> f e | Inr x \<Rightarrow> g x) A"
  by (cases r) auto

lemma yields_case_prod [yield_rules]:
  "(\<And>a b. p = (a, b) \<Longrightarrow> yields (f a b) A) \<Longrightarrow> yields (case p of (a, b) \<Rightarrow> f a b) A"
  by (cases p) auto

lemma yields_weaken: "yields m A \<Longrightarrow> (\<And>x. A x \<Longrightarrow> B x) \<Longrightarrow> yields m B"
  by (auto simp: yields_def)

lemma keeps_yields:
  "keeps I m \<Longrightarrow> yields m B \<Longrightarrow> triple I m (\<lambda>x s. I s \<and> B x) I"
  by (rule tripleI) (auto dest: tripleD triple_panicD yieldsD)

lemma keeps_bind_yields:
  "keeps I m \<Longrightarrow> yields m B \<Longrightarrow> (\<And>x. B x \<Longrightarrow> keeps I (f x)) \<Longrightarrow> keeps I (bind_go m f)"
proof (rule triple_bind [OF keeps_yields], assumption, assumption)
  fix x
  assume f: "\<And>x. B x \<Longrightarrow> keeps I (f x)"
  show "triple (\<lambda>s. I s \<and> B x) (f x) (\<lambda>_. I) I"
  proof (cases "B x")
    case True
    show ?thesis by (rule triple_pre [OF f [OF True]]) simp
  qed simp
qed

text \<open>A first step whose result is known.\<close>

lemma triple_bind_known:
  assumes "triple P m (\<lambda>x s. x = a \<and> R s) E" and "triple R (f a) Q E"
  shows "triple P (bind_go m f) Q E"
  using assms by (fastforce simp: triple_def bind_go_def split: prod.splits outcome.splits)

lemma triple_bind_some:
  assumes "triple P m (\<lambda>x s. \<exists>a. x = h a \<and> R a s) E" and "\<And>a. triple (R a) (f (h a)) Q E"
  shows "triple P (bind_go m f) Q E"
  using assms by (fastforce simp: triple_def bind_go_def split: prod.splits outcome.splits)

lemma triple_gets_known:
  "(\<And>s. P s \<Longrightarrow> g s = a) \<Longrightarrow> triple P (f a) Q E \<Longrightarrow> triple P (bind_go (gets_go g) f) Q E"
  by (simp add: triple_def bind_go_def gets_go_def)

lemma triple_gets_bind:
  "(\<And>s. P s \<Longrightarrow> triple P (f (g s)) Q E) \<Longrightarrow> triple P (bind_go (gets_go g) f) Q E"
  by (simp add: triple_def bind_go_def gets_go_def)

lemmas keeps_gets_bind = triple_gets_bind [where P = I and E = I and Q = "\<lambda>_. I" for I]

lemma triple_bind_gets:
  "triple P (f x) Q E \<Longrightarrow> triple (\<lambda>s. P s \<and> g s = x) (bind_go (gets_go g) f) Q E"
  by (simp add: triple_def bind_go_def gets_go_def)

end
