(* ===== verification/Kube_Types.thy ===== *)
theory Kube_Types
  imports Prelude
begin

text \<open>
  The data the operator exchanges with Kubernetes (k8s.io/api, k8s.io/apimachinery and the Gateway
  API), reduced to the fields the code under src/ reads or writes. A Go pointer is an
  \<open>option\<close>, a struct a \<open>record\<close>, an int32 a \<open>32 word\<close> read with \<^const>\<open>sint\<close>,
  a string-keyed map an association list.
\<close>

type_synonym Time = int
type_synonym Duration = int
type_synonym int32 = "32 word"

text \<open>Durations are nanoseconds; \<open>seconds n\<close> is \<^verbatim>\<open>n * time.Second\<close>.\<close>

definition seconds :: "int \<Rightarrow> Duration" where
  "seconds n = n * 1000000000"

datatype NamespacedName = NamespacedName (nn_Namespace: string) (nn_Name: string)

datatype ObjKind =
    KindKode | KindEntryPoint | KindContainerTemplate | KindClusterContainerTemplate
  | KindSecret | KindService | KindStatefulSet | KindPersistentVolumeClaim | KindPod
  | KindHTTPRoute | KindSecurityPolicy

subsection \<open>Errors\<close>

text \<open>
  The error values of the code: an API status error with its reason, the sentinel of a timed-out
  wait, the operator's own \<open>TemplateNotFoundError\<close>, an error made of a text
  (\<^verbatim>\<open>fmt.Errorf\<close> without \<^verbatim>\<open>%w\<close>) and an error that wraps another one
  (\<^verbatim>\<open>fmt.Errorf\<close> with \<^verbatim>\<open>%w\<close> at the end of the format).
\<close>

datatype StatusReason = ReasonNotFound | ReasonConflict | ReasonAlreadyExists | ReasonOther string

datatype error =
    APIStatus StatusReason string
  | WaitTimeout
  | TemplateNotFound NamespacedName string
  | ErrorText string
  | Wrapped string error

definition NamespacedName_String :: "NamespacedName \<Rightarrow> string" where
  "NamespacedName_String n = nn_Namespace n @ ''/'' @ nn_Name n"

fun Error :: "error \<Rightarrow> string" where
  "Error (APIStatus r m) = m"
| "Error WaitTimeout = ''timed out waiting for the condition''"
| "Error (TemplateNotFound n k) = k @ '' not found: '' @ NamespacedName_String n"
| "Error (ErrorText m) = m"
| "Error (Wrapped p e) = p @ Error e"

text \<open>
  \<^verbatim>\<open>apierrors.IsNotFound\<close> looks for an API status error along the chain of wrapped errors; the
  other error types carry no API status.
\<close>

fun IsNotFound :: "error \<Rightarrow> bool" where
  "IsNotFound (APIStatus r m) = (r = ReasonNotFound)"
| "IsNotFound (Wrapped p e) = IsNotFound e"
| "IsNotFound _ = False"

definition IgnoreNotFound :: "error \<Rightarrow> error option" where
  "IgnoreNotFound e = (if IsNotFound e then None else Some e)"

subsection \<open>Quantities and persistent volume claims\<close>

text \<open>
  A resource quantity is compared by its amount; its textual form is only printed.
\<close>

record Quantity =
  q_amount :: int
  q_text :: string

definition quantity_zero :: Quantity where
  "quantity_zero = \<lparr>q_amount = 0, q_text = ''0''\<rparr>"

definition quantity_Equal :: "Quantity \<Rightarrow> Quantity \<Rightarrow> bool" where
  "quantity_Equal a b = (q_amount a = q_amount b)"

record VolumeResourceRequirements =
  vr_Requests :: "Quantity gomap option"
  vr_Limits :: "Quantity gomap option"

text \<open>\<^verbatim>\<open>r.Requests.Storage()\<close>: the zero quantity where no storage is requested.\<close>

definition Requests_Storage :: "VolumeResourceRequirements \<Rightarrow> Quantity" where
  "Requests_Storage r =
     (case vr_Requests r of
        None \<Rightarrow> quantity_zero
      | Some m \<Rightarrow> (case map_of m ''storage'' of None \<Rightarrow> quantity_zero | Some q \<Rightarrow> q))"

record PVCSpec =
  pvcs_AccessModes :: "string list option"
  pvcs_Resources :: VolumeResourceRequirements
  pvcs_StorageClassName :: "string option"
  pvcs_VolumeName :: string
  pvcs_VolumeMode :: "string option"
  pvcs_Selector :: "labels option"

record PersistentVolumeClaim =
  pvc_Name :: string
  pvc_Namespace :: string
  pvc_Labels :: labels
  pvc_Annotations :: labels
  pvc_Owners :: "string list"
  pvc_Spec :: PVCSpec
  pvc_StatusPhase :: string

definition PVCSpec_zero :: PVCSpec where
  "PVCSpec_zero = \<lparr>pvcs_AccessModes = None,
     pvcs_Resources = \<lparr>vr_Requests = None, vr_Limits = None\<rparr>,
     pvcs_StorageClassName = None, pvcs_VolumeName = '''', pvcs_VolumeMode = None,
     pvcs_Selector = None\<rparr>"

subsection \<open>Secrets, services, pods and stateful sets\<close>

record Secret =
  sec_Name :: string
  sec_Namespace :: string
  sec_Labels :: labels
  sec_Owners :: "string list"
  sec_Data :: "string gomap"

record ServicePort =
  sp_Protocol :: string
  sp_Port :: int32
  sp_TargetPort :: int32

record ServiceSpec =
  svcs_Selector :: labels
  svcs_Ports :: "ServicePort list"

record Service =
  svc_Name :: string
  svc_Namespace :: string
  svc_Labels :: labels
  svc_Owners :: "string list"
  svc_Spec :: ServiceSpec

record SecretKeyRef =
  skr_Name :: string
  skr_Key :: string

record EnvVar =
  env_Name :: string
  env_Value :: string
  env_ValueFrom :: "SecretKeyRef option"

record ContainerPort =
  cp_Name :: string
  cp_ContainerPort :: int32
  cp_Protocol :: string

record VolumeMount =
  vm_Name :: string
  vm_MountPath :: string

record SecurityContext =
  sc_AddCapabilities :: "string list"
  sc_RunAsNonRoot :: "bool option"
  sc_RunAsUser :: "int option"

record Container =
  c_Name :: string
  c_Image :: string
  c_Command :: "string list"
  c_Args :: "string list"
  c_Env :: "EnvVar list"
  c_EnvFrom :: "string list"
  c_Ports :: "ContainerPort list"
  c_VolumeMounts :: "VolumeMount list"
  c_SecurityContext :: "SecurityContext option"

definition Container_zero :: Container where
  "Container_zero = \<lparr>c_Name = '''', c_Image = '''', c_Command = [], c_Args = [], c_Env = [],
     c_EnvFrom = [], c_Ports = [], c_VolumeMounts = [], c_SecurityContext = None\<rparr>"

record Volume =
  vol_Name :: string
  vol_ClaimName :: "string option"

record PodTemplateSpec =
  pt_Labels :: labels
  pt_Annotations :: labels
  pt_InitContainers :: "Container list"
  pt_Containers :: "Container list"
  pt_Volumes :: "Volume list"
  pt_RuntimeClassName :: "string option"

record StatefulSetSpec =
  sts_Replicas :: "int32 option"
  sts_MatchLabels :: labels
  sts_ServiceName :: string
  sts_Template :: PodTemplateSpec
  sts_UpdateStrategy :: string
  sts_MaxUnavailable :: "int option"

record StatefulSet =
  ss_Name :: string
  ss_Namespace :: string
  ss_Labels :: "labels option"
  ss_Owners :: "string list"
  ss_Spec :: StatefulSetSpec
  ss_ReadyReplicas :: int32

definition StatefulSetSpec_zero :: StatefulSetSpec where
  "StatefulSetSpec_zero = \<lparr>sts_Replicas = None, sts_MatchLabels = [], sts_ServiceName = '''',
     sts_Template = \<lparr>pt_Labels = [], pt_Annotations = [], pt_InitContainers = [],
       pt_Containers = [], pt_Volumes = [], pt_RuntimeClassName = None\<rparr>,
     sts_UpdateStrategy = '''', sts_MaxUnavailable = None\<rparr>"

datatype ConditionStatus = ConditionTrue | ConditionFalse | ConditionUnknown

record PodCondition =
  pc_Type :: string
  pc_Status :: ConditionStatus

record Pod =
  pod_Name :: string
  pod_Namespace :: string
  pod_Labels :: labels
  pod_Containers :: "Container list"
  pod_StatusPhase :: string
  pod_Conditions :: "PodCondition list"

subsection \<open>Results of a reconciliation and of CreateOrPatch\<close>

record ctrl_Result =
  Requeue :: bool
  RequeueAfter :: Duration

definition result_none :: ctrl_Result where
  "result_none = \<lparr>Requeue = False, RequeueAfter = 0\<rparr>"

definition result_requeue :: ctrl_Result where
  "result_requeue = \<lparr>Requeue = True, RequeueAfter = 0\<rparr>"

definition result_after :: "Duration \<Rightarrow> ctrl_Result" where
  "result_after d = \<lparr>Requeue = False, RequeueAfter = d\<rparr>"

datatype OperationResult =
  OperationResultNone | OperationResultCreated | OperationResultUpdated | OperationResultOther

end
