(* ===== verification/Api_V1alpha2.thy ===== *)
theory Api_V1alpha2
  imports Kube_Types
begin

text \<open>
  The operator's API (api/v1alpha2 and pkg/constant): phases, condition types, the specs and
  statuses of Kode, EntryPoint and the container templates, and the methods of these types that
  do not talk to the API server. Embedded structs are record extensions.
\<close>

subsection \<open>Enumerations\<close>

text \<open>
  \<open>Phase\<close> and \<open>ConditionType\<close> are Go strings with named constants. The last constructor stands
  for every other string, the empty string of a new resource included.
\<close>

datatype Phase =
    PhasePending | PhaseConfiguring | PhaseProvisioning | PhaseActive | PhaseUpdating
  | PhaseDeleting | PhaseFailed | PhaseUnknown | PhaseOther string

fun phase_string :: "Phase \<Rightarrow> string" where
  "phase_string PhasePending = ''Pending''"
| "phase_string PhaseConfiguring = ''Configuring''"
| "phase_string PhaseProvisioning = ''Provisioning''"
| "phase_string PhaseActive = ''Active''"
| "phase_string PhaseUpdating = ''Updating''"
| "phase_string PhaseDeleting = ''Deleting''"
| "phase_string PhaseFailed = ''Failed''"
| "phase_string PhaseUnknown = ''Unknown''"
| "phase_string (PhaseOther s) = s"

datatype ConditionType =
    ConditionTypeReady | ConditionTypeAvailable | ConditionTypeProgressing
  | ConditionTypeDegraded | ConditionTypeError | ConditionTypeConfigured
  | ConditionTypeValidated | ConditionTypeHTTPRouteReady | ConditionTypeHTTPSRouteReady
  | ConditionTypeOther string

definition TemplateKindContainer :: string where
  "TemplateKindContainer = ''ContainerTemplate''"
definition TemplateKindClusterContainer :: string where
  "TemplateKindClusterContainer = ''ClusterContainerTemplate''"

definition KodeFinalizerName :: string where
  "KodeFinalizerName = ''kode.jacero.io/kode-finalizer''"
definition EntryPointFinalizerName :: string where
  "EntryPointFinalizerName = ''kode.jacero.io/entrypoint-finalizer''"
definition DefaultKodeVolumeStorageName :: string where
  "DefaultKodeVolumeStorageName = ''kode-storage''"
definition DefaultKodePodPort :: int where
  "DefaultKodePodPort = 3000"
definition DefaultUsername :: string where
  "DefaultUsername = ''abc''"

definition ProtocolHTTP :: string where "ProtocolHTTP = ''http''"
definition ProtocolHTTPS :: string where "ProtocolHTTPS = ''https''"
definition RoutingTypeSubdomain :: string where "RoutingTypeSubdomain = ''subdomain''"
definition RoutingTypePath :: string where "RoutingTypePath = ''path''"
definition RuntimeContainer :: string where "RuntimeContainer = ''container''"

subsection \<open>Specs\<close>

record CrossNamespaceObjectReference =
  ref_APIVersion :: "string option"
  ref_Kind :: string
  ref_Name :: string
  ref_Namespace :: "string option"

record CredentialsSpec =
  cr_Username :: string
  cr_Password :: string
  cr_ExistingSecret :: "string option"
  cr_EnableBuiltinAuth :: bool

record InitPluginSpec =
  ip_Name :: string
  ip_Image :: string
  ip_Command :: "string list"
  ip_Args :: "string list"
  ip_Env :: "EnvVar list"
  ip_EnvFrom :: "string list"
  ip_VolumeMounts :: "VolumeMount list"

record KodeStorageSpec =
  st_AccessModes :: "string list option"
  st_StorageClassName :: "string option"
  st_Resources :: "VolumeResourceRequirements option"
  st_KeepVolume :: "bool option"
  st_ExistingVolumeClaim :: "string option"

record KodeSpec =
  ks_TemplateRef :: CrossNamespaceObjectReference
  ks_Credentials :: "CredentialsSpec option"
  ks_Home :: "string option"
  ks_Workspace :: "string option"
  ks_Storage :: "KodeStorageSpec option"
  ks_UserConfig :: "string option"
  ks_Privileged :: "bool option"
  ks_InitPlugins :: "InitPluginSpec list"

record CommonSpec =
  cs_Credentials :: "CredentialsSpec option"
  cs_EntryPointRef :: "CrossNamespaceObjectReference option"
  cs_InactiveAfterSeconds :: "int option"
  cs_RecycleAfterSeconds :: "int option"
  cs_Port :: int32

record ContainerTemplateSharedSpec = CommonSpec +
  ct_Type :: string
  ct_Runtime :: string
  ct_Image :: string
  ct_Command :: "string list"
  ct_Env :: "EnvVar list"
  ct_EnvFrom :: "string list"
  ct_Args :: "string list"
  ct_TZ :: string
  ct_PUID :: int
  ct_PGID :: int
  ct_DefaultHome :: string
  ct_DefaultWorkspace :: string
  ct_AllowPrivileged :: "bool option"
  ct_InitPlugins :: "InitPluginSpec list"

record GatewaySpec =
  gw_ExistingGatewayRef :: "CrossNamespaceObjectReference option"
  gw_Protocol :: string

record ExtAuthHTTP =
  eah_HeadersToBackend :: "string list"

record ExtAuth =
  ea_HeadersToExtAuth :: "string list"
  ea_HTTP :: "ExtAuthHTTP option"
  ea_GRPC :: bool

record SecurityPolicySpec =
  spec_ExtAuth :: "ExtAuth option"

record AuthSpec =
  au_AuthType :: string
  au_SecurityPolicySpec :: "SecurityPolicySpec option"
  au_IdentityReference :: "string option"

record EntryPointSpec =
  es_RoutingType :: string
  es_BaseDomain :: string
  es_GatewaySpec :: "GatewaySpec option"
  es_AuthSpec :: "AuthSpec option"

record Template =
  t_Kind :: string
  t_Name :: string
  t_Namespace :: string
  t_Port :: int32
  t_ContainerTemplateSpec :: "ContainerTemplateSharedSpec option"
  t_EntryPointRef :: "CrossNamespaceObjectReference option"
  t_EntryPointSpec :: "EntryPointSpec option"

subsection \<open>Statuses and resources\<close>

record Condition =
  co_Type :: ConditionType
  co_Status :: ConditionStatus
  co_Reason :: string
  co_Message :: string
  co_LastTransitionTime :: Time

record ConditionedStatus =
  Conditions :: "Condition list"

record CommonStatus = ConditionedStatus +
  ObservedGeneration :: int
  LastError :: "string option"
  LastErrorTime :: "Time option"
  Phase_of :: Phase

record Runtime =
  rt_Runtime :: string
  rt_Type :: string

record KodeStatus = CommonStatus +
  KodeUrl :: string
  KodePort :: int32
  KodeIconUrl :: string
  Runtime_of :: "Runtime option"
  LastActivityTime :: "Time option"
  RetryCount :: int
  DeletionCycle :: int

record EntryPointStatus = CommonStatus +
  ep_RetryCount :: int
  ep_DeletionCycle :: int

record Kode =
  k_Name :: string
  k_Namespace :: string
  k_Generation :: int
  k_DeletionTimestamp :: "Time option"
  k_Finalizers :: "string list"
  k_Spec :: KodeSpec
  k_Status :: KodeStatus

record EntryPoint =
  e_Name :: string
  e_Namespace :: string
  e_Generation :: int
  e_Finalizers :: "string list"
  e_Spec :: EntryPointSpec
  e_Status :: EntryPointStatus

definition kode_key :: "Kode \<Rightarrow> NamespacedName" where
  "kode_key k = NamespacedName (k_Namespace k) (k_Name k)"

subsection \<open>Conditions\<close>

text \<open>
  \<open>SetCondition\<close> replaces the first condition of the type only if the status differs; a condition
  of the type with the same status is left as it is, reason and message included. The time of the
  call is an argument.
\<close>

fun set_condition_in :: "Condition \<Rightarrow> Condition list \<Rightarrow> Condition list" where
  "set_condition_in new [] = [new]"
| "set_condition_in new (c # cs) =
     (if co_Type c = co_Type new
      then (if co_Status c \<noteq> co_Status new then new # cs else c # cs)
      else c # set_condition_in new cs)"

definition SetCondition ::
  "Time \<Rightarrow> ConditionType \<Rightarrow> ConditionStatus \<Rightarrow> string \<Rightarrow> string
    \<Rightarrow> 'a ConditionedStatus_scheme \<Rightarrow> 'a ConditionedStatus_scheme" where
  "SetCondition now t st reason message s =
     s\<lparr>Conditions := set_condition_in
         \<lparr>co_Type = t, co_Status = st, co_Reason = reason, co_Message = message,
          co_LastTransitionTime = now\<rparr> (Conditions s)\<rparr>"

definition GetCondition :: "ConditionType \<Rightarrow> 'a ConditionedStatus_scheme \<Rightarrow> Condition option" where
  "GetCondition t s = find (\<lambda>c. co_Type c = t) (Conditions s)"

definition DeleteCondition ::
  "ConditionType \<Rightarrow> 'a ConditionedStatus_scheme \<Rightarrow> 'a ConditionedStatus_scheme" where
  "DeleteCondition t s = s\<lparr>Conditions := filter (\<lambda>c. co_Type c \<noteq> t) (Conditions s)\<rparr>"

subsection \<open>Names of a Kode's child resources\<close>

definition GetFinalizer :: "Kode \<Rightarrow> string" where
  "GetFinalizer k = KodeFinalizerName"

definition GetSecretName :: "Kode \<Rightarrow> string" where
  "GetSecretName k =
     (case ks_Credentials (k_Spec k) of
        None \<Rightarrow> k_Name k @ ''-auth''
      | Some cr \<Rightarrow> (case cr_ExistingSecret cr of
                       Some n \<Rightarrow> n
                     | None \<Rightarrow> k_Name k @ ''-auth''))"

definition GetServiceName :: "Kode \<Rightarrow> string" where
  "GetServiceName k = k_Name k @ ''-svc''"

definition GetStatefulSetName :: "Kode \<Rightarrow> string" where
  "GetStatefulSetName k = k_Name k"

definition GetPVCName :: "Kode \<Rightarrow> string" where
  "GetPVCName k =
     (case ks_Storage (k_Spec k) of
        None \<Rightarrow> k_Name k @ ''-pvc''
      | Some st \<Rightarrow> (case st_ExistingVolumeClaim st of
                       Some n \<Rightarrow> n
                     | None \<Rightarrow> k_Name k @ ''-pvc''))"

definition GetPort :: "Kode \<Rightarrow> int32" where
  "GetPort k = KodePort (k_Status k)"

definition GetPhase :: "Kode \<Rightarrow> Phase" where
  "GetPhase k = Phase_of (k_Status k)"

definition SetPhase :: "Phase \<Rightarrow> Kode \<Rightarrow> Kode" where
  "SetPhase p k = k\<lparr>k_Status := (k_Status k)\<lparr>Phase_of := p\<rparr>\<rparr>"

text \<open>The receiver of \<open>IsEmpty\<close> may be nil.\<close>

definition IsEmpty :: "KodeStorageSpec option \<Rightarrow> bool" where
  "IsEmpty s =
     (case s of
        None \<Rightarrow> True
      | Some st \<Rightarrow>
          (case st_AccessModes st of None \<Rightarrow> True | Some ms \<Rightarrow> ms = []) \<and>
          st_StorageClassName st = None \<and>
          st_ExistingVolumeClaim st = None \<and>
          (case st_Resources st of
             None \<Rightarrow> True
           | Some r \<Rightarrow> vr_Requests r = None \<or> q_amount (Requests_Storage r) = 0))"

subsection \<open>URLs\<close>

record KodeAddress =
  ka_Hostname :: string
  ka_Domain :: string
  ka_Url :: string
  ka_Path :: string

definition GenerateKodeUrlForEntryPoint ::
  "string \<Rightarrow> string \<Rightarrow> string \<Rightarrow> string \<Rightarrow> error + KodeAddress" where
  "GenerateKodeUrlForEntryPoint routingType domain name protocol =
     (if routingType = RoutingTypeSubdomain then
        let kodeDomain = name @ ''.'' @ domain; kodePath = ''/''
        in Inr \<lparr>ka_Hostname = name, ka_Domain = kodeDomain,
                ka_Url = protocol @ ''://'' @ kodeDomain @ kodePath, ka_Path = kodePath\<rparr>
      else if routingType = RoutingTypePath then
        let kodeDomain = domain; kodePath = ''/'' @ name
        in Inr \<lparr>ka_Hostname = name, ka_Domain = kodeDomain,
                ka_Url = protocol @ ''://'' @ kodeDomain @ kodePath, ka_Path = kodePath\<rparr>
      else Inl (ErrorText (''unsupported routing type: '' @ routingType)))"

subsection \<open>EntryPoint methods\<close>

definition e_GetPhase :: "EntryPoint \<Rightarrow> Phase" where
  "e_GetPhase e = Phase_of (e_Status e)"

definition e_SetPhase :: "Phase \<Rightarrow> EntryPoint \<Rightarrow> EntryPoint" where
  "e_SetPhase p e = e\<lparr>e_Status := (e_Status e)\<lparr>Phase_of := p\<rparr>\<rparr>"

definition e_GetFinalizer :: "EntryPoint \<Rightarrow> string" where
  "e_GetFinalizer e = KodeFinalizerName"

definition IsSubdomainRouting :: "EntryPoint \<Rightarrow> bool" where
  "IsSubdomainRouting e = (es_RoutingType (e_Spec e) = RoutingTypeSubdomain)"

definition IsPathRouting :: "EntryPoint \<Rightarrow> bool" where
  "IsPathRouting e = (es_RoutingType (e_Spec e) = RoutingTypePath)"

end
