(* ===== verification/Common_Types.thy ===== *)
theory Common_Types
  imports Api_V1alpha2
begin

text \<open>
  internal/common: the resource configurations handed to the constructors (types.go) and the pure
  helpers of utils.go. The operations of utils.go that call the API server are in Cluster.
\<close>

record CommonConfig =
  cc_Labels :: labels
  cc_Name :: string
  cc_Namespace :: string

record KodeResourceConfig =
  rc_CommonConfig :: CommonConfig
  rc_KodeSpec :: KodeSpec
  rc_Credentials :: "CredentialsSpec option"
  rc_ServiceName :: string
  rc_UserInitPlugins :: "InitPluginSpec list"
  rc_Containers :: "Container list"
  rc_InitContainers :: "Container list"
  rc_Template :: "Template option"
  rc_Port :: int32

record EntryPointResourceConfig =
  ec_CommonConfig :: CommonConfig
  ec_EntryPointSpec :: EntryPointSpec
  ec_GatewayName :: string
  ec_GatewayNamespace :: string
  ec_Protocol :: string
  ec_IdentityReference :: "string option"

definition IsHTTPS :: "EntryPointResourceConfig \<Rightarrow> bool" where
  "IsHTTPS c = (ec_Protocol c = ProtocolHTTPS)"

definition HasIdentityReference :: "EntryPointResourceConfig \<Rightarrow> bool" where
  "HasIdentityReference c = (ec_IdentityReference c \<noteq> None)"

definition ObjectKeyFromConfig :: "CommonConfig \<Rightarrow> NamespacedName" where
  "ObjectKeyFromConfig c = NamespacedName (cc_Namespace c) (cc_Name c)"

subsection \<open>Masking\<close>

text \<open>
  \<open>MaskString\<close> ranges over the runes of its argument; the strings here are ASCII, one rune per
  character.
\<close>

fun MaskString :: "string \<Rightarrow> string" where
  "MaskString [] = []"
| "MaskString (c # cs) = CHR ''*'' # MaskString cs"

definition MaskSecretData :: "Secret \<Rightarrow> string gomap" where
  "MaskSecretData s =
     map (\<lambda>(k, v). if k = ''password'' \<or> k = ''secret'' then (k, MaskString v) else (k, v))
       (sec_Data s)"

definition MaskEnvVar :: "EnvVar \<Rightarrow> EnvVar" where
  "MaskEnvVar e =
     (if env_Name e = ''PASSWORD'' \<or> env_Name e = ''SECRET''
      then e\<lparr>env_Value := MaskString (env_Value e)\<rparr> else e)"

definition MaskEnvVars :: "EnvVar list \<Rightarrow> EnvVar list" where
  "MaskEnvVars es = map MaskEnvVar es"

definition MaskSpec :: "Container \<Rightarrow> Container" where
  "MaskSpec c = c\<lparr>c_Env := MaskEnvVars (c_Env c)\<rparr>"

lemma MaskString_replicate: "MaskString s = replicate (length s) (CHR ''*'')"
  by (induction s) auto

subsection \<open>Secrets\<close>

text \<open>A missing key of \<^verbatim>\<open>secret.Data\<close> reads as the empty string.\<close>

definition data_lookup :: "string gomap \<Rightarrow> string \<Rightarrow> string" where
  "data_lookup m k = (case map_of m k of None \<Rightarrow> '''' | Some v \<Rightarrow> v)"

definition GetUsernameAndPasswordFromSecret :: "Secret \<Rightarrow> error + (string \<times> string)" where
  "GetUsernameAndPasswordFromSecret s =
     (let username = data_lookup (sec_Data s) ''username'' in
      if username = '''' then Inl (ErrorText ''username not found in secret'')
      else Inr (username, data_lookup (sec_Data s) ''password''))"

subsection \<open>Labels\<close>

text \<open>The two nested loops of \<open>MergeLabels\<close>: later maps overwrite earlier ones.\<close>

fun merge_into :: "labels \<Rightarrow> labels \<Rightarrow> labels" where
  "merge_into result [] = result"
| "merge_into result ((k, v) # rest) = merge_into (AList.update k v result) rest"

fun MergeLabels_from :: "labels \<Rightarrow> labels list \<Rightarrow> labels" where
  "MergeLabels_from result [] = result"
| "MergeLabels_from result (ls # rest) = MergeLabels_from (merge_into result ls) rest"

definition MergeLabels :: "labels list \<Rightarrow> labels" where
  "MergeLabels slices = MergeLabels_from [] slices"

lemma map_of_merge_into:
  "distinct (map fst ls) \<Longrightarrow> map_of (merge_into result ls) = map_of result ++ map_of ls"
proof (induction result ls rule: merge_into.induct)
  case (2 result k v rest)
  then have "map_of (merge_into result ((k, v) # rest)) =
      (map_of result)(k \<mapsto> v) ++ map_of rest"
    by (simp add: update_conv' fun_upd_def)
  also have "\<dots> = map_of result ++ map_of ((k, v) # rest)"
    using 2(2) by (simp add: map_add_upd_left dom_map_of_conv_image_fst)
  finally show ?case .
qed simp

lemma map_of_MergeLabels_from:
  "(\<And>ls. ls \<in> set slices \<Longrightarrow> distinct (map fst ls)) \<Longrightarrow>
     map_of (MergeLabels_from result slices) = fold (\<lambda>ls m. m ++ map_of ls) slices (map_of result)"
  by (induction result slices rule: MergeLabels_from.induct) (simp_all add: map_of_merge_into)

lemma map_of_MergeLabels:
  "(\<And>ls. ls \<in> set slices \<Longrightarrow> distinct (map fst ls)) \<Longrightarrow>
     map_of (MergeLabels slices) = fold (\<lambda>ls m. m ++ map_of ls) slices Map.empty"
  using map_of_MergeLabels_from [of slices "[]"] by (simp add: MergeLabels_def)

end
