(* ===== verification/Managed_Resource.thy ===== *)
theory Managed_Resource
  imports Api_V1alpha2
begin

text \<open>
  The in-memory half of the interface StateManagedResource (internal/statemachine/types.go): phase
  and conditions of a resource. The locale states the laws the state machine and the handlers rely
  on; Kode and EntryPoint implement them with the condition list of api/v1alpha2/condition.go.
\<close>

subsection \<open>The condition list\<close>

lemma find_set_condition_same:
  "\<exists>c. find (\<lambda>c. co_Type c = co_Type new) (set_condition_in new cs) = Some c \<and>
       co_Type c = co_Type new \<and> co_Status c = co_Status new"
  by (induction cs) auto

lemma find_set_condition_other:
  "t \<noteq> co_Type new \<Longrightarrow>
     find (\<lambda>c. co_Type c = t) (set_condition_in new cs) = find (\<lambda>c. co_Type c = t) cs"
  by (induction cs) auto

lemma set_condition_unchanged:
  "find (\<lambda>c. co_Type c = co_Type new) cs = Some c \<Longrightarrow> co_Status c = co_Status new \<Longrightarrow>
     set_condition_in new cs = cs"
  by (induction cs) (auto split: if_splits)

lemma set_condition_replaced:
  "find (\<lambda>c. co_Type c = co_Type new) cs = None \<or>
     (\<exists>c. find (\<lambda>c. co_Type c = co_Type new) cs = Some c \<and> co_Status c \<noteq> co_Status new) \<Longrightarrow>
     find (\<lambda>c. co_Type c = co_Type new) (set_condition_in new cs) = Some new"
  by (induction cs) (auto split: if_splits)

lemma find_filter_same: "find (\<lambda>c. co_Type c = t) (filter (\<lambda>c. co_Type c \<noteq> t) cs) = None"
  by (auto simp: find_None_iff)

lemma find_filter_other:
  "u \<noteq> t \<Longrightarrow> find (\<lambda>c. co_Type c = u) (filter (\<lambda>c. co_Type c \<noteq> t) cs) = find (\<lambda>c. co_Type c = u) cs"
  by (induction cs) auto

lemma set_condition_types:
  "map co_Type (set_condition_in new cs) =
     (if co_Type new \<in> set (map co_Type cs) then map co_Type cs
      else map co_Type cs @ [co_Type new])"
  by (induction cs) auto

lemma set_condition_distinct:
  "distinct (map co_Type cs) \<Longrightarrow> distinct (map co_Type (set_condition_in new cs))"
  by (simp add: set_condition_types)

subsection \<open>The interface\<close>

locale managed_resource =
  fixes get_phase :: "'r \<Rightarrow> Phase"
    and set_phase :: "Phase \<Rightarrow> 'r \<Rightarrow> 'r"
    and set_condition :: "Time \<Rightarrow> ConditionType \<Rightarrow> ConditionStatus \<Rightarrow> string \<Rightarrow> string \<Rightarrow> 'r \<Rightarrow> 'r"
    and get_condition :: "ConditionType \<Rightarrow> 'r \<Rightarrow> Condition option"
    and delete_condition :: "ConditionType \<Rightarrow> 'r \<Rightarrow> 'r"
  assumes get_set_phase: "get_phase (set_phase p r) = p"
    and get_phase_set_condition: "get_phase (set_condition n t s re m r) = get_phase r"
    and get_condition_set_phase: "get_condition t (set_phase p r) = get_condition t r"
    and get_set_condition_same:
      "\<exists>c. get_condition t (set_condition n t s re m r) = Some c \<and> co_Type c = t \<and> co_Status c = s"
    and get_set_condition_other:
      "u \<noteq> t \<Longrightarrow> get_condition u (set_condition n t s re m r) = get_condition u r"
    and set_condition_same_status:
      "get_condition t r = Some c \<Longrightarrow> co_Status c = s \<Longrightarrow> set_condition n t s re m r = r"
    and get_delete_condition: "get_condition t (delete_condition t r) = None"
    and get_delete_condition_other:
      "u \<noteq> t \<Longrightarrow> get_condition u (delete_condition t r) = get_condition u r"
begin

definition status_of :: "ConditionType \<Rightarrow> 'r \<Rightarrow> ConditionStatus option" where
  "status_of t r = map_option co_Status (get_condition t r)"

lemma status_of_set_condition:
  "status_of u (set_condition n t s re m r) = (if u = t then Some s else status_of u r)"
proof (cases "u = t")
  case True
  obtain c where "get_condition t (set_condition n t s re m r) = Some c" "co_Status c = s"
    using get_set_condition_same by blast
  with True show ?thesis by (simp add: status_of_def)
qed (simp add: status_of_def get_set_condition_other)

lemma status_of_set_phase: "status_of t (set_phase p r) = status_of t r"
  by (simp add: status_of_def get_condition_set_phase)

lemma set_condition_idempotent:
  "set_condition n' t s re' m' (set_condition n t s re m r) = set_condition n t s re m r"
  using get_set_condition_same [of t n s re m r] set_condition_same_status by blast

text \<open>The three conditions every handler announces together.\<close>

lemma announce_status:
  assumes "r' = set_condition n3 ConditionTypeProgressing s3 re3 m3
      (set_condition n2 ConditionTypeAvailable s2 re2 m2
        (set_condition n1 ConditionTypeReady s1 re1 m1 r))"
  shows "status_of ConditionTypeReady r' = Some s1 \<and>
    status_of ConditionTypeAvailable r' = Some s2 \<and>
    status_of ConditionTypeProgressing r' = Some s3 \<and> get_phase r' = get_phase r"
  by (simp add: assms status_of_set_condition get_phase_set_condition)

end

subsection \<open>Kode and EntryPoint implement it\<close>

definition k_SetCondition ::
  "Time \<Rightarrow> ConditionType \<Rightarrow> ConditionStatus \<Rightarrow> string \<Rightarrow> string \<Rightarrow> Kode \<Rightarrow> Kode" where
  "k_SetCondition now t st reason message k =
     k\<lparr>k_Status := SetCondition now t st reason message (k_Status k)\<rparr>"

definition k_GetCondition :: "ConditionType \<Rightarrow> Kode \<Rightarrow> Condition option" where
  "k_GetCondition t k = GetCondition t (k_Status k)"

definition k_DeleteCondition :: "ConditionType \<Rightarrow> Kode \<Rightarrow> Kode" where
  "k_DeleteCondition t k = k\<lparr>k_Status := DeleteCondition t (k_Status k)\<rparr>"

definition e_SetCondition ::
  "Time \<Rightarrow> ConditionType \<Rightarrow> ConditionStatus \<Rightarrow> string \<Rightarrow> string \<Rightarrow> EntryPoint \<Rightarrow> EntryPoint" where
  "e_SetCondition now t st reason message e =
     e\<lparr>e_Status := SetCondition now t st reason message (e_Status e)\<rparr>"

definition e_GetCondition :: "ConditionType \<Rightarrow> EntryPoint \<Rightarrow> Condition option" where
  "e_GetCondition t e = GetCondition t (e_Status e)"

definition e_DeleteCondition :: "ConditionType \<Rightarrow> EntryPoint \<Rightarrow> EntryPoint" where
  "e_DeleteCondition t e = e\<lparr>e_Status := DeleteCondition t (e_Status e)\<rparr>"

lemmas condition_defs = SetCondition_def GetCondition_def DeleteCondition_def

lemma SetCondition_found:
  "\<exists>c. find (\<lambda>c. co_Type c = t)
        (set_condition_in \<lparr>co_Type = t, co_Status = s, co_Reason = re, co_Message = m,
           co_LastTransitionTime = n\<rparr> cs) = Some c \<and> co_Type c = t \<and> co_Status c = s"
  using find_set_condition_same
    [of "\<lparr>co_Type = t, co_Status = s, co_Reason = re, co_Message = m, co_LastTransitionTime = n\<rparr>" cs]
  by simp

lemma SetCondition_same_status:
  "find (\<lambda>c. co_Type c = t) (Conditions s) = Some c \<Longrightarrow> co_Status c = st \<Longrightarrow>
     SetCondition n t st re m s = s"
  by (simp add: SetCondition_def set_condition_unchanged)

interpretation kode_res: managed_resource GetPhase SetPhase k_SetCondition k_GetCondition
  k_DeleteCondition
  by unfold_locales
    (auto simp: GetPhase_def SetPhase_def k_SetCondition_def k_GetCondition_def
      k_DeleteCondition_def SetCondition_def GetCondition_def DeleteCondition_def
      find_set_condition_other find_filter_same find_filter_other SetCondition_found
      set_condition_unchanged)

interpretation ep_res: managed_resource e_GetPhase e_SetPhase e_SetCondition e_GetCondition
  e_DeleteCondition
  by unfold_locales
    (auto simp: e_GetPhase_def e_SetPhase_def e_SetCondition_def e_GetCondition_def
      e_DeleteCondition_def SetCondition_def GetCondition_def DeleteCondition_def
      find_set_condition_other find_filter_same find_filter_other SetCondition_found
      set_condition_unchanged)

subsection \<open>Frame facts for the handlers\<close>

lemma k_SetCondition_simps [simp]:
  "k_Name (k_SetCondition n t s re m k) = k_Name k"
  "k_Namespace (k_SetCondition n t s re m k) = k_Namespace k"
  "k_Generation (k_SetCondition n t s re m k) = k_Generation k"
  "k_DeletionTimestamp (k_SetCondition n t s re m k) = k_DeletionTimestamp k"
  "k_Finalizers (k_SetCondition n t s re m k) = k_Finalizers k"
  "k_Spec (k_SetCondition n t s re m k) = k_Spec k"
  "Phase_of (k_Status (k_SetCondition n t s re m k)) = Phase_of (k_Status k)"
  "ObservedGeneration (k_Status (k_SetCondition n t s re m k)) = ObservedGeneration (k_Status k)"
  "RetryCount (k_Status (k_SetCondition n t s re m k)) = RetryCount (k_Status k)"
  "DeletionCycle (k_Status (k_SetCondition n t s re m k)) = DeletionCycle (k_Status k)"
  "KodePort (k_Status (k_SetCondition n t s re m k)) = KodePort (k_Status k)"
  "KodeUrl (k_Status (k_SetCondition n t s re m k)) = KodeUrl (k_Status k)"
  "LastError (k_Status (k_SetCondition n t s re m k)) = LastError (k_Status k)"
  "Runtime_of (k_Status (k_SetCondition n t s re m k)) = Runtime_of (k_Status k)"
  by (simp_all add: k_SetCondition_def SetCondition_def)

end
