(* ===== verification/Cluster.thy ===== *)
theory Cluster
  imports Go_Monad Common_Types Managed_Resource
begin

text \<open>
  The boundary of the program. The API server and the third-party packages (client-go,
  controller-runtime, apimachinery, YAML) are the fields of a record \<open>'w lib\<close>, an argument
  of every definition that uses them; \<open>'w\<close> is the unknown state of the world. The state of a
  reconciliation holds the world, the Kode object in memory, the template cache, the recorded
  events, and \<open>reqlog\<close>, a history of the requests sent to the API server with the kind of answer
  received, which the safety properties speak about. \<open>lawful\<close> collects the documented behaviour
  the code relies on.
\<close>

subsection \<open>State\<close>

datatype answer = Found | NotFound | Failed

datatype Request =
    ReqGet ObjKind NamespacedName answer
  | ReqListPods string labels bool
  | ReqPatchStatus NamespacedName KodeStatus bool
  | ReqUpdateFinalizers NamespacedName "string list" bool
  | ReqCreateOrPatch ObjKind NamespacedName
  | ReqDelete ObjKind NamespacedName bool
  | ReqPatchEntryPoint NamespacedName EntryPointStatus bool
  | ReqUpdateEntryPoint NamespacedName "string list" bool

datatype EventType = EventTypeNormal | EventTypeWarning

record Event =
  ev_Object :: NamespacedName
  ev_Type :: EventType
  ev_Reason :: string
  ev_Message :: string

record 'w st =
  world :: 'w
  kode :: Kode
  cache :: "Template gomap"
  events :: "Event list"
  reqlog :: "Request list"

record 'w lib =
  lib_now :: "'w \<Rightarrow> Time"
  lib_getKode :: "NamespacedName \<Rightarrow> 'w \<Rightarrow> (error + Kode) \<times> 'w"
  lib_getEntryPoint :: "NamespacedName \<Rightarrow> 'w \<Rightarrow> (error + EntryPoint) \<times> 'w"
  lib_getContainerTemplate ::
    "NamespacedName \<Rightarrow> 'w \<Rightarrow> (error + ContainerTemplateSharedSpec) \<times> 'w"
  lib_getClusterContainerTemplate ::
    "NamespacedName \<Rightarrow> 'w \<Rightarrow> (error + ContainerTemplateSharedSpec) \<times> 'w"
  lib_getSecret :: "NamespacedName \<Rightarrow> 'w \<Rightarrow> (error + Secret) \<times> 'w"
  lib_getService :: "NamespacedName \<Rightarrow> 'w \<Rightarrow> (error + Service) \<times> 'w"
  lib_getStatefulSet :: "NamespacedName \<Rightarrow> 'w \<Rightarrow> (error + StatefulSet) \<times> 'w"
  lib_getPVC :: "NamespacedName \<Rightarrow> 'w \<Rightarrow> (error + PersistentVolumeClaim) \<times> 'w"
  lib_listPods :: "string \<Rightarrow> labels \<Rightarrow> 'w \<Rightarrow> (error + Pod list) \<times> 'w"
  lib_patchKodeStatus :: "Kode \<Rightarrow> Kode \<Rightarrow> 'w \<Rightarrow> error option \<times> 'w"
  lib_updateKode :: "Kode \<Rightarrow> 'w \<Rightarrow> error option \<times> 'w"
  lib_delete :: "ObjKind \<Rightarrow> NamespacedName \<Rightarrow> 'w \<Rightarrow> error option \<times> 'w"
  lib_RetryOnConflict :: "('w st, error option) go \<Rightarrow> ('w st, error option) go"
  lib_ExponentialBackoff ::
    "nat \<Rightarrow> ('w st, error + Template option) go \<Rightarrow> ('w st, error + Template) go"
  lib_createOrPatchSecret :: "Secret \<Rightarrow> (Secret \<Rightarrow> ('w st, error + Secret) go)
    \<Rightarrow> ('w st, OperationResult \<times> error option) go"
  lib_createOrPatchService :: "Service \<Rightarrow> (Service \<Rightarrow> ('w st, error + Service) go)
    \<Rightarrow> ('w st, OperationResult \<times> error option) go"
  lib_createOrPatchStatefulSet :: "StatefulSet \<Rightarrow> (StatefulSet \<Rightarrow> ('w st, error + StatefulSet) go)
    \<Rightarrow> ('w st, OperationResult \<times> error option) go"
  lib_createOrPatchPVC ::
    "PersistentVolumeClaim \<Rightarrow> (PersistentVolumeClaim \<Rightarrow> ('w st, error + PersistentVolumeClaim) go)
    \<Rightarrow> ('w st, OperationResult \<times> error option) go"
  lib_SetControllerReference ::
    "ObjKind \<Rightarrow> NamespacedName \<Rightarrow> string list \<Rightarrow> error + string list"
  lib_ContainsFinalizer :: "string list \<Rightarrow> string \<Rightarrow> bool"
  lib_AddFinalizer :: "string list \<Rightarrow> string \<Rightarrow> string list"
  lib_RemoveFinalizer :: "string list \<Rightarrow> string \<Rightarrow> string list"
  lib_objectGVK :: "ObjKind \<Rightarrow> string \<times> string"
  lib_ObjectKinds :: "ObjKind \<Rightarrow> error + (string \<times> string) list"
  lib_typeName :: "ObjKind \<Rightarrow> string"
  lib_sha256hex :: "string \<Rightarrow> string"
  lib_mapRange :: "string list \<Rightarrow> string list"
  lib_IsTestEnvironment :: bool
  lib_ReconcileInterval :: Duration
  lib_LongReconcileInterval :: Duration

text \<open>
  The last three fields are the configuration of the reconciler (\<^verbatim>\<open>IsTestEnvironment\<close>,
  \<^verbatim>\<open>ReconcileInterval\<close>, \<^verbatim>\<open>LongReconcileInterval\<close> of the reconciler structs), set once
  in cmd/main.go.
\<close>

subsection \<open>Requests\<close>

definition answer_of :: "error + 'a \<Rightarrow> answer" where
  "answer_of r =
     (case r of Inr _ \<Rightarrow> Found | Inl e \<Rightarrow> if IsNotFound e then NotFound else Failed)"

text \<open>\<^verbatim>\<open>client.Get\<close>, also as \<^verbatim>\<open>ResourceManager.Get\<close>, which only delegates.\<close>

definition api_get ::
  "ObjKind \<Rightarrow> NamespacedName \<Rightarrow> ('w \<Rightarrow> (error + 'a) \<times> 'w) \<Rightarrow> ('w st, error + 'a) go" where
  "api_get kind key request =
     (\<lambda>s. let (r, w) = request (world s)
          in (Ret r, s\<lparr>world := w, reqlog := reqlog s @ [ReqGet kind key (answer_of r)]\<rparr>))"

definition api_list_pods :: "'w lib \<Rightarrow> string \<Rightarrow> labels \<Rightarrow> ('w st, error + Pod list) go" where
  "api_list_pods L ns ls =
     (\<lambda>s. let (r, w) = lib_listPods L ns ls (world s)
          in (Ret r, s\<lparr>world := w,
                reqlog := reqlog s @ [ReqListPods ns ls (case r of Inl _ \<Rightarrow> False | Inr _ \<Rightarrow> True)]\<rparr>))"

definition api_patch_status :: "'w lib \<Rightarrow> Kode \<Rightarrow> Kode \<Rightarrow> ('w st, error option) go" where
  "api_patch_status L k base =
     (\<lambda>s. let (r, w) = lib_patchKodeStatus L k base (world s)
          in (Ret r, s\<lparr>world := w,
                reqlog := reqlog s @ [ReqPatchStatus (kode_key k) (k_Status k) (r = None)]\<rparr>))"

definition api_update :: "'w lib \<Rightarrow> Kode \<Rightarrow> ('w st, error option) go" where
  "api_update L k =
     (\<lambda>s. let (r, w) = lib_updateKode L k (world s)
          in (Ret r, s\<lparr>world := w,
                reqlog := reqlog s @ [ReqUpdateFinalizers (kode_key k) (k_Finalizers k) (r = None)]\<rparr>))"

definition api_delete :: "'w lib \<Rightarrow> ObjKind \<Rightarrow> NamespacedName \<Rightarrow> ('w st, error option) go" where
  "api_delete L kind key =
     (\<lambda>s. let (r, w) = lib_delete L kind key (world s)
          in (Ret r, s\<lparr>world := w, reqlog := reqlog s @ [ReqDelete kind key (r = None)]\<rparr>))"

definition log_request :: "Request \<Rightarrow> ('w st, unit) go" where
  "log_request q = modify_go (\<lambda>s. s\<lparr>reqlog := reqlog s @ [q]\<rparr>)"

text \<open>What was added to the history between two states.\<close>

definition new_requests :: "'w st \<Rightarrow> 'w st \<Rightarrow> Request list" where
  "new_requests s t = drop (length (reqlog s)) (reqlog t)"

lemma new_requests_eq: "reqlog t = reqlog s @ qs \<Longrightarrow> new_requests s t = qs"
  by (simp add: new_requests_def)

lemma new_requestsI: "\<exists>qs. reqlog t = reqlog s @ qs \<and> P qs \<Longrightarrow> P (new_requests s t)"
  by (auto dest: new_requests_eq)

subsection \<open>utils.go: type information\<close>

text \<open>The argument is the kind of the object, or \<^const>\<open>None\<close> for a nil object.\<close>

definition AddTypeInformationToObject :: "'w lib \<Rightarrow> ObjKind option \<Rightarrow> error option" where
  "AddTypeInformationToObject L obj =
     (case obj of
        None \<Rightarrow> Some (ErrorText ''input object is nil'')
      | Some kind \<Rightarrow>
          let (gvkKind, gvkVersion) = lib_objectGVK L kind in
          if gvkKind = '''' \<or> gvkVersion = '''' then
            (case lib_ObjectKinds L kind of
               Inl e \<Rightarrow> Some (Wrapped ''failed to get object kinds: '' e)
             | Inr [] \<Rightarrow> Some (ErrorText (''no valid GroupVersionKind found for object of type ''
                                          @ lib_typeName L kind))
             | Inr (_ # _) \<Rightarrow> None)
          else None)"

subsection \<open>EventManager.Record\<close>

definition record_event ::
  "'w lib \<Rightarrow> EventType \<Rightarrow> string \<Rightarrow> string \<Rightarrow> ('w st, error option) go" where
  "record_event L eventtype reason message =
     (case AddTypeInformationToObject L (Some KindKode) of
        Some e \<Rightarrow> return_go (Some (Wrapped ''failed to add type information to object: '' e))
      | None \<Rightarrow>
          then_go (modify_go (\<lambda>s. s\<lparr>events := events s @
                     [\<lparr>ev_Object = kode_key (kode s), ev_Type = eventtype, ev_Reason = reason,
                       ev_Message = message\<rparr>]\<rparr>))
                  (return_go None))"

subsection \<open>ResourceManager.CreateOrPatch\<close>

definition CreateOrPatch ::
  "'w lib \<Rightarrow> ObjKind \<Rightarrow> NamespacedName
    \<Rightarrow> ('o \<Rightarrow> ('o \<Rightarrow> ('w st, error + 'o) go) \<Rightarrow> ('w st, OperationResult \<times> error option) go)
    \<Rightarrow> 'o \<Rightarrow> ('o \<Rightarrow> ('w st, error + 'o) go) \<Rightarrow> ('w st, OperationResult \<times> error option) go" where
  "CreateOrPatch L kind key controllerutil_CreateOrPatch obj f =
     (case AddTypeInformationToObject L (Some kind) of
        Some e \<Rightarrow> return_go (OperationResultNone,
                             Some (Wrapped ''failed to add type information to object: '' e))
      | None \<Rightarrow>
          then_go (log_request (ReqCreateOrPatch kind key))
         (bind_go (controllerutil_CreateOrPatch obj f) (\<lambda>(result, err).
            (case err of
               Some e \<Rightarrow> return_go (result, Some e)
             | None \<Rightarrow> return_go (result, None)))))"

subsection \<open>Documented behaviour of the libraries\<close>

text \<open>
  \<open>RetryOnConflict\<close> and \<open>ExponentialBackoff\<close> do nothing but call their function one or more times
  and report the result of a call (or a time-out); \<open>CreateOrPatch\<close> changes nothing but the world
  except by calling its mutate function; finalizer helpers are membership, insertion and removal;
  ranging over a map visits exactly its keys, in some order.
  The laws are stated for every assertion \<open>I\<close>, so they hold of the history as well.
\<close>

definition world_free :: "('w st \<Rightarrow> bool) \<Rightarrow> bool" where
  "world_free I = (\<forall>s w. I s \<longrightarrow> I (s\<lparr>world := w\<rparr>))"

definition retry_law :: "(('w st, error option) go \<Rightarrow> ('w st, error option) go) \<Rightarrow> bool" where
  "retry_law R =
     (\<forall>I Q E f. triple I f (\<lambda>e s. I s \<and> Q e s) E \<longrightarrow> triple I (R f) (\<lambda>e s. I s \<and> Q e s) E)"

definition backoff_law ::
  "(nat \<Rightarrow> ('w st, error + Template option) go \<Rightarrow> ('w st, error + Template) go) \<Rightarrow> bool" where
  "backoff_law B =
     (\<forall>I Q E n f. triple I f (\<lambda>r s. I s \<and> Q r s) E \<longrightarrow>
        triple I (B n f)
          (\<lambda>r s. I s \<and> (case r of Inr t \<Rightarrow> Q (Inr (Some t)) s | Inl e \<Rightarrow> True)) E)"

definition create_or_patch_law ::
  "('o \<Rightarrow> ('o \<Rightarrow> ('w st, error + 'o) go) \<Rightarrow> ('w st, OperationResult \<times> error option) go) \<Rightarrow> bool" where
  "create_or_patch_law C =
     (\<forall>I E obj f. world_free I \<and> (\<forall>x. triple I (f x) (\<lambda>_. I) E) \<longrightarrow>
        triple I (C obj f) (\<lambda>_. I) E)"

definition lawful :: "'w lib \<Rightarrow> bool" where
  "lawful L \<longleftrightarrow>
     retry_law (lib_RetryOnConflict L) \<and>
     backoff_law (lib_ExponentialBackoff L) \<and>
     create_or_patch_law (lib_createOrPatchSecret L) \<and>
     create_or_patch_law (lib_createOrPatchService L) \<and>
     create_or_patch_law (lib_createOrPatchStatefulSet L) \<and>
     create_or_patch_law (lib_createOrPatchPVC L) \<and>
     (\<forall>fs f. lib_ContainsFinalizer L fs f = (f \<in> set fs)) \<and>
     (\<forall>fs f. set (lib_AddFinalizer L fs f) = insert f (set fs)) \<and>
     (\<forall>fs f. set (lib_RemoveFinalizer L fs f) = set fs - {f}) \<and>
     (\<forall>ks. set (lib_mapRange L ks) = set ks)"

lemma lawful_simps:
  assumes "lawful L"
  shows "lib_ContainsFinalizer L fs f = (f \<in> set fs)"
    and "set (lib_AddFinalizer L fs f) = insert f (set fs)"
    and "set (lib_RemoveFinalizer L fs f) = set fs - {f}"
    and "set (lib_mapRange L ks) = set ks"
  using assms by (auto simp: lawful_def)

lemma triple_retry:
  "lawful L \<Longrightarrow> triple I f (\<lambda>e s. I s \<and> Q e s) E \<Longrightarrow>
     triple I (lib_RetryOnConflict L f) (\<lambda>e s. I s \<and> Q e s) E"
  by (auto simp: lawful_def retry_law_def)

lemma keeps_retry: "lawful L \<Longrightarrow> keeps I f \<Longrightarrow> keeps I (lib_RetryOnConflict L f)"
  using triple_retry [of L I f "\<lambda>_ _. True" I] by simp

lemma keeps_backoff: "lawful L \<Longrightarrow> keeps I f \<Longrightarrow> keeps I (lib_ExponentialBackoff L n f)"
  unfolding lawful_def backoff_law_def
  by (elim conjE allE [where x = I] allE [where x = "\<lambda>_ _. True"] allE [where x = n]
      allE [where x = f]) (auto elim!: triple_post)

subsection \<open>Assertions closed under reading\<close>

text \<open>
  \<open>read_closed I\<close>: requests that only read (Get and List), with whatever they do to the world,
  and recorded events do not disturb \<open>I\<close>. Every read of the operator keeps such an assertion.
\<close>

definition read_closed :: "('w st \<Rightarrow> bool) \<Rightarrow> bool" where
  "read_closed I =
     (\<forall>s w. I s \<longrightarrow>
        I (s\<lparr>world := w\<rparr>) \<and>
        (\<forall>kind key a. I (s\<lparr>reqlog := reqlog s @ [ReqGet kind key a]\<rparr>)) \<and>
        (\<forall>ns ls b. I (s\<lparr>reqlog := reqlog s @ [ReqListPods ns ls b]\<rparr>)) \<and>
        (\<forall>evs. I (s\<lparr>events := evs\<rparr>)))"

lemma read_closedD:
  assumes "read_closed I" "I s"
  shows "I (s\<lparr>world := w\<rparr>)"
    and "I (s\<lparr>reqlog := reqlog s @ [ReqGet kind key a]\<rparr>)"
    and "I (s\<lparr>reqlog := reqlog s @ [ReqListPods ns ls b]\<rparr>)"
    and "I (s\<lparr>events := evs\<rparr>)"
  using assms by (auto simp: read_closed_def)

lemma read_closed_world_free [go_rules]: "read_closed I \<Longrightarrow> world_free I"
  by (auto simp: read_closed_def world_free_def)

lemma keeps_api_get [go_specs]: "read_closed I \<Longrightarrow> keeps I (api_get kind key f)"
proof (rule tripleI)
  fix s x t assume I: "read_closed I" "I s" and run: "api_get kind key f s = (Ret x, t)"
  obtain r w where fw: "f (world s) = (r, w)" by fastforce
  have "I (s\<lparr>world := w, reqlog := reqlog s @ [ReqGet kind key (answer_of r)]\<rparr>)"
    using read_closedD(2) [OF I(1) read_closedD(1) [OF I], of w kind key "answer_of r"] by simp
  with run fw show "I t" by (auto simp: api_get_def)
qed (auto simp: api_get_def split: prod.splits)

lemma keeps_api_list_pods [go_specs]: "read_closed I \<Longrightarrow> keeps I (api_list_pods L ns ls)"
proof (rule tripleI)
  fix s x t assume I: "read_closed I" "I s" and run: "api_list_pods L ns ls s = (Ret x, t)"
  obtain r w where fw: "lib_listPods L ns ls (world s) = (r, w)" by fastforce
  have "I (s\<lparr>world := w, reqlog := reqlog s @
      [ReqListPods ns ls (case r of Inl _ \<Rightarrow> False | Inr _ \<Rightarrow> True)]\<rparr>)"
    using read_closedD(3) [OF I(1) read_closedD(1) [OF I], of w ns ls] by simp
  with run fw show "I t" by (auto simp: api_list_pods_def)
qed (auto simp: api_list_pods_def split: prod.splits)

lemma keeps_record_event [go_specs]: "read_closed I \<Longrightarrow> keeps I (record_event L et re m)"
  unfolding record_event_def
  by (intro go_rules triple_modify) (auto dest: read_closedD(4))

end
