(* ===== verification/Kode_Object.thy ===== *)
theory Kode_Object
  imports Cluster
begin

text \<open>
  The methods of Kode that talk to the API server (api/v1alpha2/kode_types.go) and the rules that
  say what they keep. The receiver is the Kode object in memory, the field \<^const>\<open>kode\<close> of the state.
\<close>

subsection \<open>Operations\<close>

definition reset_last_error :: "Kode \<Rightarrow> Kode" where
  "reset_last_error k = k\<lparr>k_Status := (k_Status k)\<lparr>LastError := None, LastErrorTime := None\<rparr>\<rparr>"

text \<open>
  The function that \<open>UpdateStatus\<close> hands to \<^verbatim>\<open>retry.RetryOnConflict\<close>: fetch the latest object, give
  it the status in memory, and send the difference as a status patch. The phases are compared after
  the assignment, as in the source.
\<close>

definition UpdateStatus_attempt :: "'w lib \<Rightarrow> ('w st, error option) go" where
  "UpdateStatus_attempt L =
     bind_go (gets_go kode) (\<lambda>k.
     bind_go (api_get KindKode (kode_key k) (lib_getKode L (kode_key k))) (\<lambda>r.
       case r of
         Inl e \<Rightarrow> return_go (IgnoreNotFound e)
       | Inr latest \<Rightarrow>
           let latestKode = latest\<lparr>k_Status := k_Status k\<rparr> in
           then_go
             (if GetPhase k \<noteq> GetPhase latestKode \<and> GetPhase latestKode \<noteq> PhaseFailed
              then modify_go (\<lambda>s. s\<lparr>kode := reset_last_error (kode s)\<rparr>)
              else return_go ())
             (api_patch_status L latestKode latest)))"

definition UpdateStatus :: "'w lib \<Rightarrow> ('w st, error option) go" where
  "UpdateStatus L = lib_RetryOnConflict L (UpdateStatus_attempt L)"

definition AddFinalizer :: "'w lib \<Rightarrow> ('w st, error option) go" where
  "AddFinalizer L =
     bind_go (gets_go kode) (\<lambda>k.
     bind_go (api_get KindKode (kode_key k) (lib_getKode L (kode_key k))) (\<lambda>r.
       case r of
         Inl e \<Rightarrow> return_go (IgnoreNotFound e)
       | Inr latest \<Rightarrow>
           bind_go (api_update L (latest\<lparr>k_Finalizers :=
                      lib_AddFinalizer L (k_Finalizers latest) (GetFinalizer k)\<rparr>)) (\<lambda>err.
             case err of Some e \<Rightarrow> return_go (Some e) | None \<Rightarrow> return_go None)))"

definition RemoveFinalizer :: "'w lib \<Rightarrow> ('w st, error option) go" where
  "RemoveFinalizer L =
     bind_go (gets_go kode) (\<lambda>k.
     bind_go (api_get KindKode (kode_key k) (lib_getKode L (kode_key k))) (\<lambda>r.
       case r of
         Inl e \<Rightarrow> return_go (IgnoreNotFound e)
       | Inr latest \<Rightarrow>
           bind_go (api_update L (latest\<lparr>k_Finalizers :=
                      lib_RemoveFinalizer L (k_Finalizers latest) (GetFinalizer k)\<rparr>)) (\<lambda>err.
             case err of Some e \<Rightarrow> return_go (Some e) | None \<Rightarrow> return_go None)))"

text \<open>Changes of the object in memory.\<close>

definition modify_status :: "(KodeStatus \<Rightarrow> KodeStatus) \<Rightarrow> ('w st, unit) go" where
  "modify_status f = modify_go (\<lambda>s. s\<lparr>kode := (kode s)\<lparr>k_Status := f (k_Status (kode s))\<rparr>\<rparr>)"

definition set_condition ::
  "'w lib \<Rightarrow> ConditionType \<Rightarrow> ConditionStatus \<Rightarrow> string \<Rightarrow> string \<Rightarrow> ('w st, unit) go" where
  "set_condition L t st reason message =
     modify_go (\<lambda>s. s\<lparr>kode := k_SetCondition (lib_now L (world s)) t st reason message (kode s)\<rparr>)"

definition SetRuntime :: "'w lib \<Rightarrow> Runtime \<Rightarrow> ('w st, error option) go" where
  "SetRuntime L runtime =
     then_go (modify_status (\<lambda>t. t\<lparr>Runtime_of := Some runtime\<rparr>))
    (bind_go (UpdateStatus L) (\<lambda>err.
       case err of
         Some e \<Rightarrow> return_go (Some (Wrapped ''failed to update status with runtime: '' e))
       | None \<Rightarrow> return_go None))"

definition GetLatestKode :: "'w lib \<Rightarrow> string \<Rightarrow> string \<Rightarrow> ('w st, error + Kode) go" where
  "GetLatestKode L name namespace =
     bind_go (api_get KindKode (NamespacedName namespace name)
                (lib_getKode L (NamespacedName namespace name))) (\<lambda>r.
       case r of Inl e \<Rightarrow> return_go (Inl e) | Inr k \<Rightarrow> return_go (Inr k))"

definition GetLatestEntryPoint :: "'w lib \<Rightarrow> string \<Rightarrow> string \<Rightarrow> ('w st, error + EntryPoint) go" where
  "GetLatestEntryPoint L name namespace =
     bind_go (api_get KindEntryPoint (NamespacedName namespace name)
                (lib_getEntryPoint L (NamespacedName namespace name))) (\<lambda>r.
       case r of Inl e \<Rightarrow> return_go (Inl e) | Inr k \<Rightarrow> return_go (Inr k))"

subsection \<open>The phase comparison of UpdateStatus is dead code\<close>

lemma UpdateStatus_attempt_eq:
  "UpdateStatus_attempt L =
     bind_go (gets_go kode) (\<lambda>k.
     bind_go (api_get KindKode (kode_key k) (lib_getKode L (kode_key k))) (\<lambda>r.
       case r of
         Inl e \<Rightarrow> return_go (IgnoreNotFound e)
       | Inr latest \<Rightarrow> api_patch_status L (latest\<lparr>k_Status := k_Status k\<rparr>) latest))"
proof -
  have dead: "(if GetPhase k \<noteq> GetPhase (latest\<lparr>k_Status := k_Status k\<rparr>) \<and> b then m else return_go ())
      = return_go ()" for k latest b and m :: "('a st, unit) go"
    by (simp add: GetPhase_def)
  show ?thesis
    unfolding UpdateStatus_attempt_def Let_def dead then_go_def bind_return_go ..
qed

subsection \<open>What the operations keep\<close>

text \<open>
  \<open>patch_closed I\<close>: sending the status in memory keeps \<open>I\<close>. Together with
  \<^const>\<open>read_closed\<close> it is all an assertion needs to survive \<open>UpdateStatus\<close>.
\<close>

definition patch_closed :: "('w st \<Rightarrow> bool) \<Rightarrow> bool" where
  "patch_closed I =
     (\<forall>s w key b. I s \<longrightarrow>
        I (s\<lparr>world := w, reqlog := reqlog s @ [ReqPatchStatus key (k_Status (kode s)) b]\<rparr>))"

lemma patch_closedD:
  "patch_closed I \<Longrightarrow> I s \<Longrightarrow>
     I (s\<lparr>world := w, reqlog := reqlog s @ [ReqPatchStatus key (k_Status (kode s)) b]\<rparr>)"
  by (simp add: patch_closed_def)

lemma api_get_kode: "api_get kind key f s = (Ret r, t) \<Longrightarrow> kode t = kode s"
  by (auto simp: api_get_def split: prod.splits)

lemma triple_api_get_kode:
  "read_closed I \<Longrightarrow>
     triple (\<lambda>s. I s \<and> kode s = k) (api_get kind key f) (\<lambda>_ s. I s \<and> kode s = k)
       (\<lambda>s. I s \<and> kode s = k)"
  by (rule keeps_api_get) (auto simp: read_closed_def)

lemma triple_patch_status:
  assumes "patch_closed I"
  shows "triple (\<lambda>s. I s \<and> kode s = k) (api_patch_status L (latest\<lparr>k_Status := k_Status k\<rparr>) base)
    (\<lambda>_. I) I"
  using assms by (auto simp: triple_def api_patch_status_def split: prod.splits
      dest!: patch_closedD)

lemma keeps_UpdateStatus_attempt:
  assumes "read_closed I" and "patch_closed I"
  shows "keeps I (UpdateStatus_attempt L)"
  unfolding UpdateStatus_attempt_eq
proof (rule triple_bind [where R = "\<lambda>k s. I s \<and> kode s = k"])
  show "triple I (gets_go kode) (\<lambda>k s. I s \<and> kode s = k) I"
    by (rule triple_gets) simp
next
  fix k
  let ?J = "\<lambda>s. I s \<and> kode s = k"
  show "triple ?J (bind_go (api_get KindKode (kode_key k) (lib_getKode L (kode_key k)))
      (\<lambda>r. case r of Inl e \<Rightarrow> return_go (IgnoreNotFound e)
       | Inr latest \<Rightarrow> api_patch_status L (latest\<lparr>k_Status := k_Status k\<rparr>) latest)) (\<lambda>_. I) I"
    by (rule triple_bind [where R = "\<lambda>_. ?J"])
      (auto intro!: go_rules triple_patch_status assms triple_weaken
         [OF triple_api_get_kode [OF assms(1)]])
qed

lemma keeps_UpdateStatus [go_specs]:
  "lawful L \<Longrightarrow> read_closed I \<Longrightarrow> patch_closed I \<Longrightarrow> keeps I (UpdateStatus L)"
  unfolding UpdateStatus_def by (intro keeps_retry keeps_UpdateStatus_attempt)

lemma read_closed_kode: "read_closed (\<lambda>s. Q (kode s) (cache s))"
  by (simp add: read_closed_def)

lemma patch_closed_kode: "patch_closed (\<lambda>s. Q (kode s) (cache s))"
  by (simp add: patch_closed_def)

text \<open>\<open>UpdateStatus\<close> never changes the object in memory.\<close>

lemma UpdateStatus_kode:
  "lawful L \<Longrightarrow>
     triple (\<lambda>s. Q (kode s)) (UpdateStatus L) (\<lambda>_ s. Q (kode s)) (\<lambda>s. Q (kode s))"
  by (intro keeps_UpdateStatus) (auto simp: read_closed_def patch_closed_def)

lemma kode_UpdateStatus: "lawful L \<Longrightarrow> kode (snd (UpdateStatus L s)) = kode s"
  by (rule triple_snd [OF UpdateStatus_kode [where Q = "\<lambda>k. k = kode s"]]) auto

lemma keeps_AddFinalizer [go_specs]:
  assumes "read_closed I"
    and "\<And>s key fs b w. I s \<Longrightarrow> I (s\<lparr>world := w, reqlog := reqlog s @ [ReqUpdateFinalizers key fs b]\<rparr>)"
  shows "keeps I (AddFinalizer L)"
  unfolding AddFinalizer_def api_update_def
  by (intro go_rules keeps_api_get assms(1) tripleI) (auto intro: assms(2) split: prod.splits)

lemma keeps_RemoveFinalizer [go_specs]:
  assumes "read_closed I"
    and "\<And>s key fs b w. I s \<Longrightarrow> I (s\<lparr>world := w, reqlog := reqlog s @ [ReqUpdateFinalizers key fs b]\<rparr>)"
  shows "keeps I (RemoveFinalizer L)"
  unfolding RemoveFinalizer_def api_update_def
  by (intro go_rules keeps_api_get assms(1) tripleI) (auto intro: assms(2) split: prod.splits)

text \<open>
  \<open>status_closed I\<close>: any change of the status in memory keeps \<open>I\<close>.
\<close>

definition status_closed :: "('w st \<Rightarrow> bool) \<Rightarrow> bool" where
  "status_closed I = (\<forall>s t. I s \<longrightarrow> I (s\<lparr>kode := (kode s)\<lparr>k_Status := t\<rparr>\<rparr>))"

lemma keeps_modify_status [go_specs]: "status_closed I \<Longrightarrow> keeps I (modify_status f)"
  unfolding modify_status_def by (rule triple_modify) (simp add: status_closed_def)

lemma keeps_set_condition [go_specs]: "status_closed I \<Longrightarrow> keeps I (set_condition L t st re m)"
  unfolding set_condition_def k_SetCondition_def
  by (rule triple_modify) (simp add: status_closed_def)

lemma keeps_SetRuntime [go_specs]:
  "lawful L \<Longrightarrow> read_closed I \<Longrightarrow> patch_closed I \<Longrightarrow> status_closed I \<Longrightarrow> keeps I (SetRuntime L rt)"
  unfolding SetRuntime_def by (intro go_rules go_specs)

end
