(* ===== verification/Template_Manager.thy ===== *)
theory Template_Manager
  imports Kode_Object
begin

text \<open>
  internal/template/template.go: fetching a template, with the cache of DefaultTemplateManager
  (the field \<^const>\<open>cache\<close> of the state) and the retries of \<^verbatim>\<open>wait.ExponentialBackoff\<close>.
\<close>

definition validateRef :: "CrossNamespaceObjectReference \<Rightarrow> error option" where
  "validateRef ref =
     (if ref_Kind ref = '''' then Some (ErrorText ''template reference kind is empty'')
      else if ref_Name ref = '''' then Some (ErrorText ''template reference name is empty'')
      else None)"

definition getCacheKey :: "CrossNamespaceObjectReference \<Rightarrow> string" where
  "getCacheKey ref =
     (let namespace = (case ref_Namespace ref of None \<Rightarrow> '''' | Some n \<Rightarrow> n)
      in ref_Kind ref @ ''/'' @ namespace @ ''/'' @ ref_Name ref)"

definition handleNotFoundError :: "error \<Rightarrow> CrossNamespaceObjectReference \<Rightarrow> error" where
  "handleNotFoundError err ref =
     (if IsNotFound err then
        TemplateNotFound
          (NamespacedName (case ref_Namespace ref of None \<Rightarrow> '''' | Some n \<Rightarrow> n) (ref_Name ref))
          (ref_Kind ref)
      else err)"

text \<open>The fields both fetch functions fill in from the spec they got.\<close>

definition fill_template :: "ContainerTemplateSharedSpec \<Rightarrow> Template \<Rightarrow> Template" where
  "fill_template spec template =
     (let template = (if cs_EntryPointRef spec \<noteq> None
                      then template\<lparr>t_EntryPointRef := cs_EntryPointRef spec\<rparr> else template)
      in template\<lparr>t_ContainerTemplateSpec := Some spec, t_Port := cs_Port spec\<rparr>)"

definition fetchContainerTemplate ::
  "'w lib \<Rightarrow> Template \<Rightarrow> CrossNamespaceObjectReference \<Rightarrow> ('w st, error + Template) go" where
  "fetchContainerTemplate L template ref =
     (let key = NamespacedName (t_Namespace template) (ref_Name ref) in
      bind_go (api_get KindContainerTemplate key (lib_getContainerTemplate L key)) (\<lambda>r.
        case r of
          Inl e \<Rightarrow> return_go (Inl (handleNotFoundError e ref))
        | Inr spec \<Rightarrow> return_go (Inr (fill_template spec template))))"

definition fetchClusterContainerTemplate ::
  "'w lib \<Rightarrow> Template \<Rightarrow> CrossNamespaceObjectReference \<Rightarrow> ('w st, error + Template) go" where
  "fetchClusterContainerTemplate L template ref =
     (let key = NamespacedName '''' (ref_Name ref) in
      bind_go (api_get KindClusterContainerTemplate key (lib_getClusterContainerTemplate L key)) (\<lambda>r.
        case r of
          Inl e \<Rightarrow> return_go (Inl (handleNotFoundError e ref))
        | Inr spec \<Rightarrow> return_go (Inr (fill_template spec template))))"

definition fecthEntryPoint ::
  "'w lib \<Rightarrow> CrossNamespaceObjectReference \<Rightarrow> ('w st, error + EntryPoint) go" where
  "fecthEntryPoint L ref =
     (let key = NamespacedName '''' (ref_Name ref) in
      bind_go (api_get KindEntryPoint key (lib_getEntryPoint L key)) (\<lambda>r.
        case r of Inl e \<Rightarrow> return_go (Inl e) | Inr ep \<Rightarrow> return_go (Inr ep)))"

definition fetchTemplate ::
  "'w lib \<Rightarrow> CrossNamespaceObjectReference \<Rightarrow> ('w st, error + Template) go" where
  "fetchTemplate L ref =
     (let template = \<lparr>t_Kind = ref_Kind ref, t_Name = ref_Name ref,
            t_Namespace = (case ref_Namespace ref of None \<Rightarrow> '''' | Some n \<Rightarrow> n),
            t_Port = 0, t_ContainerTemplateSpec = None, t_EntryPointRef = None,
            t_EntryPointSpec = None\<rparr>;
          kind = ref_Kind ref
      in if kind \<noteq> TemplateKindContainer \<and> kind \<noteq> TemplateKindClusterContainer then
           return_go (Inl (ErrorText (''unknown template kind: '' @ kind)))
         else
           bind_go (if kind = TemplateKindContainer then fetchContainerTemplate L template ref
                    else fetchClusterContainerTemplate L template ref) (\<lambda>r.
             case r of
               Inl e \<Rightarrow> return_go (Inl (Wrapped (''failed to fetch '' @ kind @ '' template: '') e))
             | Inr template \<Rightarrow>
                 (case t_EntryPointRef template of
                    None \<Rightarrow> return_go (Inr template)
                  | Some epRef \<Rightarrow>
                      bind_go (fecthEntryPoint L epRef) (\<lambda>er.
                        case er of
                          Inl e \<Rightarrow>
                            if IsNotFound e then return_go (Inr template)
                            else return_go (Inl (Wrapped ''failed to fetch EntryPoint: '' e))
                        | Inr entryPoint \<Rightarrow>
                            return_go (Inr (template\<lparr>t_EntryPointSpec := Some (e_Spec entryPoint)\<rparr>))))))"

text \<open>
  The condition function of the backoff: stop with the error when it is NotFound, try again
  (\<^const>\<open>None\<close>) on any other error, stop with the template on success.
\<close>

definition backoff_Steps :: nat where
  "backoff_Steps = 5"

definition fetch_condition ::
  "'w lib \<Rightarrow> CrossNamespaceObjectReference \<Rightarrow> ('w st, error + Template option) go" where
  "fetch_condition L ref =
     bind_go (fetchTemplate L ref) (\<lambda>r.
       case r of
         Inl e \<Rightarrow> if IsNotFound e then return_go (Inl e) else return_go (Inr None)
       | Inr template \<Rightarrow> return_go (Inr (Some template)))"

definition Fetch ::
  "'w lib \<Rightarrow> CrossNamespaceObjectReference \<Rightarrow> ('w st, error + Template) go" where
  "Fetch L ref =
     (case validateRef ref of
        Some e \<Rightarrow> return_go (Inl e)
      | None \<Rightarrow>
          let cacheKey = getCacheKey ref in
          bind_go (gets_go (\<lambda>s. map_of (cache s) cacheKey)) (\<lambda>hit.
            case hit of
              Some cachedTemplate \<Rightarrow> return_go (Inr cachedTemplate)
            | None \<Rightarrow>
                bind_go (lib_ExponentialBackoff L backoff_Steps (fetch_condition L ref)) (\<lambda>r.
                  case r of
                    Inl e \<Rightarrow> return_go (Inl (Wrapped ''failed to fetch template after retries: '' e))
                  | Inr template \<Rightarrow>
                      then_go (modify_go (\<lambda>s. s\<lparr>cache := AList.update cacheKey template (cache s)\<rparr>))
                        (return_go (Inr template)))))"

subsection \<open>Rules\<close>

text \<open>\<open>cache_closed I\<close>: storing a template keeps \<open>I\<close>.\<close>

definition cache_closed :: "('w st \<Rightarrow> bool) \<Rightarrow> bool" where
  "cache_closed I = (\<forall>s c. I s \<longrightarrow> I (s\<lparr>cache := c\<rparr>))"

lemma keeps_fetchTemplate [go_specs]: "read_closed I \<Longrightarrow> keeps I (fetchTemplate L ref)"
  unfolding fetchTemplate_def fetchContainerTemplate_def fetchClusterContainerTemplate_def
    fecthEntryPoint_def Let_def
  by (intro go_rules keeps_api_get)

lemma keeps_fetch_condition: "read_closed I \<Longrightarrow> keeps I (fetch_condition L ref)"
  unfolding fetch_condition_def by (intro go_rules keeps_fetchTemplate)

lemma keeps_Fetch [go_specs]:
  "lawful L \<Longrightarrow> read_closed I \<Longrightarrow> cache_closed I \<Longrightarrow> keeps I (Fetch L ref)"
  unfolding Fetch_def Let_def
  by (intro go_rules keeps_backoff keeps_fetch_condition triple_modify)
    (simp_all add: cache_closed_def)

text \<open>What the fetched template says of its container spec and port.\<close>

definition template_wf :: "Template \<Rightarrow> bool" where
  "template_wf t =
     (case t_ContainerTemplateSpec t of None \<Rightarrow> False | Some spec \<Rightarrow> t_Port t = cs_Port spec)"

lemma fill_template_wf: "template_wf (fill_template spec t)"
  by (simp add: fill_template_def template_wf_def Let_def)

lemma fill_template_name [simp]:
  "t_Kind (fill_template spec t) = t_Kind t" "t_Name (fill_template spec t) = t_Name t"
  by (simp_all add: fill_template_def Let_def)

lemma yields_fetchTemplate:
  "yields (fetchTemplate L ref)
     (\<lambda>r. case r of Inl e \<Rightarrow> True
       | Inr t \<Rightarrow> template_wf t \<and> t_Kind t = ref_Kind ref \<and> t_Name t = ref_Name ref)"
proof -
  let ?t0 = "\<lparr>t_Kind = ref_Kind ref, t_Name = ref_Name ref,
            t_Namespace = (case ref_Namespace ref of None \<Rightarrow> '''' | Some n \<Rightarrow> n),
            t_Port = 0, t_ContainerTemplateSpec = None, t_EntryPointRef = None,
            t_EntryPointSpec = None\<rparr>"
  let ?A = "\<lambda>r. case r of Inl e \<Rightarrow> True
       | Inr t \<Rightarrow> template_wf t \<and> t_Kind t = ref_Kind ref \<and> t_Name t = ref_Name ref"
  have one: "yields (fetchContainerTemplate L ?t0 ref) ?A"
    unfolding fetchContainerTemplate_def Let_def
    by (intro yield_rules) (auto simp: fill_template_wf)
  have two: "yields (fetchClusterContainerTemplate L ?t0 ref) ?A"
    unfolding fetchClusterContainerTemplate_def Let_def
    by (intro yield_rules) (auto simp: fill_template_wf)
  show ?thesis
    unfolding fetchTemplate_def Let_def
    by (intro yields_if yields_bind_strong [where B = ?A] one two yield_rules)
      (auto simp: template_wf_def split: option.splits)
qed

end
