(* ===== verification/Envoy_Types.thy ===== *)
theory Envoy_Types
  imports Kube_Types
begin

text \<open>
  pkg/envoy/types.go: the configuration types of the Envoy proxy and the YAML tree that their struct
  tags ask for. A field with the option \<^verbatim>\<open>omitempty\<close> is left out at its zero value; a
  \<open>DynamicValue\<close> stands for the value it holds, by its own method \<^verbatim>\<open>MarshalYAML\<close>. The
  JSON methods of \<open>DynamicValue\<close> have no caller.
\<close>

subsection \<open>Values\<close>

text \<open>What \<^verbatim>\<open>interface{}\<close> holds after a document was read; a map is the list of its entries.\<close>

datatype yaml =
  YamlNull | YamlString string | YamlInt int | YamlBool bool | YamlList "yaml list"
  | YamlMap "(string \<times> yaml) list"

record DynamicValue = dv_Value :: yaml

definition DynamicValue_zero :: DynamicValue where
  "DynamicValue_zero = \<lparr>dv_Value = YamlNull\<rparr>"

definition UnmarshalYAML :: "DynamicValue \<Rightarrow> (yaml \<Rightarrow> 'e + yaml) \<Rightarrow> DynamicValue \<times> 'e option" where
  "UnmarshalYAML d unmarshal =
     (case unmarshal YamlNull of Inl e \<Rightarrow> (d, Some e) | Inr v \<Rightarrow> (d\<lparr>dv_Value := v\<rparr>, None))"

definition MarshalYAML :: "DynamicValue \<Rightarrow> yaml" where
  "MarshalYAML d = dv_Value d"

subsection \<open>Addresses and endpoints\<close>

record AccessLog =
  al_Name :: string
  al_TypedConfig :: DynamicValue

record SocketAddress =
  sa_Address :: string
  sa_Protocol :: string
  sa_PortValue :: "32 word"

record Pipe =
  pi_Path :: string
  pi_Mode :: "32 word"

record EnvoyInternalAddress =
  ei_ServerListenerName :: string
  ei_EndpointId :: string

record Address =
  ad_SocketAddress :: SocketAddress
  ad_Pipe :: Pipe
  ad_EnvoyInternalAddress :: EnvoyInternalAddress

record AdditionalAddress = aa_Address :: Address

record HealthCheckConfig =
  hc_PortValue :: "32 word"
  hc_Hostname :: string
  hc_Address :: Address
  hc_DisableActiveHealthCheck :: bool

record UpgradeConfig = uc_UpgradeType :: string

record Endpoint =
  ep_Address :: Address
  ep_HealthCheckConfig :: HealthCheckConfig
  ep_Hostname :: string
  ep_AdditionalAddresses :: "AdditionalAddress list"

record LbEndpoint =
  lb_Endpoint :: Endpoint
  lb_HealthStatus :: string
  lb_Metadata :: DynamicValue
  lb_LoadBalancingWeight :: "32 word"

record Locality =
  lo_Region :: string
  lo_Zone :: string
  lo_SubZone :: string

record LocalityLbEndpoints =
  ll_Locality :: Locality
  ll_Metadata :: DynamicValue
  ll_LbEndpoints :: "LbEndpoint list"
  ll_LoadBalancingWeight :: "32 word"
  ll_Priority :: "32 word"

record LoadAssignment =
  la_ClusterName :: string
  la_Endpoints :: "LocalityLbEndpoints list"
  la_Policy :: DynamicValue

text \<open>Their zero values.\<close>

definition SocketAddress_zero :: SocketAddress where
  "SocketAddress_zero = \<lparr>sa_Address = '''', sa_Protocol = '''', sa_PortValue = 0\<rparr>"

definition Pipe_zero :: Pipe where
  "Pipe_zero = \<lparr>pi_Path = '''', pi_Mode = 0\<rparr>"

definition EnvoyInternalAddress_zero :: EnvoyInternalAddress where
  "EnvoyInternalAddress_zero = \<lparr>ei_ServerListenerName = '''', ei_EndpointId = ''''\<rparr>"

definition Address_zero :: Address where
  "Address_zero = \<lparr>ad_SocketAddress = SocketAddress_zero, ad_Pipe = Pipe_zero,
     ad_EnvoyInternalAddress = EnvoyInternalAddress_zero\<rparr>"

definition HealthCheckConfig_zero :: HealthCheckConfig where
  "HealthCheckConfig_zero = \<lparr>hc_PortValue = 0, hc_Hostname = '''', hc_Address = Address_zero,
     hc_DisableActiveHealthCheck = False\<rparr>"

definition Endpoint_zero :: Endpoint where
  "Endpoint_zero = \<lparr>ep_Address = Address_zero, ep_HealthCheckConfig = HealthCheckConfig_zero,
     ep_Hostname = '''', ep_AdditionalAddresses = []\<rparr>"

definition LbEndpoint_zero :: LbEndpoint where
  "LbEndpoint_zero = \<lparr>lb_Endpoint = Endpoint_zero, lb_HealthStatus = '''',
     lb_Metadata = DynamicValue_zero, lb_LoadBalancingWeight = 0\<rparr>"

definition Locality_zero :: Locality where
  "Locality_zero = \<lparr>lo_Region = '''', lo_Zone = '''', lo_SubZone = ''''\<rparr>"

definition LocalityLbEndpoints_zero :: LocalityLbEndpoints where
  "LocalityLbEndpoints_zero = \<lparr>ll_Locality = Locality_zero, ll_Metadata = DynamicValue_zero,
     ll_LbEndpoints = [], ll_LoadBalancingWeight = 0, ll_Priority = 0\<rparr>"

subsection \<open>Clusters, listeners and routes\<close>

record HTTPFilter =
  htf_Name :: string
  htf_TypedConfig :: DynamicValue

record Cluster =
  cl_Name :: string
  cl_ConnectTimeout :: string
  cl_Type :: string
  cl_LbPolicy :: string
  cl_TypedExtensionProtocolOptions :: DynamicValue
  cl_LoadAssignment :: LoadAssignment

record Filter =
  fi_Name :: string
  fi_TypedConfig :: DynamicValue

record FilterChain = fc_Filters :: "Filter list"

record Listener =
  li_Name :: string
  li_Address :: Address
  li_FilterChains :: "FilterChain list"

record Match = ma_Prefix :: string

record SingleRoute =
  sr_Cluster :: string
  sr_PrefixRewrite :: string

record Redirect = re_HTTPSRedirect :: bool

record Route =
  ro_Match :: Match
  ro_Route :: "SingleRoute option"
  ro_Redirect :: "Redirect option"
  ro_TypedPerFilterConfig :: DynamicValue

record VirtualHost =
  vh_Name :: string
  vh_Domains :: "string list"
  vh_Routes :: "Route list"

record RouteConfig =
  rcf_Name :: string
  rcf_VirtualHosts :: "VirtualHost list"

record AdminServer =
  as_AccessLogPath :: string
  as_Address :: Address

record HTTPFilterConfig =
  hf_Name :: string
  hf_TypedConfig :: DynamicValue

record StaticResources =
  sr_Listeners :: "Listener list"
  sr_Clusters :: "Cluster list"

record BootstrapConfig =
  bc_Admin :: AdminServer
  bc_StaticResources :: StaticResources

record HTTPConnectionManager =
  hcm_Type :: string
  hcm_StatPrefix :: string
  hcm_CodecType :: string
  hcm_RouteConfig :: RouteConfig
  hcm_HTTPFilters :: "HTTPFilterConfig list"

subsection \<open>The YAML tree of a configuration\<close>

text \<open>The entry of a field with \<^verbatim>\<open>omitempty\<close>.\<close>

definition unless :: "bool \<Rightarrow> string \<Rightarrow> yaml \<Rightarrow> (string \<times> yaml) list" where
  "unless zero key v = (if zero then [] else [(key, v)])"

abbreviation YamlWord :: "32 word \<Rightarrow> yaml" where
  "YamlWord w \<equiv> YamlInt (uint w)"

abbreviation YamlEach :: "('a \<Rightarrow> yaml) \<Rightarrow> 'a list \<Rightarrow> yaml" where
  "YamlEach f xs \<equiv> YamlList (map f xs)"

definition yaml_SocketAddress :: "SocketAddress \<Rightarrow> yaml" where
  "yaml_SocketAddress a = YamlMap (
     [(''address'', YamlString (sa_Address a))] @
     unless (sa_Protocol a = '''') ''protocol'' (YamlString (sa_Protocol a)) @
     unless (sa_PortValue a = 0) ''port_value'' (YamlWord (sa_PortValue a)))"

definition yaml_Pipe :: "Pipe \<Rightarrow> yaml" where
  "yaml_Pipe p = YamlMap (
     [(''path'', YamlString (pi_Path p))] @ unless (pi_Mode p = 0) ''mode'' (YamlWord (pi_Mode p)))"

definition yaml_EnvoyInternalAddress :: "EnvoyInternalAddress \<Rightarrow> yaml" where
  "yaml_EnvoyInternalAddress a = YamlMap (
     [(''server_listener_name'', YamlString (ei_ServerListenerName a))] @
     unless (ei_EndpointId a = '''') ''endpoint_id'' (YamlString (ei_EndpointId a)))"

definition yaml_Address :: "Address \<Rightarrow> yaml" where
  "yaml_Address a = YamlMap (
     [(''socket_address'', yaml_SocketAddress (ad_SocketAddress a))] @
     unless (ad_Pipe a = Pipe_zero) ''pipe'' (yaml_Pipe (ad_Pipe a)) @
     unless (ad_EnvoyInternalAddress a = EnvoyInternalAddress_zero) ''envoy_internal_address''
       (yaml_EnvoyInternalAddress (ad_EnvoyInternalAddress a)))"

definition yaml_AdditionalAddress :: "AdditionalAddress \<Rightarrow> yaml" where
  "yaml_AdditionalAddress a = YamlMap [(''address'', yaml_Address (aa_Address a))]"

definition yaml_HealthCheckConfig :: "HealthCheckConfig \<Rightarrow> yaml" where
  "yaml_HealthCheckConfig h = YamlMap (
     [(''port_value'', YamlWord (hc_PortValue h))] @
     unless (hc_Hostname h = '''') ''hostname'' (YamlString (hc_Hostname h)) @
     unless (hc_Address h = Address_zero) ''address'' (yaml_Address (hc_Address h)) @
     unless (\<not> hc_DisableActiveHealthCheck h) ''disable_active_health_check''
       (YamlBool (hc_DisableActiveHealthCheck h)))"

definition yaml_Endpoint :: "Endpoint \<Rightarrow> yaml" where
  "yaml_Endpoint e = YamlMap (
     [(''address'', yaml_Address (ep_Address e))] @
     unless (ep_HealthCheckConfig e = HealthCheckConfig_zero) ''health_check_config''
       (yaml_HealthCheckConfig (ep_HealthCheckConfig e)) @
     unless (ep_Hostname e = '''') ''hostname'' (YamlString (ep_Hostname e)) @
     unless (ep_AdditionalAddresses e = []) ''additional_addresses''
       (YamlEach yaml_AdditionalAddress (ep_AdditionalAddresses e)))"

definition yaml_LbEndpoint :: "LbEndpoint \<Rightarrow> yaml" where
  "yaml_LbEndpoint e = YamlMap (
     [(''endpoint'', yaml_Endpoint (lb_Endpoint e))] @
     unless (lb_HealthStatus e = '''') ''health_status'' (YamlString (lb_HealthStatus e)) @
     unless (lb_Metadata e = DynamicValue_zero) ''metadata'' (MarshalYAML (lb_Metadata e)) @
     unless (lb_LoadBalancingWeight e = 0) ''load_balancing_weight'' (YamlWord (lb_LoadBalancingWeight e)))"

definition yaml_Locality :: "Locality \<Rightarrow> yaml" where
  "yaml_Locality l = YamlMap (
     unless (lo_Region l = '''') ''region'' (YamlString (lo_Region l)) @
     unless (lo_Zone l = '''') ''zone'' (YamlString (lo_Zone l)) @
     unless (lo_SubZone l = '''') ''sub_zone'' (YamlString (lo_SubZone l)))"

definition yaml_LocalityLbEndpoints :: "LocalityLbEndpoints \<Rightarrow> yaml" where
  "yaml_LocalityLbEndpoints l = YamlMap (
     unless (ll_Locality l = Locality_zero) ''locality'' (yaml_Locality (ll_Locality l)) @
     unless (ll_Metadata l = DynamicValue_zero) ''metadata'' (MarshalYAML (ll_Metadata l)) @
     [(''lb_endpoints'', YamlEach yaml_LbEndpoint (ll_LbEndpoints l))] @
     unless (ll_LoadBalancingWeight l = 0) ''load_balancing_weight'' (YamlWord (ll_LoadBalancingWeight l)) @
     unless (ll_Priority l = 0) ''priority'' (YamlWord (ll_Priority l)))"

definition yaml_LoadAssignment :: "LoadAssignment \<Rightarrow> yaml" where
  "yaml_LoadAssignment l = YamlMap (
     [(''cluster_name'', YamlString (la_ClusterName l)),
      (''endpoints'', YamlEach yaml_LocalityLbEndpoints (la_Endpoints l))] @
     unless (la_Policy l = DynamicValue_zero) ''policy'' (MarshalYAML (la_Policy l)))"

definition yaml_Cluster :: "Cluster \<Rightarrow> yaml" where
  "yaml_Cluster c = YamlMap (
     [(''name'', YamlString (cl_Name c)), (''connect_timeout'', YamlString (cl_ConnectTimeout c)),
      (''type'', YamlString (cl_Type c)), (''lb_policy'', YamlString (cl_LbPolicy c))] @
     unless (cl_TypedExtensionProtocolOptions c = DynamicValue_zero) ''typed_extension_protocol_options''
       (MarshalYAML (cl_TypedExtensionProtocolOptions c)) @
     [(''load_assignment'', yaml_LoadAssignment (cl_LoadAssignment c))])"

definition yaml_Filter :: "Filter \<Rightarrow> yaml" where
  "yaml_Filter f = YamlMap
     [(''name'', YamlString (fi_Name f)), (''typed_config'', MarshalYAML (fi_TypedConfig f))]"

definition yaml_FilterChain :: "FilterChain \<Rightarrow> yaml" where
  "yaml_FilterChain f = YamlMap [(''filters'', YamlEach yaml_Filter (fc_Filters f))]"

definition yaml_Listener :: "Listener \<Rightarrow> yaml" where
  "yaml_Listener l = YamlMap
     [(''name'', YamlString (li_Name l)), (''address'', yaml_Address (li_Address l)),
      (''filter_chains'', YamlEach yaml_FilterChain (li_FilterChains l))]"

definition yaml_Match :: "Match \<Rightarrow> yaml" where
  "yaml_Match m = YamlMap [(''prefix'', YamlString (ma_Prefix m))]"

definition yaml_SingleRoute :: "SingleRoute \<Rightarrow> yaml" where
  "yaml_SingleRoute r = YamlMap (
     [(''cluster'', YamlString (sr_Cluster r))] @
     unless (sr_PrefixRewrite r = '''') ''prefix_rewrite'' (YamlString (sr_PrefixRewrite r)))"

definition yaml_Redirect :: "Redirect \<Rightarrow> yaml" where
  "yaml_Redirect r = YamlMap [(''https_redirect'', YamlBool (re_HTTPSRedirect r))]"

definition yaml_Route :: "Route \<Rightarrow> yaml" where
  "yaml_Route r = YamlMap (
     [(''match'', yaml_Match (ro_Match r))] @
     (case ro_Route r of None \<Rightarrow> [] | Some x \<Rightarrow> [(''route'', yaml_SingleRoute x)]) @
     (case ro_Redirect r of None \<Rightarrow> [] | Some x \<Rightarrow> [(''redirect'', yaml_Redirect x)]) @
     unless (ro_TypedPerFilterConfig r = DynamicValue_zero) ''typed_per_filter_config''
       (MarshalYAML (ro_TypedPerFilterConfig r)))"

definition yaml_VirtualHost :: "VirtualHost \<Rightarrow> yaml" where
  "yaml_VirtualHost v = YamlMap
     [(''name'', YamlString (vh_Name v)), (''domains'', YamlEach YamlString (vh_Domains v)),
      (''routes'', YamlEach yaml_Route (vh_Routes v))]"

definition yaml_RouteConfig :: "RouteConfig \<Rightarrow> yaml" where
  "yaml_RouteConfig r = YamlMap
     [(''name'', YamlString (rcf_Name r)),
      (''virtual_hosts'', YamlEach yaml_VirtualHost (rcf_VirtualHosts r))]"

definition yaml_AdminServer :: "AdminServer \<Rightarrow> yaml" where
  "yaml_AdminServer a = YamlMap
     [(''access_log_path'', YamlString (as_AccessLogPath a)), (''address'', yaml_Address (as_Address a))]"

definition yaml_HTTPFilterConfig :: "HTTPFilterConfig \<Rightarrow> yaml" where
  "yaml_HTTPFilterConfig f = YamlMap (
     [(''name'', YamlString (hf_Name f))] @
     unless (hf_TypedConfig f = DynamicValue_zero) ''typed_config'' (MarshalYAML (hf_TypedConfig f)))"

definition yaml_StaticResources :: "StaticResources \<Rightarrow> yaml" where
  "yaml_StaticResources s = YamlMap
     [(''listeners'', YamlEach yaml_Listener (sr_Listeners s)),
      (''clusters'', YamlEach yaml_Cluster (sr_Clusters s))]"

definition yaml_BootstrapConfig :: "BootstrapConfig \<Rightarrow> yaml" where
  "yaml_BootstrapConfig b = YamlMap
     [(''admin'', yaml_AdminServer (bc_Admin b)),
      (''static_resources'', yaml_StaticResources (bc_StaticResources b))]"

text \<open>The entries of an HTTP connection manager, which is read back as a map.\<close>

definition yaml_HTTPConnectionManager :: "HTTPConnectionManager \<Rightarrow> (string \<times> yaml) list" where
  "yaml_HTTPConnectionManager h =
     [(''@type'', YamlString (hcm_Type h)), (''stat_prefix'', YamlString (hcm_StatPrefix h)),
      (''codec_type'', YamlString (hcm_CodecType h)), (''route_config'', yaml_RouteConfig (hcm_RouteConfig h)),
      (''http_filters'', YamlEach yaml_HTTPFilterConfig (hcm_HTTPFilters h))]"

lemma unless_simps [simp]: "unless True k v = []" "unless False k v = [(k, v)]"
  by (simp_all add: unless_def)

lemma UnmarshalYAML_value:
  "UnmarshalYAML d (\<lambda>_. Inr v) = (d', err) \<Longrightarrow> err = None \<and> MarshalYAML d' = v"
  by (auto simp: UnmarshalYAML_def MarshalYAML_def)

lemmas yaml_defs = yaml_SocketAddress_def yaml_Pipe_def yaml_EnvoyInternalAddress_def yaml_Address_def
  yaml_AdditionalAddress_def yaml_HealthCheckConfig_def yaml_Endpoint_def yaml_LbEndpoint_def
  yaml_Locality_def yaml_LocalityLbEndpoints_def yaml_LoadAssignment_def yaml_Cluster_def yaml_Filter_def
  yaml_FilterChain_def yaml_Listener_def yaml_Match_def yaml_SingleRoute_def yaml_Redirect_def
  yaml_Route_def yaml_VirtualHost_def yaml_RouteConfig_def yaml_AdminServer_def yaml_HTTPFilterConfig_def
  yaml_StaticResources_def yaml_BootstrapConfig_def yaml_HTTPConnectionManager_def MarshalYAML_def

end
