(* ===== verification/Envoy.thy ===== *)
theory Envoy
  imports Common_Types Envoy_Types
begin

text \<open>
  pkg/envoy: the Envoy bootstrap configuration and the sidecar containers. Marshalling to and from
  YAML (gopkg.in/yaml.v2) is a parameter of \<open>GenerateEnvoyConfig\<close>; a field that a literal of the code
  leaves out has its zero value.
\<close>

record yaml_lib =
  yaml_MarshalHCM :: "HTTPConnectionManager \<Rightarrow> error + string"
  yaml_UnmarshalMap :: "string \<Rightarrow> error + (string \<times> yaml) list"
  yaml_MarshalBootstrap :: "BootstrapConfig \<Rightarrow> error + string"

subsection \<open>BootstrapConfigGenerator\<close>

definition ext_authz_config :: DynamicValue where
  "ext_authz_config = \<lparr>dv_Value = YamlMap
     [(''@type'', YamlString ''type.googleapis.com/envoy.extensions.filters.http.ext_authz.v3.ExtAuthz''),
      (''grpc_service'', YamlMap
         [(''envoy_grpc'', YamlMap [(''cluster_name'', YamlString ''basic_auth_service'')]),
          (''timeout'', YamlString ''0.25s'')])]\<rparr>"

definition router_config :: DynamicValue where
  "router_config = \<lparr>dv_Value = YamlMap
     [(''@type'', YamlString ''type.googleapis.com/envoy.extensions.filters.http.router.v3.Router'')]\<rparr>"

definition getHTTPFilters :: "bool \<Rightarrow> HTTPFilterConfig list" where
  "getHTTPFilters useBasicAuth =
     (if useBasicAuth
      then [\<lparr>hf_Name = ''envoy.filters.http.ext_authz'', hf_TypedConfig = ext_authz_config\<rparr>]
      else []) @
     [\<lparr>hf_Name = ''envoy.filters.http.router'', hf_TypedConfig = router_config\<rparr>]"

definition socket_address :: "string \<Rightarrow> 32 word \<Rightarrow> Address" where
  "socket_address host port =
     Address_zero\<lparr>ad_SocketAddress := SocketAddress_zero\<lparr>sa_Address := host, sa_PortValue := port\<rparr>\<rparr>"

definition static_cluster :: "string \<Rightarrow> 32 word \<Rightarrow> Cluster" where
  "static_cluster name port =
     \<lparr>cl_Name = name, cl_ConnectTimeout = ''0.25s'', cl_Type = ''STATIC'',
      cl_LbPolicy = ''ROUND_ROBIN'', cl_TypedExtensionProtocolOptions = DynamicValue_zero,
      cl_LoadAssignment =
        \<lparr>la_ClusterName = name,
         la_Endpoints = [LocalityLbEndpoints_zero\<lparr>ll_LbEndpoints :=
           [LbEndpoint_zero\<lparr>lb_Endpoint :=
              Endpoint_zero\<lparr>ep_Address := socket_address ''127.0.0.1'' port\<rparr>\<rparr>]\<rparr>],
         la_Policy = DynamicValue_zero\<rparr>\<rparr>"

definition getClusters :: "KodeResourceConfig \<Rightarrow> bool \<Rightarrow> Cluster list" where
  "getClusters config useBasicAuth =
     [static_cluster ''local_service'' (word_of_int DefaultKodePodPort)] @
     (if useBasicAuth then [static_cluster ''basic_auth_service'' 9001] else [])"

definition http_connection_manager :: "bool \<Rightarrow> HTTPConnectionManager" where
  "http_connection_manager useBasicAuth =
     \<lparr>hcm_Type = ''type.googleapis.com/envoy.extensions.filters.network.http_connection_manager.v3.HttpConnectionManager'',
      hcm_StatPrefix = ''ingress_http'', hcm_CodecType = ''AUTO'',
      hcm_RouteConfig =
        \<lparr>rcf_Name = ''local_route'',
         rcf_VirtualHosts =
           [\<lparr>vh_Name = ''local_service'', vh_Domains = [''*''],
             vh_Routes = [\<lparr>ro_Match = \<lparr>ma_Prefix = ''/''\<rparr>,
               ro_Route = Some \<lparr>sr_Cluster = ''local_service'', sr_PrefixRewrite = ''''\<rparr>,
               ro_Redirect = None, ro_TypedPerFilterConfig = DynamicValue_zero\<rparr>]\<rparr>]\<rparr>,
      hcm_HTTPFilters = getHTTPFilters useBasicAuth\<rparr>"

definition bootstrap_config :: "KodeResourceConfig \<Rightarrow> bool \<Rightarrow> (string \<times> yaml) list \<Rightarrow> BootstrapConfig" where
  "bootstrap_config config useBasicAuth httpConnMap =
     \<lparr>bc_Admin =
        \<lparr>as_AccessLogPath = ''/dev/stdout'', as_Address = socket_address ''0.0.0.0'' 9901\<rparr>,
      bc_StaticResources =
        \<lparr>sr_Listeners =
           [\<lparr>li_Name = ''listener_0'',
             li_Address = socket_address ''0.0.0.0'' (rc_Port config),
             li_FilterChains =
               [\<lparr>fc_Filters =
                  [\<lparr>fi_Name = ''envoy.filters.network.http_connection_manager'',
                    fi_TypedConfig = \<lparr>dv_Value = YamlMap httpConnMap\<rparr>\<rparr>]\<rparr>]\<rparr>],
         sr_Clusters = getClusters config useBasicAuth\<rparr>\<rparr>"

definition GenerateEnvoyConfig ::
  "yaml_lib \<Rightarrow> KodeResourceConfig \<Rightarrow> bool \<Rightarrow> error + string" where
  "GenerateEnvoyConfig Y config useBasicAuth =
     (case yaml_MarshalHCM Y (http_connection_manager useBasicAuth) of
        Inl e \<Rightarrow> Inl (Wrapped ''failed to marshal HTTP connection manager: '' e)
      | Inr httpConnBytes \<Rightarrow>
     (case yaml_UnmarshalMap Y httpConnBytes of
        Inl e \<Rightarrow> Inl (Wrapped ''failed to unmarshal HTTP connection manager: '' e)
      | Inr httpConnMap \<Rightarrow>
     (case yaml_MarshalBootstrap Y (bootstrap_config config useBasicAuth httpConnMap) of
        Inl e \<Rightarrow> Inl (Wrapped ''failed to marshal Envoy bootstrap config: '' e)
      | Inr yamlConfig \<Rightarrow> Inr yamlConfig)))"

subsection \<open>ContainerConstructor\<close>

definition EnvoyProxyContainerName :: string where "EnvoyProxyContainerName = ''envoy-proxy''"
definition EnvoyProxyContainerImage :: string where
  "EnvoyProxyContainerImage = ''envoyproxy/envoy:v1.31-latest''"
definition EnvoyProxyRunAsUser :: int where "EnvoyProxyRunAsUser = 1337"
definition ProxyInitContainerName :: string where "ProxyInitContainerName = ''proxy-init''"
definition ProxyInitContainerImage :: string where
  "ProxyInitContainerImage = ''openpolicyagent/proxy_init:v8''"

definition createProxySetupContainer :: "KodeResourceConfig \<Rightarrow> Container" where
  "createProxySetupContainer config =
     Container_zero\<lparr>c_Name := ProxyInitContainerName, c_Image := ProxyInitContainerImage,
       c_Args := [''-p'', itoa (sint (rc_Port config)), ''-u'', format_int 16 EnvoyProxyRunAsUser],
       c_SecurityContext := Some \<lparr>sc_AddCapabilities = [''NET_ADMIN''],
         sc_RunAsNonRoot = Some False, sc_RunAsUser = Some 0\<rparr>\<rparr>"

definition createEnvoyContainer :: "KodeResourceConfig \<Rightarrow> string \<Rightarrow> Container" where
  "createEnvoyContainer config envoyConfig =
     Container_zero\<lparr>c_Name := EnvoyProxyContainerName, c_Image := EnvoyProxyContainerImage,
       c_Args := [''--config-yaml'', envoyConfig],
       c_Ports := [\<lparr>cp_Name = ''envoy-http'', cp_ContainerPort = rc_Port config,
                    cp_Protocol = ''''\<rparr>],
       c_SecurityContext := Some \<lparr>sc_AddCapabilities = [], sc_RunAsNonRoot = None,
         sc_RunAsUser = Some EnvoyProxyRunAsUser\<rparr>\<rparr>"

definition auth_env :: "KodeResourceConfig \<Rightarrow> string \<Rightarrow> string \<Rightarrow> EnvVar" where
  "auth_env config name key =
     \<lparr>env_Name = name, env_Value = '''',
      env_ValueFrom = Some \<lparr>skr_Name = cc_Name (rc_CommonConfig config) @ ''-auth'',
                            skr_Key = key\<rparr>\<rparr>"

definition createBasicAuthContainer :: "KodeResourceConfig \<Rightarrow> Container" where
  "createBasicAuthContainer config =
     Container_zero\<lparr>c_Name := ''basic-auth-sidecar'',
       c_Image := ''your-basic-auth-sidecar-image:v0.0.0-latest'',
       c_Ports := [\<lparr>cp_Name = ''auth'', cp_ContainerPort = 9001, cp_Protocol = ''''\<rparr>],
       c_Env := [auth_env config ''AUTH_USERNAME'' ''username'',
                 auth_env config ''AUTH_PASSWORD'' ''password'']\<rparr>"

definition useBasicAuth_of :: "KodeResourceConfig \<Rightarrow> bool" where
  "useBasicAuth_of config =
     (case rc_Template config of
        None \<Rightarrow> False
      | Some t \<Rightarrow> (case t_EntryPointSpec t of
          None \<Rightarrow> False
        | Some es \<Rightarrow> (case es_AuthSpec es of
            None \<Rightarrow> False
          | Some au \<Rightarrow> au_AuthType au = ''basicAuth'')))"

definition ConstructEnvoyContainers ::
  "(KodeResourceConfig \<Rightarrow> bool \<Rightarrow> error + string) \<Rightarrow> KodeResourceConfig
    \<Rightarrow> error + (Container list \<times> Container list)" where
  "ConstructEnvoyContainers generate config =
     (let useBasicAuth = useBasicAuth_of config in
      case generate config useBasicAuth of
        Inl e \<Rightarrow> Inl (Wrapped ''failed to generate Envoy config: '' e)
      | Inr envoyConfig \<Rightarrow>
          let envoyContainer = (createEnvoyContainer config envoyConfig)
                \<lparr>c_Ports := [\<lparr>cp_Name = ''proxy-http'', cp_ContainerPort = rc_Port config,
                              cp_Protocol = ''TCP''\<rparr>]\<rparr>
          in Inr ([envoyContainer] @
                  (if useBasicAuth then [createBasicAuthContainer config] else []),
                  [createProxySetupContainer config]))"

end
