(* ===== verification/Kode_Constructors.thy ===== *)
theory Kode_Constructors
  imports Cluster Envoy
begin

text \<open>
  The pure half of internal/controllers/kode: the resource configuration of a Kode (config.go) and
  the constructors of its Secret, Service, PersistentVolumeClaim and StatefulSet (the construct
  functions of the ensure_container files). A constructor that dereferences pointers is a Go
  computation, so that a nil pointer is a panic.
\<close>

subsection \<open>config.go\<close>

definition createLabels :: "Kode \<Rightarrow> Template \<Rightarrow> labels" where
  "createLabels k template =
     [(''app.kubernetes.io/name'', k_Name k),
      (''app.kubernetes.io/managed-by'', ''kode-operator''),
      (''kode.jacero.io/name'', k_Name k),
      (''template.kode.jacero.io/name'', t_Name template)]"

definition InitKodeResourcesConfig :: "Kode \<Rightarrow> Template \<Rightarrow> KodeResourceConfig" where
  "InitKodeResourcesConfig k template =
     (let credentials =
        (case ks_Credentials (k_Spec k) of
           None \<Rightarrow> \<lparr>cr_Username = DefaultUsername, cr_Password = '''', cr_ExistingSecret = None,
                     cr_EnableBuiltinAuth = False\<rparr>
         | Some cr \<Rightarrow> cr)
      in \<lparr>rc_CommonConfig = \<lparr>cc_Labels = createLabels k template, cc_Name = k_Name k,
             cc_Namespace = k_Namespace k\<rparr>,
          rc_KodeSpec = k_Spec k, rc_Credentials = Some credentials, rc_ServiceName = '''',
          rc_UserInitPlugins = ks_InitPlugins (k_Spec k), rc_Containers = [],
          rc_InitContainers = [], rc_Template = Some template, rc_Port = t_Port template\<rparr>)"

abbreviation config_labels :: "KodeResourceConfig \<Rightarrow> labels" where
  "config_labels config \<equiv> cc_Labels (rc_CommonConfig config)"

subsection \<open>Secret, Service and PersistentVolumeClaim\<close>

definition secret_data :: "CredentialsSpec \<Rightarrow> string gomap" where
  "secret_data cr = [(''username'', cr_Username cr), (''password'', cr_Password cr)]"

definition constructSecretSpec :: "KodeResourceConfig \<Rightarrow> ('w st, error + Secret) go" where
  "constructSecretSpec config =
     bind_go (deref_go (rc_Credentials config)) (\<lambda>cr.
       return_go (Inr \<lparr>sec_Name = '''', sec_Namespace = '''', sec_Labels = [], sec_Owners = [],
                       sec_Data = secret_data cr\<rparr>))"

definition constructServiceSpec :: "KodeResourceConfig \<Rightarrow> error + Service" where
  "constructServiceSpec config =
     Inr \<lparr>svc_Name = '''', svc_Namespace = '''', svc_Labels = [], svc_Owners = [],
          svc_Spec = \<lparr>svcs_Selector = config_labels config,
            svcs_Ports = [\<lparr>sp_Protocol = ''TCP'', sp_Port = rc_Port config,
                           sp_TargetPort = rc_Port config\<rparr>]\<rparr>\<rparr>"

definition constructPVCSpec :: "KodeResourceConfig \<Rightarrow> ('w st, error + PersistentVolumeClaim) go" where
  "constructPVCSpec config =
     bind_go (deref_go (ks_Storage (rc_KodeSpec config))) (\<lambda>storage.
     bind_go (deref_go (st_Resources storage)) (\<lambda>resources.
       let pvc = \<lparr>pvc_Name = '''', pvc_Namespace = '''', pvc_Labels = [], pvc_Annotations = [],
             pvc_Owners = [],
             pvc_Spec = PVCSpec_zero\<lparr>pvcs_AccessModes := st_AccessModes storage,
                                      pvcs_Resources := resources\<rparr>,
             pvc_StatusPhase = ''''\<rparr>;
           pvc = (case st_StorageClassName storage of
                    None \<Rightarrow> pvc
                  | Some cls \<Rightarrow> pvc\<lparr>pvc_Spec := (pvc_Spec pvc)\<lparr>pvcs_StorageClassName := Some cls\<rparr>\<rparr>)
       in return_go (Inr pvc)))"

subsection \<open>Containers of the StatefulSet\<close>

definition constructContainerPort :: ContainerPort where
  "constructContainerPort =
     \<lparr>cp_Name = ''main-http'', cp_ContainerPort = word_of_int DefaultKodePodPort, cp_Protocol = ''''\<rparr>"

definition plain_env :: "string \<Rightarrow> string \<Rightarrow> EnvVar" where
  "plain_env name val = \<lparr>env_Name = name, env_Value = val, env_ValueFrom = None\<rparr>"

definition password_env :: "Kode \<Rightarrow> CredentialsSpec \<Rightarrow> EnvVar list" where
  "password_env k cr =
     (if cr_EnableBuiltinAuth cr \<and> cr_Password cr \<noteq> ''''
      then [\<lparr>env_Name = ''PASSWORD'', env_Value = '''',
             env_ValueFrom = Some \<lparr>skr_Name = GetSecretName k, skr_Key = ''password''\<rparr>\<rparr>]
      else [])"

definition constructCodeServerContainers ::
  "Kode \<Rightarrow> ContainerTemplateSharedSpec \<Rightarrow> CredentialsSpec \<Rightarrow> string \<Rightarrow> Container list" where
  "constructCodeServerContainers k spec cr workspace =
     [Container_zero\<lparr>c_Name := ''code-server'', c_Image := ct_Image spec,
        c_Env := [plain_env ''PUID'' (itoa (ct_PUID spec)), plain_env ''PGID'' (itoa (ct_PGID spec)),
                  plain_env ''TZ'' (ct_TZ spec), plain_env ''PORT'' (itoa DefaultKodePodPort),
                  plain_env ''USERNAME'' (cr_Username cr),
                  plain_env ''DEFAULT_WORKSPACE'' workspace] @ password_env k cr\<rparr>]"

definition constructWebtopContainers ::
  "Kode \<Rightarrow> ContainerTemplateSharedSpec \<Rightarrow> CredentialsSpec \<Rightarrow> Container list" where
  "constructWebtopContainers k spec cr =
     [Container_zero\<lparr>c_Name := ''webtop'', c_Image := ct_Image spec,
        c_Env := [plain_env ''PUID'' (itoa (ct_PUID spec)), plain_env ''PGID'' (itoa (ct_PGID spec)),
                  plain_env ''TZ'' (ct_TZ spec), plain_env ''CUSTOM_PORT'' (itoa DefaultKodePodPort),
                  plain_env ''CUSTOM_USER'' (cr_Username cr)] @ password_env k cr\<rparr>]"

definition constructVolumesAndMounts ::
  "string \<Rightarrow> Kode \<Rightarrow> KodeResourceConfig \<Rightarrow> Volume list \<times> VolumeMount list" where
  "constructVolumesAndMounts mountPath k config =
     (if ks_Storage (rc_KodeSpec config) \<noteq> None then
        ([\<lparr>vol_Name = DefaultKodeVolumeStorageName, vol_ClaimName = Some (GetPVCName k)\<rparr>],
         [\<lparr>vm_Name = DefaultKodeVolumeStorageName, vm_MountPath = mountPath\<rparr>])
      else ([], []))"

definition constructInitPluginContainer :: "InitPluginSpec \<Rightarrow> Container" where
  "constructInitPluginContainer plugin =
     \<lparr>c_Name = ''plugin-'' @ ip_Name plugin, c_Image = ip_Image plugin, c_Command = ip_Command plugin,
      c_Args = ip_Args plugin, c_Env = ip_Env plugin, c_EnvFrom = ip_EnvFrom plugin, c_Ports = [],
      c_VolumeMounts = ip_VolumeMounts plugin, c_SecurityContext = None\<rparr>"

text \<open>The bytes written to the hasher, in the order of the loops; the digest is a parameter.\<close>

definition pod_template_text :: "Container list \<Rightarrow> Container list \<Rightarrow> Volume list \<Rightarrow> string" where
  "pod_template_text containers initContainers volumes =
     concat (map (\<lambda>c. c_Image c @ c_Name c @
                     concat (map (\<lambda>e. env_Name e @ env_Value e) (c_Env c))) containers) @
     concat (map (\<lambda>c. c_Image c @ c_Name c) initContainers) @
     concat (map vol_Name volumes)"

definition calculatePodTemplateHash ::
  "'w lib \<Rightarrow> Container list \<Rightarrow> Container list \<Rightarrow> Volume list \<Rightarrow> string" where
  "calculatePodTemplateHash L containers initContainers volumes =
     lib_sha256hex L (pod_template_text containers initContainers volumes)"

definition ensureSidecarContainers ::
  "yaml_lib \<Rightarrow> KodeResourceConfig \<Rightarrow> error + (Container list \<times> Container list)" where
  "ensureSidecarContainers Y config =
     (case ConstructEnvoyContainers (GenerateEnvoyConfig Y) config of
        Inl e \<Rightarrow> Inl (Wrapped ''failed to construct Envoy containers: '' e)
      | Inr (containers, initContainers) \<Rightarrow> Inr (containers, initContainers))"

subsection \<open>The StatefulSet\<close>

text \<open>
  The configuration of the sidecar comes from its own package: the argument is what \<^verbatim>\<open>yaml.Marshal\<close> answers
  for its default. The function has no caller yet.
\<close>

record ConfigMap =
  cm_Name :: string
  cm_Namespace :: string
  cm_Data :: "(string \<times> string) list"

definition constructBasicAuthConfigMap :: "error + string \<Rightarrow> Kode \<Rightarrow> error + ConfigMap" where
  "constructBasicAuthConfigMap marshalled k =
     (case marshalled of
        Inl e \<Rightarrow> Inl (Wrapped ''failed to marshal basic auth config: '' e)
      | Inr yamlData \<Rightarrow>
          Inr \<lparr>cm_Name = k_Name k @ ''-basic-auth-config'', cm_Namespace = k_Namespace k,
               cm_Data = [(''config.yaml'', yamlData)]\<rparr>)"

definition workspace_and_mount ::
  "ContainerTemplateSharedSpec \<Rightarrow> KodeSpec \<Rightarrow> string \<times> string" where
  "workspace_and_mount spec ks =
     (case ks_Workspace ks of
        None \<Rightarrow> (path_join2 (ct_DefaultHome spec) (ct_DefaultWorkspace spec), ct_DefaultHome spec)
      | Some ws \<Rightarrow>
          (case ks_Home ks of
             Some home \<Rightarrow> (path_join2 home ws, home)
           | None \<Rightarrow> (path_join2 (ct_DefaultHome spec) ws, ct_DefaultHome spec)))"

text \<open>The pods of the set are labelled with this annotation key.\<close>

definition pod_template_hash_key :: string where
  "pod_template_hash_key = ''kode.jacero.io/pod-template-hash''"

text \<open>From \<^verbatim>\<open>containers[0].Ports = ...\<close> on: an empty list of containers would panic.\<close>

definition finish_StatefulSet ::
  "'w lib \<Rightarrow> yaml_lib \<Rightarrow> Kode \<Rightarrow> KodeResourceConfig \<Rightarrow> ContainerTemplateSharedSpec \<Rightarrow> string
    \<Rightarrow> Container list \<Rightarrow> ('w st, error + StatefulSet) go" where
  "finish_StatefulSet L Y k config spec mountPath containers =
     (case containers of
        [] \<Rightarrow> panic_go
      | c0 # rest \<Rightarrow>
     (let (volumes, volumeMounts) = constructVolumesAndMounts mountPath k config;
          containers = c0\<lparr>c_Ports := [constructContainerPort], c_VolumeMounts := volumeMounts\<rparr> # rest;
          initContainers = rc_InitContainers config;
          containers = containers @ rc_Containers config
      in case ensureSidecarContainers Y config of
           Inl e \<Rightarrow> return_go (Inl (ErrorText (''failed to ensure sidecar containers: '' @ Error e)))
         | Inr (sidecarContainers, sidecarInitContainers) \<Rightarrow>
     (let containers = containers @ sidecarContainers;
          initContainers = initContainers @ sidecarInitContainers @
            map constructInitPluginContainer (ct_InitPlugins spec) @
            map constructInitPluginContainer (rc_UserInitPlugins config);
          podTemplateHash = calculatePodTemplateHash L containers initContainers volumes;
          template = \<lparr>pt_Labels = config_labels config,
            pt_Annotations = [(pod_template_hash_key, podTemplateHash)],
            pt_InitContainers = initContainers, pt_Containers = containers, pt_Volumes = volumes,
            pt_RuntimeClassName = (if ct_Runtime spec \<noteq> '''' then Some (ct_Runtime spec) else None)\<rparr>
      in return_go (Inr \<lparr>ss_Name = '''', ss_Namespace = '''', ss_Labels = None, ss_Owners = [],
           ss_Spec = \<lparr>sts_Replicas = Some 1, sts_MatchLabels = config_labels config,
             sts_ServiceName = rc_ServiceName config, sts_Template = template,
             sts_UpdateStrategy = ''RollingUpdate'', sts_MaxUnavailable = Some 1\<rparr>,
           ss_ReadyReplicas = 0\<rparr>))))"

definition constructStatefulSetSpec ::
  "'w lib \<Rightarrow> yaml_lib \<Rightarrow> Kode \<Rightarrow> KodeResourceConfig \<Rightarrow> ('w st, error + StatefulSet) go" where
  "constructStatefulSetSpec L Y k config =
     bind_go (deref_go (rc_Template config)) (\<lambda>template.
     bind_go (deref_go (t_ContainerTemplateSpec template)) (\<lambda>spec.
       let (workspace, mountPath) = workspace_and_mount spec (rc_KodeSpec config) in
       if ct_Type spec = ''code-server'' then
         bind_go (deref_go (rc_Credentials config)) (\<lambda>cr.
           finish_StatefulSet L Y k config spec mountPath
             (constructCodeServerContainers k spec cr workspace))
       else if ct_Type spec = ''webtop'' then
         bind_go (deref_go (rc_Credentials config)) (\<lambda>cr.
           finish_StatefulSet L Y k config spec mountPath (constructWebtopContainers k spec cr))
       else return_go (Inl (ErrorText (''unknown template type: '' @ ct_Type spec)))))"

subsection \<open>The constructors do not touch the state\<close>

lemma keeps_constructSecretSpec [go_specs]: "keeps I (constructSecretSpec config)"
  unfolding constructSecretSpec_def by (intro go_rules) auto

lemma keeps_constructPVCSpec [go_specs]: "keeps I (constructPVCSpec config)"
  unfolding constructPVCSpec_def Let_def by (intro go_rules) auto

lemma keeps_finish_StatefulSet:
  "keeps I (finish_StatefulSet L Y k config spec mountPath containers)"
  unfolding finish_StatefulSet_def Let_def by (intro go_rules) auto

lemma keeps_constructStatefulSetSpec [go_specs]: "keeps I (constructStatefulSetSpec L Y k config)"
  unfolding constructStatefulSetSpec_def Let_def
  by (intro go_rules keeps_finish_StatefulSet) auto

lemma constructStatefulSetSpec_state: "snd (constructStatefulSetSpec L Y k config s) = s"
  by (rule triple_snd [OF keeps_constructStatefulSetSpec [where I = "\<lambda>t. t = s"]]) simp

subsection \<open>What the StatefulSet contains\<close>

definition main_containers ::
  "Kode \<Rightarrow> KodeSpec \<Rightarrow> ContainerTemplateSharedSpec \<Rightarrow> CredentialsSpec \<Rightarrow> Container list" where
  "main_containers k ks spec cr =
     (if ct_Type spec = ''code-server''
      then constructCodeServerContainers k spec cr (fst (workspace_and_mount spec ks))
      else constructWebtopContainers k spec cr)"

lemma main_containers_single: "\<exists>c. main_containers k ks spec cr = [c] \<and> c_Image c = ct_Image spec"
  by (simp add: main_containers_def constructCodeServerContainers_def constructWebtopContainers_def)

lemma constructStatefulSetSpec_known:
  assumes "rc_Template config = Some t" "t_ContainerTemplateSpec t = Some spec"
    and "rc_Credentials config = Some cr" "ct_Type spec \<in> {''code-server'', ''webtop''}"
  shows "constructStatefulSetSpec L Y k config =
    finish_StatefulSet L Y k config spec (snd (workspace_and_mount spec (rc_KodeSpec config)))
      (main_containers k (rc_KodeSpec config) spec cr)"
  using assms
  by (auto simp: constructStatefulSetSpec_def main_containers_def deref_go_def fun_eq_iff
      split: prod.splits)

lemma constructStatefulSetSpec_unknown:
  assumes "rc_Template config = Some t" "t_ContainerTemplateSpec t = Some spec"
    and "ct_Type spec \<notin> {''code-server'', ''webtop''}"
  shows "constructStatefulSetSpec L Y k config s =
    (Ret (Inl (ErrorText (''unknown template type: '' @ ct_Type spec))), s)"
  using assms by (auto simp: constructStatefulSetSpec_def go_simps split: prod.splits)

text \<open>
  The set built for a Kode: one replica, selecting its own pods; the application container, then the
  sidecars; the proxy's init container, then the template's plugins, then the user's; the storage
  mounted exactly if the Kode asks for storage.
\<close>

definition statefulset_ok ::
  "Kode \<Rightarrow> ContainerTemplateSharedSpec \<Rightarrow> KodeResourceConfig \<Rightarrow> Container list \<Rightarrow> Container list
    \<Rightarrow> StatefulSet \<Rightarrow> bool" where
  "statefulset_ok k spec config sidecars initSidecars ss =
     (let sts = ss_Spec ss; pod = sts_Template sts in
      sts_Replicas sts = Some 1 \<and>
      sts_MatchLabels sts = pt_Labels pod \<and>
      pt_Labels pod = config_labels config \<and>
      map c_Image (pt_Containers pod) = ct_Image spec # map c_Image sidecars \<and>
      c_Ports (hd (pt_Containers pod)) = [constructContainerPort] \<and>
      tl (pt_Containers pod) = sidecars \<and>
      pt_InitContainers pod = initSidecars @
        map constructInitPluginContainer (ct_InitPlugins spec @ ks_InitPlugins (k_Spec k)) \<and>
      pt_Volumes pod =
        (if ks_Storage (k_Spec k) = None then []
         else [\<lparr>vol_Name = DefaultKodeVolumeStorageName, vol_ClaimName = Some (GetPVCName k)\<rparr>]) \<and>
      c_VolumeMounts (hd (pt_Containers pod)) =
        map (\<lambda>v. \<lparr>vm_Name = vol_Name v,
                  vm_MountPath = snd (workspace_and_mount spec (k_Spec k))\<rparr>) (pt_Volumes pod) \<and>
      pt_RuntimeClassName pod = (if ct_Runtime spec = '''' then None else Some (ct_Runtime spec)))"

lemma InitKodeResourcesConfig_simps [simp]:
  "rc_Template (InitKodeResourcesConfig k t) = Some t"
  "rc_KodeSpec (InitKodeResourcesConfig k t) = k_Spec k"
  "rc_Containers (InitKodeResourcesConfig k t) = []"
  "rc_InitContainers (InitKodeResourcesConfig k t) = []"
  "rc_UserInitPlugins (InitKodeResourcesConfig k t) = ks_InitPlugins (k_Spec k)"
  "rc_Port (InitKodeResourcesConfig k t) = t_Port t"
  "rc_ServiceName (InitKodeResourcesConfig k t) = ''''"
  "config_labels (InitKodeResourcesConfig k t) = createLabels k t"
  "cc_Name (rc_CommonConfig (InitKodeResourcesConfig k t)) = k_Name k"
  "cc_Namespace (rc_CommonConfig (InitKodeResourcesConfig k t)) = k_Namespace k"
  by (simp_all add: InitKodeResourcesConfig_def Let_def)

lemma rc_Credentials_Init:
  "\<exists>cr. rc_Credentials (InitKodeResourcesConfig k t) = Some cr \<and>
     (case ks_Credentials (k_Spec k) of
        None \<Rightarrow> cr_Username cr = DefaultUsername \<and> cr_Password cr = '''' \<and>
                cr_ExistingSecret cr = None \<and> \<not> cr_EnableBuiltinAuth cr
      | Some c \<Rightarrow> cr = c)"
  by (auto simp: InitKodeResourcesConfig_def Let_def split: option.splits)

lemma constructStatefulSetSpec_ok:
  assumes "t_ContainerTemplateSpec t = Some spec"
    and "ct_Type spec \<in> {''code-server'', ''webtop''}"
    and side: "ensureSidecarContainers Y (InitKodeResourcesConfig k t) = Inr (cs, ics)"
  shows "\<exists>ss. constructStatefulSetSpec L Y k (InitKodeResourcesConfig k t) s = (Ret (Inr ss), s) \<and>
    statefulset_ok k spec (InitKodeResourcesConfig k t) cs ics ss"
proof -
  obtain cr where cr: "rc_Credentials (InitKodeResourcesConfig k t) = Some cr"
    using rc_Credentials_Init by blast
  obtain c where c: "main_containers k (k_Spec k) spec cr = [c]" "c_Image c = ct_Image spec"
    using main_containers_single by blast
  show ?thesis
    using constructStatefulSetSpec_known [OF _ assms(1) cr assms(2), where L = L and Y = Y and k = k] c
    by (simp add: finish_StatefulSet_def side constructVolumesAndMounts_def go_simps
        statefulset_ok_def Let_def)
qed

text \<open>The sidecars of a generated Envoy configuration.\<close>

lemma ensureSidecarContainers_ok:
  assumes "GenerateEnvoyConfig Y config (useBasicAuth_of config) = Inr y"
  shows "\<exists>cs. ensureSidecarContainers Y config = Inr (cs, [createProxySetupContainer config]) \<and>
    map c_Name cs = EnvoyProxyContainerName #
      (if useBasicAuth_of config then [''basic-auth-sidecar''] else []) \<and>
    c_Ports (hd cs) = [\<lparr>cp_Name = ''proxy-http'', cp_ContainerPort = rc_Port config,
                         cp_Protocol = ''TCP''\<rparr>] \<and>
    c_Args (hd cs) = [''--config-yaml'', y]"
  using assms
  by (auto simp: ensureSidecarContainers_def ConstructEnvoyContainers_def createEnvoyContainer_def
      createBasicAuthContainer_def Let_def Container_zero_def)

end
