(* ===== verification/Kode_Check.thy ===== *)
theory Kode_Check
  imports Kode_Object Kode_Constructors
begin

text \<open>
  internal/controllers/kode/check_resources.go: the readiness checks of the child resources and
  the check that they are gone. Every check is an implementation of the type ResourceReadyCheck;
  the locale \<open>readiness_check\<close> states what the callers rely on: a check only reads, and its verdict
  is a predicate on the Kode and the world. It is closed under running checks in sequence, so the
  composed check implements it too.
\<close>

subsection \<open>The single checks\<close>

definition child_key :: "Kode \<Rightarrow> string \<Rightarrow> NamespacedName" where
  "child_key k name = NamespacedName (k_Namespace k) name"

definition required_fields :: "Kode \<Rightarrow> Secret \<Rightarrow> bool" where
  "required_fields k secret =
     (let hasUsername = map_of (sec_Data secret) ''username'' \<noteq> None;
          hasPassword = map_of (sec_Data secret) ''password'' \<noteq> None;
          builtin = (case ks_Credentials (k_Spec k) of None \<Rightarrow> False | Some cr \<Rightarrow> cr_EnableBuiltinAuth cr)
      in \<not> (\<not> hasUsername \<or> builtin \<and> \<not> hasPassword))"

definition checkSecretReady :: "'w lib \<Rightarrow> KodeResourceConfig \<Rightarrow> ('w st, error + bool) go" where
  "checkSecretReady L config =
     bind_go (gets_go kode) (\<lambda>k.
       let key = child_key k (GetSecretName k) in
       bind_go (api_get KindSecret key (lib_getSecret L key)) (\<lambda>r.
         case r of
           Inl e \<Rightarrow> if IsNotFound e then return_go (Inr False)
                    else return_go (Inl (Wrapped ''failed to get Secret: '' e))
         | Inr secret \<Rightarrow> return_go (Inr (required_fields k secret))))"

fun has_port :: "ServicePort list \<Rightarrow> int32 \<Rightarrow> bool" where
  "has_port [] p = False"
| "has_port (port # rest) p = (if sp_Port port = p then True else has_port rest p)"

definition checkServiceReady :: "'w lib \<Rightarrow> KodeResourceConfig \<Rightarrow> ('w st, error + bool) go" where
  "checkServiceReady L config =
     bind_go (gets_go kode) (\<lambda>k.
       let key = child_key k (GetServiceName k) in
       bind_go (api_get KindService key (lib_getService L key)) (\<lambda>r.
         case r of
           Inl e \<Rightarrow> if IsNotFound e then return_go (Inr False)
                    else return_go (Inl (Wrapped ''failed to get Service: '' e))
         | Inr service \<Rightarrow> return_go (Inr (has_port (svcs_Ports (svc_Spec service)) (rc_Port config)))))"

text \<open>\<^verbatim>\<open>*statefulSet.Spec.Replicas\<close> panics on a nil pointer.\<close>

definition checkStatefulSetReady :: "'w lib \<Rightarrow> KodeResourceConfig \<Rightarrow> ('w st, error + bool) go" where
  "checkStatefulSetReady L config =
     bind_go (gets_go kode) (\<lambda>k.
       let key = child_key k (GetStatefulSetName k) in
       bind_go (api_get KindStatefulSet key (lib_getStatefulSet L key)) (\<lambda>r.
         case r of
           Inl e \<Rightarrow> if IsNotFound e then return_go (Inr False)
                    else return_go (Inl (Wrapped ''failed to get StatefulSet: '' e))
         | Inr ss \<Rightarrow>
             bind_go (deref_go (sts_Replicas (ss_Spec ss))) (\<lambda>replicas.
               return_go (Inr (ss_ReadyReplicas ss = replicas)))))"

definition checkPVCReady :: "'w lib \<Rightarrow> KodeResourceConfig \<Rightarrow> ('w st, error + bool) go" where
  "checkPVCReady L config =
     bind_go (gets_go kode) (\<lambda>k.
       case ks_Storage (k_Spec k) of
         None \<Rightarrow> return_go (Inr True)
       | Some storage \<Rightarrow>
           if st_ExistingVolumeClaim storage \<noteq> None then return_go (Inr True)
           else
             let key = child_key k (GetPVCName k) in
             bind_go (api_get KindPersistentVolumeClaim key (lib_getPVC L key)) (\<lambda>r.
               case r of
                 Inl e \<Rightarrow> if IsNotFound e then return_go (Inr False)
                          else return_go (Inl (Wrapped ''failed to get PVC: '' e))
               | Inr pvc \<Rightarrow> return_go (Inr (pvc_StatusPhase pvc = ''Bound''))))"

definition isPodReady :: "Pod \<Rightarrow> bool" where
  "isPodReady pod =
     (case find (\<lambda>c. pc_Type c = ''Ready'') (pod_Conditions pod) of
        None \<Rightarrow> False
      | Some c \<Rightarrow> pc_Status c = ConditionTrue)"

fun all_pods_ready :: "Pod list \<Rightarrow> bool" where
  "all_pods_ready [] = True"
| "all_pods_ready (pod # rest) =
     (if pod_StatusPhase pod \<noteq> ''Running'' \<or> \<not> isPodReady pod then False
      else all_pods_ready rest)"

definition checkPodsReady :: "'w lib \<Rightarrow> KodeResourceConfig \<Rightarrow> ('w st, error + bool) go" where
  "checkPodsReady L config =
     bind_go (gets_go kode) (\<lambda>k.
       bind_go (api_list_pods L (k_Namespace k) (config_labels config)) (\<lambda>r.
         case r of
           Inl e \<Rightarrow> return_go (Inl (Wrapped ''failed to list pods: '' e))
         | Inr pods \<Rightarrow>
             if pods = [] then return_go (Inr False)
             else return_go (Inr (all_pods_ready pods))))"

subsection \<open>The composed checks\<close>

definition ComposeResourceChecks ::
  "('w lib \<Rightarrow> KodeResourceConfig \<Rightarrow> ('w st, error + bool) go) list" where
  "ComposeResourceChecks =
     [checkSecretReady, checkServiceReady, checkStatefulSetReady, checkPVCReady, checkPodsReady]"

fun run_checks :: "('w st, error + bool) go list \<Rightarrow> ('w st, error + bool) go" where
  "run_checks [] = return_go (Inr True)"
| "run_checks (check # rest) =
     bind_go check (\<lambda>r.
       case r of
         Inl e \<Rightarrow> return_go (Inl e)
       | Inr ready \<Rightarrow> if \<not> ready then return_go (Inr False) else run_checks rest)"

definition checkResourcesReady :: "'w lib \<Rightarrow> KodeResourceConfig \<Rightarrow> ('w st, error + bool) go" where
  "checkResourcesReady L config = run_checks (map (\<lambda>check. check L config) ComposeResourceChecks)"

text \<open>
  One turn of the loop of \<open>checkResourcesDeleted\<close>: true to go on, false to stop because the
  resource exists.
\<close>

definition check_gone ::
  "ObjKind \<Rightarrow> (Kode \<Rightarrow> string) \<Rightarrow> (Kode \<Rightarrow> bool) \<Rightarrow> (NamespacedName \<Rightarrow> 'w \<Rightarrow> (error + 'o) \<times> 'w)
    \<Rightarrow> ('w st, error + bool) go" where
  "check_gone kind nameFunc skipCheck request =
     bind_go (gets_go kode) (\<lambda>k.
       if skipCheck k then return_go (Inr True)
       else
         let key = child_key k (nameFunc k) in
         bind_go (api_get kind key (request key)) (\<lambda>r.
           case r of
             Inr _ \<Rightarrow> return_go (Inr False)
           | Inl e \<Rightarrow> if \<not> IsNotFound e then return_go (Inl e) else return_go (Inr True)))"

definition skip_PVC :: "'w lib \<Rightarrow> Kode \<Rightarrow> bool" where
  "skip_PVC L k =
     (lib_IsTestEnvironment L \<or>
      (case ks_Storage (k_Spec k) of
         None \<Rightarrow> True
       | Some storage \<Rightarrow> st_ExistingVolumeClaim storage \<noteq> None))"

definition checkResourcesDeleted :: "'w lib \<Rightarrow> ('w st, error + bool) go" where
  "checkResourcesDeleted L =
     run_checks
       [check_gone KindStatefulSet GetStatefulSetName (\<lambda>_. False) (lib_getStatefulSet L),
        check_gone KindSecret GetSecretName (\<lambda>_. False) (lib_getSecret L),
        check_gone KindService GetServiceName (\<lambda>_. False) (lib_getService L),
        check_gone KindPersistentVolumeClaim GetPVCName (skip_PVC L) (lib_getPVC L)]"

subsection \<open>Only reading\<close>

fun is_read :: "Request \<Rightarrow> bool" where
  "is_read (ReqGet k n a) = True"
| "is_read (ReqListPods n ls b) = True"
| "is_read _ = False"

text \<open>
  \<open>only_reads pure s t\<close>: from \<open>s\<close> to \<open>t\<close> only Get and List requests were made; if reading is
  \<open>pure\<close>, the world is as before.
\<close>

definition only_reads :: "bool \<Rightarrow> 'w st \<Rightarrow> 'w st \<Rightarrow> bool" where
  "only_reads pure s t =
     (\<exists>w qs. t = s\<lparr>world := w, reqlog := reqlog s @ qs\<rparr> \<and> list_all is_read qs \<and>
        (pure \<longrightarrow> w = world s))"

text \<open>Documented of an API server: a read leaves the objects as they are.\<close>

definition reads_pure :: "'w lib \<Rightarrow> bool" where
  "reads_pure L \<longleftrightarrow>
     (\<forall>key w. snd (lib_getSecret L key w) = w \<and> snd (lib_getService L key w) = w \<and>
        snd (lib_getStatefulSet L key w) = w \<and> snd (lib_getPVC L key w) = w) \<and>
     (\<forall>ns ls w. snd (lib_listPods L ns ls w) = w)"

lemma only_reads_refl [simp]: "only_reads p s s"
  unfolding only_reads_def by (intro exI [of _ "world s"] exI [of _ "[]"]) simp

lemma only_reads_trans: "only_reads p s t \<Longrightarrow> only_reads p t u \<Longrightarrow> only_reads p s u"
proof -
  assume "only_reads p s t" "only_reads p t u"
  then obtain w qs w' qs' where *: "t = s\<lparr>world := w, reqlog := reqlog s @ qs\<rparr>"
    "list_all is_read qs" "p \<longrightarrow> w = world s" "u = t\<lparr>world := w', reqlog := reqlog t @ qs'\<rparr>"
    "list_all is_read qs'" "p \<longrightarrow> w' = world t"
    unfolding only_reads_def by blast
  show ?thesis
    unfolding only_reads_def
    by (intro exI [of _ w'] exI [of _ "qs @ qs'"]) (use * in auto)
qed

lemma only_reads_frame:
  "only_reads p s t \<Longrightarrow>
     kode t = kode s \<and> cache t = cache s \<and> events t = events s \<and> (p \<longrightarrow> world t = world s)"
  by (auto simp: only_reads_def)

lemma only_reads_closed:
  assumes "read_closed I" "only_reads p s t" "I s"
  shows "I t"
proof -
  have log: "I s \<Longrightarrow> list_all is_read qs \<Longrightarrow> I (s\<lparr>reqlog := reqlog s @ qs\<rparr>)" for s qs
  proof (induction qs rule: rev_induct)
    case (snoc q qs)
    then have J: "I (s\<lparr>reqlog := reqlog s @ qs\<rparr>)" by simp
    show ?case
      using snoc.prems(2) read_closedD(2) [OF assms(1) J] read_closedD(3) [OF assms(1) J]
      by (cases q) auto
  qed simp
  obtain w qs where t: "t = s\<lparr>world := w, reqlog := reqlog s @ qs\<rparr>" "list_all is_read qs"
    using assms(2) by (auto simp: only_reads_def)
  from log [OF read_closedD(1) [OF assms(1,3)] t(2), of w] show "I t" by (simp add: t(1))
qed

lemma only_readsI:
  "list_all is_read qs \<Longrightarrow> (p \<Longrightarrow> w = world s) \<Longrightarrow>
     only_reads p s (s\<lparr>world := w, reqlog := reqlog s @ qs\<rparr>)"
  unfolding only_reads_def by blast

lemma api_get_only_reads:
  "(p \<Longrightarrow> snd (f (world s)) = world s) \<Longrightarrow>
     \<exists>t. api_get kind key f s = (Ret (fst (f (world s))), t) \<and> only_reads p s t"
  unfolding api_get_def by (auto intro!: only_readsI split: prod.splits)

lemma api_list_only_reads:
  "(p \<Longrightarrow> snd (lib_listPods L ns ls (world s)) = world s) \<Longrightarrow>
     \<exists>t. api_list_pods L ns ls s = (Ret (fst (lib_listPods L ns ls (world s))), t) \<and> only_reads p s t"
  unfolding api_list_pods_def by (auto intro!: only_readsI split: prod.splits)

subsection \<open>The interface\<close>

locale readiness_check =
  fixes pure :: bool
    and check :: "('w st, error + bool) go"
    and ready :: "Kode \<Rightarrow> 'w \<Rightarrow> bool"
  assumes run: "check s = (x, t) \<Longrightarrow>
      only_reads pure s t \<and> (\<forall>b. pure \<and> x = Ret (Inr b) \<longrightarrow> b = ready (kode s) (world s))"
begin

lemma keeps_check: "read_closed I \<Longrightarrow> keeps I check"
  by (rule tripleI) (auto dest: run only_reads_closed)

lemma verdict:
  "pure \<Longrightarrow> check s = (Ret (Inr b), t) \<Longrightarrow> b = ready (kode s) (world s) \<and> world t = world s"
  using run [of s "Ret (Inr b)" t] only_reads_frame by blast

lemma check_frame: "kode (snd (check s)) = kode s \<and> cache (snd (check s)) = cache s"
  using run [of s "fst (check s)" "snd (check s)"] only_reads_frame by fastforce

text \<open>A check followed by others is a check.\<close>

lemma in_sequence:
  assumes rest: "readiness_check pure (run_checks cs) ready'"
  shows "readiness_check pure (run_checks (check # cs)) (\<lambda>k w. ready k w \<and> ready' k w)"
proof
  fix s x t
  assume r: "run_checks (check # cs) s = (x, t)"
  obtain y u where c: "check s = (y, u)" by fastforce
  have u: "only_reads pure s u" "\<And>b. pure \<Longrightarrow> y = Ret (Inr b) \<Longrightarrow> b = ready (kode s) (world s)"
    using run [OF c] by auto
  show "only_reads pure s t \<and>
      (\<forall>b. pure \<and> x = Ret (Inr b) \<longrightarrow> b = (ready (kode s) (world s) \<and> ready' (kode s) (world s)))"
  proof (cases "y = Ret (Inr True)")
    case True
    then have "run_checks cs u = (x, t)" using r c by (simp add: go_simps)
    from readiness_check.run [OF rest this] u True show ?thesis
      using only_reads_trans only_reads_frame [OF u(1)] by auto
  next
    case False
    then show ?thesis
      using r c u by (auto simp: go_simps split: outcome.splits sum.splits)
  qed
qed

end

lemma no_checks: "readiness_check pure (run_checks []) (\<lambda>k w. True)"
  by unfold_locales (auto simp: go_simps)

subsection \<open>The verdict of each check\<close>

definition secret_ready :: "'w lib \<Rightarrow> Kode \<Rightarrow> 'w \<Rightarrow> bool" where
  "secret_ready L k w =
     (case fst (lib_getSecret L (child_key k (GetSecretName k)) w) of
        Inl _ \<Rightarrow> False | Inr secret \<Rightarrow> required_fields k secret)"

definition service_ready :: "'w lib \<Rightarrow> KodeResourceConfig \<Rightarrow> Kode \<Rightarrow> 'w \<Rightarrow> bool" where
  "service_ready L config k w =
     (case fst (lib_getService L (child_key k (GetServiceName k)) w) of
        Inl _ \<Rightarrow> False
      | Inr service \<Rightarrow> rc_Port config \<in> sp_Port ` set (svcs_Ports (svc_Spec service)))"

definition statefulset_ready :: "'w lib \<Rightarrow> Kode \<Rightarrow> 'w \<Rightarrow> bool" where
  "statefulset_ready L k w =
     (case fst (lib_getStatefulSet L (child_key k (GetStatefulSetName k)) w) of
        Inl _ \<Rightarrow> False
      | Inr ss \<Rightarrow> sts_Replicas (ss_Spec ss) = Some (ss_ReadyReplicas ss))"

definition pvc_ready :: "'w lib \<Rightarrow> Kode \<Rightarrow> 'w \<Rightarrow> bool" where
  "pvc_ready L k w =
     (case ks_Storage (k_Spec k) of
        None \<Rightarrow> True
      | Some storage \<Rightarrow>
          st_ExistingVolumeClaim storage \<noteq> None \<or>
          (case fst (lib_getPVC L (child_key k (GetPVCName k)) w) of
             Inl _ \<Rightarrow> False | Inr pvc \<Rightarrow> pvc_StatusPhase pvc = ''Bound''))"

definition pods_ready :: "'w lib \<Rightarrow> KodeResourceConfig \<Rightarrow> Kode \<Rightarrow> 'w \<Rightarrow> bool" where
  "pods_ready L config k w =
     (case fst (lib_listPods L (k_Namespace k) (config_labels config) w) of
        Inl _ \<Rightarrow> False
      | Inr pods \<Rightarrow> pods \<noteq> [] \<and>
          (\<forall>p \<in> set pods. pod_StatusPhase p = ''Running'' \<and> isPodReady p))"

text \<open>The abstract verdict: every child resource of the Kode is ready.\<close>

definition all_ready :: "'w lib \<Rightarrow> KodeResourceConfig \<Rightarrow> Kode \<Rightarrow> 'w \<Rightarrow> bool" where
  "all_ready L config k w \<longleftrightarrow>
     secret_ready L k w \<and> service_ready L config k w \<and> statefulset_ready L k w \<and>
     pvc_ready L k w \<and> pods_ready L config k w"

definition answers_NotFound :: "(error + 'o) \<times> 'w \<Rightarrow> bool" where
  "answers_NotFound rw = (case fst rw of Inl e \<Rightarrow> IsNotFound e | Inr _ \<Rightarrow> False)"

definition child_gone ::
  "(Kode \<Rightarrow> string) \<Rightarrow> (Kode \<Rightarrow> bool) \<Rightarrow> (NamespacedName \<Rightarrow> 'w \<Rightarrow> (error + 'o) \<times> 'w)
    \<Rightarrow> Kode \<Rightarrow> 'w \<Rightarrow> bool" where
  "child_gone nameFunc skipCheck request k w \<longleftrightarrow>
     skipCheck k \<or> answers_NotFound (request (child_key k (nameFunc k)) w)"

definition all_gone :: "'w lib \<Rightarrow> Kode \<Rightarrow> 'w \<Rightarrow> bool" where
  "all_gone L k w \<longleftrightarrow>
     child_gone GetStatefulSetName (\<lambda>_. False) (lib_getStatefulSet L) k w \<and>
     child_gone GetSecretName (\<lambda>_. False) (lib_getSecret L) k w \<and>
     child_gone GetServiceName (\<lambda>_. False) (lib_getService L) k w \<and>
     child_gone GetPVCName (skip_PVC L) (lib_getPVC L) k w"

lemma has_port_iff: "has_port ports p \<longleftrightarrow> p \<in> sp_Port ` set ports"
  by (induction ports) auto

lemma all_pods_ready_iff:
  "all_pods_ready pods \<longleftrightarrow> (\<forall>p \<in> set pods. pod_StatusPhase p = ''Running'' \<and> isPodReady p)"
  by (induction pods) auto

lemma reads_pureD:
  assumes "reads_pure L"
  shows "snd (lib_getSecret L key w) = w" "snd (lib_getService L key w) = w"
    "snd (lib_getStatefulSet L key w) = w" "snd (lib_getPVC L key w) = w"
    "snd (lib_listPods L ns ls w) = w"
  using assms by (auto simp: reads_pure_def)

text \<open>
  A check whose only effect is one Get of the object \<open>key k\<close>: what it returns is a function \<open>v\<close> of
  the answer.
\<close>

lemma one_get_check:
  assumes check: "check = bind_go (gets_go kode) (\<lambda>k.
      bind_go (api_get kind (key k) (request (key k))) (\<lambda>r. (\<lambda>s. (v k r, s))))"
    and "\<And>k w. p \<Longrightarrow> snd (request (key k) w) = w"
    and "\<And>k w b. v k (fst (request (key k) w)) = Ret (Inr b) \<Longrightarrow> b = ready k w"
  shows "readiness_check p check ready"
proof
  fix s x t assume run: "check s = (x, t)"
  obtain u where u: "api_get kind (key (kode s)) (request (key (kode s))) s =
      (Ret (fst (request (key (kode s)) (world s))), u)" "only_reads p s u"
    using api_get_only_reads [of p "request (key (kode s))" s kind "key (kode s)"] assms(2) by blast
  from run u(1) have "t = u" "x = v (kode s) (fst (request (key (kode s)) (world s)))"
    by (simp_all add: check go_simps)
  then show "only_reads p s t \<and> (\<forall>b. p \<and> x = Ret (Inr b) \<longrightarrow> b = ready (kode s) (world s))"
    using u(2) assms(3) by simp
qed

interpretation secret_check: readiness_check "reads_pure L" "checkSecretReady L config"
  "secret_ready L" for L config
  by (rule one_get_check [where kind = KindSecret and request = "lib_getSecret L"
        and key = "\<lambda>k. child_key k (GetSecretName k)"
        and v = "\<lambda>k r. Ret (case r of
            Inl e \<Rightarrow> if IsNotFound e then Inr False else Inl (Wrapped ''failed to get Secret: '' e)
          | Inr secret \<Rightarrow> Inr (required_fields k secret))"])
    (auto simp: checkSecretReady_def secret_ready_def reads_pureD Let_def fun_eq_iff go_simps
      split: sum.splits prod.splits outcome.splits if_splits)

interpretation service_check: readiness_check "reads_pure L" "checkServiceReady L config"
  "service_ready L config" for L config
  by (rule one_get_check [where kind = KindService and request = "lib_getService L"
        and key = "\<lambda>k. child_key k (GetServiceName k)"
        and v = "\<lambda>k r. Ret (case r of
            Inl e \<Rightarrow> if IsNotFound e then Inr False else Inl (Wrapped ''failed to get Service: '' e)
          | Inr service \<Rightarrow> Inr (has_port (svcs_Ports (svc_Spec service)) (rc_Port config)))"])
    (auto simp: checkServiceReady_def service_ready_def reads_pureD Let_def fun_eq_iff go_simps
      has_port_iff split: sum.splits prod.splits outcome.splits if_splits)

interpretation statefulset_check: readiness_check "reads_pure L" "checkStatefulSetReady L config"
  "statefulset_ready L" for L config
  by (rule one_get_check [where kind = KindStatefulSet and request = "lib_getStatefulSet L"
        and key = "\<lambda>k. child_key k (GetStatefulSetName k)"
        and v = "\<lambda>k r. case r of
            Inl e \<Rightarrow> Ret (if IsNotFound e then Inr False
                          else Inl (Wrapped ''failed to get StatefulSet: '' e))
          | Inr ss \<Rightarrow> (case sts_Replicas (ss_Spec ss) of
                         None \<Rightarrow> Panic | Some n \<Rightarrow> Ret (Inr (ss_ReadyReplicas ss = n)))"])
    (auto simp: checkStatefulSetReady_def statefulset_ready_def reads_pureD Let_def fun_eq_iff
      go_simps deref_go_def split: sum.splits prod.splits outcome.splits if_splits option.splits)

interpretation gone_check: readiness_check
  "\<forall>key w. snd (request key w) = w" "check_gone kind nameFunc skipCheck request"
  "child_gone nameFunc skipCheck request" for request kind nameFunc skipCheck
proof
  fix s x t
  assume run: "check_gone kind nameFunc skipCheck request s = (x, t)"
  let ?p = "\<forall>key w. snd (request key w) = w" and ?k = "child_key (kode s) (nameFunc (kode s))"
  obtain u where u: "api_get kind ?k (request ?k) s = (Ret (fst (request ?k (world s))), u)"
    "only_reads ?p s u"
    using api_get_only_reads [of ?p "request ?k" s kind ?k] by blast
  show "only_reads ?p s t \<and> (\<forall>b. ?p \<and> x = Ret (Inr b) \<longrightarrow>
      b = child_gone nameFunc skipCheck request (kode s) (world s))"
    using run u by (auto simp: check_gone_def child_gone_def answers_NotFound_def Let_def go_simps
        split: if_splits sum.splits)
qed

interpretation pvc_check: readiness_check "reads_pure L" "checkPVCReady L config"
  "pvc_ready L" for L config
proof
  fix s x t
  assume run: "checkPVCReady L config s = (x, t)"
  let ?k = "child_key (kode s) (GetPVCName (kode s))"
  obtain u where u: "api_get KindPersistentVolumeClaim ?k (lib_getPVC L ?k) s =
      (Ret (fst (lib_getPVC L ?k (world s))), u)" "only_reads (reads_pure L) s u"
    using api_get_only_reads [of "reads_pure L" "lib_getPVC L ?k" s, OF reads_pureD(4)] by blast
  show "only_reads (reads_pure L) s t \<and>
      (\<forall>b. reads_pure L \<and> x = Ret (Inr b) \<longrightarrow> b = pvc_ready L (kode s) (world s))"
    using run u by (auto simp: checkPVCReady_def pvc_ready_def Let_def go_simps
        split: if_splits sum.splits option.splits)
qed

interpretation pods_check: readiness_check "reads_pure L" "checkPodsReady L config"
  "pods_ready L config" for L config
proof
  fix s x t
  assume run: "checkPodsReady L config s = (x, t)"
  let ?r = "fst (lib_listPods L (k_Namespace (kode s)) (config_labels config) (world s))"
  obtain u where u: "api_list_pods L (k_Namespace (kode s)) (config_labels config) s = (Ret ?r, u)"
    "only_reads (reads_pure L) s u"
    using api_list_only_reads [of "reads_pure L" L _ _ s, OF reads_pureD(5)] by blast
  show "only_reads (reads_pure L) s t \<and>
      (\<forall>b. reads_pure L \<and> x = Ret (Inr b) \<longrightarrow> b = pods_ready L config (kode s) (world s))"
    using run u by (auto simp: checkPodsReady_def pods_ready_def all_pods_ready_iff go_simps
        split: if_splits sum.splits)
qed

subsection \<open>The composed checks\<close>

interpretation resources_check: readiness_check "reads_pure L" "checkResourcesReady L config"
  "all_ready L config" for L config
proof -
  have "readiness_check (reads_pure L) (checkResourcesReady L config)
    (\<lambda>k w. secret_ready L k w \<and> service_ready L config k w \<and> statefulset_ready L k w \<and>
       pvc_ready L k w \<and> pods_ready L config k w \<and> True)"
    unfolding checkResourcesReady_def ComposeResourceChecks_def list.map
    by (intro secret_check.in_sequence service_check.in_sequence statefulset_check.in_sequence
        pvc_check.in_sequence pods_check.in_sequence no_checks)
  then show "readiness_check (reads_pure L) (checkResourcesReady L config) (all_ready L config)"
    by (simp add: all_ready_def [abs_def])
qed

lemma readiness_check_pure_mono:
  assumes "readiness_check p check ready" and "q \<Longrightarrow> p"
  shows "readiness_check q check ready"
proof
  fix s x t assume "check s = (x, t)"
  from readiness_check.run [OF assms(1) this] assms(2)
  show "only_reads q s t \<and> (\<forall>b. q \<and> x = Ret (Inr b) \<longrightarrow> b = ready (kode s) (world s))"
    by (auto simp: only_reads_def)
qed

interpretation deleted_check: readiness_check "reads_pure L" "checkResourcesDeleted L" "all_gone L"
  for L
proof -
  have gone: "readiness_check (reads_pure L) (check_gone kind name skip request)
      (child_gone name skip request)"
    if "reads_pure L \<Longrightarrow> \<forall>key w. snd (request key w) = w"
    for kind name skip and request :: "NamespacedName \<Rightarrow> 'a \<Rightarrow> (error + 'o) \<times> 'a"
    by (rule readiness_check_pure_mono [OF gone_check.readiness_check_axioms that])
  have "readiness_check (reads_pure L) (checkResourcesDeleted L)
    (\<lambda>k w. child_gone GetStatefulSetName (\<lambda>_. False) (lib_getStatefulSet L) k w \<and>
       child_gone GetSecretName (\<lambda>_. False) (lib_getSecret L) k w \<and>
       child_gone GetServiceName (\<lambda>_. False) (lib_getService L) k w \<and>
       child_gone GetPVCName (skip_PVC L) (lib_getPVC L) k w \<and> True)"
    unfolding checkResourcesDeleted_def
    by (intro readiness_check.in_sequence gone no_checks) (auto simp: reads_pureD)
  then show "readiness_check (reads_pure L) (checkResourcesDeleted L) (all_gone L)"
    by (simp add: all_gone_def [abs_def])
qed

lemmas keeps_checks [go_specs] = secret_check.keeps_check service_check.keeps_check
  statefulset_check.keeps_check pvc_check.keeps_check pods_check.keeps_check
  resources_check.keeps_check deleted_check.keeps_check

end
