(* ===== verification/Kode_Ensure.thy ===== *)
theory Kode_Ensure
  imports Kode_Object Kode_Constructors
begin

text \<open>
  The ensure functions of internal/controllers/kode (ensure_container_secret.go, _service.go,
  _statefulset.go, _pvc.go): each brings one child resource to the state the constructors describe,
  through \<open>CreateOrPatch\<close> with a mutate function that is modelled in full. The configuration of the
  Kode is passed on explicitly, because \<open>ensureSecret\<close> writes to it.
\<close>

subsection \<open>Owner references\<close>

definition SetControllerReference ::
  "'w lib \<Rightarrow> string list \<Rightarrow> (string list \<Rightarrow> 'o) \<Rightarrow> ('w st, error + 'o) go" where
  "SetControllerReference L owners build =
     bind_go (gets_go kode) (\<lambda>k.
       case lib_SetControllerReference L KindKode (kode_key k) owners of
         Inl e \<Rightarrow> return_go (Inl e)
       | Inr owners' \<Rightarrow> return_go (Inr (build owners')))"

subsection \<open>Secret\<close>

text \<open>
  \<^verbatim>\<open>config.Credentials.Username = username\<close> and the password: \<open>InitKodeResourcesConfig\<close> shares the
  credentials of the Kode with the configuration, so the assignment shows in the Kode in memory and
  in the copy of its spec, when the Kode has credentials.
\<close>

definition with_login :: "string \<Rightarrow> string \<Rightarrow> CredentialsSpec \<Rightarrow> CredentialsSpec" where
  "with_login username password cr = cr\<lparr>cr_Username := username, cr_Password := password\<rparr>"

definition spec_with_login :: "string \<Rightarrow> string \<Rightarrow> KodeSpec \<Rightarrow> KodeSpec" where
  "spec_with_login username password ks =
     ks\<lparr>ks_Credentials := map_option (with_login username password) (ks_Credentials ks)\<rparr>"

definition config_with_login :: "string \<Rightarrow> string \<Rightarrow> KodeResourceConfig \<Rightarrow> KodeResourceConfig" where
  "config_with_login username password config =
     config\<lparr>rc_Credentials := map_option (with_login username password) (rc_Credentials config),
            rc_KodeSpec := spec_with_login username password (rc_KodeSpec config)\<rparr>"

definition write_credentials ::
  "string \<Rightarrow> string \<Rightarrow> KodeResourceConfig \<Rightarrow> ('w st, KodeResourceConfig) go" where
  "write_credentials username password config =
     then_go (modify_go (\<lambda>s. s\<lparr>kode := (kode s)\<lparr>k_Spec :=
                spec_with_login username password (k_Spec (kode s))\<rparr>\<rparr>))
             (return_go (config_with_login username password config))"

definition mutate_secret :: "'w lib \<Rightarrow> KodeResourceConfig \<Rightarrow> Secret \<Rightarrow> ('w st, error + Secret) go" where
  "mutate_secret L config secret =
     bind_go (constructSecretSpec config) (\<lambda>r.
       case r of
         Inl e \<Rightarrow> return_go (Inl (ErrorText (''failed to construct Secret spec: '' @ Error e)))
       | Inr constructedSecret \<Rightarrow>
           let secret = secret\<lparr>sec_Data := sec_Data constructedSecret\<rparr> in
           SetControllerReference L (sec_Owners secret) (\<lambda>owners. secret\<lparr>sec_Owners := owners\<rparr>))"

definition ensureSecret ::
  "'w lib \<Rightarrow> KodeResourceConfig \<Rightarrow> ('w st, KodeResourceConfig \<times> error option) go" where
  "ensureSecret L config =
     bind_go (gets_go kode) (\<lambda>k.
       let key = NamespacedName (cc_Namespace (rc_CommonConfig config)) (GetSecretName k);
           secret = \<lparr>sec_Name = GetSecretName k, sec_Namespace = cc_Namespace (rc_CommonConfig config),
                     sec_Labels = config_labels config, sec_Owners = [], sec_Data = []\<rparr>
       in case rc_Credentials config of
            None \<Rightarrow> return_go (config, Some (ErrorText ''config.Credentials is nil''))
          | Some cr \<Rightarrow>
              if cr_ExistingSecret cr \<noteq> None then
                bind_go (api_get KindSecret key (lib_getSecret L key)) (\<lambda>r.
                  case r of
                    Inl e \<Rightarrow> return_go (config, Some (Wrapped ''failed to get Secret: '' e))
                  | Inr secret \<Rightarrow>
                      (case GetUsernameAndPasswordFromSecret secret of
                         Inl e \<Rightarrow> return_go (config,
                           Some (Wrapped ''failed to get username and password from Secret: '' e))
                       | Inr (username, password) \<Rightarrow>
                           bind_go (write_credentials username password config) (\<lambda>config'.
                             return_go (config', None))))
              else
                bind_go (CreateOrPatch L KindSecret key (lib_createOrPatchSecret L) secret
                           (mutate_secret L config)) (\<lambda>(_, err).
                  case err of
                    Some e \<Rightarrow> return_go (config,
                                Some (ErrorText (''failed to create or patch Secret: '' @ Error e)))
                  | None \<Rightarrow> return_go (config, None)))"

subsection \<open>Service\<close>

text \<open>The labels of the constructed service are empty, and they replace those of the object.\<close>

definition mutate_service :: "'w lib \<Rightarrow> KodeResourceConfig \<Rightarrow> Service \<Rightarrow> ('w st, error + Service) go" where
  "mutate_service L config service =
     (case constructServiceSpec config of
        Inl e \<Rightarrow> return_go (Inl (ErrorText (''failed to construct Service spec: '' @ Error e)))
      | Inr constructedService \<Rightarrow>
          let service = service\<lparr>svc_Spec := svc_Spec constructedService,
                                svc_Labels := svc_Labels constructedService\<rparr> in
          SetControllerReference L (svc_Owners service) (\<lambda>owners. service\<lparr>svc_Owners := owners\<rparr>))"

definition ensureService :: "'w lib \<Rightarrow> KodeResourceConfig \<Rightarrow> ('w st, error option) go" where
  "ensureService L config =
     bind_go (gets_go kode) (\<lambda>k.
       let key = NamespacedName (cc_Namespace (rc_CommonConfig config)) (GetServiceName k);
           service = \<lparr>svc_Name = GetServiceName k, svc_Namespace = cc_Namespace (rc_CommonConfig config),
                      svc_Labels = config_labels config, svc_Owners = [],
                      svc_Spec = \<lparr>svcs_Selector = [], svcs_Ports = []\<rparr>\<rparr>
       in bind_go (CreateOrPatch L KindService key (lib_createOrPatchService L) service
                     (mutate_service L config)) (\<lambda>(_, err).
            case err of
              Some e \<Rightarrow> return_go (Some (ErrorText (''failed to create or patch Service: '' @ Error e)))
            | None \<Rightarrow> return_go None))"

subsection \<open>StatefulSet\<close>

definition mutate_statefulset ::
  "'w lib \<Rightarrow> KodeResourceConfig \<Rightarrow> StatefulSet \<Rightarrow> StatefulSet \<Rightarrow> ('w st, error + StatefulSet) go" where
  "mutate_statefulset L config desired statefulSet =
     (let labels = (case ss_Labels statefulSet of None \<Rightarrow> [] | Some ls \<Rightarrow> ls);
          statefulSet = statefulSet\<lparr>ss_Spec := ss_Spec desired,
                                    ss_Labels := Some (merge_into labels (config_labels config))\<rparr>
      in SetControllerReference L (ss_Owners statefulSet)
           (\<lambda>owners. statefulSet\<lparr>ss_Owners := owners\<rparr>))"

definition ensureStatefulSet ::
  "'w lib \<Rightarrow> yaml_lib \<Rightarrow> KodeResourceConfig \<Rightarrow> ('w st, error option) go" where
  "ensureStatefulSet L Y config =
     bind_go (gets_go kode) (\<lambda>k.
     bind_go (constructStatefulSetSpec L Y k config) (\<lambda>r.
       case r of
         Inl e \<Rightarrow> return_go (Some (Wrapped ''failed to construct StatefulSet spec: '' e))
       | Inr desired \<Rightarrow>
           let statefulSet = \<lparr>ss_Name = GetStatefulSetName k, ss_Namespace = k_Namespace k,
                 ss_Labels = Some (config_labels config), ss_Owners = [],
                 ss_Spec = StatefulSetSpec_zero, ss_ReadyReplicas = 0\<rparr>
           in bind_go (CreateOrPatch L KindStatefulSet
                         (NamespacedName (k_Namespace k) (GetStatefulSetName k))
                         (lib_createOrPatchStatefulSet L) statefulSet
                         (mutate_statefulset L config desired)) (\<lambda>(_, err). return_go err)))"

subsection \<open>PersistentVolumeClaim\<close>

definition mutate_pvc_existing ::
  "'w lib \<Rightarrow> bool \<Rightarrow> PersistentVolumeClaim \<Rightarrow> PersistentVolumeClaim \<Rightarrow> PersistentVolumeClaim
    \<Rightarrow> ('w st, PersistentVolumeClaim) go" where
  "mutate_pvc_existing L resizeSupported constructed existing pvc =
     bind_go
       (if resizeSupported then
          if \<not> quantity_Equal (Requests_Storage (pvcs_Resources (pvc_Spec pvc)))
                 (Requests_Storage (pvcs_Resources (pvc_Spec constructed))) then
            then_go (record_event L EventTypeNormal ''PVCResizeAttempted''
                       (''Attempting to resize PVC '' @ pvc_Name pvc @ '' to '' @
                        q_text (Requests_Storage (pvcs_Resources (pvc_Spec constructed)))))
              (return_go (pvc\<lparr>pvc_Spec := (pvc_Spec pvc)
                 \<lparr>pvcs_Resources := pvcs_Resources (pvc_Spec constructed)\<rparr>\<rparr>))
          else return_go pvc
        else
          then_go (record_event L EventTypeWarning ''PVCResizeSkipped''
                     (''Skipped resizing PVC '' @ pvc_Name pvc @
                      '', CSI driver does not support volume expansion''))
            (return_go pvc))
       (\<lambda>pvc. return_go (pvc\<lparr>pvc_Labels := pvc_Labels constructed,
          pvc_Annotations := pvc_Annotations constructed,
          pvc_Spec := (pvc_Spec pvc)
            \<lparr>pvcs_AccessModes := pvcs_AccessModes (pvc_Spec existing),
             pvcs_VolumeName := pvcs_VolumeName (pvc_Spec existing),
             pvcs_VolumeMode := pvcs_VolumeMode (pvc_Spec existing),
             pvcs_StorageClassName := pvcs_StorageClassName (pvc_Spec existing),
             pvcs_Selector := pvcs_Selector (pvc_Spec existing)\<rparr>\<rparr>))"

definition mutate_pvc_new ::
  "'w lib \<Rightarrow> PersistentVolumeClaim \<Rightarrow> PersistentVolumeClaim \<Rightarrow> ('w st, PersistentVolumeClaim) go" where
  "mutate_pvc_new L constructed pvc =
     then_go (record_event L EventTypeNormal ''PVCCreated''
                (''Created new PVC '' @ pvc_Name pvc @ '' with size '' @
                 q_text (Requests_Storage (pvcs_Resources (pvc_Spec constructed)))))
             (return_go (pvc\<lparr>pvc_Spec := pvc_Spec constructed\<rparr>))"

definition mutate_pvc ::
  "'w lib \<Rightarrow> KodeResourceConfig \<Rightarrow> bool \<Rightarrow> PersistentVolumeClaim
    \<Rightarrow> ('w st, error + PersistentVolumeClaim) go" where
  "mutate_pvc L config resizeSupported pvc =
     bind_go (constructPVCSpec config) (\<lambda>r.
       case r of
         Inl e \<Rightarrow> return_go (Inl (ErrorText (''failed to construct PVC spec: '' @ Error e)))
       | Inr constructed \<Rightarrow>
           let key = NamespacedName (pvc_Namespace pvc) (pvc_Name pvc) in
           bind_go (api_get KindPersistentVolumeClaim key (lib_getPVC L key)) (\<lambda>g.
             let finish = (\<lambda>pvc.
                   let pvc = pvc\<lparr>pvc_Labels := pvc_Labels constructed,
                                 pvc_Annotations := pvc_Annotations constructed\<rparr> in
                   SetControllerReference L (pvc_Owners pvc) (\<lambda>owners. pvc\<lparr>pvc_Owners := owners\<rparr>))
             in case g of
                  Inr existing \<Rightarrow>
                    bind_go (mutate_pvc_existing L resizeSupported constructed existing pvc) finish
                | Inl e \<Rightarrow>
                    if IsNotFound e then bind_go (mutate_pvc_new L constructed pvc) finish
                    else return_go (Inl (ErrorText (''failed to get existing PVC: '' @ Error e)))))"

definition ensurePersistentVolumeClaim ::
  "'w lib \<Rightarrow> KodeResourceConfig \<Rightarrow> bool \<Rightarrow> ('w st, error option) go" where
  "ensurePersistentVolumeClaim L config resizeSupported =
     bind_go (gets_go kode) (\<lambda>k.
       case ks_Storage (rc_KodeSpec config) of
         None \<Rightarrow> return_go None
       | Some storage \<Rightarrow>
           (case st_ExistingVolumeClaim storage of
              Some claim \<Rightarrow>
                then_go (record_event L EventTypeNormal ''ExistingPVCUsed''
                           (''Using existing PVC '' @ claim @ '' for Kode '' @ k_Name k))
                        (return_go None)
            | None \<Rightarrow>
                let ns = cc_Namespace (rc_CommonConfig config);
                    pvc = \<lparr>pvc_Name = GetPVCName k, pvc_Namespace = ns,
                           pvc_Labels = config_labels config, pvc_Annotations = [],
                           pvc_Owners = [], pvc_Spec = PVCSpec_zero, pvc_StatusPhase = ''''\<rparr>
                in bind_go (CreateOrPatch L KindPersistentVolumeClaim
                              (NamespacedName ns (GetPVCName k)) (lib_createOrPatchPVC L) pvc
                              (mutate_pvc L config resizeSupported)) (\<lambda>(_, err).
                     case err of
                       Some e \<Rightarrow>
                         return_go (Some (ErrorText (''failed to create or patch PVC: '' @ Error e)))
                     | None \<Rightarrow> return_go None)))"

end
