(* ===== verification/Kode_Configure.thy ===== *)
theory Kode_Configure
  imports Kode_Ensure
begin

text \<open>
  internal/controllers/kode/configure_resources.go: which child resources differ from what the
  constructors describe, and applying the configuration to those. The Go map \<^verbatim>\<open>changes\<close> is used as a
  set; it is the list of its keys.
\<close>

subsection \<open>Detecting changes\<close>

definition mark :: "string \<Rightarrow> string list \<Rightarrow> string list" where
  "mark key changes = (if key \<in> set changes then changes else changes @ [key])"

definition detectSecretChanges ::
  "'w lib \<Rightarrow> KodeResourceConfig \<Rightarrow> string list \<Rightarrow> ('w st, error + string list) go" where
  "detectSecretChanges L config changes =
     bind_go (gets_go kode) (\<lambda>k.
       let key = NamespacedName (k_Namespace k) (GetSecretName k) in
       bind_go (api_get KindSecret key (lib_getSecret L key)) (\<lambda>r.
         case r of
           Inl e \<Rightarrow> if IsNotFound e then return_go (Inr (mark ''secret'' changes))
                    else return_go (Inl e)
         | Inr existing \<Rightarrow>
             bind_go (deref_go (rc_Credentials config)) (\<lambda>cr.
               if \<not> map_eq (sec_Data existing) (secret_data cr)
               then return_go (Inr (mark ''secret'' changes))
               else return_go (Inr changes))))"

definition detectServiceChanges ::
  "'w lib \<Rightarrow> KodeResourceConfig \<Rightarrow> string list \<Rightarrow> ('w st, error + string list) go" where
  "detectServiceChanges L config changes =
     bind_go (gets_go kode) (\<lambda>k.
       let key = NamespacedName (k_Namespace k) (GetServiceName k) in
       bind_go (api_get KindService key (lib_getService L key)) (\<lambda>r.
         case r of
           Inl e \<Rightarrow> if IsNotFound e then return_go (Inr (mark ''service'' changes))
                    else return_go (Inl e)
         | Inr existing \<Rightarrow>
             (case constructServiceSpec config of
                Inl e \<Rightarrow> return_go (Inl e)
              | Inr desired \<Rightarrow>
                  let changes = (if svcs_Ports (svc_Spec existing) \<noteq> svcs_Ports (svc_Spec desired)
                                 then mark ''service'' changes else changes);
                      changes = (if \<not> map_eq (svcs_Selector (svc_Spec existing))
                                        (svcs_Selector (svc_Spec desired))
                                 then mark ''service'' changes else changes)
                  in return_go (Inr changes))))"

text \<open>
  The loop over two lists of containers in step; positions beyond the desired containers are skipped.
\<close>

fun image_mismatch :: "Container list \<Rightarrow> Container list \<Rightarrow> bool" where
  "image_mismatch [] ds = False"
| "image_mismatch (e # es) [] = image_mismatch es []"
| "image_mismatch (e # es) (d # ds) =
     (if c_Image e \<noteq> c_Image d then True else image_mismatch es ds)"

text \<open>The loop over the pods: a pod with a mismatched image is deleted; an error of that is only logged.\<close>

fun check_pods ::
  "'w lib \<Rightarrow> Container list \<Rightarrow> Pod list \<Rightarrow> string list \<Rightarrow> ('w st, string list) go" where
  "check_pods L desired [] changes = return_go changes"
| "check_pods L desired (pod # rest) changes =
     (if image_mismatch (pod_Containers pod) desired then
        then_go (api_delete L KindPod (NamespacedName (pod_Namespace pod) (pod_Name pod)))
                (check_pods L desired rest (mark ''statefulset'' changes))
      else check_pods L desired rest changes)"

definition detectStatefulSetChanges ::
  "'w lib \<Rightarrow> yaml_lib \<Rightarrow> KodeResourceConfig \<Rightarrow> string list \<Rightarrow> ('w st, error + string list) go" where
  "detectStatefulSetChanges L Y config changes =
     bind_go (gets_go kode) (\<lambda>k.
       let key = NamespacedName (k_Namespace k) (GetStatefulSetName k) in
       bind_go (api_get KindStatefulSet key (lib_getStatefulSet L key)) (\<lambda>r.
         case r of
           Inl e \<Rightarrow> if IsNotFound e then return_go (Inr (mark ''statefulset'' changes))
                    else return_go (Inl e)
         | Inr existing \<Rightarrow>
             bind_go (constructStatefulSetSpec L Y k config) (\<lambda>d.
               case d of
                 Inl e \<Rightarrow> return_go (Inl e)
               | Inr desiredSet \<Rightarrow>
                   let template = sts_Template (ss_Spec existing);
                       desired = sts_Template (ss_Spec desiredSet);
                       changes = (if image_mismatch (pt_Containers template) (pt_Containers desired)
                                  then mark ''statefulset'' changes else changes);
                       existingHash = data_lookup (pt_Annotations template) pod_template_hash_key;
                       desiredHash = data_lookup (pt_Annotations desired) pod_template_hash_key;
                       changes = (if existingHash \<noteq> desiredHash
                                  then mark ''statefulset'' changes else changes)
                   in bind_go (api_list_pods L (k_Namespace k) (config_labels config)) (\<lambda>p.
                        case p of
                          Inl e \<Rightarrow> return_go (Inl e)
                        | Inr pods \<Rightarrow>
                            bind_go (check_pods L (pt_Containers desired) pods changes) (\<lambda>changes.
                              return_go (Inr changes))))))"

definition detectPVCChanges ::
  "'w lib \<Rightarrow> KodeResourceConfig \<Rightarrow> string list \<Rightarrow> ('w st, error + string list) go" where
  "detectPVCChanges L config changes =
     bind_go (gets_go kode) (\<lambda>k.
     bind_go (deref_go (ks_Storage (rc_KodeSpec config))) (\<lambda>storage.
       if st_ExistingVolumeClaim storage \<noteq> None then return_go (Inr changes)
       else
         let key = NamespacedName (k_Namespace k) (GetPVCName k) in
         bind_go (api_get KindPersistentVolumeClaim key (lib_getPVC L key)) (\<lambda>r.
           case r of
             Inl e \<Rightarrow> if IsNotFound e then return_go (Inr (mark ''pvc'' changes))
                      else return_go (Inl e)
           | Inr existing \<Rightarrow>
               bind_go (constructPVCSpec config) (\<lambda>d.
                 case d of
                   Inl e \<Rightarrow> return_go (Inl e)
                 | Inr desired \<Rightarrow>
                     let have = pvc_Spec existing; want = pvc_Spec desired;
                         changes = (if \<not> quantity_Equal (Requests_Storage (pvcs_Resources have))
                                           (Requests_Storage (pvcs_Resources want))
                                    then mark ''pvc'' changes else changes);
                         changes = (if pvcs_AccessModes have \<noteq> pvcs_AccessModes want
                                    then mark ''pvc'' changes else changes);
                         changes = (case pvcs_StorageClassName want of
                                      None \<Rightarrow> changes
                                    | Some cls \<Rightarrow>
                                        if pvcs_StorageClassName have \<noteq> Some cls
                                        then mark ''pvc'' changes else changes)
                     in return_go (Inr changes)))))"

text \<open>The first loop of \<open>detectChanges\<close>, over the table of detectors.\<close>

fun run_detectors ::
  "(string list \<Rightarrow> ('w st, error + string list) go) list \<Rightarrow> string list
    \<Rightarrow> ('w st, error + string list) go" where
  "run_detectors [] changes = return_go (Inr changes)"
| "run_detectors (detect # rest) changes =
     bind_go (detect changes) (\<lambda>r.
       case r of Inl e \<Rightarrow> return_go (Inl e) | Inr changes \<Rightarrow> run_detectors rest changes)"

definition detectChanges ::
  "'w lib \<Rightarrow> yaml_lib \<Rightarrow> KodeResourceConfig \<Rightarrow> ('w st, error + string list) go" where
  "detectChanges L Y config =
     bind_go (run_detectors
                [detectSecretChanges L config, detectServiceChanges L config,
                 detectStatefulSetChanges L Y config] []) (\<lambda>r.
       case r of
         Inl e \<Rightarrow> return_go (Inl e)
       | Inr changes \<Rightarrow>
           bind_go (gets_go kode) (\<lambda>k.
             if \<not> IsEmpty (ks_Storage (k_Spec k)) then
               bind_go (detectPVCChanges L config changes) (\<lambda>p.
                 case p of Inl e \<Rightarrow> return_go (Inl e) | Inr changes \<Rightarrow> return_go (Inr changes))
             else return_go (Inr changes)))"

subsection \<open>Applying the configuration\<close>

definition apply_pvc ::
  "'w lib \<Rightarrow> KodeResourceConfig \<Rightarrow> string list \<Rightarrow> ('w st, error option) go" where
  "apply_pvc L config changes =
     bind_go (gets_go kode) (\<lambda>k.
       if \<not> IsEmpty (ks_Storage (k_Spec k)) then
         if ''pvc'' \<in> set changes then
           bind_go (ensurePersistentVolumeClaim L config True) (\<lambda>err.
             case err of
               Some e \<Rightarrow> return_go (Some (Wrapped ''failed to ensure PersistentVolumeClaim: '' e))
             | None \<Rightarrow> return_go None)
         else return_go None
       else return_go None)"

definition apply_statefulset ::
  "'w lib \<Rightarrow> yaml_lib \<Rightarrow> KodeResourceConfig \<Rightarrow> string list \<Rightarrow> ('w st, error option) go" where
  "apply_statefulset L Y config changes =
     (if ''statefulset'' \<in> set changes then
        bind_go (ensureStatefulSet L Y config) (\<lambda>err.
          case err of
            Some e \<Rightarrow> return_go (Some (Wrapped ''failed to ensure StatefulSet: '' e))
          | None \<Rightarrow> return_go None)
      else return_go None)"

definition apply_service ::
  "'w lib \<Rightarrow> KodeResourceConfig \<Rightarrow> string list \<Rightarrow> ('w st, error option) go" where
  "apply_service L config changes =
     (if ''service'' \<in> set changes then
        bind_go (ensureService L config) (\<lambda>err.
          case err of
            Some e \<Rightarrow> return_go (Some (Wrapped ''failed to ensure Service: '' e))
          | None \<Rightarrow> return_go None)
      else return_go None)"

definition apply_secret ::
  "'w lib \<Rightarrow> KodeResourceConfig \<Rightarrow> string list \<Rightarrow> ('w st, KodeResourceConfig \<times> error option) go" where
  "apply_secret L config changes =
     (if ''secret'' \<in> set changes then
        bind_go (ensureSecret L config) (\<lambda>(config', err).
          case err of
            Some e \<Rightarrow> return_go (config', Some (Wrapped ''failed to ensure Secret: '' e))
          | None \<Rightarrow> return_go (config', None))
      else return_go (config, None))"

text \<open>
  The four steps in the order of the source; the result carries the configuration as
  \<open>ensureSecret\<close> left it.
\<close>

definition applyConfiguration ::
  "'w lib \<Rightarrow> yaml_lib \<Rightarrow> KodeResourceConfig \<Rightarrow> string list
    \<Rightarrow> ('w st, KodeResourceConfig \<times> error option) go" where
  "applyConfiguration L Y config changes =
     bind_go (apply_secret L config changes) (\<lambda>(config, err).
       case err of Some e \<Rightarrow> return_go (config, Some e) | None \<Rightarrow>
     bind_go (apply_service L config changes) (\<lambda>err.
       case err of Some e \<Rightarrow> return_go (config, Some e) | None \<Rightarrow>
     bind_go (apply_statefulset L Y config changes) (\<lambda>err.
       case err of Some e \<Rightarrow> return_go (config, Some e) | None \<Rightarrow>
     bind_go (apply_pvc L config changes) (\<lambda>err. return_go (config, err)))))"

end
