(* ===== verification/Kode_Validate.thy ===== *)
theory Kode_Validate
  imports Kode_Object Kode_Constructors
begin

text \<open>
  internal/controllers/kode/validate_resources.go: the child resources are read back and compared
  with the configuration. A Go computation, because the messages of two error paths dereference
  pointers.
\<close>

subsection \<open>Helper functions\<close>

fun hasRequiredLabels :: "labels \<Rightarrow> labels \<Rightarrow> bool" where
  "hasRequiredLabels actual [] = True"
| "hasRequiredLabels actual ((key, val) # rest) =
     (if map_of actual key \<noteq> Some val then False else hasRequiredLabels actual rest)"

definition hasMatchingAccessModes :: "string list \<Rightarrow> string list \<Rightarrow> bool" where
  "hasMatchingAccessModes actual required =
     (if length actual \<noteq> length required then False
      else list_all (\<lambda>mode. mode \<in> set actual) required)"

definition the_list :: "string list option \<Rightarrow> string list" where
  "the_list x = (case x of None \<Rightarrow> [] | Some xs \<Rightarrow> xs)"

subsection \<open>The validations\<close>

definition validateSecret :: "'w lib \<Rightarrow> KodeResourceConfig \<Rightarrow> ('w st, error option) go" where
  "validateSecret L config =
     bind_go (gets_go kode) (\<lambda>k.
       let key = NamespacedName (k_Namespace k) (GetSecretName k) in
       bind_go (api_get KindSecret key (lib_getSecret L key)) (\<lambda>r.
         case r of
           Inl e \<Rightarrow> return_go (Some (Wrapped ''failed to get Secret: '' e))
         | Inr secret \<Rightarrow>
             return_go
               (if map_of (sec_Data secret) ''username'' = None then
                  Some (ErrorText ''secret missing required field: username'')
                else if (case ks_Credentials (k_Spec k) of None \<Rightarrow> False
                         | Some cr \<Rightarrow> cr_EnableBuiltinAuth cr) \<and>
                     map_of (sec_Data secret) ''password'' = None then
                  Some (ErrorText (''secret missing required field: password '' @
                                   ''(required when EnableBuiltinAuth is true)''))
                else if \<not> hasRequiredLabels (sec_Labels secret) (config_labels config) then
                  Some (ErrorText ''secret missing required labels'')
                else None)))"

text \<open>The loop over the labels of the configuration, in the order a Go map is ranged over.\<close>

fun check_selectors :: "labels \<Rightarrow> labels \<Rightarrow> string list \<Rightarrow> error option" where
  "check_selectors selector required [] = None"
| "check_selectors selector required (key # rest) =
     (let val = data_lookup required key in
      if map_of selector key \<noteq> Some val then
        Some (ErrorText (''service missing or has incorrect selector: '' @ key @ ''='' @ val))
      else check_selectors selector required rest)"

definition validateService :: "'w lib \<Rightarrow> KodeResourceConfig \<Rightarrow> ('w st, error option) go" where
  "validateService L config =
     bind_go (gets_go kode) (\<lambda>k.
       let key = NamespacedName (k_Namespace k) (GetServiceName k) in
       bind_go (api_get KindService key (lib_getService L key)) (\<lambda>r.
         case r of
           Inl e \<Rightarrow> return_go (Some (Wrapped ''failed to get Service: '' e))
         | Inr service \<Rightarrow>
             return_go
               (if \<not> list_ex (\<lambda>port. sp_Port port = rc_Port config) (svcs_Ports (svc_Spec service)) then
                  Some (ErrorText (''service missing required port: '' @ itoa (sint (rc_Port config))))
                else check_selectors (svcs_Selector (svc_Spec service)) (config_labels config)
                       (lib_mapRange L (map fst (config_labels config))))))"

text \<open>
  The message about the replica count prints a pointer with \<^verbatim>\<open>%d\<close>: an address, which is left out of
  the modelled text.
\<close>

definition validateStatefulSet :: "'w lib \<Rightarrow> KodeResourceConfig \<Rightarrow> ('w st, error option) go" where
  "validateStatefulSet L config =
     bind_go (gets_go kode) (\<lambda>k.
       let key = NamespacedName (k_Namespace k) (GetStatefulSetName k) in
       bind_go (api_get KindStatefulSet key (lib_getStatefulSet L key)) (\<lambda>r.
         case r of
           Inl e \<Rightarrow> return_go (Some (Wrapped ''failed to get StatefulSet: '' e))
         | Inr ss \<Rightarrow>
             if sts_Replicas (ss_Spec ss) \<noteq> Some 1 then
               return_go (Some (ErrorText ''statefulset has incorrect replica count: expected 1, got ''))
             else
               (case pt_Containers (sts_Template (ss_Spec ss)) of
                  [] \<Rightarrow> return_go (Some (ErrorText ''statefulset has no containers configured''))
                | mainContainer # _ \<Rightarrow>
                    bind_go (deref_go (rc_Template config)) (\<lambda>template.
                    bind_go (deref_go (t_ContainerTemplateSpec template)) (\<lambda>spec.
                      if c_Image mainContainer \<noteq> ct_Image spec then
                        return_go (Some (ErrorText (''container has incorrect image: expected '' @
                          ct_Image spec @ '', got '' @ c_Image mainContainer)))
                      else if ks_Storage (rc_KodeSpec config) \<noteq> None \<and>
                          \<not> list_ex (\<lambda>m. vm_Name m = ''kode-storage'') (c_VolumeMounts mainContainer) then
                        return_go (Some (ErrorText ''container missing required storage volume mount''))
                      else return_go None)))))"

text \<open>
  The error message of a wrong storage class dereferences the actual class: with no class on the
  claim, the function panics instead of returning the error.
\<close>

definition validatePVC :: "'w lib \<Rightarrow> KodeResourceConfig \<Rightarrow> ('w st, error option) go" where
  "validatePVC L config =
     bind_go (gets_go kode) (\<lambda>k.
     bind_go (deref_go (ks_Storage (rc_KodeSpec config))) (\<lambda>storage.
       if st_ExistingVolumeClaim storage \<noteq> None then return_go None
       else
         let key = NamespacedName (k_Namespace k) (GetPVCName k) in
         bind_go (api_get KindPersistentVolumeClaim key (lib_getPVC L key)) (\<lambda>r.
           case r of
             Inl e \<Rightarrow> return_go (Some (Wrapped ''failed to get PVC: '' e))
           | Inr pvc \<Rightarrow>
               let actual = pvcs_StorageClassName (pvc_Spec pvc);
                   rest =
                     (if \<not> hasMatchingAccessModes (the_list (pvcs_AccessModes (pvc_Spec pvc)))
                            (the_list (st_AccessModes storage)) then
                        Some (ErrorText ''pvc has incorrect access modes'')
                      else
                        (case st_Resources storage of
                           None \<Rightarrow> None
                         | Some resources \<Rightarrow>
                             let requestedSize = Requests_Storage resources;
                                 actualSize = Requests_Storage (pvcs_Resources (pvc_Spec pvc))
                             in if q_amount requestedSize \<noteq> q_amount actualSize then
                                  Some (ErrorText (''pvc has incorrect storage size: expected '' @
                                    q_text requestedSize @ '', got '' @ q_text actualSize))
                                else None))
               in (case st_StorageClassName storage of
                     Some cls \<Rightarrow>
                       if actual \<noteq> Some cls then
                         bind_go (deref_go actual) (\<lambda>got.
                           return_go (Some (ErrorText (''pvc has incorrect storage class: expected '' @
                             cls @ '', got '' @ got))))
                       else return_go rest
                   | None \<Rightarrow> return_go rest))))"

definition validateConfiguration :: "'w lib \<Rightarrow> KodeResourceConfig \<Rightarrow> ('w st, error option) go" where
  "validateConfiguration L config =
     bind_go (validateSecret L config) (\<lambda>err.
       case err of Some e \<Rightarrow> return_go (Some (Wrapped ''secret validation failed: '' e)) | None \<Rightarrow>
     bind_go (validateService L config) (\<lambda>err.
       case err of Some e \<Rightarrow> return_go (Some (Wrapped ''service validation failed: '' e)) | None \<Rightarrow>
     bind_go (validateStatefulSet L config) (\<lambda>err.
       case err of Some e \<Rightarrow> return_go (Some (Wrapped ''statefulset validation failed: '' e)) | None \<Rightarrow>
     (if ks_Storage (rc_KodeSpec config) \<noteq> None then
        bind_go (validatePVC L config) (\<lambda>err.
          case err of Some e \<Rightarrow> return_go (Some (Wrapped ''pvc validation failed: '' e))
          | None \<Rightarrow> return_go None)
      else return_go None))))"

end
