(* ===== verification/Kode_Frame.thy ===== *)
theory Kode_Frame
  imports Template_Manager Kode_Check Kode_Configure Kode_Validate
begin

text \<open>
  What the operations of a handler leave alone. An assertion is \<open>calm\<close> if it survives everything the
  operator does to child resources and to the status short of changing the phase or the retry count:
  reading, sending the status in memory, caching a template, setting a condition, changing the status
  apart from phase, conditions and retry count, writing fetched credentials, creating or patching a
  child, deleting a pod. Every operation below the handlers keeps every calm assertion, which is
  proved here once for each of them. More finely, \<open>tame K\<close> asks for the objects in \<open>K\<close> only to be
  created or patched. An assertion that \<open>recounts\<close> survives a change of the retry count as well.
\<close>

definition tame :: "(ObjKind \<times> NamespacedName) set \<Rightarrow> ('w st \<Rightarrow> bool) \<Rightarrow> bool" where
  "tame K I \<longleftrightarrow>
     read_closed I \<and> patch_closed I \<and> cache_closed I \<and>
     (\<forall>s t. I s \<and> Phase_of t = Phase_of (k_Status (kode s)) \<and>
        Conditions t = Conditions (k_Status (kode s)) \<and> RetryCount t = RetryCount (k_Status (kode s)) \<longrightarrow>
        I (s\<lparr>kode := (kode s)\<lparr>k_Status := t\<rparr>\<rparr>)) \<and>
     (\<forall>s n t st re m. I s \<longrightarrow> I (s\<lparr>kode := k_SetCondition n t st re m (kode s)\<rparr>)) \<and>
     (\<forall>s u p. I s \<longrightarrow> I (s\<lparr>kode := (kode s)\<lparr>k_Spec := spec_with_login u p (k_Spec (kode s))\<rparr>\<rparr>)) \<and>
     (\<forall>s kind key. I s \<and> (kind, key) \<in> K \<longrightarrow>
        I (s\<lparr>reqlog := reqlog s @ [ReqCreateOrPatch kind key]\<rparr>)) \<and>
     (\<forall>s key b. I s \<longrightarrow> I (s\<lparr>reqlog := reqlog s @ [ReqDelete KindPod key b]\<rparr>))"

abbreviation calm :: "('w st \<Rightarrow> bool) \<Rightarrow> bool" where
  "calm \<equiv> tame UNIV"

lemma calmD:
  assumes "tame K I"
  shows "read_closed I" "patch_closed I" "cache_closed I"
    and "I s \<Longrightarrow> Phase_of t = Phase_of (k_Status (kode s)) \<Longrightarrow>
      Conditions t = Conditions (k_Status (kode s)) \<Longrightarrow> RetryCount t = RetryCount (k_Status (kode s)) \<Longrightarrow>
      I (s\<lparr>kode := (kode s)\<lparr>k_Status := t\<rparr>\<rparr>)"
    and "I s \<Longrightarrow> I (s\<lparr>kode := (kode s)\<lparr>k_Spec := spec_with_login u p (k_Spec (kode s))\<rparr>\<rparr>)"
    and "I s \<Longrightarrow> (kind, key) \<in> K \<Longrightarrow> I (s\<lparr>reqlog := reqlog s @ [ReqCreateOrPatch kind key]\<rparr>)"
    and "I s \<Longrightarrow> I (s\<lparr>reqlog := reqlog s @ [ReqDelete KindPod key b]\<rparr>)"
    and "I s \<Longrightarrow> I (s\<lparr>kode := k_SetCondition n ct st re m (kode s)\<rparr>)"
  using assms by (auto simp: tame_def)

lemmas tame_closed = calmD(1-3)

definition recounts :: "('w st \<Rightarrow> bool) \<Rightarrow> bool" where
  "recounts I \<longleftrightarrow>
     (\<forall>s n. I s \<longrightarrow> I (s\<lparr>kode := (kode s)\<lparr>k_Status := (k_Status (kode s))\<lparr>RetryCount := n\<rparr>\<rparr>\<rparr>))"

lemma keeps_recount:
  "recounts I \<Longrightarrow> (\<And>t. f t = t\<lparr>RetryCount := g t\<rparr>) \<Longrightarrow> keeps I (modify_status f)"
  unfolding modify_status_def by (rule triple_modify) (simp add: recounts_def)

lemma recounts_conj: "recounts I \<Longrightarrow> recounts J \<Longrightarrow> recounts (\<lambda>s. I s \<and> J s)"
  by (simp add: recounts_def)

lemma recounts_phase: "recounts (\<lambda>s. GetPhase (kode s) = p)"
  by (simp add: recounts_def GetPhase_def)

lemma tame_conj: "tame K I \<Longrightarrow> tame K J \<Longrightarrow> tame K (\<lambda>s. I s \<and> J s)"
  by (simp add: tame_def read_closed_def patch_closed_def cache_closed_def)

subsection \<open>Status changes\<close>

lemma tame_modify_status:
  "tame K I \<Longrightarrow> (\<And>t. Phase_of (f t) = Phase_of t \<and> Conditions (f t) = Conditions t \<and>
     RetryCount (f t) = RetryCount t) \<Longrightarrow> keeps I (modify_status f)"
  unfolding modify_status_def by (rule triple_modify) (simp add: calmD(4))

lemma tame_set_condition: "tame K I \<Longrightarrow> keeps I (set_condition L t st re m)"
  unfolding set_condition_def
  by (rule triple_modify) (simp add: calmD(8))

lemma tame_UpdateStatus: "lawful L \<Longrightarrow> tame K I \<Longrightarrow> keeps I (UpdateStatus L)"
  by (intro keeps_UpdateStatus tame_closed)

lemma tame_SetRuntime: "lawful L \<Longrightarrow> tame K I \<Longrightarrow> keeps I (SetRuntime L rt)"
  unfolding SetRuntime_def by (intro go_rules tame_modify_status tame_UpdateStatus) simp_all

lemma tame_record_event: "tame K I \<Longrightarrow> keeps I (record_event L et re m)"
  by (intro keeps_record_event tame_closed)

lemma tame_api_get: "tame K I \<Longrightarrow> keeps I (api_get kind key f)"
  by (intro keeps_api_get tame_closed)

lemma tame_Fetch: "lawful L \<Longrightarrow> tame K I \<Longrightarrow> keeps I (Fetch L ref)"
  by (intro keeps_Fetch tame_closed)

lemmas tame_checks =
  calmD(1) [THEN secret_check.keeps_check] calmD(1) [THEN service_check.keeps_check]
  calmD(1) [THEN statefulset_check.keeps_check] calmD(1) [THEN pvc_check.keeps_check]
  calmD(1) [THEN pods_check.keeps_check] calmD(1) [THEN resources_check.keeps_check]
  calmD(1) [THEN deleted_check.keeps_check]

lemmas tame_basic = tame_set_condition tame_UpdateStatus tame_SetRuntime tame_record_event
  tame_api_get tame_Fetch tame_checks

subsection \<open>Ensuring\<close>

lemma tame_SetControllerReference: "keeps I (SetControllerReference L owners build)"
  unfolding SetControllerReference_def by (intro go_rules) simp_all

lemma tame_CreateOrPatch:
  assumes "create_or_patch_law C" and "tame K I" and "(kind, key) \<in> K" and "\<And>x. keeps I (f x)"
  shows "keeps I (CreateOrPatch L kind key C obj f)"
proof -
  have "keeps I (C obj f)"
    using assms(1,4) calmD(1) [OF assms(2)]
    by (auto simp: create_or_patch_law_def read_closed_world_free)
  moreover have "keeps I (log_request (ReqCreateOrPatch kind key))"
    unfolding log_request_def by (rule triple_modify) (simp add: calmD(6) [OF assms(2)] assms(3))
  ultimately show ?thesis
    unfolding CreateOrPatch_def by (intro go_rules) simp_all
qed

lemma lawful_create_or_patch:
  assumes "lawful L"
  shows "create_or_patch_law (lib_createOrPatchSecret L)"
    "create_or_patch_law (lib_createOrPatchService L)"
    "create_or_patch_law (lib_createOrPatchStatefulSet L)"
    "create_or_patch_law (lib_createOrPatchPVC L)"
  using assms by (auto simp: lawful_def)

lemma tame_write_credentials: "tame K I \<Longrightarrow> keeps I (write_credentials u p config)"
  unfolding write_credentials_def by (intro go_rules triple_modify) (simp_all add: calmD(5))

lemma tame_mutate_secret: "keeps I (mutate_secret L config x)"
  unfolding mutate_secret_def Let_def
  by (intro go_rules keeps_constructSecretSpec tame_SetControllerReference) simp_all

lemma tame_mutate_service: "keeps I (mutate_service L config x)"
  unfolding mutate_service_def Let_def
  by (intro go_rules tame_SetControllerReference) simp_all

lemma tame_mutate_statefulset: "keeps I (mutate_statefulset L config desired x)"
  unfolding mutate_statefulset_def Let_def by (rule tame_SetControllerReference)

lemma tame_mutate_pvc: "tame K I \<Longrightarrow> keeps I (mutate_pvc L config b x)"
  unfolding mutate_pvc_def mutate_pvc_existing_def mutate_pvc_new_def Let_def
  by (intro go_rules keeps_constructPVCSpec tame_SetControllerReference tame_api_get
      tame_record_event) simp_all

text \<open>
  The objects that ensuring a configuration may write, for the Kode in memory: never the secret nor
  the claim that the user brought along.
\<close>

definition may_write :: "(ObjKind \<times> NamespacedName) set \<Rightarrow> KodeResourceConfig \<Rightarrow> Kode \<Rightarrow> bool" where
  "may_write K config k \<longleftrightarrow>
     (let ns = cc_Namespace (rc_CommonConfig config) in
      (\<forall>cr. rc_Credentials config = Some cr \<and> cr_ExistingSecret cr = None \<longrightarrow>
         (KindSecret, NamespacedName ns (GetSecretName k)) \<in> K) \<and>
      (KindService, NamespacedName ns (GetServiceName k)) \<in> K \<and>
      (KindStatefulSet, NamespacedName (k_Namespace k) (GetStatefulSetName k)) \<in> K \<and>
      (\<forall>storage. ks_Storage (rc_KodeSpec config) = Some storage \<and> st_ExistingVolumeClaim storage = None \<longrightarrow>
         (KindPersistentVolumeClaim, NamespacedName ns (GetPVCName k)) \<in> K))"

definition may_write_in ::
  "(ObjKind \<times> NamespacedName) set \<Rightarrow> ('w st \<Rightarrow> bool) \<Rightarrow> KodeResourceConfig \<Rightarrow> bool" where
  "may_write_in K I config \<longleftrightarrow> (\<forall>s. I s \<longrightarrow> may_write K config (kode s))"

lemma may_write_UNIV: "may_write UNIV config k"
  by (simp add: may_write_def)

lemma may_write_in_UNIV: "may_write_in UNIV I config"
  by (simp add: may_write_in_def may_write_UNIV)

lemma may_write_login: "may_write K (config_with_login u p config) k = may_write K config k"
  by (cases "rc_Credentials config")
    (simp_all add: may_write_def config_with_login_def spec_with_login_def with_login_def)

lemma may_writeD: "may_write_in K I config \<Longrightarrow> I s \<Longrightarrow> may_write K config (kode s)"
  by (simp add: may_write_in_def)

lemma tame_ensure:
  assumes L: "lawful L" and I: "tame K I" and w: "may_write_in K I config"
  shows "keeps I (ensureSecret L config)" "keeps I (ensureService L config)"
    "keeps I (ensureStatefulSet L Y config)" "keeps I (ensurePersistentVolumeClaim L config b)"
proof -
  note rules = tame_api_get [OF I] tame_write_credentials [OF I] tame_record_event [OF I]
    lawful_create_or_patch [OF L] tame_mutate_secret tame_mutate_service tame_mutate_statefulset
    tame_mutate_pvc [OF I] keeps_constructStatefulSetSpec tame_CreateOrPatch [OF _ I]
  show "keeps I (ensureSecret L config)" "keeps I (ensureService L config)"
    "keeps I (ensureStatefulSet L Y config)" "keeps I (ensurePersistentVolumeClaim L config b)"
    unfolding ensureSecret_def ensureService_def ensureStatefulSet_def
      ensurePersistentVolumeClaim_def Let_def
    by (rule keeps_gets_bind, drule may_writeD [OF w], intro go_rules rules;
        simp add: may_write_def Let_def)+
qed

subsection \<open>Detecting, applying, validating\<close>

lemma tame_api_delete_pod: "tame K I \<Longrightarrow> keeps I (api_delete L KindPod key)"
proof (rule tripleI)
  fix s x t assume I: "tame K I" "I s" and run: "api_delete L KindPod key s = (Ret x, t)"
  obtain r w where rw: "lib_delete L KindPod key (world s) = (r, w)" by fastforce
  have "I ((s\<lparr>world := w\<rparr>)\<lparr>reqlog := reqlog (s\<lparr>world := w\<rparr>) @ [ReqDelete KindPod key (r = None)]\<rparr>)"
    by (intro calmD(7) [OF I(1)] read_closedD(1) [OF calmD(1) [OF I(1)]] I(2))
  with run rw show "I t" by (auto simp: api_delete_def)
qed (auto simp: api_delete_def split: prod.splits)

lemma tame_check_pods: "tame K I \<Longrightarrow> keeps I (check_pods L desired pods changes)"
  by (induction L desired pods changes rule: check_pods.induct)
    (auto intro!: go_rules tame_api_delete_pod)

lemma tame_detectStatefulSet: "tame K I \<Longrightarrow> keeps I (detectStatefulSetChanges L Y config changes)"
  unfolding detectStatefulSetChanges_def Let_def
  by (intro go_rules tame_api_get keeps_constructStatefulSetSpec tame_check_pods
      keeps_api_list_pods calmD(1)) simp_all

lemma tame_detectChanges: "tame K I \<Longrightarrow> keeps I (detectChanges L Y config)"
  unfolding detectChanges_def run_detectors.simps detectSecretChanges_def detectServiceChanges_def
    detectPVCChanges_def Let_def
  by (intro go_rules tame_detectStatefulSet tame_api_get keeps_constructPVCSpec) simp_all

lemma write_credentials_bind:
  "bind_go (write_credentials u p config) f =
     then_go (modify_go (\<lambda>s. s\<lparr>kode := (kode s)\<lparr>k_Spec := spec_with_login u p (k_Spec (kode s))\<rparr>\<rparr>))
       (f (config_with_login u p config))"
  by (simp add: write_credentials_def then_go_def bind_go_assoc)

lemma yields_ensureSecret:
  "yields (ensureSecret L config) (\<lambda>(c, err). \<forall>k. may_write K c k = may_write K config k)"
  unfolding ensureSecret_def Let_def write_credentials_bind
  by (intro yield_rules) (simp_all add: may_write_login)

lemma yields_apply_secret:
  "yields (apply_secret L config changes) (\<lambda>(c, err). \<forall>k. may_write K c k = may_write K config k)"
  unfolding apply_secret_def
  by (rule yields_if, rule yields_bind_strong [OF yields_ensureSecret [where K = K]])
    (auto intro!: yield_rules)

lemma tame_applyConfiguration:
  assumes L: "lawful L" and I: "tame K I" and w: "may_write_in K I config"
  shows "keeps I (applyConfiguration L Y config changes)"
proof -
  have first: "keeps I (apply_secret L config changes)"
    unfolding apply_secret_def by (intro go_rules tame_ensure [OF L I w]) simp_all
  have rest: "keeps I (apply_service L c changes)" "keeps I (apply_statefulset L Y c changes)"
    "keeps I (apply_pvc L c changes)" if "may_write_in K I c" for c
    unfolding apply_service_def apply_statefulset_def apply_pvc_def
    by (intro go_rules tame_ensure [OF L I that]; simp)+
  show ?thesis
    unfolding applyConfiguration_def
  proof (rule keeps_bind_yields [OF first yields_apply_secret [where K = K]])
    fix x :: "KodeResourceConfig \<times> error option"
    assume x: "case x of (c, err) \<Rightarrow> \<forall>k. may_write K c k = may_write K config k"
    obtain c err where c: "x = (c, err)" by fastforce
    with x w have w': "may_write_in K I c" by (simp add: may_write_in_def)
    show "keeps I (case x of (config, err) \<Rightarrow>
       case err of Some e \<Rightarrow> return_go (config, Some e) | None \<Rightarrow>
       bind_go (apply_service L config changes) (\<lambda>err.
       case err of Some e \<Rightarrow> return_go (config, Some e) | None \<Rightarrow>
       bind_go (apply_statefulset L Y config changes) (\<lambda>err.
       case err of Some e \<Rightarrow> return_go (config, Some e) | None \<Rightarrow>
       bind_go (apply_pvc L config changes) (\<lambda>err. return_go (config, err)))))"
      unfolding c prod.case by (intro go_rules rest [OF w'])
  qed
qed

lemma tame_validateConfiguration: "tame K I \<Longrightarrow> keeps I (validateConfiguration L config)"
  unfolding validateConfiguration_def validateSecret_def validateService_def
    validateStatefulSet_def validatePVC_def Let_def
  by (intro go_rules tame_api_get) simp_all

lemmas tame_rules = tame_basic tame_detectChanges tame_validateConfiguration

subsection \<open>Calm assertions\<close>

lemma calm_applyConfiguration:
  "lawful L \<Longrightarrow> calm I \<Longrightarrow> keeps I (applyConfiguration L Y config changes)"
  by (rule tame_applyConfiguration [OF _ _ may_write_in_UNIV])

lemmas calm_conj = tame_conj [where K = UNIV]
lemmas calm_modify_status = tame_modify_status [where K = UNIV]
lemmas calm_set_condition = tame_set_condition [where K = UNIV]
lemmas calm_UpdateStatus = tame_UpdateStatus [where K = UNIV]
lemmas calm_record_event = tame_record_event [where K = UNIV]
lemmas calm_rules = tame_rules [where K = UNIV] calm_applyConfiguration keeps_constructSecretSpec
  keeps_constructPVCSpec keeps_constructStatefulSetSpec

end
