(* ===== verification/Kode_Convergence.thy ===== *)
theory Kode_Convergence
  imports Kode_Frame "HOL-Library.Sublist"
begin

text \<open>
  How the ensure, detect and validate functions fit together: what a mutate function writes is what
  the change detection and the validation accept, a missing child is detected, and the children are
  created in a fixed order.
\<close>

subsection \<open>Reading a pure API server\<close>

lemma api_get_pure:
  "snd (f (world s)) = world s \<Longrightarrow>
     api_get kind key f s =
       (Ret (fst (f (world s))), s\<lparr>reqlog := reqlog s @ [ReqGet kind key (answer_of (fst (f (world s))))]\<rparr>)"
  by (auto simp: api_get_def split: prod.splits)

lemma api_list_pure:
  assumes "reads_pure L"
  shows "api_list_pods L ns ls s =
    (Ret (fst (lib_listPods L ns ls (world s))), s\<lparr>reqlog := reqlog s @ [ReqListPods ns ls
       (case fst (lib_listPods L ns ls (world s)) of Inl _ \<Rightarrow> False | Inr _ \<Rightarrow> True)]\<rparr>)"
  using reads_pureD(5) [OF assms, of ns ls "world s"]
  by (cases "lib_listPods L ns ls (world s)") (simp add: api_list_pods_def)

lemmas pure_gets = api_get_pure [where f = "lib_getSecret L key" for L key, OF reads_pureD(1)]
  api_get_pure [where f = "lib_getService L key" for L key, OF reads_pureD(2)]
  api_get_pure [where f = "lib_getStatefulSet L key" for L key, OF reads_pureD(3)]
  api_get_pure [where f = "lib_getPVC L key" for L key, OF reads_pureD(4)]

subsection \<open>What the mutate functions write\<close>

lemma SetControllerReference_run:
  "SetControllerReference L owners build s = (Ret (Inr y), t) \<Longrightarrow> t = s \<and> (\<exists>os. y = build os)"
  by (auto simp: SetControllerReference_def go_simps split: sum.splits)

lemma mutate_secret_run:
  assumes "mutate_secret L config x s = (Ret (Inr y), t)" and "rc_Credentials config = Some cr"
  shows "sec_Data y = secret_data cr \<and> sec_Labels y = sec_Labels x"
  using assms
  by (auto simp: mutate_secret_def constructSecretSpec_def go_simps dest!: SetControllerReference_run)

definition desired_service_spec :: "KodeResourceConfig \<Rightarrow> ServiceSpec" where
  "desired_service_spec config =
     \<lparr>svcs_Selector = config_labels config,
      svcs_Ports = [\<lparr>sp_Protocol = ''TCP'', sp_Port = rc_Port config, sp_TargetPort = rc_Port config\<rparr>]\<rparr>"

lemma constructServiceSpec_spec:
  "\<exists>svc. constructServiceSpec config = Inr svc \<and> svc_Spec svc = desired_service_spec config"
  by (simp add: constructServiceSpec_def desired_service_spec_def)

lemma mutate_service_run:
  "mutate_service L config x s = (Ret (Inr y), t) \<Longrightarrow>
     svc_Spec y = desired_service_spec config \<and> svc_Labels y = []"
  by (auto simp: mutate_service_def constructServiceSpec_def desired_service_spec_def Let_def
      dest!: SetControllerReference_run)

lemma mutate_statefulset_run:
  "mutate_statefulset L config d x s = (Ret (Inr y), t) \<Longrightarrow> ss_Spec y = ss_Spec d"
  by (auto simp: mutate_statefulset_def Let_def dest!: SetControllerReference_run)

text \<open>A claim that exists keeps the fields that Kubernetes does not let one change.\<close>

definition same_immutable :: "PVCSpec \<Rightarrow> PVCSpec \<Rightarrow> bool" where
  "same_immutable a b \<longleftrightarrow>
     pvcs_AccessModes a = pvcs_AccessModes b \<and> pvcs_VolumeName a = pvcs_VolumeName b \<and>
     pvcs_VolumeMode a = pvcs_VolumeMode b \<and> pvcs_StorageClassName a = pvcs_StorageClassName b \<and>
     pvcs_Selector a = pvcs_Selector b"

lemma yields_mutate_pvc_existing:
  "yields (mutate_pvc_existing L b constructed existing pvc)
     (\<lambda>y. same_immutable (pvc_Spec y) (pvc_Spec existing) \<and>
       (\<not> b \<longrightarrow> pvcs_Resources (pvc_Spec y) = pvcs_Resources (pvc_Spec pvc)) \<and>
       (b \<longrightarrow> quantity_Equal (Requests_Storage (pvcs_Resources (pvc_Spec y)))
          (Requests_Storage (pvcs_Resources (pvc_Spec constructed)))))"
proof -
  let ?size = "\<lambda>p. Requests_Storage (pvcs_Resources (pvc_Spec p))"
  let ?B = "\<lambda>y. (\<not> b \<longrightarrow> pvcs_Resources (pvc_Spec y) = pvcs_Resources (pvc_Spec pvc)) \<and>
       (b \<longrightarrow> quantity_Equal (?size y) (?size constructed))"
  show ?thesis
    unfolding mutate_pvc_existing_def
    by (rule yields_bind_strong [where B = ?B]; intro yield_rules)
      (auto simp: same_immutable_def quantity_Equal_def)
qed

lemma mutate_pvc_run:
  assumes "mutate_pvc L config b pvc s = (Ret (Inr y), t)"
    and "fst (lib_getPVC L (NamespacedName (pvc_Namespace pvc) (pvc_Name pvc)) (world s)) = Inr existing"
  shows "same_immutable (pvc_Spec y) (pvc_Spec existing)"
proof -
  let ?key = "NamespacedName (pvc_Namespace pvc) (pvc_Name pvc)"
  obtain c u where c: "constructPVCSpec config s = (Ret c, u)"
    using assms(1) by (cases "constructPVCSpec config s"; cases "fst (constructPVCSpec config s)")
      (auto simp: mutate_pvc_def go_simps)
  have u: "u = s" using triple_snd [OF keeps_constructPVCSpec [where I = "\<lambda>t. t = s"], of s config] c
    by simp
  obtain constructed where cc: "c = Inr constructed"
    using assms(1) c by (cases c) (auto simp: mutate_pvc_def go_simps)
  obtain v where g: "api_get KindPersistentVolumeClaim ?key (lib_getPVC L ?key) s = (Ret (Inr existing), v)"
    using api_get_only_reads [of False "lib_getPVC L ?key" s] assms(2) by fastforce
  let ?m = "mutate_pvc_existing L b constructed existing pvc"
  obtain z x where z: "?m v = (Ret z, x)"
    using assms(1) c cc g u by (cases "?m v"; cases "fst (?m v)")
      (auto simp: mutate_pvc_def Let_def go_simps)
  have "same_immutable (pvc_Spec z) (pvc_Spec existing)"
    using yieldsD [OF yields_mutate_pvc_existing z] by blast
  moreover have "pvc_Spec y = pvc_Spec z"
    using assms(1) c cc g u z
    by (auto simp: mutate_pvc_def Let_def go_simps dest!: SetControllerReference_run)
  ultimately show ?thesis by simp
qed

subsection \<open>Converged children\<close>

text \<open>
  The children are as the mutate functions write them, and the pods run the images of the set.
\<close>

definition desired_statefulset :: "'w lib \<Rightarrow> yaml_lib \<Rightarrow> Kode \<Rightarrow> KodeResourceConfig \<Rightarrow> StatefulSet \<Rightarrow> bool" where
  "desired_statefulset L Y k config d \<longleftrightarrow>
     (\<forall>s. constructStatefulSetSpec L Y k config (s :: 'w st) = (Ret (Inr d), s))"

definition pvc_converged :: "'w lib \<Rightarrow> KodeResourceConfig \<Rightarrow> Kode \<Rightarrow> 'w \<Rightarrow> bool" where
  "pvc_converged L config k w \<longleftrightarrow>
     (case ks_Storage (rc_KodeSpec config) of
        None \<Rightarrow> True
      | Some storage \<Rightarrow>
          st_ExistingVolumeClaim storage \<noteq> None \<or>
          (\<exists>pvc resources. fst (lib_getPVC L (child_key k (GetPVCName k)) w) = Inr pvc \<and>
             st_Resources storage = Some resources \<and>
             quantity_Equal (Requests_Storage (pvcs_Resources (pvc_Spec pvc))) (Requests_Storage resources) \<and>
             pvcs_AccessModes (pvc_Spec pvc) = st_AccessModes storage \<and>
             (st_StorageClassName storage \<noteq> None \<longrightarrow>
                pvcs_StorageClassName (pvc_Spec pvc) = st_StorageClassName storage)))"

definition converged :: "'w lib \<Rightarrow> yaml_lib \<Rightarrow> KodeResourceConfig \<Rightarrow> Kode \<Rightarrow> 'w \<Rightarrow> bool" where
  "converged L Y config k w \<longleftrightarrow>
     (\<exists>secret cr service set d pods.
        fst (lib_getSecret L (child_key k (GetSecretName k)) w) = Inr secret \<and>
        rc_Credentials config = Some cr \<and> map_eq (sec_Data secret) (secret_data cr) \<and>
        fst (lib_getService L (child_key k (GetServiceName k)) w) = Inr service \<and>
        svc_Spec service = desired_service_spec config \<and>
        fst (lib_getStatefulSet L (child_key k (GetStatefulSetName k)) w) = Inr set \<and>
        desired_statefulset L Y k config d \<and> ss_Spec set = ss_Spec d \<and>
        fst (lib_listPods L (k_Namespace k) (config_labels config) w) = Inr pods \<and>
        (\<forall>pod \<in> List.set pods. map c_Image (pod_Containers pod) =
           map c_Image (pt_Containers (sts_Template (ss_Spec d)))) \<and>
        pvc_converged L config k w)"

lemma image_mismatch_same: "map c_Image es = map c_Image ds \<Longrightarrow> \<not> image_mismatch es ds"
  by (induction es ds rule: image_mismatch.induct) auto

lemma check_pods_same:
  "(\<forall>pod \<in> set pods. map c_Image (pod_Containers pod) = map c_Image desired) \<Longrightarrow>
     check_pods L desired pods changes s = (Ret changes, s)"
  by (induction pods) (auto simp: go_simps image_mismatch_same)

text \<open>Two states that differ only in the history.\<close>

definition same_but_log :: "'w st \<Rightarrow> 'w st \<Rightarrow> bool" where
  "same_but_log s t \<longleftrightarrow> (\<exists>qs. t = s\<lparr>reqlog := reqlog s @ qs\<rparr>)"

lemma same_but_log_refl [simp]: "same_but_log s s"
  unfolding same_but_log_def by (rule exI [of _ "[]"]) simp

lemma same_but_log_snoc: "same_but_log s (s\<lparr>reqlog := reqlog s @ qs\<rparr>)"
  unfolding same_but_log_def by blast

lemma same_but_log_trans: "same_but_log s t \<Longrightarrow> same_but_log t u \<Longrightarrow> same_but_log s u"
  unfolding same_but_log_def by auto

lemma same_but_logD:
  "same_but_log s t \<Longrightarrow> kode t = kode s \<and> world t = world s \<and> cache t = cache s \<and> events t = events s"
  by (auto simp: same_but_log_def)

text \<open>One child at a time, and the claim that is the operator's to make.\<close>

definition secret_fine :: "'w lib \<Rightarrow> KodeResourceConfig \<Rightarrow> Kode \<Rightarrow> 'w \<Rightarrow> bool" where
  "secret_fine L config k w \<longleftrightarrow>
     (\<exists>secret cr. fst (lib_getSecret L (child_key k (GetSecretName k)) w) = Inr secret \<and>
        rc_Credentials config = Some cr \<and> map_eq (sec_Data secret) (secret_data cr))"

definition service_fine :: "'w lib \<Rightarrow> KodeResourceConfig \<Rightarrow> Kode \<Rightarrow> 'w \<Rightarrow> bool" where
  "service_fine L config k w \<longleftrightarrow>
     (\<exists>service. fst (lib_getService L (child_key k (GetServiceName k)) w) = Inr service \<and>
        svc_Spec service = desired_service_spec config)"

definition set_fine :: "'w lib \<Rightarrow> yaml_lib \<Rightarrow> KodeResourceConfig \<Rightarrow> Kode \<Rightarrow> 'w \<Rightarrow> bool" where
  "set_fine L Y config k w \<longleftrightarrow>
     (\<exists>set d pods. fst (lib_getStatefulSet L (child_key k (GetStatefulSetName k)) w) = Inr set \<and>
        desired_statefulset L Y k config d \<and> ss_Spec set = ss_Spec d \<and>
        fst (lib_listPods L (k_Namespace k) (config_labels config) w) = Inr pods \<and>
        (\<forall>pod \<in> List.set pods. map c_Image (pod_Containers pod) =
           map c_Image (pt_Containers (sts_Template (ss_Spec d)))))"

definition needs_claim :: "Kode \<Rightarrow> bool" where
  "needs_claim k \<longleftrightarrow> \<not> IsEmpty (ks_Storage (k_Spec k)) \<and>
     (case ks_Storage (k_Spec k) of None \<Rightarrow> False | Some storage \<Rightarrow> st_ExistingVolumeClaim storage = None)"

lemma converged_fine:
  "converged L Y config k w \<longleftrightarrow> secret_fine L config k w \<and> service_fine L config k w \<and>
     set_fine L Y config k w \<and> pvc_converged L config k w"
  unfolding converged_def secret_fine_def service_fine_def set_fine_def by blast

text \<open>The keys of the children that are missing, in the order of the detectors.\<close>

definition missing_children :: "'w lib \<Rightarrow> Kode \<Rightarrow> 'w \<Rightarrow> string list" where
  "missing_children L k w =
     (if answers_NotFound (lib_getSecret L (child_key k (GetSecretName k)) w) then [''secret''] else []) @
     (if answers_NotFound (lib_getService L (child_key k (GetServiceName k)) w) then [''service''] else []) @
     (if answers_NotFound (lib_getStatefulSet L (child_key k (GetStatefulSetName k)) w)
      then [''statefulset''] else []) @
     (if needs_claim k \<and> answers_NotFound (lib_getPVC L (child_key k (GetPVCName k)) w)
      then [''pvc''] else [])"

definition startable :: "'w lib \<Rightarrow> yaml_lib \<Rightarrow> KodeResourceConfig \<Rightarrow> Kode \<Rightarrow> 'w \<Rightarrow> bool" where
  "startable L Y config k w \<longleftrightarrow>
     (answers_NotFound (lib_getSecret L (child_key k (GetSecretName k)) w) \<or> secret_fine L config k w) \<and>
     (answers_NotFound (lib_getService L (child_key k (GetServiceName k)) w) \<or> service_fine L config k w) \<and>
     (answers_NotFound (lib_getStatefulSet L (child_key k (GetStatefulSetName k)) w) \<or>
        set_fine L Y config k w) \<and>
     (needs_claim k \<and> answers_NotFound (lib_getPVC L (child_key k (GetPVCName k)) w) \<or>
        pvc_converged L config k w)"

lemma not_missing:
  "secret_fine L config k w \<Longrightarrow> \<not> answers_NotFound (lib_getSecret L (child_key k (GetSecretName k)) w)"
  "service_fine L config k w \<Longrightarrow> \<not> answers_NotFound (lib_getService L (child_key k (GetServiceName k)) w)"
  "set_fine L Y config k w \<Longrightarrow>
     \<not> answers_NotFound (lib_getStatefulSet L (child_key k (GetStatefulSetName k)) w)"
  "pvc_converged L config k w \<Longrightarrow> needs_claim k \<Longrightarrow>
     ks_Storage (rc_KodeSpec config) = ks_Storage (k_Spec k) \<Longrightarrow>
     \<not> answers_NotFound (lib_getPVC L (child_key k (GetPVCName k)) w)"
  by (auto simp: secret_fine_def service_fine_def set_fine_def pvc_converged_def needs_claim_def
      answers_NotFound_def split: option.splits)

text \<open>What a detector that finds its child missing, or fine, adds to the changes.\<close>

abbreviation detects ::
  "('w st, error + string list) go \<Rightarrow> bool \<Rightarrow> string \<Rightarrow> string list \<Rightarrow> 'w st \<Rightarrow> bool" where
  "detects m missing key changes s \<equiv>
     \<exists>t. m s = (Ret (Inr (if missing then mark key changes else changes)), t) \<and> same_but_log s t"

lemma detects_child:
  fixes s :: "'w st"
  assumes L: "reads_pure L"
  defines "k \<equiv> kode s" and "w \<equiv> world s"
  shows "answers_NotFound (lib_getSecret L (child_key k (GetSecretName k)) w) \<or> secret_fine L config k w \<Longrightarrow>
      detects (detectSecretChanges L config changes)
        (answers_NotFound (lib_getSecret L (child_key k (GetSecretName k)) w)) ''secret'' changes s"
    and "answers_NotFound (lib_getService L (child_key k (GetServiceName k)) w) \<or> service_fine L config k w \<Longrightarrow>
      detects (detectServiceChanges L config changes)
        (answers_NotFound (lib_getService L (child_key k (GetServiceName k)) w)) ''service'' changes s"
    and "answers_NotFound (lib_getStatefulSet L (child_key k (GetStatefulSetName k)) w) \<or>
        set_fine L Y config k w \<Longrightarrow>
      detects (detectStatefulSetChanges L Y config changes)
        (answers_NotFound (lib_getStatefulSet L (child_key k (GetStatefulSetName k)) w))
        ''statefulset'' changes s"
    and "needs_claim k \<and> answers_NotFound (lib_getPVC L (child_key k (GetPVCName k)) w) \<or>
        pvc_converged L config k w \<Longrightarrow>
      \<not> IsEmpty (ks_Storage (k_Spec k)) \<Longrightarrow> ks_Storage (rc_KodeSpec config) = ks_Storage (k_Spec k) \<Longrightarrow>
      detects (detectPVCChanges L config changes)
        (needs_claim k \<and> answers_NotFound (lib_getPVC L (child_key k (GetPVCName k)) w)) ''pvc'' changes s"
proof -
  note simps = Let_def go_simps pure_gets [OF L] same_but_log_snoc child_key_def k_def w_def
    answers_NotFound_def
  assume "answers_NotFound (lib_getSecret L (child_key k (GetSecretName k)) w) \<or> secret_fine L config k w"
  then show "detects (detectSecretChanges L config changes)
      (answers_NotFound (lib_getSecret L (child_key k (GetSecretName k)) w)) ''secret'' changes s"
    by (auto simp: detectSecretChanges_def secret_fine_def simps split: sum.splits)
next
  note simps = Let_def go_simps pure_gets [OF L] same_but_log_snoc child_key_def k_def w_def
    answers_NotFound_def
  assume "answers_NotFound (lib_getService L (child_key k (GetServiceName k)) w) \<or> service_fine L config k w"
  then show "detects (detectServiceChanges L config changes)
      (answers_NotFound (lib_getService L (child_key k (GetServiceName k)) w)) ''service'' changes s"
    by (auto simp: detectServiceChanges_def service_fine_def constructServiceSpec_def
        desired_service_spec_def simps split: sum.splits)
next
  note simps = Let_def go_simps pure_gets [OF L] same_but_log_snoc child_key_def k_def w_def
  assume "answers_NotFound (lib_getStatefulSet L (child_key k (GetStatefulSetName k)) w) \<or>
      set_fine L Y config k w"
  then show "detects (detectStatefulSetChanges L Y config changes)
      (answers_NotFound (lib_getStatefulSet L (child_key k (GetStatefulSetName k)) w)) ''statefulset'' changes s"
  proof (elim disjE)
    assume "answers_NotFound (lib_getStatefulSet L (child_key k (GetStatefulSetName k)) w)"
    then show ?thesis
      by (auto simp: detectStatefulSetChanges_def simps answers_NotFound_def split: sum.splits)
  next
    assume fine: "set_fine L Y config k w"
    then obtain set d pods where f: "fst (lib_getStatefulSet L (child_key k (GetStatefulSetName k)) w) = Inr set"
      "desired_statefulset L Y k config d" "ss_Spec set = ss_Spec d"
      "fst (lib_listPods L (k_Namespace k) (config_labels config) w) = Inr pods"
      "\<forall>pod \<in> List.set pods. map c_Image (pod_Containers pod) =
         map c_Image (pt_Containers (sts_Template (ss_Spec d)))"
      unfolding set_fine_def by blast
    show ?thesis
      using f(1-4) not_missing(3) [OF fine]
      by (simp add: detectStatefulSetChanges_def simps desired_statefulset_def api_list_pure [OF L]
          image_mismatch_same check_pods_same [OF f(5)])
  qed
next
  note simps = Let_def go_simps pure_gets [OF L] same_but_log_snoc child_key_def k_def w_def
    answers_NotFound_def
  assume "needs_claim k \<and> answers_NotFound (lib_getPVC L (child_key k (GetPVCName k)) w) \<or>
      pvc_converged L config k w"
    and "\<not> IsEmpty (ks_Storage (k_Spec k))" "ks_Storage (rc_KodeSpec config) = ks_Storage (k_Spec k)"
  then show "detects (detectPVCChanges L config changes)
      (needs_claim k \<and> answers_NotFound (lib_getPVC L (child_key k (GetPVCName k)) w)) ''pvc'' changes s"
    by (auto simp: detectPVCChanges_def pvc_converged_def constructPVCSpec_def PVCSpec_zero_def
        needs_claim_def IsEmpty_def [of None] simps split: option.splits sum.splits)
qed

lemma detectChanges_exact:
  assumes L: "reads_pure L" and C: "startable L Y config (kode s) (world s)"
    and "ks_Storage (rc_KodeSpec config) = ks_Storage (k_Spec (kode s))"
  shows "\<exists>t. detectChanges L Y config s = (Ret (Inr (missing_children L (kode s) (world s))), t) \<and>
    same_but_log s t"
proof -
  let ?k = "kode s" and ?w = "world s"
  let ?m1 = "answers_NotFound (lib_getSecret L (child_key ?k (GetSecretName ?k)) ?w)"
    and ?m2 = "answers_NotFound (lib_getService L (child_key ?k (GetServiceName ?k)) ?w)"
    and ?m3 = "answers_NotFound (lib_getStatefulSet L (child_key ?k (GetStatefulSetName ?k)) ?w)"
    and ?m4 = "needs_claim ?k \<and> answers_NotFound (lib_getPVC L (child_key ?k (GetPVCName ?k)) ?w)"
  let ?c1 = "if ?m1 then [''secret''] else []"
  let ?c2 = "?c1 @ (if ?m2 then [''service''] else [])"
  let ?c3 = "?c2 @ (if ?m3 then [''statefulset''] else [])"
  note C' = C [unfolded startable_def]
  obtain t1 where 1: "detectSecretChanges L config [] s = (Ret (Inr ?c1), t1)" "same_but_log s t1"
    using detects_child(1) [OF L, of s config "[]"] C' by (auto simp: mark_def)
  note k1 = same_but_logD [OF 1(2)]
  obtain t2 where 2: "detectServiceChanges L config ?c1 t1 = (Ret (Inr ?c2), t2)" "same_but_log t1 t2"
    using detects_child(2) [OF L, of t1 config ?c1] C' k1 by (auto simp: mark_def split: if_splits)
  note k2 = same_but_logD [OF same_but_log_trans [OF 1(2) 2(2)]]
  obtain t3 where 3: "detectStatefulSetChanges L Y config ?c2 t2 = (Ret (Inr ?c3), t3)" "same_but_log t2 t3"
    using detects_child(3) [OF L, of t2 Y config ?c2] C' k2 by (auto simp: mark_def split: if_splits)
  have s3: "same_but_log s t3" using 1(2) 2(2) 3(2) same_but_log_trans by blast
  note k3 = same_but_logD [OF s3]
  have run: "run_detectors [detectSecretChanges L config, detectServiceChanges L config,
      detectStatefulSetChanges L Y config] [] s = (Ret (Inr ?c3), t3)"
    using 1(1) 2(1) 3(1) by (simp add: go_simps)
  show ?thesis
  proof (cases "IsEmpty (ks_Storage (k_Spec ?k))")
    case True
    then have "\<not> ?m4" by (simp add: needs_claim_def)
    then show ?thesis
      using run s3 k3 True by (auto simp: detectChanges_def go_simps missing_children_def)
  next
    case False
    obtain t4 where "detectPVCChanges L config ?c3 t3 =
        (Ret (Inr (if ?m4 then mark ''pvc'' ?c3 else ?c3)), t4)" "same_but_log t3 t4"
      using detects_child(4) [OF L, of t3 config ?c3] C' k3 False assms(3) by auto
    moreover have "(if ?m4 then mark ''pvc'' ?c3 else ?c3) = missing_children L ?k ?w"
      by (auto simp: missing_children_def mark_def)
    ultimately show ?thesis
      using run k3 False same_but_log_trans [OF s3] by (auto simp: detectChanges_def go_simps)
  qed
qed

lemma converged_startable:
  assumes "converged L Y config k w" and "ks_Storage (rc_KodeSpec config) = ks_Storage (k_Spec k)"
  shows "startable L Y config k w" "missing_children L k w = []"
  using assms not_missing(1,2,4) [of L config k w] not_missing(3) [of L Y config k w]
  by (auto simp: converged_fine startable_def missing_children_def)

lemma detectChanges_converged:
  assumes "reads_pure L" and "converged L Y config (kode s) (world s)"
    and "ks_Storage (rc_KodeSpec config) = ks_Storage (k_Spec (kode s))"
  shows "\<exists>t. detectChanges L Y config s = (Ret (Inr []), t) \<and> same_but_log s t"
  using detectChanges_exact [OF assms(1) converged_startable(1) [OF assms(2,3)] assms(3)]
    converged_startable(2) [OF assms(2,3)]
  by simp

subsection \<open>What the ensure functions write has converged\<close>

text \<open>
  The children in the world are results of the mutate functions for this configuration (on whatever
  objects those were called), the claim has the constructed spec, and the pods run the set's images.
\<close>

definition ensured :: "'w lib \<Rightarrow> yaml_lib \<Rightarrow> KodeResourceConfig \<Rightarrow> Kode \<Rightarrow> 'w \<Rightarrow> bool" where
  "ensured L Y config k w \<longleftrightarrow>
     (\<exists>cr. rc_Credentials config = Some cr) \<and>
     (\<exists>secret x (s :: 'w st) t. mutate_secret L config x s = (Ret (Inr secret), t) \<and>
        fst (lib_getSecret L (child_key k (GetSecretName k)) w) = Inr secret) \<and>
     (\<exists>service x (s :: 'w st) t. mutate_service L config x s = (Ret (Inr service), t) \<and>
        fst (lib_getService L (child_key k (GetServiceName k)) w) = Inr service) \<and>
     (\<exists>set d x (s :: 'w st) t. mutate_statefulset L config d x s = (Ret (Inr set), t) \<and>
        desired_statefulset L Y k config d \<and>
        fst (lib_getStatefulSet L (child_key k (GetStatefulSetName k)) w) = Inr set \<and>
        (\<exists>pods. fst (lib_listPods L (k_Namespace k) (config_labels config) w) = Inr pods \<and>
           (\<forall>pod \<in> List.set pods. map c_Image (pod_Containers pod) =
              map c_Image (pt_Containers (sts_Template (ss_Spec set)))))) \<and>
     (\<forall>storage. ks_Storage (rc_KodeSpec config) = Some storage \<and> st_ExistingVolumeClaim storage = None \<longrightarrow>
        (\<exists>pvc c (s :: 'w st) t. constructPVCSpec config s = (Ret (Inr c), t) \<and>
           fst (lib_getPVC L (child_key k (GetPVCName k)) w) = Inr pvc \<and> pvc_Spec pvc = pvc_Spec c))"

lemma ensured_converged: 
  assumes "ensured L Y config k w"
  shows "converged L Y config k w"
proof -
  obtain cr secret xs ss1 ts service xv sv tv set d xd sd td pods where E:
    "rc_Credentials config = Some cr"
    "mutate_secret L config xs (ss1 :: 'a st) = (Ret (Inr secret), ts)"
    "fst (lib_getSecret L (child_key k (GetSecretName k)) w) = Inr secret"
    "mutate_service L config xv (sv :: 'a st) = (Ret (Inr service), tv)"
    "fst (lib_getService L (child_key k (GetServiceName k)) w) = Inr service"
    "mutate_statefulset L config d xd (sd :: 'a st) = (Ret (Inr set), td)"
    "desired_statefulset L Y k config d"
    "fst (lib_getStatefulSet L (child_key k (GetStatefulSetName k)) w) = Inr set"
    "fst (lib_listPods L (k_Namespace k) (config_labels config) w) = Inr pods"
    "\<forall>pod \<in> List.set pods. map c_Image (pod_Containers pod) =
       map c_Image (pt_Containers (sts_Template (ss_Spec set)))"
    using assms unfolding ensured_def by (elim conjE exE)
  have "pvc_converged L config k w"
  proof (cases "ks_Storage (rc_KodeSpec config)")
    case (Some storage)
    show ?thesis
    proof (cases "st_ExistingVolumeClaim storage")
      case None
      then obtain pvc c and s t :: "'a st" where "constructPVCSpec config s = (Ret (Inr c), t)"
        "fst (lib_getPVC L (child_key k (GetPVCName k)) w) = Inr pvc" "pvc_Spec pvc = pvc_Spec c"
        using assms Some unfolding ensured_def by (elim conjE) blast
      then show ?thesis
        using Some by (auto simp: pvc_converged_def constructPVCSpec_def go_simps deref_go_def
            quantity_Equal_def Let_def split: option.splits)
    qed (simp add: pvc_converged_def Some)
  qed (simp add: pvc_converged_def)
  then show ?thesis
    unfolding converged_def
    using E mutate_secret_run [OF E(2,1)] mutate_service_run [OF E(4)] mutate_statefulset_run [OF E(6)]
    by (intro exI conjI) (assumption | simp)+
qed

subsection \<open>The order of creation\<close>

fun created_kinds :: "Request list \<Rightarrow> ObjKind list" where
  "created_kinds [] = []"
| "created_kinds (ReqCreateOrPatch kind key # qs) = kind # created_kinds qs"
| "created_kinds (_ # qs) = created_kinds qs"

lemma created_kinds_append [simp]: "created_kinds (a @ b) = created_kinds a @ created_kinds b"
  by (induction a rule: created_kinds.induct) auto

text \<open>\<open>adds m ks\<close>: the kinds of children \<open>m\<close> asks to create or patch are a sublist of \<open>ks\<close>.\<close>

definition adds :: "('w st, 'a) go \<Rightarrow> ObjKind list \<Rightarrow> bool" where
  "adds m ks \<longleftrightarrow> (\<forall>s. \<exists>js. subseq js ks \<and> created_kinds (reqlog (snd (m s))) = created_kinds (reqlog s) @ js)"

lemma adds_bind:
  assumes "adds m ks" and "\<And>x. adds (f x) js"
  shows "adds (bind_go m f) (ks @ js)"
  unfolding adds_def
proof
  fix s
  obtain a where a: "subseq a ks"
    "created_kinds (reqlog (snd (m s))) = created_kinds (reqlog s) @ a"
    using assms(1) unfolding adds_def by blast
  show "\<exists>is. subseq is (ks @ js) \<and>
      created_kinds (reqlog (snd (bind_go m f s))) = created_kinds (reqlog s) @ is"
  proof (cases "m s")
    case (Pair o1 t)
    show ?thesis
    proof (cases o1)
      case (Ret x)
      obtain b where b: "subseq b js"
        "created_kinds (reqlog (snd (f x t))) = created_kinds (reqlog t) @ b"
        using assms(2) unfolding adds_def by blast
      have "subseq (a @ b) (ks @ js)" using a(1) b(1) by (rule list_emb_append_mono)
      then show ?thesis using Pair Ret a b by (intro exI [of _ "a @ b"]) (simp add: go_simps)
    next
      case Panic
      have "subseq a (ks @ js)" using a(1) by (simp add: subseq_rev_drop_many)
      then show ?thesis using Pair Panic a by (intro exI [of _ a]) (simp add: go_simps)
    qed
  qed
qed

lemma adds_weaken: "adds m ks \<Longrightarrow> subseq ks js \<Longrightarrow> adds m js"
  unfolding adds_def by (meson subseq_order.order_trans)

lemma adds_keeps: "(\<And>c. keeps (\<lambda>s. created_kinds (reqlog s) = c) m) \<Longrightarrow> adds m ks"
proof -
  assume keep: "\<And>c. keeps (\<lambda>s. created_kinds (reqlog s) = c) m"
  have "created_kinds (reqlog (snd (m s))) = created_kinds (reqlog s)" for s
    by (rule triple_snd [OF keep]) simp
  then show "adds m ks"
    unfolding adds_def by (intro allI exI [of _ "[]"]) simp
qed

lemma adds_bind_left: "adds m [] \<Longrightarrow> (\<And>x. adds (f x) ks) \<Longrightarrow> adds (bind_go m f) ks"
  using adds_bind [of m "[]" f ks] by simp

lemma adds_bind_right: "adds m ks \<Longrightarrow> (\<And>x. adds (f x) []) \<Longrightarrow> adds (bind_go m f) ks"
  using adds_bind [of m ks f "[]"] by simp

lemma adds_return: "adds (return_go x) ks"
  by (rule adds_keeps, rule triple_return)

lemma adds_gets: "adds (gets_go f) ks"
  by (rule adds_keeps, rule keeps_gets)

lemma adds_case:
  "(p = None \<Longrightarrow> adds m ks) \<Longrightarrow> (\<And>x. p = Some x \<Longrightarrow> adds (f x) ks) \<Longrightarrow>
     adds (case p of None \<Rightarrow> m | Some x \<Rightarrow> f x) ks"
  "(\<And>e. r = Inl e \<Longrightarrow> adds (g e) ks) \<Longrightarrow> (\<And>x. r = Inr x \<Longrightarrow> adds (h x) ks) \<Longrightarrow>
     adds (case r of Inl e \<Rightarrow> g e | Inr x \<Rightarrow> h x) ks"
  "(\<And>a b. q = (a, b) \<Longrightarrow> adds (i a b) ks) \<Longrightarrow> adds (case q of (a, b) \<Rightarrow> i a b) ks"
  "(c \<Longrightarrow> adds m ks) \<Longrightarrow> (\<not> c \<Longrightarrow> adds n ks) \<Longrightarrow> adds (if c then m else n) ks"
  by (auto split: option.split sum.split prod.split)

lemma created_closed: "read_closed (\<lambda>s. created_kinds (reqlog s) = c)"
  by (simp add: read_closed_def)

lemma adds_get: "adds (api_get kind key f) ks"
  by (intro adds_keeps keeps_api_get created_closed)

lemma adds_event: "adds (record_event L et re m) ks"
  by (intro adds_keeps keeps_record_event created_closed)

lemma adds_CreateOrPatch:
  assumes C: "create_or_patch_law C" and f: "\<And>x c. keeps (\<lambda>s. created_kinds (reqlog s) = c) (f x)"
  shows "adds (CreateOrPatch L kind key C obj f) [kind]"
proof -
  have "adds (C obj f) []"
    by (rule adds_keeps,
        rule C [unfolded create_or_patch_law_def, rule_format, OF conjI, OF read_closed_world_free])
      (auto intro: f created_closed)
  moreover have "adds (log_request (ReqCreateOrPatch kind key)) [kind]"
    by (auto simp: adds_def log_request_def go_simps)
  ultimately show ?thesis
    unfolding CreateOrPatch_def then_go_def
    by (intro adds_case adds_return adds_bind_right)
qed

lemma adds_write: "adds (write_credentials u p config) ks"
  unfolding write_credentials_def by (intro adds_keeps go_rules triple_modify) simp_all

lemma keeps_created_mutate_pvc: "keeps (\<lambda>s. created_kinds (reqlog s) = c) (mutate_pvc L config b x)"
  unfolding mutate_pvc_def mutate_pvc_existing_def mutate_pvc_new_def Let_def
  by (intro go_rules keeps_constructPVCSpec tame_SetControllerReference keeps_api_get
      keeps_record_event created_closed) simp_all

lemma adds_ensure:
  assumes "lawful L"
  shows "adds (ensureSecret L config) [KindSecret]" "adds (ensureService L config) [KindService]"
    "adds (ensureStatefulSet L Y config) [KindStatefulSet]"
    "adds (ensurePersistentVolumeClaim L config b) [KindPersistentVolumeClaim]"
proof -
  note laws = lawful_create_or_patch [OF assms]
  show "adds (ensureSecret L config) [KindSecret]"
    unfolding ensureSecret_def Let_def
    by (rule adds_bind_left [OF adds_gets], intro adds_case adds_return adds_bind_left [OF adds_get]
        adds_bind_left [OF adds_write] adds_bind_right [OF adds_CreateOrPatch] laws tame_mutate_secret)
  show "adds (ensureService L config) [KindService]"
    unfolding ensureService_def Let_def
    by (rule adds_bind_left [OF adds_gets], intro adds_case adds_return
        adds_bind_right [OF adds_CreateOrPatch] laws tame_mutate_service)
  have con: "adds (constructStatefulSetSpec L Y k config) []" for k
    by (intro adds_keeps keeps_constructStatefulSetSpec)
  show "adds (ensureStatefulSet L Y config) [KindStatefulSet]"
    unfolding ensureStatefulSet_def Let_def
    by (rule adds_bind_left [OF adds_gets], rule adds_bind_left [OF con], intro adds_case adds_return
        adds_bind_right [OF adds_CreateOrPatch] laws tame_mutate_statefulset)
  show "adds (ensurePersistentVolumeClaim L config b) [KindPersistentVolumeClaim]"
    unfolding ensurePersistentVolumeClaim_def Let_def then_go_def
    by (rule adds_bind_left [OF adds_gets], intro adds_case adds_return adds_bind_left [OF adds_event]
        adds_bind_right [OF adds_CreateOrPatch] laws keeps_created_mutate_pvc)
qed

lemma adds_apply:
  assumes "lawful L"
  shows "adds (applyConfiguration L Y config changes)
    [KindSecret, KindService, KindStatefulSet, KindPersistentVolumeClaim]"
proof -
  have 1: "adds (apply_secret L config changes) [KindSecret]"
    "adds (apply_service L config' changes) [KindService]"
    "adds (apply_statefulset L Y config' changes) [KindStatefulSet]" for config'
    unfolding apply_secret_def apply_service_def apply_statefulset_def
    by (intro adds_case adds_return adds_bind_right adds_ensure assms)+
  have pvc: "adds (apply_pvc L config' changes) [KindPersistentVolumeClaim]" for config'
    unfolding apply_pvc_def
    by (rule adds_bind_left [OF adds_gets])
      (intro adds_case adds_return adds_bind_right adds_ensure assms)
  have rest: "adds (bind_go (apply_pvc L config' changes) (\<lambda>err. return_go (config', err)))
      [KindPersistentVolumeClaim]" for config' :: KodeResourceConfig
    by (intro adds_bind_right pvc adds_return)
  have "adds (applyConfiguration L Y config changes)
      ([KindSecret] @ [KindService] @ [KindStatefulSet] @ [KindPersistentVolumeClaim])"
    unfolding applyConfiguration_def
    by (rule adds_bind [OF 1(1)], intro adds_case adds_return, rule adds_bind [OF 1(2)],
        intro adds_case adds_return, rule adds_bind [OF 1(3)], intro adds_case adds_return rest)
  then show ?thesis by simp
qed

subsection \<open>Converged children pass the validation\<close>

lemma constructed_statefulset_ok:
  assumes "t_ContainerTemplateSpec template = Some spec"
    and run: "constructStatefulSetSpec L Y k (InitKodeResourcesConfig k template) s = (Ret (Inr d), t)"
  shows "\<exists>cs ics. statefulset_ok k spec (InitKodeResourcesConfig k template) cs ics d"
proof -
  let ?c = "InitKodeResourcesConfig k template"
  have known: "ct_Type spec \<in> {''code-server'', ''webtop''}"
    using constructStatefulSetSpec_unknown [of ?c template spec L Y k s] assms by fastforce
  obtain cr where cr: "rc_Credentials ?c = Some cr" using rc_Credentials_Init by blast
  obtain cs ics where side: "ensureSidecarContainers Y ?c = Inr (cs, ics)"
    using run constructStatefulSetSpec_known [OF _ assms(1) cr known, where L = L and Y = Y and k = k]
      main_containers_single [of k "k_Spec k" spec cr]
    by (cases "ensureSidecarContainers Y ?c") (auto simp: finish_StatefulSet_def Let_def go_simps)
  from constructStatefulSetSpec_ok [OF assms(1) known side, of L s] run show ?thesis by auto
qed

lemma hasMatchingAccessModes_refl: "hasMatchingAccessModes ms ms"
  by (simp add: hasMatchingAccessModes_def list_all_iff)

lemma check_selectors_own:
  "set keys \<subseteq> fst ` set required \<Longrightarrow> check_selectors required required keys = None"
proof (induction keys)
  case (Cons key rest)
  then obtain v where "map_of required key = Some v" by (cases "map_of required key") (auto simp: map_of_eq_None_iff)
  with Cons show ?case by (simp add: data_lookup_def)
qed simp

lemma map_eq_secret_data:
  "map_eq data (secret_data cr) \<Longrightarrow>
     map_of data ''username'' = Some (cr_Username cr) \<and> map_of data ''password'' = Some (cr_Password cr)"
  by (simp add: map_eq_iff secret_data_def)

lemma validateConfiguration_converged:
  assumes L: "lawful L" "reads_pure L"
    and C: "converged L Y config (kode s) (world s)"
    and config: "config = InitKodeResourcesConfig (kode s) template"
      "t_ContainerTemplateSpec template = Some spec"
    and labels: "\<And>secret. fst (lib_getSecret L (child_key (kode s) (GetSecretName (kode s))) (world s)) = Inr secret
      \<Longrightarrow> hasRequiredLabels (sec_Labels secret) (config_labels config)"
  shows "\<exists>t. validateConfiguration L config s = (Ret None, t) \<and> same_but_log s t"
proof -
  obtain secret cr service set d where C':
    "fst (lib_getSecret L (child_key (kode s) (GetSecretName (kode s))) (world s)) = Inr secret"
    "map_eq (sec_Data secret) (secret_data cr)"
    "fst (lib_getService L (child_key (kode s) (GetServiceName (kode s))) (world s)) = Inr service"
    "svc_Spec service = desired_service_spec config"
    "fst (lib_getStatefulSet L (child_key (kode s) (GetStatefulSetName (kode s))) (world s)) = Inr set"
    "desired_statefulset L Y (kode s) config d" "ss_Spec set = ss_Spec d"
    "pvc_converged L config (kode s) (world s)"
    using C unfolding converged_def by blast
  have "constructStatefulSetSpec L Y (kode s) config s = (Ret (Inr d), s)"
    using C'(6) by (simp add: desired_statefulset_def)
  then obtain cs ics where ok: "statefulset_ok (kode s) spec config cs ics d"
    using constructed_statefulset_ok [OF config(2)] config(1) by blast
  then obtain c0 rest where pod: "pt_Containers (sts_Template (ss_Spec d)) = c0 # rest"
    "c_Image c0 = ct_Image spec" "sts_Replicas (ss_Spec d) = Some 1"
    and vol: "ks_Storage (k_Spec (kode s)) = None \<or>
      list_ex (\<lambda>m. vm_Name m = ''kode-storage'') (c_VolumeMounts c0)"
    unfolding statefulset_ok_def Let_def
    by (cases "pt_Containers (sts_Template (ss_Spec d))") (auto simp: DefaultKodeVolumeStorageName_def)
  note simps = Let_def go_simps pure_gets [OF L(2)] child_key_def [symmetric] same_but_log_snoc
  have 1: "\<exists>t. validateSecret L config u = (Ret None, t) \<and> same_but_log u t"
    if "same_but_log s u" for u
    using same_but_logD [OF that] C'(1) labels [OF C'(1)] map_eq_secret_data [OF C'(2)]
    by (simp add: validateSecret_def simps)
  have 2: "\<exists>t. validateService L config u = (Ret None, t) \<and> same_but_log u t"
    if "same_but_log s u" for u
    using same_but_logD [OF that] C'(3,4) lawful_simps(4) [OF L(1)]
    by (simp add: validateService_def simps desired_service_spec_def check_selectors_own)
  have 3: "\<exists>t. validateStatefulSet L config u = (Ret None, t) \<and> same_but_log u t"
    if "same_but_log s u" for u
    using same_but_logD [OF that] C'(5,7) pod vol config
    by (simp add: validateStatefulSet_def simps)
  have 4: "\<exists>t. validatePVC L config u = (Ret None, t) \<and> same_but_log u t"
    if "same_but_log s u" "ks_Storage (rc_KodeSpec config) = Some storage" for u storage
    using same_but_logD [OF that(1)] that(2) C'(8)
    by (auto simp: validatePVC_def simps pvc_converged_def hasMatchingAccessModes_refl
        quantity_Equal_def split: option.splits)
  obtain t1 where t1: "validateSecret L config s = (Ret None, t1)" "same_but_log s t1"
    using 1 [OF same_but_log_refl] by blast
  obtain t2 where t2: "validateService L config t1 = (Ret None, t2)" "same_but_log s t2"
    using 2 [OF t1(2)] same_but_log_trans [OF t1(2)] by blast
  obtain t3 where t3: "validateStatefulSet L config t2 = (Ret None, t3)" "same_but_log s t3"
    using 3 [OF t2(2)] same_but_log_trans [OF t2(2)] by blast
  show ?thesis
  proof (cases "ks_Storage (rc_KodeSpec config)")
    case None
    then show ?thesis using t1 t2 t3 by (simp add: validateConfiguration_def go_simps)
  next
    case (Some storage)
    then obtain t4 where "validatePVC L config t3 = (Ret None, t4)" "same_but_log s t4"
      using 4 [OF t3(2)] same_but_log_trans [OF t3(2)] by blast
    then show ?thesis using Some t1 t2 t3 by (simp add: validateConfiguration_def go_simps)
  qed
qed

subsection \<open>Converged children are checked without an error\<close>

lemma run_checks_total:
  assumes "\<And>c s. c \<in> set cs \<Longrightarrow> P s \<Longrightarrow> \<exists>b t. c s = (Ret (Inr b), t) \<and> P t" and "P s"
  shows "\<exists>b t. run_checks cs s = (Ret (Inr b), t) \<and> P t"
  using assms
proof (induction cs arbitrary: s)
  case (Cons c cs)
  obtain b t where t: "c s = (Ret (Inr b), t)" "P t" using Cons.prems(1) [of c s] Cons.prems(2) by auto
  have "\<exists>b' t'. run_checks cs t = (Ret (Inr b'), t') \<and> P t'"
    by (rule Cons.IH) (use Cons.prems(1) t(2) in auto)
  with t show ?case by (cases b) (auto simp: go_simps)
qed (auto simp: go_simps)

lemma checkResourcesReady_converged:
  assumes L: "reads_pure L" and C: "converged L Y config (kode s) (world s)"
    and config: "config = InitKodeResourcesConfig (kode s) template"
      "t_ContainerTemplateSpec template = Some spec"
  shows "\<exists>t. checkResourcesReady L config s = (Ret (Inr (all_ready L config (kode s) (world s))), t) \<and>
    same_but_log s t"
proof -
  obtain secret service set d pods where C':
    "fst (lib_getSecret L (child_key (kode s) (GetSecretName (kode s))) (world s)) = Inr secret"
    "fst (lib_getService L (child_key (kode s) (GetServiceName (kode s))) (world s)) = Inr service"
    "fst (lib_getStatefulSet L (child_key (kode s) (GetStatefulSetName (kode s))) (world s)) = Inr set"
    "desired_statefulset L Y (kode s) config d" "ss_Spec set = ss_Spec d"
    "fst (lib_listPods L (k_Namespace (kode s)) (config_labels config) (world s)) = Inr pods"
    "pvc_converged L config (kode s) (world s)"
    using C unfolding converged_def by blast
  have "constructStatefulSetSpec L Y (kode s) (InitKodeResourcesConfig (kode s) template) s =
      (Ret (Inr d), s)"
    using C'(4) config(1) by (simp add: desired_statefulset_def)
  from constructed_statefulset_ok [OF config(2) this] have "sts_Replicas (ss_Spec set) = Some 1"
    by (auto simp: statefulset_ok_def Let_def C'(5))
  note simps = C'(1-3,6) this Let_def go_simps pure_gets [OF L] api_list_pure [OF L] same_but_log_snoc
  have step: "\<exists>b u. c t = (Ret (Inr b), u) \<and> same_but_log s u"
    if "c \<in> List.set (map (\<lambda>check. check L config) ComposeResourceChecks)" and t: "same_but_log s t" for c t
  proof -
    note same = same_but_logD [OF t]
    have "\<exists>b u. checkPVCReady L config t = (Ret (Inr b), u) \<and> same_but_log t u"
      using C'(7) config(1) same
      by (auto simp: checkPVCReady_def pvc_converged_def simps split: option.splits)
    moreover have "\<exists>b u. checkSecretReady L config t = (Ret (Inr b), u) \<and> same_but_log t u"
      "\<exists>b u. checkServiceReady L config t = (Ret (Inr b), u) \<and> same_but_log t u"
      "\<exists>b u. checkStatefulSetReady L config t = (Ret (Inr b), u) \<and> same_but_log t u"
      "\<exists>b u. checkPodsReady L config t = (Ret (Inr b), u) \<and> same_but_log t u"
      using same
      by (auto simp: checkSecretReady_def checkServiceReady_def checkStatefulSetReady_def
          checkPodsReady_def deref_go_run simps)
    ultimately show ?thesis
      using that(1) same_but_log_trans [OF t] by (auto simp: ComposeResourceChecks_def; blast)
  qed
  have "\<exists>b t. checkResourcesReady L config s = (Ret (Inr b), t) \<and> same_but_log s t"
    unfolding checkResourcesReady_def
    by (rule run_checks_total) (erule (1) step, rule same_but_log_refl)
  then obtain b t where t: "checkResourcesReady L config s = (Ret (Inr b), t)" "same_but_log s t"
    by blast
  with resources_check.verdict [OF L t(1)] show ?thesis by blast
qed

end
