(* ===== verification/State_Machine.thy ===== *)
theory State_Machine
  imports Kode_Object
begin

text \<open>
  internal/statemachine/statemachine.go. \<open>HandleState\<close> is generic in the resource; the locale states
  what it needs of the resource's phase accessors and of \<open>UpdateStatus\<close>, and Kode provides it.
\<close>

type_synonym 's handler = "('s, Phase \<times> ctrl_Result \<times> error option) go"

definition NewStateMachine :: "(Phase \<times> 's handler) list" where
  "NewStateMachine = []"

definition RegisterHandler ::
  "Phase \<Rightarrow> 's handler \<Rightarrow> (Phase \<times> 's handler) list \<Rightarrow> (Phase \<times> 's handler) list" where
  "RegisterHandler phase handler sm = AList.update phase handler sm"

definition HandleState ::
  "('s \<Rightarrow> Phase) \<Rightarrow> (Phase \<Rightarrow> 's \<Rightarrow> 's) \<Rightarrow> ('s, error option) go \<Rightarrow> Duration
    \<Rightarrow> (Phase \<times> 's handler) list \<Rightarrow> ('s, ctrl_Result \<times> error option) go" where
  "HandleState getPhase setPhase updateStatus interval sm =
     bind_go (gets_go getPhase) (\<lambda>currentPhase.
       case map_of sm currentPhase of
         None \<Rightarrow> return_go (result_none,
                   Some (ErrorText (''no handler for phase '' @ phase_string currentPhase)))
       | Some handler \<Rightarrow>
           bind_go handler (\<lambda>(nextPhase, result, err).
             case err of
               Some e \<Rightarrow> return_go (result_after interval, Some e)
             | None \<Rightarrow>
                 if nextPhase \<noteq> currentPhase then
                   then_go (modify_go (setPhase nextPhase))
                  (bind_go updateStatus (\<lambda>uerr.
                     case uerr of
                       Some e \<Rightarrow> return_go (result_after interval, Some e)
                     | None \<Rightarrow> return_go (result, None)))
                 else return_go (result, None)))"

lemma map_of_RegisterHandler [simp]:
  "map_of (RegisterHandler p h sm) q = (if q = p then Some h else map_of sm q)"
  by (simp add: RegisterHandler_def update_conv')

lemma map_of_NewStateMachine [simp]: "map_of NewStateMachine q = None"
  by (simp add: NewStateMachine_def)

locale state_machine =
  fixes ok :: bool
    and getPhase :: "'s \<Rightarrow> Phase"
    and setPhase :: "Phase \<Rightarrow> 's \<Rightarrow> 's"
    and updateStatus :: "('s, error option) go"
  assumes get_set: "getPhase (setPhase p s) = p"
    and update_keeps_phase:
      "ok \<Longrightarrow> triple (\<lambda>s. getPhase s = p) updateStatus (\<lambda>_ s. getPhase s = p) (\<lambda>s. getPhase s = p)"
begin

lemma no_handler:
  "map_of sm (getPhase s) = None \<Longrightarrow>
     HandleState getPhase setPhase updateStatus i sm s =
       (Ret (result_none, Some (ErrorText (''no handler for phase '' @ phase_string (getPhase s)))), s)"
  by (simp add: HandleState_def go_simps)

lemma handler_error:
  "map_of sm (getPhase s) = Some h \<Longrightarrow> h s = (Ret (p, r, Some e), t) \<Longrightarrow>
     HandleState getPhase setPhase updateStatus i sm s = (Ret (result_after i, Some e), t)"
  by (simp add: HandleState_def go_simps)

lemma same_phase:
  "map_of sm (getPhase s) = Some h \<Longrightarrow> h s = (Ret (getPhase s, r, None), t) \<Longrightarrow>
     HandleState getPhase setPhase updateStatus i sm s = (Ret (r, None), t)"
  by (simp add: HandleState_def go_simps)

lemma new_phase:
  "map_of sm (getPhase s) = Some h \<Longrightarrow> h s = (Ret (p, r, None), t) \<Longrightarrow> p \<noteq> getPhase s \<Longrightarrow>
     updateStatus (setPhase p t) = (Ret uerr, u) \<Longrightarrow>
     HandleState getPhase setPhase updateStatus i sm s =
       (Ret (case uerr of None \<Rightarrow> (r, None) | Some e \<Rightarrow> (result_after i, Some e)), u)"
  by (auto simp: HandleState_def go_simps split: option.splits)

text \<open>
  If the handler of the current phase keeps the phase in memory and never announces a next phase
  outside \<open>A\<close>, a run of the machine ends in a phase of \<open>A\<close>, or in the phase it started from when it
  reports an error of the handler.
\<close>

lemma HandleState_phase:
  assumes ok and h: "map_of sm p = Some h"
    and keep: "keeps (\<lambda>s. getPhase s = p) h"
    and next_in: "yields h (\<lambda>(q, r, err). err = None \<longrightarrow> q \<in> A)"
  shows "triple (\<lambda>s. getPhase s = p) (HandleState getPhase setPhase updateStatus i sm)
    (\<lambda>(r, err) s. getPhase s \<in> A \<or> err \<noteq> None \<and> getPhase s = p)
    (\<lambda>s. getPhase s \<in> insert p A)"
proof (rule tripleI)
  fix s x t
  assume p: "getPhase s = p" and run: "HandleState getPhase setPhase updateStatus i sm s = (Ret x, t)"
  then obtain q r err u where hs: "h s = (Ret (q, r, err), u)"
    by (cases "h s"; cases "fst (h s)") (auto simp: HandleState_def h go_simps)
  have u: "getPhase u = p" using tripleD [OF keep p hs] .
  have A: "err = None \<Longrightarrow> q \<in> A" using yieldsD [OF next_in hs] by simp
  show "(\<lambda>(r, err) s. getPhase s \<in> A \<or> err \<noteq> None \<and> getPhase s = p) x t"
  proof (cases "err = None \<and> q \<noteq> p")
    case True
    then obtain v uerr where us: "updateStatus (setPhase q u) = (Ret uerr, v)"
      using run p hs by (cases "updateStatus (setPhase q u)"; cases "fst (updateStatus (setPhase q u))")
        (auto simp: HandleState_def h go_simps)
    have "getPhase v = q"
      using tripleD [OF update_keeps_phase [OF \<open>ok\<close>] get_set us] .
    then show ?thesis
      using run p hs us A True by (auto simp: HandleState_def h go_simps split: option.splits)
  next
    case False
    then show ?thesis
      using run p hs u A by (auto simp: HandleState_def h go_simps split: option.splits)
  qed
next
  fix s t
  assume p: "getPhase s = p" and run: "HandleState getPhase setPhase updateStatus i sm s = (Panic, t)"
  show "getPhase t \<in> insert p A"
  proof (cases "fst (h s)")
    case Panic
    then have "h s = (Panic, t)"
      using run p by (cases "h s") (simp add: HandleState_def h go_simps)
    from triple_panicD [OF keep p this] show ?thesis by simp
  next
    case (Ret x)
    then obtain q r err u where hs: "h s = (Ret (q, r, err), u)"
      by (cases "h s"; cases x) auto
    have A: "err = None \<Longrightarrow> q \<in> A" using yieldsD [OF next_in hs] by simp
    have us: "updateStatus (setPhase q u) = (Panic, t)" "err = None"
      using run p hs by (auto simp: HandleState_def h go_simps split: option.splits if_splits
          prod.splits outcome.splits)
    have "getPhase t = q"
      using triple_panicD [OF update_keeps_phase [OF \<open>ok\<close>] get_set us(1)] .
    with A us show ?thesis by simp
  qed
qed

end

text \<open>Kode as the resource of the machine.\<close>

definition st_GetPhase :: "'w st \<Rightarrow> Phase" where
  "st_GetPhase s = GetPhase (kode s)"

definition st_SetPhase :: "Phase \<Rightarrow> 'w st \<Rightarrow> 'w st" where
  "st_SetPhase p s = s\<lparr>kode := SetPhase p (kode s)\<rparr>"

interpretation kode_sm: state_machine "lawful L" st_GetPhase st_SetPhase "UpdateStatus L" for L
proof
  show "st_GetPhase (st_SetPhase p s) = p" for p and s :: "'a st"
    by (simp add: st_GetPhase_def st_SetPhase_def kode_res.get_set_phase)
next
  show "triple (\<lambda>s. st_GetPhase s = p) (UpdateStatus L) (\<lambda>_ s. st_GetPhase s = p)
      (\<lambda>s. st_GetPhase s = p)" if "lawful L" for p
    unfolding st_GetPhase_def by (rule UpdateStatus_kode [OF that])
qed

end
