(* ===== verification/Cleanup.thy ===== *)
theory Cleanup
  imports Kode_Object
begin

text \<open>
  internal/cleanup and the two CleanupableResource implementations (the cleanup.go files of the
  controllers). The interface is the locale \<open>cleanupable\<close>; the manager's lemmas are proved once in
  it and hold for Kode and EntryPoint by interpretation.
\<close>

record Resource =
  res_Kind :: string
  res_Name :: string
  res_Namespace :: string
  res_Object :: ObjKind

definition res_key :: "Resource \<Rightarrow> NamespacedName" where
  "res_key r = NamespacedName (res_Namespace r) (res_Name r)"

subsection \<open>The cleanup manager\<close>

definition deleteResource :: "'w lib \<Rightarrow> Resource \<Rightarrow> ('w st, error option) go" where
  "deleteResource L resource =
     bind_go (api_delete L (res_Object resource) (res_key resource)) (\<lambda>err.
       case err of
         Some e \<Rightarrow>
           if IsNotFound e then return_go None
           else return_go (Some (Wrapped (''failed to delete '' @ res_Kind resource @ '': '') e))
       | None \<Rightarrow> return_go None)"

text \<open>The loop over the resources; the accumulator is \<^verbatim>\<open>deletionInitiated\<close>.\<close>

fun cleanup_loop ::
  "'w lib \<Rightarrow> (Resource \<Rightarrow> bool) \<Rightarrow> Resource list \<Rightarrow> bool \<Rightarrow> ('w st, error + bool) go" where
  "cleanup_loop L should [] deletionInitiated = return_go (Inr deletionInitiated)"
| "cleanup_loop L should (res # rest) deletionInitiated =
     (if should res then
        bind_go (deleteResource L res) (\<lambda>err.
          case err of
            Some e \<Rightarrow>
              if \<not> IsNotFound e then return_go (Inl e)
              else cleanup_loop L should rest deletionInitiated
          | None \<Rightarrow> cleanup_loop L should rest True)
      else cleanup_loop L should rest deletionInitiated)"

definition manager_Cleanup ::
  "'w lib \<Rightarrow> Resource list \<Rightarrow> (Resource \<Rightarrow> bool) \<Rightarrow> ('w st, ctrl_Result \<times> error option) go" where
  "manager_Cleanup L resources should =
     bind_go (cleanup_loop L should resources False) (\<lambda>r.
       case r of
         Inl e \<Rightarrow> return_go (result_none, Some e)
       | Inr deletionInitiated \<Rightarrow>
           if deletionInitiated then return_go (result_after (seconds 1), None)
           else return_go (result_none, None))"

subsection \<open>What the loop requests\<close>

fun is_delete :: "Request \<Rightarrow> bool" where
  "is_delete (ReqDelete k n b) = True"
| "is_delete _ = False"

fun delete_target :: "Request \<Rightarrow> (ObjKind \<times> NamespacedName) option" where
  "delete_target (ReqDelete k n b) = Some (k, n)"
| "delete_target _ = None"

definition targets :: "Resource list \<Rightarrow> (Resource \<Rightarrow> bool) \<Rightarrow> (ObjKind \<times> NamespacedName) list" where
  "targets rs should = map (\<lambda>r. (res_Object r, res_key r)) (filter should rs)"

lemma deleteResource_run:
  "\<exists>err t b. deleteResource L r s = (Ret err, t) \<and>
     reqlog t = reqlog s @ [ReqDelete (res_Object r) (res_key r) b] \<and>
     kode t = kode s \<and> events t = events s \<and> cache t = cache s \<and>
     (\<forall>e. err = Some e \<longrightarrow> \<not> IsNotFound e)"
  by (auto simp: deleteResource_def api_delete_def go_simps split: prod.splits option.splits)

text \<open>
  The delete requests of the loop are, in order, those of an initial segment of the deletable
  resources, and of all of them if the loop reports no error.
\<close>

lemma cleanup_loop_run:
  "\<exists>r t ds. cleanup_loop L should rs init s = (Ret r, t) \<and> reqlog t = reqlog s @ ds \<and>
     kode t = kode s \<and> list_all is_delete ds \<and>
     (\<exists>n. map delete_target ds = map Some (take n (targets rs should))) \<and>
     (\<forall>b. r = Inr b \<longrightarrow> map delete_target ds = map Some (targets rs should) \<and>
        b = (init \<or> targets rs should \<noteq> []))"
proof (induction rs arbitrary: init s)
  case Nil
  show ?case
    by (intro exI [of _ "Inr init"] exI [of _ s] exI [of _ "[]"])
      (auto simp: go_simps targets_def)
next
  case (Cons res rest)
  show ?case
  proof (cases "should res")
    case False
    with Cons.IH [of init s] show ?thesis by (simp add: targets_def)
  next
    case True
    obtain err t b where d: "deleteResource L res s = (Ret err, t)"
      "reqlog t = reqlog s @ [ReqDelete (res_Object res) (res_key res) b]" "kode t = kode s"
      "\<forall>e. err = Some e \<longrightarrow> \<not> IsNotFound e"
      using deleteResource_run [of L res s] by blast
    have T: "targets (res # rest) should = (res_Object res, res_key res) # targets rest should"
      using True by (simp add: targets_def)
    show ?thesis
    proof (cases err)
      case (Some e)
      with d have "cleanup_loop L should (res # rest) init s = (Ret (Inl e), t)"
        using True by (simp add: go_simps)
      with d T show ?thesis
        by (intro exI [of _ "Inl e"] exI [of _ t]
            exI [of _ "[ReqDelete (res_Object res) (res_key res) b]"])
          (auto intro: exI [of _ 1])
    next
      case None
      obtain r u ds where ih: "cleanup_loop L should rest True t = (Ret r, u)"
        "reqlog u = reqlog t @ ds" "kode u = kode t" "list_all is_delete ds"
        "\<exists>n. map delete_target ds = map Some (take n (targets rest should))"
        "\<forall>b. r = Inr b \<longrightarrow> map delete_target ds = map Some (targets rest should) \<and> b"
        using Cons.IH [of True t] by auto
      obtain n where n: "map delete_target ds = map Some (take n (targets rest should))"
        using ih(5) by blast
      have "cleanup_loop L should (res # rest) init s = (Ret r, u)"
        using True d None ih by (simp add: go_simps)
      with d ih T n show ?thesis
        by (intro exI [of _ r] exI [of _ u]
            exI [of _ "ReqDelete (res_Object res) (res_key res) b # ds"])
          (auto intro: exI [of _ "Suc n"])
    qed
  qed
qed

subsection \<open>The interface\<close>

locale cleanupable =
  fixes getResources :: "'r \<Rightarrow> Resource list"
    and shouldDelete :: "'r \<Rightarrow> Resource \<Rightarrow> bool"
    and kindOf :: "string \<Rightarrow> ObjKind"
    and namespaceOf :: "'r \<Rightarrow> string"
  assumes kinds_match: "res \<in> set (getResources r) \<Longrightarrow> res_Object res = kindOf (res_Kind res)"
    and own_namespace: "res \<in> set (getResources r) \<Longrightarrow> res_Namespace res = namespaceOf r"
    and distinct_kinds: "distinct (map res_Object (getResources r))"
begin

lemma targets_distinct: "distinct (targets (getResources r) (shouldDelete r))"
proof -
  have "distinct (map fst (targets (getResources r) (shouldDelete r)))"
    using distinct_kinds [of r] by (simp add: targets_def comp_def distinct_map_filter)
  then show ?thesis by (simp add: distinct_map)
qed

lemma Cleanup_run:
  "\<exists>res err t ds. manager_Cleanup L (getResources r) (shouldDelete r) s = (Ret (res, err), t) \<and>
     reqlog t = reqlog s @ ds \<and> kode t = kode s \<and> list_all is_delete ds \<and>
     distinct (map delete_target ds) \<and>
     (\<forall>k n b. ReqDelete k n b \<in> set ds \<longrightarrow>
        (\<exists>x \<in> set (getResources r). shouldDelete r x \<and> k = kindOf (res_Kind x) \<and>
           n = NamespacedName (namespaceOf r) (res_Name x))) \<and>
     (err = None \<longrightarrow> map delete_target ds = map Some (targets (getResources r) (shouldDelete r)) \<and>
        res = (if targets (getResources r) (shouldDelete r) = [] then result_none
               else result_after (seconds 1)))"
proof -
  obtain x t ds where run: "cleanup_loop L (shouldDelete r) (getResources r) False s = (Ret x, t)"
    "reqlog t = reqlog s @ ds" "kode t = kode s" "list_all is_delete ds"
    "\<exists>n. map delete_target ds = map Some (take n (targets (getResources r) (shouldDelete r)))"
    "\<forall>b. x = Inr b \<longrightarrow> map delete_target ds = map Some (targets (getResources r) (shouldDelete r)) \<and>
        b = (targets (getResources r) (shouldDelete r) \<noteq> [])"
    using cleanup_loop_run [of L "shouldDelete r" "getResources r" False s] by auto
  obtain n where n:
    "map delete_target ds = map Some (take n (targets (getResources r) (shouldDelete r)))"
    using run(5) by blast
  have dist: "distinct (map delete_target ds)"
    unfolding n using targets_distinct [of r] by (simp add: distinct_map inj_on_def)
  have from_targets: "\<exists>y \<in> set (getResources r). shouldDelete r y \<and> k = kindOf (res_Kind y) \<and>
      m = NamespacedName (namespaceOf r) (res_Name y)" if "ReqDelete k m b \<in> set ds" for k m b
  proof -
    have "Some (k, m) \<in> set (map delete_target ds)" using that by force
    then have "(k, m) \<in> set (targets (getResources r) (shouldDelete r))"
      unfolding n by (auto dest: in_set_takeD)
    then show ?thesis
      by (auto simp: targets_def res_key_def kinds_match own_namespace)
  qed
  show ?thesis
  proof (cases x)
    case (Inl e)
    with run have "manager_Cleanup L (getResources r) (shouldDelete r) s = (Ret (result_none, Some e), t)"
      by (simp add: manager_Cleanup_def go_simps)
    with run dist from_targets show ?thesis by blast
  next
    case (Inr b)
    with run have "manager_Cleanup L (getResources r) (shouldDelete r) s =
        (Ret (if b then result_after (seconds 1) else result_none, None), t)"
      by (simp add: manager_Cleanup_def go_simps)
    with run dist from_targets Inr show ?thesis by auto
  qed
qed

end

subsection \<open>Kode\<close>

text \<open>\<^verbatim>\<open>GetResources\<close> and \<^verbatim>\<open>ShouldDelete\<close> of KodeCleanupResource.\<close>

definition Kode_GetResources :: "Kode \<Rightarrow> Resource list" where
  "Kode_GetResources k =
     [\<lparr>res_Kind = ''StatefulSet'', res_Name = k_Name k, res_Namespace = k_Namespace k,
       res_Object = KindStatefulSet\<rparr>,
      \<lparr>res_Kind = ''Service'', res_Name = GetServiceName k, res_Namespace = k_Namespace k,
       res_Object = KindService\<rparr>,
      \<lparr>res_Kind = ''Secret'', res_Name = GetSecretName k, res_Namespace = k_Namespace k,
       res_Object = KindSecret\<rparr>] @
     (case ks_Storage (k_Spec k) of
        None \<Rightarrow> []
      | Some st \<Rightarrow>
          if st_ExistingVolumeClaim st = None then
            [\<lparr>res_Kind = ''PersistentVolumeClaim'', res_Name = GetPVCName k,
              res_Namespace = k_Namespace k, res_Object = KindPersistentVolumeClaim\<rparr>]
          else [])"

definition Kode_ShouldDelete :: "Kode \<Rightarrow> Resource \<Rightarrow> bool" where
  "Kode_ShouldDelete k resource =
     (case ks_Storage (k_Spec k) of
        None \<Rightarrow> True
      | Some st \<Rightarrow>
          (case st_KeepVolume st of
             Some keep \<Rightarrow> if keep then res_Kind resource \<noteq> ''PersistentVolumeClaim'' else True
           | None \<Rightarrow> True))"

definition kind_of_name :: "string \<Rightarrow> ObjKind" where
  "kind_of_name n =
     (if n = ''StatefulSet'' then KindStatefulSet
      else if n = ''Service'' then KindService
      else if n = ''Secret'' then KindSecret
      else if n = ''HTTPRoute'' then KindHTTPRoute
      else KindPersistentVolumeClaim)"

subsection \<open>EntryPoint\<close>

definition EntryPoint_GetResources :: "EntryPoint \<Rightarrow> Resource list" where
  "EntryPoint_GetResources e =
     [\<lparr>res_Kind = ''HTTPRoute'', res_Name = e_Name e, res_Namespace = e_Namespace e,
       res_Object = KindHTTPRoute\<rparr>]"

definition EntryPoint_ShouldDelete :: "EntryPoint \<Rightarrow> Resource \<Rightarrow> bool" where
  "EntryPoint_ShouldDelete e resource = True"

interpretation kode_cleanup: cleanupable Kode_GetResources Kode_ShouldDelete kind_of_name k_Namespace
  by unfold_locales
    (auto simp: Kode_GetResources_def kind_of_name_def split: option.splits if_splits)

interpretation ep_cleanup: cleanupable EntryPoint_GetResources EntryPoint_ShouldDelete kind_of_name
  e_Namespace
  by unfold_locales (auto simp: EntryPoint_GetResources_def kind_of_name_def)

end
