(* ===== verification/Validation.thy ===== *)
theory Validation
  imports Managed_Resource
begin

text \<open>
  pkg/validation: the checks made on a Kode before it is configured, and the condition that
  records their outcome.
\<close>

record ValidationResult =
  Valid :: bool
  Errors :: "string list"

definition validateInitPlugin :: "InitPluginSpec \<Rightarrow> nat \<Rightarrow> error option" where
  "validateInitPlugin plugin index =
     (if ip_Image plugin = ''''
      then Some (ErrorText (''initPlugin['' @ itoa (int index) @ '']: image is required''))
      else None)"

text \<open>The loop of \<open>ValidateKode\<close>, from index \<open>i\<close> on.\<close>

fun validate_plugins :: "nat \<Rightarrow> InitPluginSpec list \<Rightarrow> ValidationResult \<Rightarrow> ValidationResult" where
  "validate_plugins i [] result = result"
| "validate_plugins i (plugin # rest) result =
     (case validateInitPlugin plugin i of
        Some err \<Rightarrow> validate_plugins (Suc i) rest
                     (result\<lparr>Valid := False, Errors := Errors result @ [Error err]\<rparr>)
      | None \<Rightarrow> validate_plugins (Suc i) rest result)"

definition ValidateKode :: "Kode \<Rightarrow> ValidationResult" where
  "ValidateKode k = validate_plugins 0 (ks_InitPlugins (k_Spec k)) \<lparr>Valid = True, Errors = []\<rparr>"

definition SetValidationCondition ::
  "Time \<Rightarrow> ValidationResult \<Rightarrow> 'a CommonStatus_scheme \<Rightarrow> 'a CommonStatus_scheme" where
  "SetValidationCondition now result status =
     (if Valid result then
        SetCondition now ConditionTypeValidated ConditionTrue ''ValidationSucceeded''
          ''Resource validation succeeded'' status
      else
        let errorMsg = join ''; '' (Errors result) in
        SetCondition now ConditionTypeValidated ConditionFalse ''ValidationFailed''
          (''Resource validation failed: '' @ errorMsg) status)"

subsection \<open>The outcome as a comprehension\<close>

definition plugin_errors :: "nat \<Rightarrow> InitPluginSpec list \<Rightarrow> string list" where
  "plugin_errors i ps =
     concat (map (\<lambda>(j, p). case validateInitPlugin p j of None \<Rightarrow> [] | Some e \<Rightarrow> [Error e])
       (zip [i..<i + length ps] ps))"

lemma plugin_errors_simps [simp]:
  "plugin_errors i [] = []"
  "plugin_errors i (p # ps) =
     (case validateInitPlugin p i of None \<Rightarrow> [] | Some e \<Rightarrow> [Error e]) @ plugin_errors (Suc i) ps"
proof -
  have "[i..<i + length (p # ps)] = i # [Suc i..<Suc i + length ps]"
    by (simp add: upt_conv_Cons del: upt_Suc)
  then show "plugin_errors i (p # ps) =
     (case validateInitPlugin p i of None \<Rightarrow> [] | Some e \<Rightarrow> [Error e]) @ plugin_errors (Suc i) ps"
    by (simp add: plugin_errors_def)
qed (simp add: plugin_errors_def)

lemma validate_plugins_eq:
  "validate_plugins i ps r =
     r\<lparr>Valid := Valid r \<and> plugin_errors i ps = [], Errors := Errors r @ plugin_errors i ps\<rparr>"
  by (induction i ps r rule: validate_plugins.induct) (auto split: option.splits)

lemma plugin_errors_empty: "plugin_errors i ps = [] \<longleftrightarrow> (\<forall>p \<in> set ps. ip_Image p \<noteq> '''')"
  by (induction ps arbitrary: i) (auto simp: validateInitPlugin_def)

lemma Valid_ValidateKode:
  "Valid (ValidateKode k) \<longleftrightarrow> (\<forall>p \<in> set (ks_InitPlugins (k_Spec k)). ip_Image p \<noteq> '''')"
  by (simp add: ValidateKode_def validate_plugins_eq plugin_errors_empty)

lemma Errors_ValidateKode:
  "Errors (ValidateKode k) = plugin_errors 0 (ks_InitPlugins (k_Spec k))"
  by (simp add: ValidateKode_def validate_plugins_eq)

lemma length_plugin_errors:
  "length (plugin_errors i ps) = length (filter (\<lambda>p. ip_Image p = '''') ps)"
  by (induction ps arbitrary: i) (auto simp: validateInitPlugin_def)

end
