(* ===== verification/Kode_Handlers.thy ===== *)
theory Kode_Handlers
  imports State_Machine Cleanup Validation Kode_Frame
begin

text \<open>
  internal/controllers/kode/handlers.go and utils.go: the handlers of the eight phases and what they
  share. A handler returns the next phase, a result and an error; \<open>L\<close> stands for the libraries and
  \<open>Y\<close> for YAML. The type assertion at the start of each handler holds by typing.
\<close>

subsection \<open>Sequences of statements\<close>

fun seq_go :: "('s, unit) go list \<Rightarrow> ('s, unit) go" where
  "seq_go [] = return_go ()"
| "seq_go (m # ms) = then_go m (seq_go ms)"

text \<open>An event whose error is ignored by the caller.\<close>

definition emit :: "'w lib \<Rightarrow> EventType \<Rightarrow> string \<Rightarrow> string \<Rightarrow> ('w st, unit) go" where
  "emit L eventtype reason message =
     bind_go (record_event L eventtype reason message) (\<lambda>_. return_go ())"

subsection \<open>utils.go\<close>

definition fetchTemplatesWithRetry :: "'w lib \<Rightarrow> ('w st, error + Template) go" where
  "fetchTemplatesWithRetry L =
     bind_go (gets_go kode) (\<lambda>k.
       let ref = ks_TemplateRef (k_Spec k) in
       bind_go (Fetch L ref) (\<lambda>r.
         case r of
           Inl e \<Rightarrow>
             if IsNotFound e then return_go (Inl (Wrapped ''template not found: '' e))
             else return_go (Inl (Wrapped ''failed to fetch template: '' e))
         | Inr template \<Rightarrow>
             if ref_Kind ref = TemplateKindContainer \<or> ref_Kind ref = TemplateKindClusterContainer then
               bind_go (deref_go (t_ContainerTemplateSpec template)) (\<lambda>spec.
               bind_go (SetRuntime L \<lparr>rt_Runtime = RuntimeContainer, rt_Type = ct_Runtime spec\<rparr>) (\<lambda>err.
                 case err of
                   Some e \<Rightarrow> return_go (Inl (Wrapped ''failed to update runtime: '' e))
                 | None \<Rightarrow> return_go (Inr template)))
             else return_go (Inr template)))"

definition handleReconcileError :: "'w lib \<Rightarrow> error \<Rightarrow> string \<Rightarrow> 'w st handler" where
  "handleReconcileError L err message =
     then_go (seq_go
       [set_condition L ConditionTypeReady ConditionFalse ''ReconciliationFailed''
          (message @ '': '' @ Error err),
        set_condition L ConditionTypeAvailable ConditionFalse ''ReconciliationFailed''
          ''Kode resource is not available'',
        set_condition L ConditionTypeProgressing ConditionFalse ''ReconciliationFailed''
          ''Kode resource is not progressing'',
        modify_status (\<lambda>t. t\<lparr>LastError := Some (Error err)\<rparr>)])
    (bind_go (gets_go (\<lambda>s. lib_now L (world s))) (\<lambda>now.
     then_go (modify_status (\<lambda>t. t\<lparr>LastErrorTime := Some now\<rparr>))
    (bind_go (UpdateStatus L) (\<lambda>_.
       return_go (PhaseFailed, result_after (lib_ReconcileInterval L), Some err)))))"

text \<open>
  The pattern \<^verbatim>\<open>if err := kode.UpdateStatus(...); err != nil { return handleReconcileError(...) }\<close>.
\<close>

definition update_or_fail :: "'w lib \<Rightarrow> string \<Rightarrow> 'w st handler \<Rightarrow> 'w st handler" where
  "update_or_fail L message continue =
     bind_go (UpdateStatus L) (\<lambda>err.
       case err of Some e \<Rightarrow> handleReconcileError L e message | None \<Rightarrow> continue)"

text \<open>The pattern that stays in a phase and requeues when the update fails.\<close>

definition update_or_stay :: "'w lib \<Rightarrow> Phase \<Rightarrow> 'w st handler \<Rightarrow> 'w st handler" where
  "update_or_stay L phase continue =
     bind_go (UpdateStatus L) (\<lambda>err.
       case err of Some e \<Rightarrow> return_go (phase, result_requeue, None) | None \<Rightarrow> continue)"

text \<open>A warning event followed by \<open>handleReconcileError\<close>.\<close>

definition warn_and_fail :: "'w lib \<Rightarrow> string \<Rightarrow> string \<Rightarrow> error \<Rightarrow> string \<Rightarrow> 'w st handler" where
  "warn_and_fail L reason text err message =
     then_go (emit L EventTypeWarning reason (text @ Error err)) (handleReconcileError L err message)"

definition determineCurrentState :: "'w lib \<Rightarrow> ('w st, Phase \<times> error option) go" where
  "determineCurrentState L =
     bind_go (gets_go kode) (\<lambda>k.
       if k_DeletionTimestamp k \<noteq> None then return_go (PhaseDeleting, None)
       else
         bind_go (fetchTemplatesWithRetry L) (\<lambda>r.
           case r of
             Inl e \<Rightarrow> return_go (PhaseFailed, Some e)
           | Inr template \<Rightarrow>
               bind_go (gets_go (\<lambda>s. InitKodeResourcesConfig (kode s) template)) (\<lambda>config.
               bind_go (checkResourcesReady L config) (\<lambda>c.
                 case c of
                   Inl e \<Rightarrow> return_go (PhaseFailed, Some e)
                 | Inr ready \<Rightarrow>
                     if \<not> ready then return_go (PhaseConfiguring, None)
                     else return_go (PhaseActive, None)))))"

subsection \<open>Pending\<close>

definition handlePendingState :: "'w lib \<Rightarrow> 'w st handler" where
  "handlePendingState L =
     bind_go (gets_go kode) (\<lambda>k.
       let result = ValidateKode k in
       if \<not> Valid result then
         handleReconcileError L (ErrorText (join ''; '' (Errors result))) ''Validation failed''
       else
         then_go (seq_go
           [set_condition L ConditionTypeReady ConditionFalse ''Pending''
              ''Kode resource is pending configuration'',
            set_condition L ConditionTypeAvailable ConditionFalse ''Pending''
              ''Kode resource is not yet available'',
            set_condition L ConditionTypeProgressing ConditionTrue ''Configuring''
              ''Kode resource is being configured''])
        (update_or_fail L ''Failed to update Kode status''
           (return_go (PhaseConfiguring, result_requeue, None))))"

subsection \<open>Configuring\<close>

text \<open>\<^verbatim>\<open>strings.Join\<close> over the keys of the map, in the order Go ranges over it.\<close>

definition change_list :: "'w lib \<Rightarrow> string list \<Rightarrow> string" where
  "change_list L changes = join '', '' (lib_mapRange L changes)"

definition handleConfiguringState :: "'w lib \<Rightarrow> yaml_lib \<Rightarrow> 'w st handler" where
  "handleConfiguringState L Y =
     bind_go (fetchTemplatesWithRetry L) (\<lambda>r.
       case r of
         Inl e \<Rightarrow> warn_and_fail L ''TemplateFetchFailed'' ''Failed to fetch template: '' e
                    ''Failed to fetch template''
       | Inr template \<Rightarrow>
     bind_go (gets_go (\<lambda>s. InitKodeResourcesConfig (kode s) template)) (\<lambda>config.
     bind_go (detectChanges L Y config) (\<lambda>d.
       case d of
         Inl e \<Rightarrow> warn_and_fail L ''ChangeDetectionFailed'' ''Failed to detect configuration changes: '' e
                    ''Failed to detect changes''
       | Inr changes \<Rightarrow>
     then_go (if changes \<noteq> [] then
                emit L EventTypeNormal ''ConfigurationRequired''
                  (''Configuration required for: '' @ change_list L changes)
              else return_go ())
    (bind_go (applyConfiguration L Y config changes) (\<lambda>(config, err).
       case err of
         Some e \<Rightarrow> warn_and_fail L ''ConfigurationFailed'' ''Failed to apply configuration: '' e
                     ''Failed to apply configuration''
       | None \<Rightarrow>
     then_go (if changes \<noteq> [] then
                emit L EventTypeNormal ''ConfigurationApplied''
                  ''Successfully applied resource configuration''
              else return_go ())
    (bind_go (validateConfiguration L config) (\<lambda>verr.
       case verr of
         Some e \<Rightarrow> warn_and_fail L ''ValidationFailed'' ''Configuration validation failed: '' e
                     ''Failed to validate configuration''
       | None \<Rightarrow>
     then_go (seq_go
       [set_condition L ConditionTypeReady ConditionFalse ''Configuring''
          ''Kode resources are being configured'',
        set_condition L ConditionTypeAvailable ConditionFalse ''Configuring''
          ''Kode is not yet available'',
        set_condition L ConditionTypeProgressing ConditionTrue ''Configuring''
          ''Kode resources are being configured''])
    (update_or_fail L ''Failed to update status''
       (return_go (PhaseProvisioning, result_requeue, None))))))))))"

subsection \<open>Provisioning\<close>

definition handleProvisioningState :: "'w lib \<Rightarrow> 'w st handler" where
  "handleProvisioningState L =
     bind_go (fetchTemplatesWithRetry L) (\<lambda>r.
       case r of
         Inl e \<Rightarrow> warn_and_fail L ''TemplateFetchFailed'' ''Failed to fetch template: '' e
                    ''Failed to fetch template''
       | Inr template \<Rightarrow>
     bind_go (gets_go (\<lambda>s. InitKodeResourcesConfig (kode s) template)) (\<lambda>config.
     bind_go (checkResourcesReady L config) (\<lambda>c.
       case c of
         Inl e \<Rightarrow> warn_and_fail L ''ReadinessCheckFailed'' ''Failed to check resource readiness: '' e
                    ''Failed to check resource readiness''
       | Inr ready \<Rightarrow>
           if \<not> ready then
             then_go (seq_go
               [set_condition L ConditionTypeReady ConditionFalse ''Provisioning''
                  ''Resources are still being provisioned'',
                set_condition L ConditionTypeAvailable ConditionFalse ''Provisioning''
                  ''Resources are not yet available'',
                set_condition L ConditionTypeProgressing ConditionTrue ''Provisioning''
                  ''Resources are being provisioned''])
            (update_or_fail L ''Failed to update status''
               (return_go (PhaseProvisioning, result_after (lib_ReconcileInterval L), None)))
           else
             then_go (seq_go
               [set_condition L ConditionTypeReady ConditionTrue ''ResourcesReady''
                  ''All Kode resources are ready'',
                set_condition L ConditionTypeAvailable ConditionTrue ''ResourcesReady''
                  ''Kode is available'',
                set_condition L ConditionTypeProgressing ConditionFalse ''Provisioned''
                  ''Kode resources are fully provisioned'',
                modify_status (\<lambda>t. t\<lparr>KodePort := t_Port template\<rparr>)])
            (update_or_fail L ''Failed to update status''
               (then_go (emit L EventTypeNormal ''ProvisioningComplete''
                           ''All resources successfully provisioned and ready'')
                        (return_go (PhaseActive, result_none, None)))))))"

subsection \<open>Active\<close>

text \<open>
  One of the three tests on the conditions: \<^verbatim>\<open>GetCondition\<close> returns nil where the condition is
  absent, and the field access panics.
\<close>

definition refresh_condition ::
  "'w lib \<Rightarrow> ConditionType \<Rightarrow> ConditionStatus \<Rightarrow> string \<Rightarrow> string \<Rightarrow> ('w st, bool) go" where
  "refresh_condition L t st reason message =
     bind_go (gets_go (\<lambda>s. k_GetCondition t (kode s))) (\<lambda>p.
     bind_go (deref_go p) (\<lambda>c.
       if co_Status c \<noteq> st \<or> co_Reason c \<noteq> reason then
         then_go (set_condition L t st reason message) (return_go True)
       else return_go False))"

definition active_healthy :: "'w lib \<Rightarrow> 'w st handler" where
  "active_healthy L =
     bind_go (refresh_condition L ConditionTypeReady ConditionTrue ''ResourcesHealthy''
                ''All resources are healthy'') (\<lambda>c1.
     bind_go (refresh_condition L ConditionTypeAvailable ConditionTrue ''ServiceAvailable''
                ''Service is operating normally'') (\<lambda>c2.
     bind_go (refresh_condition L ConditionTypeProgressing ConditionFalse ''Stable''
                ''No ongoing changes'') (\<lambda>c3.
       if c1 \<or> c2 \<or> c3 then
         update_or_fail L ''Failed to update status''
           (return_go (PhaseActive, result_after (lib_LongReconcileInterval L), None))
       else return_go (PhaseActive, result_after (lib_LongReconcileInterval L), None))))"

definition handleActiveState :: "'w lib \<Rightarrow> 'w st handler" where
  "handleActiveState L =
     bind_go (gets_go kode) (\<lambda>k.
       if k_Generation k \<noteq> ObservedGeneration (k_Status k) then
         then_go (seq_go
           [set_condition L ConditionTypeProgressing ConditionTrue ''UpdateRequired''
              ''Kode spec has changed and needs updating'',
            set_condition L ConditionTypeReady ConditionFalse ''UpdatePending''
              ''Update is pending due to spec changes''])
        (update_or_fail L ''Failed to update status''
           (then_go (emit L EventTypeNormal ''UpdateDetected''
                       ''Configuration changes detected, initiating update'')
                    (return_go (PhaseUpdating, result_requeue, None))))
       else
     bind_go (fetchTemplatesWithRetry L) (\<lambda>r.
       case r of
         Inl e \<Rightarrow> warn_and_fail L ''TemplateFetchFailed''
                    ''Failed to fetch template during active check: '' e ''Failed to fetch template''
       | Inr template \<Rightarrow>
     bind_go (gets_go (\<lambda>s. InitKodeResourcesConfig (kode s) template)) (\<lambda>config.
     bind_go (checkResourcesReady L config) (\<lambda>c.
       case c of
         Inl e \<Rightarrow> warn_and_fail L ''ReadinessCheckFailed'' ''Failed to check resource health: '' e
                    ''Failed to check resource readiness''
       | Inr ready \<Rightarrow>
           if \<not> ready then
             then_go (seq_go
               [set_condition L ConditionTypeReady ConditionFalse ''ResourcesNotReady''
                  ''One or more resources are no longer ready'',
                set_condition L ConditionTypeAvailable ConditionFalse ''ServiceDegraded''
                  ''Service may be degraded'',
                set_condition L ConditionTypeProgressing ConditionTrue ''Updating''
                  ''Attempting to restore resource health''])
            (update_or_fail L ''Failed to update status''
               (then_go (emit L EventTypeWarning ''HealthDegraded''
                           ''Resource health check failed, initiating recovery'')
                        (return_go (PhaseUpdating, result_after (lib_ReconcileInterval L), None))))
           else
             bind_go (gets_go kode) (\<lambda>k.
               if KodePort (k_Status k) \<noteq> t_Port template then
                 then_go (modify_status (\<lambda>t. t\<lparr>KodePort := t_Port template\<rparr>))
                         (update_or_fail L ''Failed to update status'' (active_healthy L))
               else active_healthy L)))))"

subsection \<open>Updating\<close>

text \<open>After the changes are applied and validated.\<close>

definition updating_finish :: "'w lib \<Rightarrow> Template \<Rightarrow> KodeResourceConfig \<Rightarrow> 'w st handler" where
  "updating_finish L template config =
     bind_go (checkResourcesReady L config) (\<lambda>c.
       case c of
         Inl e \<Rightarrow> warn_and_fail L ''ReadinessCheckFailed''
                    ''Failed to check resource readiness after update: '' e
                    ''Failed to check resource readiness''
       | Inr ready \<Rightarrow>
           if \<not> ready then
             then_go (seq_go
               [set_condition L ConditionTypeProgressing ConditionTrue ''UpdateInProgress''
                  ''Update in progress, waiting for resources to be ready'',
                set_condition L ConditionTypeReady ConditionFalse ''UpdateInProgress''
                  ''Resources are being updated''])
            (update_or_fail L ''Failed to update status''
               (return_go (PhaseUpdating, result_after (lib_ReconcileInterval L), None)))
           else
             bind_go (gets_go kode) (\<lambda>k.
             then_go (seq_go
               [modify_status (\<lambda>t. t\<lparr>ObservedGeneration := k_Generation k\<rparr>),
                modify_status (\<lambda>t. t\<lparr>KodePort := t_Port template\<rparr>),
                set_condition L ConditionTypeReady ConditionTrue ''UpdateComplete''
                  ''Update completed successfully'',
                set_condition L ConditionTypeAvailable ConditionTrue ''ServiceAvailable''
                  ''Service is operating normally'',
                set_condition L ConditionTypeProgressing ConditionFalse ''UpdateComplete''
                  ''Update process has completed''])
            (update_or_fail L ''Failed to update status''
               (then_go (emit L EventTypeNormal ''UpdateComplete''
                           ''Resource update completed successfully'')
                        (return_go (PhaseActive, result_none, None))))))"

definition updating_no_changes :: "'w lib \<Rightarrow> 'w st handler" where
  "updating_no_changes L =
     bind_go (gets_go kode) (\<lambda>k.
     then_go (seq_go
       [modify_status (\<lambda>t. t\<lparr>ObservedGeneration := k_Generation k\<rparr>),
        set_condition L ConditionTypeProgressing ConditionFalse ''NoChanges''
          ''No changes detected during update'',
        set_condition L ConditionTypeReady ConditionTrue ''ResourcesHealthy''
          ''All resources are healthy''])
    (update_or_fail L ''Failed to update status''
       (return_go (PhaseActive, result_requeue, None))))"

definition handleUpdatingState :: "'w lib \<Rightarrow> yaml_lib \<Rightarrow> 'w st handler" where
  "handleUpdatingState L Y =
     bind_go (fetchTemplatesWithRetry L) (\<lambda>r.
       case r of
         Inl e \<Rightarrow> warn_and_fail L ''TemplateFetchFailed'' ''Failed to fetch template during update: '' e
                    ''Failed to fetch template''
       | Inr template \<Rightarrow>
     bind_go (gets_go (\<lambda>s. InitKodeResourcesConfig (kode s) template)) (\<lambda>config.
     bind_go (detectChanges L Y config) (\<lambda>d.
       case d of
         Inl e \<Rightarrow> warn_and_fail L ''ChangeDetectionFailed'' ''Failed to detect configuration changes: '' e
                    ''Failed to detect changes''
       | Inr changes \<Rightarrow>
           if changes = [] then updating_no_changes L
           else
     bind_go (applyConfiguration L Y config changes) (\<lambda>(config, err).
       case err of
         Some e \<Rightarrow> warn_and_fail L ''UpdateFailed'' ''Failed to apply updates: '' e
                     ''Failed to apply updates''
       | None \<Rightarrow>
     bind_go (validateConfiguration L config) (\<lambda>verr.
       case verr of
         Some e \<Rightarrow> warn_and_fail L ''ValidationFailed'' ''Update validation failed: '' e
                     ''Failed to validate updates''
       | None \<Rightarrow> updating_finish L template config)))))"

subsection \<open>Deleting\<close>

definition modify_deletion_cycle :: "(int \<Rightarrow> int) \<Rightarrow> ('w st, unit) go" where
  "modify_deletion_cycle f = modify_status (\<lambda>t. t\<lparr>DeletionCycle := f (DeletionCycle t)\<rparr>)"

definition deleting_first_cycle :: "'w lib \<Rightarrow> 'w st handler" where
  "deleting_first_cycle L =
     then_go (modify_deletion_cycle (\<lambda>_. 1))
    (bind_go (gets_go kode) (\<lambda>k.
     bind_go (manager_Cleanup L (Kode_GetResources k) (Kode_ShouldDelete k)) (\<lambda>(result, err).
       case err of
         Some e \<Rightarrow> warn_and_fail L ''CleanupFailed'' ''Failed to initiate cleanup: '' e
                     ''Failed to initiate cleanup''
       | None \<Rightarrow>
           then_go (emit L EventTypeNormal ''DeletionStarted'' ''Resource cleanup initiated'')
                   (update_or_stay L PhaseDeleting (return_go (PhaseDeleting, result, None))))))"

definition deleting_next_cycle :: "'w lib \<Rightarrow> 'w st handler" where
  "deleting_next_cycle L =
     then_go (modify_deletion_cycle (\<lambda>n. n + 1))
    (update_or_stay L PhaseDeleting
       (bind_go (gets_go (\<lambda>s. DeletionCycle (k_Status (kode s)))) (\<lambda>cycle.
        then_go (if cycle > 10 then
                   emit L EventTypeWarning ''DeletionDelayed''
                     (''Resource deletion taking longer than expected (cycle '' @ itoa cycle @ '')'')
                 else return_go ())
                (return_go (PhaseDeleting, result_after (lib_ReconcileInterval L), None)))))"

definition deleting_finish :: "'w lib \<Rightarrow> 'w st handler" where
  "deleting_finish L =
     bind_go (gets_go kode) (\<lambda>k.
       if lib_ContainsFinalizer L (k_Finalizers k) KodeFinalizerName then
         bind_go (RemoveFinalizer L) (\<lambda>err.
           case err of
             Some e \<Rightarrow> warn_and_fail L ''FinalizerRemovalFailed'' ''Failed to remove finalizer: '' e
                         ''Failed to remove finalizer''
           | None \<Rightarrow>
               then_go (emit L EventTypeNormal ''DeletionComplete''
                          ''Resource cleanup completed successfully'')
                       (return_go (PhaseDeleting, result_none, None)))
       else return_go (PhaseDeleting, result_none, None))"

definition handleDeletingState :: "'w lib \<Rightarrow> 'w st handler" where
  "handleDeletingState L =
     then_go (seq_go
       [set_condition L ConditionTypeReady ConditionFalse ''Deleting'' ''Resource is being deleted'',
        set_condition L ConditionTypeAvailable ConditionFalse ''Deleting'' ''Resource is shutting down'',
        set_condition L ConditionTypeProgressing ConditionTrue ''Deleting''
          ''Resource deletion in progress''])
    (update_or_stay L PhaseDeleting
       (bind_go (checkResourcesDeleted L) (\<lambda>c.
          case c of
            Inl e \<Rightarrow> warn_and_fail L ''DeletionCheckFailed''
                       ''Failed to check child resources deletion status: '' e
                       ''Failed to check child resources deletion''
          | Inr childResourcesDeleted \<Rightarrow>
              if \<not> childResourcesDeleted then
                bind_go (gets_go (\<lambda>s. DeletionCycle (k_Status (kode s)))) (\<lambda>cycle.
                  if cycle = 0 then deleting_first_cycle L else deleting_next_cycle L)
              else deleting_finish L)))"

subsection \<open>Failed\<close>

definition maxRetries :: int where
  "maxRetries = 5"

definition determineRecoveryPhase :: "'w lib \<Rightarrow> ('w st, Phase) go" where
  "determineRecoveryPhase L =
     bind_go (fetchTemplatesWithRetry L) (\<lambda>r.
       case r of
         Inl e \<Rightarrow> return_go PhasePending
       | Inr template \<Rightarrow>
     bind_go (gets_go (\<lambda>s. InitKodeResourcesConfig (kode s) template)) (\<lambda>config.
     bind_go (checkResourcesReady L config) (\<lambda>c.
       case c of
         Inl e \<Rightarrow> return_go PhasePending
       | Inr ready \<Rightarrow>
           if \<not> ready then return_go PhaseProvisioning
           else
             bind_go (gets_go kode) (\<lambda>k.
               if k_Generation k \<noteq> ObservedGeneration (k_Status k) then return_go PhaseConfiguring
               else return_go PhasePending))))"

definition failed_give_up :: "'w lib \<Rightarrow> 'w st handler" where
  "failed_give_up L =
     then_go (seq_go
       [set_condition L ConditionTypeReady ConditionFalse ''MaxRetriesExceeded''
          (''Recovery failed after '' @ itoa maxRetries @ '' attempts''),
        set_condition L ConditionTypeAvailable ConditionFalse ''ServiceUnavailable''
          ''Service is unavailable due to persistent failures'',
        set_condition L ConditionTypeProgressing ConditionFalse ''RecoveryAbandoned''
          ''Recovery attempts abandoned due to maximum retries''])
    (update_or_stay L PhaseFailed
       (then_go (emit L EventTypeWarning ''RecoveryAbandoned''
                   (''Recovery abandoned after '' @ itoa maxRetries @
                    '' failed attempts. Manual intervention required''))
                (return_go (PhaseFailed, result_after (lib_LongReconcileInterval L), None))))"

definition failed_retry :: "'w lib \<Rightarrow> 'w st handler" where
  "failed_retry L =
     then_go (modify_status (\<lambda>t. t\<lparr>RetryCount := RetryCount t + 1\<rparr>))
    (bind_go (gets_go (\<lambda>s. RetryCount (k_Status (kode s)))) (\<lambda>n.
     then_go (seq_go
       [set_condition L ConditionTypeReady ConditionFalse ''AttemptingRecovery''
          (''Recovery attempt '' @ itoa n @ '' of '' @ itoa maxRetries),
        set_condition L ConditionTypeAvailable ConditionFalse ''RecoveryInProgress''
          ''Service availability unknown during recovery'',
        set_condition L ConditionTypeProgressing ConditionTrue ''RecoveryInProgress''
          (''Attempting recovery (try '' @ itoa n @ ''/'' @ itoa maxRetries @ '')''),
        modify_status (\<lambda>t. if LastError t \<noteq> None then t\<lparr>LastError := None, LastErrorTime := None\<rparr>
                          else t)])
    (update_or_stay L PhaseFailed
       (then_go (emit L EventTypeNormal ''RecoveryAttempt''
                   (''Starting recovery attempt '' @ itoa n @ '' of '' @ itoa maxRetries))
       (bind_go (determineRecoveryPhase L) (\<lambda>recoveryPhase.
        then_go (emit L EventTypeNormal ''RecoveryTransition''
                   (''Transitioning to '' @ phase_string recoveryPhase @ '' phase for recovery''))
                (return_go (recoveryPhase, result_requeue, None))))))))"

definition handleFailedState :: "'w lib \<Rightarrow> 'w st handler" where
  "handleFailedState L =
     bind_go (gets_go (\<lambda>s. RetryCount (k_Status (kode s)))) (\<lambda>n.
       if n \<ge> maxRetries then failed_give_up L else failed_retry L)"

subsection \<open>Unknown\<close>

text \<open>\<open>determineResourceState\<close> never returns an error; the type keeps the error result of the source.\<close>

definition determineResourceState :: "'w lib \<Rightarrow> ('w st, error + Phase) go" where
  "determineResourceState L =
     bind_go (fetchTemplatesWithRetry L) (\<lambda>r.
       case r of
         Inl e \<Rightarrow> return_go (Inr PhasePending)
       | Inr template \<Rightarrow>
     bind_go (gets_go (\<lambda>s. InitKodeResourcesConfig (kode s) template)) (\<lambda>config.
     bind_go (gets_go kode) (\<lambda>k.
       if k_Generation k \<noteq> ObservedGeneration (k_Status k) then return_go (Inr PhaseUpdating)
       else
         bind_go (checkResourcesReady L config) (\<lambda>c.
           case c of
             Inl e \<Rightarrow> return_go (Inr PhaseConfiguring)
           | Inr ready \<Rightarrow>
               if \<not> ready then return_go (Inr PhaseProvisioning)
               else return_go (Inr PhaseActive)))))"

definition set_phase :: "Phase \<Rightarrow> ('w st, unit) go" where
  "set_phase p = modify_go (\<lambda>s. s\<lparr>kode := SetPhase p (kode s)\<rparr>)"

text \<open>The common end of the three resolutions: store the phase, record the event, go there.\<close>

definition resolve_to :: "'w lib \<Rightarrow> Phase \<Rightarrow> string \<Rightarrow> string \<Rightarrow> 'w st handler" where
  "resolve_to L phase reason message =
     then_go (set_phase phase)
    (update_or_stay L PhaseUnknown
       (then_go (emit L EventTypeNormal reason message)
                (return_go (phase, result_requeue, None))))"

text \<open>From the call of \<open>determineResourceState\<close> to the end of the handler.\<close>

definition unknown_resolve :: "'w lib \<Rightarrow> 'w st handler" where
  "unknown_resolve L =
     bind_go (determineResourceState L) (\<lambda>d.
       case d of
         Inl e \<Rightarrow>
           then_go (emit L EventTypeWarning ''StateDeterminationFailed''
                      (''Failed to determine resource state: '' @ Error e))
                   (resolve_to L PhasePending ''StateResolution''
                      ''Unable to determine state, falling back to Pending phase'')
       | Inr determinedPhase \<Rightarrow>
           if determinedPhase \<noteq> PhaseUnknown then
             resolve_to L determinedPhase ''StateDetermined''
               (''Successfully determined resource state: '' @ phase_string determinedPhase)
           else
             resolve_to L PhasePending ''StateFallback''
               ''State determination inconclusive, falling back to Pending phase'')"

definition handleUnknownState :: "'w lib \<Rightarrow> 'w st handler" where
  "handleUnknownState L =
     then_go (seq_go
       [set_condition L ConditionTypeReady ConditionUnknown ''StateUnknown''
          ''Resource state cannot be determined'',
        set_condition L ConditionTypeAvailable ConditionUnknown ''StateUnknown''
          ''Resource availability cannot be determined'',
        set_condition L ConditionTypeProgressing ConditionUnknown ''StateUnknown''
          ''Resource progress cannot be determined''])
    (update_or_stay L PhaseUnknown
       (then_go (emit L EventTypeWarning ''StateUnknown''
                   ''Resource entered unknown state, attempting to determine correct state'')
       (bind_go (gets_go kode) (\<lambda>k.
          if k_DeletionTimestamp k \<noteq> None then return_go (PhaseDeleting, result_requeue, None)
          else
            unknown_resolve L))))"

end
