(* ===== verification/Kode_Phases.thy ===== *)
theory Kode_Phases
  imports Kode_Handlers
begin

text \<open>
  The phase machine of a Kode. The locale \<open>phase_handler\<close> is the contract of the handler of a phase:
  whatever it does, the phase in memory and every phase it sends to the API server is the current one
  or one of its successors, and so is the phase it announces. The eight handlers implement it, and the
  state machine keeps it; together they give the transition graph of the controller.
\<close>

subsection \<open>Phases in memory and phases sent\<close>

definition sent_within :: "Phase set \<Rightarrow> Request list \<Rightarrow> 'w st \<Rightarrow> bool" where
  "sent_within A log0 s \<longleftrightarrow>
     (\<exists>qs. reqlog s = log0 @ qs \<and> (\<forall>key t b. ReqPatchStatus key t b \<in> set qs \<longrightarrow> Phase_of t \<in> A))"

definition settled :: "Phase set \<Rightarrow> Request list \<Rightarrow> 'w st \<Rightarrow> bool" where
  "settled A log0 s \<longleftrightarrow> st_GetPhase s \<in> A \<and> sent_within A log0 s"

definition in_phase :: "Phase \<Rightarrow> Phase set \<Rightarrow> Request list \<Rightarrow> 'w st \<Rightarrow> bool" where
  "in_phase p A log0 s \<longleftrightarrow> st_GetPhase s = p \<and> p \<in> A \<and> sent_within A log0 s"

lemma sent_within_snoc:
  "reqlog t = reqlog s @ [q] \<Longrightarrow> sent_within A log0 s \<Longrightarrow>
     (\<And>key u b. q = ReqPatchStatus key u b \<Longrightarrow> Phase_of u \<in> A) \<Longrightarrow> sent_within A log0 t"
  unfolding sent_within_def by (auto; blast)

lemma sent_within_log: "reqlog t = reqlog s \<Longrightarrow> sent_within A log0 s \<Longrightarrow> sent_within A log0 t"
  by (simp add: sent_within_def)

lemma in_phase_settled: "in_phase p A log0 s \<Longrightarrow> settled A log0 s"
  by (auto simp: in_phase_def settled_def)

lemma calm_settled: "calm (settled A log0)"
  unfolding tame_def read_closed_def patch_closed_def cache_closed_def settled_def st_GetPhase_def
    GetPhase_def
  by (auto intro: sent_within_log sent_within_snoc)

lemma recounts_settled: "recounts (settled A log0)"
  by (auto simp: recounts_def settled_def st_GetPhase_def GetPhase_def intro: sent_within_log)

lemma keeps_emit: "keeps I (record_event L et re m) \<Longrightarrow> keeps I (emit L et re m)"
  unfolding emit_def by (intro go_rules) auto

text \<open>Cleaning up and removing the finalizer send no status.\<close>

lemma keeps_cleanup_loop:
  assumes closed: "\<And>s w kind key b. I s \<Longrightarrow>
      I (s\<lparr>world := w, reqlog := reqlog s @ [ReqDelete kind key b]\<rparr>)"
  shows "keeps I (cleanup_loop L should rs init)"
proof -
  have "keeps I (deleteResource L r)" for r
    unfolding deleteResource_def api_delete_def
    by (intro go_rules tripleI) (auto intro: closed split: prod.splits)
  then show ?thesis
    by (induction L should rs init rule: cleanup_loop.induct) (auto intro!: go_rules)
qed

lemma keeps_manager_Cleanup:
  assumes "\<And>s w kind key b. I s \<Longrightarrow>
      I (s\<lparr>world := w, reqlog := reqlog s @ [ReqDelete kind key b]\<rparr>)"
  shows "keeps I (manager_Cleanup L rs should)"
  unfolding manager_Cleanup_def by (intro go_rules keeps_cleanup_loop assms) auto

lemma settled_Cleanup: "keeps (settled A log0) (manager_Cleanup L rs should)"
  by (rule keeps_manager_Cleanup)
    (auto simp: settled_def st_GetPhase_def intro: sent_within_snoc)

lemma settled_RemoveFinalizer: "keeps (settled A log0) (RemoveFinalizer L)"
  by (rule keeps_RemoveFinalizer [OF calmD(1) [OF calm_settled]])
    (auto simp: settled_def st_GetPhase_def intro: sent_within_snoc)

subsection \<open>Building blocks of the handlers\<close>

lemma keeps_seq_go: "(\<And>m. m \<in> set ms \<Longrightarrow> keeps I m) \<Longrightarrow> keeps I (seq_go ms)"
  by (induction ms) (auto intro!: go_rules)

lemma tame_emit: "tame K I \<Longrightarrow> keeps I (emit L et re m)"
  by (intro keeps_emit tame_record_event)

lemma tame_handleReconcileError:
  "lawful L \<Longrightarrow> tame K I \<Longrightarrow> keeps I (handleReconcileError L e m)"
  unfolding handleReconcileError_def
  by (intro go_rules tame_modify_status tame_UpdateStatus keeps_seq_go)
    (auto intro!: tame_set_condition tame_modify_status)

lemma tame_warn_and_fail: "lawful L \<Longrightarrow> tame K I \<Longrightarrow> keeps I (warn_and_fail L re t e m)"
  unfolding warn_and_fail_def by (intro go_rules tame_emit tame_handleReconcileError)

lemma tame_update_or_fail:
  "lawful L \<Longrightarrow> tame K I \<Longrightarrow> keeps I h \<Longrightarrow> keeps I (update_or_fail L m h)"
  unfolding update_or_fail_def by (intro go_rules tame_UpdateStatus tame_handleReconcileError)

lemma tame_update_or_stay:
  "lawful L \<Longrightarrow> tame K I \<Longrightarrow> keeps I h \<Longrightarrow> keeps I (update_or_stay L p h)"
  unfolding update_or_stay_def by (intro go_rules tame_UpdateStatus) auto

lemma tame_fetchTemplates: "lawful L \<Longrightarrow> tame K I \<Longrightarrow> keeps I (fetchTemplatesWithRetry L)"
  unfolding fetchTemplatesWithRetry_def Let_def by (intro go_rules tame_rules) auto

lemmas tame_blocks = tame_rules tame_emit tame_handleReconcileError tame_warn_and_fail
  tame_update_or_fail tame_update_or_stay tame_fetchTemplates

lemmas calm_emit = tame_emit [where K = UNIV]
lemmas calm_handleReconcileError = tame_handleReconcileError [where K = UNIV]
lemmas calm_warn_and_fail = tame_warn_and_fail [where K = UNIV]
lemmas calm_blocks = calm_rules tame_blocks [where K = UNIV]

text \<open>
  What a handler announces: without an error, a phase of \<open>S\<close>.
\<close>

definition announces :: "'w st handler \<Rightarrow> Phase set \<Rightarrow> bool" where
  "announces h S = yields h (\<lambda>(q, r, err). err = None \<longrightarrow> q \<in> S)"

lemma announces_return [yield_rules]:
  "(err = None \<Longrightarrow> q \<in> S) \<Longrightarrow> announces (return_go (q, r, err)) S"
  unfolding announces_def by (rule yields_return) simp

lemma announces_bind [yield_rules]: "(\<And>x. announces (f x) S) \<Longrightarrow> announces (bind_go m f) S"
  unfolding announces_def by (rule yields_bind)

lemma announces_then [yield_rules]: "announces n S \<Longrightarrow> announces (then_go m n) S"
  unfolding announces_def by (rule yields_then)

lemma announces_if [yield_rules]:
  "(b \<Longrightarrow> announces m S) \<Longrightarrow> (\<not> b \<Longrightarrow> announces n S) \<Longrightarrow> announces (if b then m else n) S"
  by simp

lemma announces_case_option [yield_rules]:
  "(p = None \<Longrightarrow> announces m S) \<Longrightarrow> (\<And>x. p = Some x \<Longrightarrow> announces (f x) S)
    \<Longrightarrow> announces (case p of None \<Rightarrow> m | Some x \<Rightarrow> f x) S"
  by (cases p) auto

lemma announces_case_sum [yield_rules]:
  "(\<And>e. r = Inl e \<Longrightarrow> announces (f e) S) \<Longrightarrow> (\<And>x. r = Inr x \<Longrightarrow> announces (g x) S)
    \<Longrightarrow> announces (case r of Inl e \<Rightarrow> f e | Inr x \<Rightarrow> g x) S"
  by (cases r) auto

lemma announces_case_prod [yield_rules]:
  "(\<And>a b. p = (a, b) \<Longrightarrow> announces (f a b) S) \<Longrightarrow> announces (case p of (a, b) \<Rightarrow> f a b) S"
  by (cases p) auto

lemma announces_fail [yield_rules]: "announces (handleReconcileError L e m) S"
  unfolding handleReconcileError_def by (intro yield_rules) simp

lemma announces_warn [yield_rules]: "announces (warn_and_fail L re t e m) S"
  unfolding warn_and_fail_def by (intro yield_rules)

lemma announces_update_or_fail [yield_rules]:
  "announces h S \<Longrightarrow> announces (update_or_fail L m h) S"
  unfolding update_or_fail_def by (intro yield_rules)

lemma announces_update_or_stay [yield_rules]:
  "p \<in> S \<Longrightarrow> announces h S \<Longrightarrow> announces (update_or_stay L p h) S"
  unfolding update_or_stay_def by (intro yield_rules)

subsection \<open>The contract of a phase handler\<close>

text \<open>The successors of a phase, and the phases a run of its handler may leave behind.\<close>

fun successors :: "Phase \<Rightarrow> Phase list" where
  "successors PhasePending = [PhaseConfiguring]"
| "successors PhaseConfiguring = [PhaseProvisioning]"
| "successors PhaseProvisioning = [PhaseActive]"
| "successors PhaseActive = [PhaseUpdating]"
| "successors PhaseUpdating = [PhaseActive]"
| "successors PhaseDeleting = []"
| "successors PhaseFailed = [PhasePending, PhaseProvisioning, PhaseConfiguring]"
| "successors PhaseUnknown =
     [PhaseDeleting, PhasePending, PhaseUpdating, PhaseConfiguring, PhaseProvisioning, PhaseActive]"
| "successors (PhaseOther s) = []"

definition reach1 :: "Phase \<Rightarrow> Phase set" where
  "reach1 p = insert p (set (successors p))"

locale phase_handler =
  fixes ok :: bool
    and phase :: Phase
    and handler :: "'w st handler"
  assumes contract: "ok \<Longrightarrow>
      triple (in_phase phase (reach1 phase) log0) handler
        (\<lambda>(q, r, err) s. settled (reach1 phase) log0 s \<and> (err = None \<longrightarrow> q \<in> reach1 phase))
        (settled (reach1 phase) log0)"
begin

lemma HandleState_settled:
  assumes ok and h: "map_of sm phase = Some handler" and L: "lawful L"
  shows "triple (in_phase phase (reach1 phase) log0)
    (HandleState st_GetPhase st_SetPhase (UpdateStatus L) i sm)
    (\<lambda>_. settled (reach1 phase) log0) (settled (reach1 phase) log0)"
  unfolding HandleState_def
proof (rule triple_bind [where R = "\<lambda>p s. p = phase \<and> in_phase phase (reach1 phase) log0 s"])
  show "triple (in_phase phase (reach1 phase) log0) (gets_go st_GetPhase)
      (\<lambda>p s. p = phase \<and> in_phase phase (reach1 phase) log0 s) (settled (reach1 phase) log0)"
    by (rule triple_gets) (simp add: in_phase_def)
next
  fix p
  let ?S = "settled (reach1 phase) log0"
  have set: "triple ?S (modify_go (st_SetPhase q)) (\<lambda>_. ?S) ?S" if "q \<in> reach1 phase" for q
    by (rule triple_modify)
      (use that in \<open>auto simp: settled_def st_SetPhase_def st_GetPhase_def kode_res.get_set_phase
        intro: sent_within_log\<close>)
  have upd: "keeps ?S (UpdateStatus L)"
    by (intro calm_UpdateStatus calm_settled L)
  have after: "triple (\<lambda>s. ?S s \<and> (err = None \<longrightarrow> q \<in> reach1 phase))
      (case err of
         Some e \<Rightarrow> return_go (result_after i, Some e)
       | None \<Rightarrow>
           if q \<noteq> phase then
             then_go (modify_go (st_SetPhase q))
               (bind_go (UpdateStatus L) (\<lambda>uerr.
                  case uerr of Some e \<Rightarrow> return_go (result_after i, Some e)
                  | None \<Rightarrow> return_go (result, None)))
           else return_go (result, None)) (\<lambda>_. ?S) ?S" for q result err
  proof (cases "err = None \<and> q \<noteq> phase \<and> q \<in> reach1 phase")
    case True
    then have "keeps ?S (then_go (modify_go (st_SetPhase q))
               (bind_go (UpdateStatus L) (\<lambda>uerr.
                  case uerr of Some e \<Rightarrow> return_go (result_after i, Some e)
                  | None \<Rightarrow> return_go (result, None))))"
      by (intro go_rules set upd) auto
    then show ?thesis using True by (auto elim: triple_pre)
  qed (auto intro!: go_rules split: option.split)
  show "triple (\<lambda>s. p = phase \<and> in_phase phase (reach1 phase) log0 s)
      (case map_of sm p of
         None \<Rightarrow> return_go (result_none, Some (ErrorText (''no handler for phase '' @ phase_string p)))
       | Some handler \<Rightarrow>
           bind_go handler (\<lambda>(nextPhase, result, err).
             case err of
               Some e \<Rightarrow> return_go (result_after i, Some e)
             | None \<Rightarrow>
                 if nextPhase \<noteq> p then
                   then_go (modify_go (st_SetPhase nextPhase))
                     (bind_go (UpdateStatus L) (\<lambda>uerr.
                        case uerr of Some e \<Rightarrow> return_go (result_after i, Some e)
                        | None \<Rightarrow> return_go (result, None)))
                 else return_go (result, None))) (\<lambda>_. ?S) ?S"
  proof (cases "p = phase")
    case True
    show ?thesis
      unfolding True h option.case
      by (rule triple_bind [where R = "\<lambda>(q, r, err) s. ?S s \<and> (err = None \<longrightarrow> q \<in> reach1 phase)"],
          rule triple_pre [OF contract [OF \<open>ok\<close>]])
        (auto intro: triple_pre [OF after])
  qed (simp add: triple_def)
qed

end

text \<open>A handler that keeps calm assertions only has to announce the right phases.\<close>

lemma calm_handler:
  assumes keep: "ok \<Longrightarrow> keeps (settled (reach1 p) log0) h" and ann: "announces h (reach1 p)"
    and ok
  shows "triple (in_phase p (reach1 p) log0) h
      (\<lambda>(q, r, err) s. settled (reach1 p) log0 s \<and> (err = None \<longrightarrow> q \<in> reach1 p))
      (settled (reach1 p) log0)"
proof (rule tripleI)
  fix s x t
  assume I: "in_phase p (reach1 p) log0 s" and r: "h s = (Ret x, t)"
  show "(\<lambda>(q, r, err) s. settled (reach1 p) log0 s \<and> (err = None \<longrightarrow> q \<in> reach1 p)) x t"
    using tripleD [OF keep [OF \<open>ok\<close>] in_phase_settled [OF I] r]
      yieldsD [OF ann [unfolded announces_def] r] by auto
next
  fix s t
  assume "in_phase p (reach1 p) log0 s" "h s = (Panic, t)"
  then show "settled (reach1 p) log0 t"
    using triple_panicD [OF keep [OF \<open>ok\<close>]] in_phase_settled by blast
qed

subsection \<open>The eight handlers implement it\<close>

lemma tame_refresh_condition: "tame K I \<Longrightarrow> keeps I (refresh_condition L t st re m)"
  unfolding refresh_condition_def by (intro go_rules tame_set_condition) auto

lemma tame_handlePending: "lawful L \<Longrightarrow> tame K I \<Longrightarrow> keeps I (handlePendingState L)"
  unfolding handlePendingState_def Let_def
  by (intro go_rules tame_blocks keeps_seq_go) (auto intro: tame_set_condition)

text \<open>
  The two handlers that write need the configuration made from the Kode in memory to stay within the
  objects the assertion lets them write.
\<close>

definition fits :: "(ObjKind \<times> NamespacedName) set \<Rightarrow> ('w st \<Rightarrow> bool) \<Rightarrow> bool" where
  "fits K I \<longleftrightarrow>
     (\<forall>s s' template. I s \<longrightarrow> I s' \<longrightarrow> may_write K (InitKodeResourcesConfig (kode s) template) (kode s'))"

lemma fits_UNIV: "fits UNIV I"
  by (simp add: fits_def may_write_UNIV)

lemma fitsD: "fits K I \<Longrightarrow> I s \<Longrightarrow> may_write_in K I (InitKodeResourcesConfig (kode s) template)"
  by (simp add: fits_def may_write_in_def)

lemma tame_handleConfiguring:
  "lawful L \<Longrightarrow> tame K I \<Longrightarrow> fits K I \<Longrightarrow> keeps I (handleConfiguringState L Y)"
  unfolding handleConfiguringState_def
  by (rule keeps_bind, rule tame_fetchTemplates, assumption, assumption, rule triple_case_sum,
      rule tame_warn_and_fail, assumption, assumption, rule keeps_gets_bind, frule fitsD, assumption,
      (intro go_rules tame_blocks tame_applyConfiguration keeps_seq_go;
       (assumption | auto intro: tame_set_condition tame_modify_status)))

lemma tame_handleProvisioning: "lawful L \<Longrightarrow> tame K I \<Longrightarrow> keeps I (handleProvisioningState L)"
  unfolding handleProvisioningState_def
  by (intro go_rules tame_blocks keeps_seq_go) (auto intro: tame_set_condition tame_modify_status)

lemma tame_active_healthy: "lawful L \<Longrightarrow> tame K I \<Longrightarrow> keeps I (active_healthy L)"
  unfolding active_healthy_def by (intro go_rules tame_refresh_condition tame_blocks) auto

lemma tame_handleActive: "lawful L \<Longrightarrow> tame K I \<Longrightarrow> keeps I (handleActiveState L)"
  unfolding handleActiveState_def
  by (intro go_rules tame_blocks tame_active_healthy tame_modify_status keeps_seq_go)
    (auto intro: tame_set_condition)

lemma tame_updating_ends:
  "lawful L \<Longrightarrow> tame K I \<Longrightarrow> keeps I (updating_finish L template config)"
  "lawful L \<Longrightarrow> tame K I \<Longrightarrow> keeps I (updating_no_changes L)"
  unfolding updating_finish_def updating_no_changes_def
  by (intro go_rules tame_blocks keeps_seq_go; auto intro: tame_set_condition tame_modify_status)+

lemma tame_handleUpdating:
  "lawful L \<Longrightarrow> tame K I \<Longrightarrow> fits K I \<Longrightarrow> keeps I (handleUpdatingState L Y)"
  unfolding handleUpdatingState_def
  by (rule keeps_bind, rule tame_fetchTemplates, assumption, assumption, rule triple_case_sum,
      rule tame_warn_and_fail, assumption, assumption, rule keeps_gets_bind, frule fitsD, assumption,
      (intro go_rules tame_blocks tame_applyConfiguration tame_updating_ends keeps_seq_go;
       (assumption | auto intro: tame_set_condition tame_modify_status)))

lemma tame_determineRecoveryPhase:
  "lawful L \<Longrightarrow> tame K I \<Longrightarrow> keeps I (determineRecoveryPhase L)"
  unfolding determineRecoveryPhase_def by (intro go_rules tame_blocks) auto

lemma tame_handleFailed:
  "lawful L \<Longrightarrow> tame K I \<Longrightarrow> recounts I \<Longrightarrow> keeps I (handleFailedState L)"
  unfolding handleFailedState_def failed_give_up_def failed_retry_def
  by (intro go_rules tame_blocks tame_determineRecoveryPhase keeps_recount keeps_seq_go)
    (auto intro: tame_set_condition tame_modify_status)

lemmas calm_handlePending = tame_handlePending [where K = UNIV]
lemmas calm_handleConfiguring = tame_handleConfiguring [OF _ _ fits_UNIV]
lemmas calm_handleProvisioning = tame_handleProvisioning [where K = UNIV]
lemmas calm_handleActive = tame_handleActive [where K = UNIV]
lemmas calm_handleUpdating = tame_handleUpdating [OF _ _ fits_UNIV]
lemmas calm_handleFailed = tame_handleFailed [where K = UNIV]

lemma settled_handleDeleting:
  "lawful L \<Longrightarrow> keeps (settled A log0) (handleDeletingState L)"
  unfolding handleDeletingState_def deleting_first_cycle_def deleting_next_cycle_def
    deleting_finish_def modify_deletion_cycle_def
  by (intro go_rules calm_blocks calm_modify_status settled_Cleanup settled_RemoveFinalizer
      calm_settled keeps_seq_go) (auto intro: calm_set_condition calm_settled)

lemma yields_determineRecoveryPhase:
  "yields (determineRecoveryPhase L) (\<lambda>p. p \<in> {PhasePending, PhaseProvisioning, PhaseConfiguring})"
  unfolding determineRecoveryPhase_def by (intro yield_rules) auto

lemma yields_determineResourceState:
  "yields (determineResourceState L)
     (\<lambda>r. \<exists>p \<in> {PhasePending, PhaseUpdating, PhaseConfiguring, PhaseProvisioning, PhaseActive}.
        r = Inr p)"
  unfolding determineResourceState_def by (intro yield_rules) auto

lemma tame_determineResourceState:
  "lawful L \<Longrightarrow> tame K I \<Longrightarrow> keeps I (determineResourceState L)"
  unfolding determineResourceState_def by (intro go_rules tame_blocks) auto

lemmas calm_determineResourceState = tame_determineResourceState [where K = UNIV]

lemma settled_resolve_to:
  "lawful L \<Longrightarrow> p \<in> A \<Longrightarrow> keeps (settled A log0) (resolve_to L p re m)"
  unfolding resolve_to_def set_phase_def
  by (intro go_rules calm_blocks calm_settled triple_modify)
    (auto simp: settled_def st_GetPhase_def kode_res.get_set_phase intro: sent_within_log)

lemma settled_unknown_resolve:
  assumes "lawful L"
  shows "keeps (settled (reach1 PhaseUnknown) log0) (unknown_resolve L)"
  unfolding unknown_resolve_def
  by (rule keeps_bind_yields [OF calm_determineResourceState yields_determineResourceState])
    (auto intro!: settled_resolve_to calm_settled assms simp: reach1_def)

lemma settled_handleUnknown:
  assumes "lawful L"
  shows "keeps (settled (reach1 PhaseUnknown) log0) (handleUnknownState L)"
  unfolding handleUnknownState_def
  by (intro go_rules calm_blocks keeps_seq_go calm_settled assms settled_unknown_resolve)
    (auto intro: calm_set_condition calm_settled)

subsection \<open>Interpretations\<close>

lemma announces_bind_yields:
  "yields m B \<Longrightarrow> (\<And>x. B x \<Longrightarrow> announces (f x) S) \<Longrightarrow> announces (bind_go m f) S"
  unfolding announces_def by (rule yields_bind_strong)

lemma announces_failed_retry: "announces (failed_retry L) (reach1 PhaseFailed)"
  unfolding failed_retry_def
  by (rule announces_then, rule announces_bind, rule announces_then, rule announces_update_or_stay,
      simp add: reach1_def, rule announces_then,
      rule announces_bind_yields [OF yields_determineRecoveryPhase])
    (auto simp: reach1_def intro!: yield_rules)

lemma announces_resolve_to:
  "p \<in> S \<Longrightarrow> PhaseUnknown \<in> S \<Longrightarrow> announces (resolve_to L p re m) S"
  unfolding resolve_to_def by (intro yield_rules)

lemma announces_unknown_resolve: "announces (unknown_resolve L) (reach1 PhaseUnknown)"
  unfolding unknown_resolve_def
  by (rule announces_bind_yields [OF yields_determineResourceState])
    (auto simp: reach1_def intro!: announces_resolve_to)

lemma announces_handlers:
  "announces (handlePendingState L) (reach1 PhasePending)"
  "announces (handleConfiguringState L Y) (reach1 PhaseConfiguring)"
  "announces (handleProvisioningState L) (reach1 PhaseProvisioning)"
  "announces (handleActiveState L) (reach1 PhaseActive)"
  "announces (handleUpdatingState L Y) (reach1 PhaseUpdating)"
  "announces (handleDeletingState L) (reach1 PhaseDeleting)"
  "announces (handleFailedState L) (reach1 PhaseFailed)"
  "announces (handleUnknownState L) (reach1 PhaseUnknown)"
  unfolding handlePendingState_def handleConfiguringState_def
    handleProvisioningState_def handleActiveState_def active_healthy_def handleUpdatingState_def
    updating_finish_def updating_no_changes_def handleDeletingState_def deleting_first_cycle_def
    deleting_next_cycle_def deleting_finish_def handleFailedState_def failed_give_up_def
    handleUnknownState_def Let_def
  by (intro yield_rules announces_failed_retry announces_unknown_resolve; simp add: reach1_def)+

interpretation pending: phase_handler "lawful L" PhasePending "handlePendingState L" for L
  by (unfold_locales, rule calm_handler, erule calm_handlePending, rule calm_settled,
      rule announces_handlers)

interpretation configuring: phase_handler "lawful L" PhaseConfiguring "handleConfiguringState L Y"
  for L Y
  by (unfold_locales, rule calm_handler, erule calm_handleConfiguring, rule calm_settled,
      rule announces_handlers)

interpretation provisioning: phase_handler "lawful L" PhaseProvisioning "handleProvisioningState L"
  for L
  by (unfold_locales, rule calm_handler, erule calm_handleProvisioning, rule calm_settled,
      rule announces_handlers)

interpretation active: phase_handler "lawful L" PhaseActive "handleActiveState L" for L
  by (unfold_locales, rule calm_handler, erule calm_handleActive, rule calm_settled,
      rule announces_handlers)

interpretation updating: phase_handler "lawful L" PhaseUpdating "handleUpdatingState L Y" for L Y
  by (unfold_locales, rule calm_handler, erule calm_handleUpdating, rule calm_settled,
      rule announces_handlers)

interpretation deleting: phase_handler "lawful L" PhaseDeleting "handleDeletingState L" for L
  by (unfold_locales, rule calm_handler, erule settled_handleDeleting, rule announces_handlers)

interpretation failed: phase_handler "lawful L" PhaseFailed "handleFailedState L" for L
  by (unfold_locales, rule calm_handler, erule calm_handleFailed, rule calm_settled,
      rule recounts_settled, rule announces_handlers)

interpretation unknown: phase_handler "lawful L" PhaseUnknown "handleUnknownState L" for L
  by (unfold_locales, rule calm_handler, erule settled_handleUnknown, rule announces_handlers)

end
