(* ===== verification/Kode_Reconciler.thy ===== *)
theory Kode_Reconciler
  imports Kode_Phases
begin

text \<open>
  internal/controllers/kode/reconciler.go: one reconciliation of a Kode, from the fetch of the object
  to the run of the phase machine, and \<open>handleGenerationMismatch\<close> of utils.go.
\<close>

subsection \<open>Operations\<close>

definition handleGenerationMismatch :: "'w lib \<Rightarrow> ('w st, ctrl_Result \<times> error option) go" where
  "handleGenerationMismatch L =
     bind_go (gets_go kode) (\<lambda>k.
     then_go (modify_status (\<lambda>t. t\<lparr>ObservedGeneration := k_Generation k\<rparr>))
    (then_go (if GetPhase k \<noteq> PhaseDeleting then
                seq_go
                  [set_phase PhaseUpdating,
                   set_condition L ConditionTypeReady ConditionFalse ''GenerationMismatch''
                     ''Generation mismatch detected, resource is being updated'',
                   set_condition L ConditionTypeAvailable ConditionFalse ''GenerationMismatch''
                     ''Generation mismatch detected, resource is being updated'',
                   set_condition L ConditionTypeProgressing ConditionTrue ''GenerationMismatch''
                     ''Generation mismatch detected, resource is being updated'']
              else return_go ())
    (bind_go (UpdateStatus L) (\<lambda>err.
       case err of
         Some e \<Rightarrow> return_go (result_requeue, Some e)
       | None \<Rightarrow> return_go (result_requeue, None)))))"

definition kode_machine :: "'w lib \<Rightarrow> yaml_lib \<Rightarrow> (Phase \<times> 'w st handler) list" where
  "kode_machine L Y =
     RegisterHandler PhaseUnknown (handleUnknownState L)
    (RegisterHandler PhaseFailed (handleFailedState L)
    (RegisterHandler PhaseDeleting (handleDeletingState L)
    (RegisterHandler PhaseUpdating (handleUpdatingState L Y)
    (RegisterHandler PhaseActive (handleActiveState L)
    (RegisterHandler PhaseProvisioning (handleProvisioningState L)
    (RegisterHandler PhaseConfiguring (handleConfiguringState L Y)
    (RegisterHandler PhasePending (handlePendingState L) NewStateMachine)))))))"

definition run_machine :: "'w lib \<Rightarrow> yaml_lib \<Rightarrow> ('w st, ctrl_Result \<times> error option) go" where
  "run_machine L Y =
     bind_go (HandleState st_GetPhase st_SetPhase (UpdateStatus L) (lib_ReconcileInterval L)
                (kode_machine L Y)) (\<lambda>(result, err).
       case err of
         Some e \<Rightarrow> return_go (result_requeue, Some e)
       | None \<Rightarrow> return_go (result, None))"

definition initialize :: "'w lib \<Rightarrow> ('w st, ctrl_Result \<times> error option) go" where
  "initialize L =
     bind_go (AddFinalizer L) (\<lambda>err.
       case err of
         Some e \<Rightarrow> return_go (result_after (lib_ReconcileInterval L), Some e)
       | None \<Rightarrow>
           then_go (set_phase PhasePending)
          (bind_go (gets_go kode) (\<lambda>k.
           then_go (modify_status (\<lambda>t. t\<lparr>ObservedGeneration := k_Generation k\<rparr>))
          (bind_go (UpdateStatus L) (\<lambda>uerr.
             case uerr of
               Some e \<Rightarrow> return_go (result_requeue, Some e)
             | None \<Rightarrow> return_go (result_requeue, None))))))"

definition reset_retries :: "'w lib \<Rightarrow> ('w st, error option) go" where
  "reset_retries L =
     bind_go (gets_go kode) (\<lambda>k.
       if GetPhase k \<noteq> PhaseFailed \<and> RetryCount (k_Status k) > 0 then
         then_go (modify_status (\<lambda>t. t\<lparr>RetryCount := 0\<rparr>)) (UpdateStatus L)
       else return_go None)"

text \<open>From the finalizer test on; a deleted Kode gets here only with its finalizer.\<close>

definition reconcile_live :: "'w lib \<Rightarrow> yaml_lib \<Rightarrow> ('w st, ctrl_Result \<times> error option) go" where
  "reconcile_live L Y =
     bind_go (gets_go kode) (\<lambda>k.
       if \<not> lib_ContainsFinalizer L (k_Finalizers k) (GetFinalizer k) then initialize L
       else if lib_ContainsFinalizer L (k_Finalizers k) (GetFinalizer k) \<and>
           k_Generation k \<noteq> ObservedGeneration (k_Status k) then handleGenerationMismatch L
       else
         bind_go (reset_retries L) (\<lambda>err.
           case err of
             Some e \<Rightarrow> return_go (result_requeue, Some e)
           | None \<Rightarrow> run_machine L Y))"

definition reconcile_fetched :: "'w lib \<Rightarrow> yaml_lib \<Rightarrow> ('w st, ctrl_Result \<times> error option) go" where
  "reconcile_fetched L Y =
     bind_go (gets_go kode) (\<lambda>k.
       if k_DeletionTimestamp k \<noteq> None then
         if \<not> lib_ContainsFinalizer L (k_Finalizers k) (GetFinalizer k) then
           return_go (result_none, None)
         else
           then_go (set_phase PhaseDeleting)
          (bind_go (UpdateStatus L) (\<lambda>err.
             case err of
               Some e \<Rightarrow> return_go (result_requeue, Some e)
             | None \<Rightarrow> reconcile_live L Y))
       else reconcile_live L Y)"

definition Reconcile ::
  "'w lib \<Rightarrow> yaml_lib \<Rightarrow> NamespacedName \<Rightarrow> ('w st, ctrl_Result \<times> error option) go" where
  "Reconcile L Y req =
     bind_go (api_get KindKode req (lib_getKode L req)) (\<lambda>r.
       case r of
         Inl e \<Rightarrow>
           (case IgnoreNotFound e of
              Some e' \<Rightarrow> return_go (result_none, Some e')
            | None \<Rightarrow> return_go (result_none, None))
       | Inr k \<Rightarrow> then_go (modify_go (\<lambda>s. s\<lparr>kode := k\<rparr>)) (reconcile_fetched L Y))"

text \<open>The method of the reconciler of the same name as the function of utils.go.\<close>

definition HandleReconcileError :: "'w lib \<Rightarrow> error \<Rightarrow> string \<Rightarrow> 'w st handler" where
  "HandleReconcileError L err message =
     then_go (seq_go
       [set_condition L ConditionTypeReady ConditionFalse ''ReconciliationFailed''
          (message @ '': '' @ Error err),
        set_condition L ConditionTypeAvailable ConditionFalse ''ReconciliationFailed''
          ''Kode resource is not available'',
        set_condition L ConditionTypeProgressing ConditionFalse ''ReconciliationFailed''
          ''Kode resource is not progressing'',
        modify_status (\<lambda>t. t\<lparr>LastError := Some (Error err)\<rparr>)])
    (bind_go (gets_go (\<lambda>s. lib_now L (world s))) (\<lambda>now.
     then_go (modify_status (\<lambda>t. t\<lparr>LastErrorTime := Some now\<rparr>))
    (bind_go (UpdateStatus L) (\<lambda>_.
       return_go (PhaseFailed, result_none, Some err)))))"

subsection \<open>The machine's table\<close>

lemma map_of_kode_machine:
  "map_of (kode_machine L Y) PhasePending = Some (handlePendingState L)"
  "map_of (kode_machine L Y) PhaseConfiguring = Some (handleConfiguringState L Y)"
  "map_of (kode_machine L Y) PhaseProvisioning = Some (handleProvisioningState L)"
  "map_of (kode_machine L Y) PhaseActive = Some (handleActiveState L)"
  "map_of (kode_machine L Y) PhaseUpdating = Some (handleUpdatingState L Y)"
  "map_of (kode_machine L Y) PhaseDeleting = Some (handleDeletingState L)"
  "map_of (kode_machine L Y) PhaseFailed = Some (handleFailedState L)"
  "map_of (kode_machine L Y) PhaseUnknown = Some (handleUnknownState L)"
  "map_of (kode_machine L Y) (PhaseOther p) = None"
  by (simp_all add: kode_machine_def)

text \<open>Every phase with a handler: the machine keeps the phases of the contract.\<close>

lemma run_machine_settled:
  assumes "lawful L"
  shows "triple (in_phase p (reach1 p) log0) (run_machine L Y)
    (\<lambda>_. settled (reach1 p) log0) (settled (reach1 p) log0)"
proof -
  have "triple (in_phase p (reach1 p) log0)
      (HandleState st_GetPhase st_SetPhase (UpdateStatus L) i (kode_machine L Y))
      (\<lambda>_. settled (reach1 p) log0) (settled (reach1 p) log0)" for i
  proof (cases p)
    case (PhaseOther q)
    show ?thesis
    proof (rule tripleI)
      fix s x t
      assume I: "in_phase p (reach1 p) log0 s"
        and run: "HandleState st_GetPhase st_SetPhase (UpdateStatus L) i (kode_machine L Y) s = (Ret x, t)"
      have "t = s" using kode_sm.no_handler [of "kode_machine L Y" s L i] I run PhaseOther
        by (simp add: in_phase_def map_of_kode_machine)
      with I show "settled (reach1 p) log0 t" by (auto dest: in_phase_settled)
    next
      fix s t
      assume "in_phase p (reach1 p) log0 s"
        and "HandleState st_GetPhase st_SetPhase (UpdateStatus L) i (kode_machine L Y) s = (Panic, t)"
      then show "settled (reach1 p) log0 t"
        using kode_sm.no_handler [of "kode_machine L Y" s L i] PhaseOther
        by (simp add: in_phase_def map_of_kode_machine)
    qed
  qed (auto intro!: assms map_of_kode_machine pending.HandleState_settled
      configuring.HandleState_settled provisioning.HandleState_settled active.HandleState_settled
      updating.HandleState_settled deleting.HandleState_settled failed.HandleState_settled
      unknown.HandleState_settled)
  then show ?thesis
    unfolding run_machine_def
    by (rule triple_bind) (auto intro!: go_rules)
qed

subsection \<open>The phases a reconciliation sends\<close>

definition has_finalizer :: "Kode \<Rightarrow> bool" where
  "has_finalizer k = (GetFinalizer k \<in> set (k_Finalizers k))"

text \<open>
  By priority: deletion, initialisation, generation mismatch, and otherwise the phase machine.
\<close>

definition allowed_phases :: "Kode \<Rightarrow> Phase set" where
  "allowed_phases k =
     (if k_DeletionTimestamp k \<noteq> None then {PhaseDeleting}
      else if \<not> has_finalizer k then {PhasePending}
      else if k_Generation k \<noteq> ObservedGeneration (k_Status k) then
        {if GetPhase k = PhaseDeleting then PhaseDeleting else PhaseUpdating}
      else reach1 (GetPhase k))"

lemma ContainsFinalizer_iff:
  "lawful L \<Longrightarrow> lib_ContainsFinalizer L (k_Finalizers k) (GetFinalizer k) = has_finalizer k"
  by (simp add: lawful_simps has_finalizer_def)

text \<open>Requests that are not status patches, and changes of the phase in memory, keep what was sent.\<close>

lemma triple_set_phase:
  "p \<in> A \<Longrightarrow> triple (\<lambda>s. sent_within A log0 s) (set_phase p) (\<lambda>_. settled A log0) (\<lambda>s. sent_within A log0 s)"
  unfolding set_phase_def
  by (rule triple_modify)
    (auto simp: settled_def st_GetPhase_def kode_res.get_set_phase intro: sent_within_log)

lemma read_closed_sent: "read_closed (sent_within A log0)"
  unfolding read_closed_def by (auto intro: sent_within_log sent_within_snoc)

lemma sent_AddFinalizer: "keeps (sent_within A log0) (AddFinalizer L)"
  by (rule keeps_AddFinalizer [OF read_closed_sent]) (auto intro: sent_within_snoc)

lemma settled_sent: "settled A log0 s \<Longrightarrow> sent_within A log0 s"
  by (simp add: settled_def)

lemma initialize_sends:
  assumes "lawful L"
  shows "triple (sent_within {PhasePending} log0) (initialize L)
    (\<lambda>_. sent_within {PhasePending} log0) (sent_within {PhasePending} log0)"
proof -
  let ?A = "{PhasePending}"
  have "keeps (settled ?A log0) (bind_go (gets_go kode) (\<lambda>k.
      then_go (modify_status (\<lambda>t. t\<lparr>ObservedGeneration := k_Generation k\<rparr>))
        (bind_go (UpdateStatus L) (\<lambda>uerr.
           case uerr of Some e \<Rightarrow> return_go (result_requeue, Some e)
           | None \<Rightarrow> return_go (result_requeue, None)))))"
    by (intro go_rules calm_modify_status calm_UpdateStatus calm_settled assms) auto
  then have rest: "triple (settled ?A log0) (bind_go (gets_go kode) (\<lambda>k.
      then_go (modify_status (\<lambda>t. t\<lparr>ObservedGeneration := k_Generation k\<rparr>))
        (bind_go (UpdateStatus L) (\<lambda>uerr.
           case uerr of Some e \<Rightarrow> return_go (result_requeue, Some e)
           | None \<Rightarrow> return_go (result_requeue, None)))))
      (\<lambda>_. sent_within ?A log0) (sent_within ?A log0)"
    by (rule triple_weaken) (auto dest: settled_sent)
  show ?thesis
    unfolding initialize_def
    by (intro go_rules triple_then [OF triple_set_phase rest] sent_AddFinalizer) auto
qed

lemma calm_in_phase: "calm (in_phase p A log0)"
  unfolding tame_def read_closed_def patch_closed_def cache_closed_def in_phase_def st_GetPhase_def
    GetPhase_def
  by (auto intro: sent_within_log sent_within_snoc)

lemma recounts_in_phase: "recounts (in_phase p A log0)"
  by (auto simp: recounts_def in_phase_def st_GetPhase_def GetPhase_def intro: sent_within_log)

lemma keeps_reset_retries:
  assumes "lawful L" and "tame K I" and "recounts I"
  shows "keeps I (reset_retries L)"
  unfolding reset_retries_def
  by (intro go_rules keeps_recount [where g = "\<lambda>_. 0"] tame_UpdateStatus [where K = K] assms) auto

lemma sent_UpdateStatus_exact:
  assumes "lawful L" "GetPhase k \<in> A"
  shows "keeps (\<lambda>s. kode s = k \<and> sent_within A log0 s) (UpdateStatus L)"
  by (rule keeps_UpdateStatus [OF assms(1)])
    (use assms(2) in \<open>auto simp: read_closed_def patch_closed_def GetPhase_def
      intro: sent_within_log sent_within_snoc\<close>)

definition mismatch_phase :: "Phase \<Rightarrow> Phase" where
  "mismatch_phase p = (if p = PhaseDeleting then PhaseDeleting else PhaseUpdating)"

lemma handleGenerationMismatch_sends:
  assumes "lawful L"
  shows "triple (\<lambda>s. st_GetPhase s = p \<and> sent_within {mismatch_phase p} log0 s)
    (handleGenerationMismatch L)
    (\<lambda>_. sent_within {mismatch_phase p} log0) (sent_within {mismatch_phase p} log0)"
  unfolding handleGenerationMismatch_def
proof (rule triple_bind [where
      R = "\<lambda>k s. GetPhase k = p \<and> st_GetPhase s = p \<and> sent_within {mismatch_phase p} log0 s"])
  show "triple (\<lambda>s. st_GetPhase s = p \<and> sent_within {mismatch_phase p} log0 s) (gets_go kode)
      (\<lambda>k s. GetPhase k = p \<and> st_GetPhase s = p \<and> sent_within {mismatch_phase p} log0 s)
      (sent_within {mismatch_phase p} log0)"
    by (rule triple_gets) (simp add: st_GetPhase_def)
next
  fix k
  let ?A = "{mismatch_phase p}"
  let ?P = "\<lambda>s. GetPhase k = p \<and> st_GetPhase s = p \<and> sent_within ?A log0 s"
  let ?gen = "modify_status (\<lambda>t. t\<lparr>ObservedGeneration := k_Generation k\<rparr>)"
  have gen: "triple ?P ?gen (\<lambda>_. ?P) (sent_within ?A log0)"
    unfolding modify_status_def
    by (rule triple_modify) (auto simp: st_GetPhase_def GetPhase_def intro: sent_within_log)
  have phase: "triple ?P (set_phase PhaseUpdating) (\<lambda>_. settled ?A log0) (sent_within ?A log0)"
    if "p \<noteq> PhaseDeleting"
    using that by (intro triple_pre [OF triple_set_phase]) (auto simp: mismatch_phase_def)
  have conds: "triple (settled ?A log0) (set_condition L t st re m) (\<lambda>_. settled ?A log0)
      (sent_within ?A log0)" for t st re m
    by (rule triple_weaken [OF calm_set_condition [OF calm_settled]]) (auto dest: settled_sent)
  have finish: "triple (settled ?A log0) (bind_go (UpdateStatus L) (\<lambda>err.
        case err of Some e \<Rightarrow> return_go (result_requeue, Some e)
        | None \<Rightarrow> return_go (result_requeue, None))) (\<lambda>_. sent_within ?A log0) (sent_within ?A log0)"
    by (rule triple_weaken [where P = "settled ?A log0" and Q = "\<lambda>_. settled ?A log0"
          and E = "settled ?A log0"])
      (auto intro!: go_rules calm_UpdateStatus calm_settled assms dest: settled_sent)
  show "triple ?P (then_go ?gen
    (then_go (if GetPhase k \<noteq> PhaseDeleting then
                seq_go
                  [set_phase PhaseUpdating,
                   set_condition L ConditionTypeReady ConditionFalse ''GenerationMismatch''
                     ''Generation mismatch detected, resource is being updated'',
                   set_condition L ConditionTypeAvailable ConditionFalse ''GenerationMismatch''
                     ''Generation mismatch detected, resource is being updated'',
                   set_condition L ConditionTypeProgressing ConditionTrue ''GenerationMismatch''
                     ''Generation mismatch detected, resource is being updated'']
              else return_go ())
    (bind_go (UpdateStatus L) (\<lambda>err.
       case err of
         Some e \<Rightarrow> return_go (result_requeue, Some e)
       | None \<Rightarrow> return_go (result_requeue, None)))))
    (\<lambda>_. sent_within ?A log0) (sent_within ?A log0)"
  proof (cases "p = PhaseDeleting")
    case True
    have "triple ?P (return_go ()) (\<lambda>_. settled ?A log0) (sent_within ?A log0)"
      by (rule triple_return) (auto simp: settled_def mismatch_phase_def True)
    then have "triple ?P (if GetPhase k \<noteq> PhaseDeleting then m else return_go ())
        (\<lambda>_. settled ?A log0) (sent_within ?A log0)" for m
      using True by (cases "GetPhase k = PhaseDeleting") (auto simp: triple_def)
    then show ?thesis by (intro triple_then [OF gen] triple_then [OF _ finish])
  next
    case False
    have branch: "triple ?P (if GetPhase k \<noteq> PhaseDeleting then
        then_go (set_phase PhaseUpdating) m else return_go ()) (\<lambda>_. settled ?A log0)
        (sent_within ?A log0)"
      if "triple (settled ?A log0) m (\<lambda>_. settled ?A log0) (sent_within ?A log0)" for m
      using False triple_then [OF phase [OF False] that]
      by (cases "GetPhase k = PhaseDeleting") (auto simp: triple_def)
    show ?thesis
      unfolding seq_go.simps
      by (rule triple_then [OF gen], rule triple_then [OF branch finish])
        (auto intro!: triple_then [OF conds] triple_return)
  qed
qed

text \<open>The phases sent from \<open>reconcile_live\<close> on.\<close>

definition live_phases :: "Kode \<Rightarrow> Phase set" where
  "live_phases k =
     (if \<not> has_finalizer k then {PhasePending}
      else if k_Generation k \<noteq> ObservedGeneration (k_Status k) then {mismatch_phase (GetPhase k)}
      else reach1 (GetPhase k))"

lemma reconcile_live_sends:
  assumes L: "lawful L"
  shows "triple (\<lambda>s. kode s = k \<and> sent_within (live_phases k) log0 s) (reconcile_live L Y)
    (\<lambda>_. sent_within (live_phases k) log0) (sent_within (live_phases k) log0)"
    (is "triple ?P _ ?Q ?E")
  unfolding reconcile_live_def
proof (rule triple_bind [where R = "\<lambda>k' s. k' = k \<and> ?P s"])
  show "triple ?P (gets_go kode) (\<lambda>k' s. k' = k \<and> ?P s) ?E"
    by (rule triple_gets) auto
next
  fix k'
  have init: "\<not> has_finalizer k \<Longrightarrow> triple ?P (initialize L) ?Q ?E"
    by (rule triple_pre [where P = "sent_within {PhasePending} log0"])
      (use initialize_sends [OF L] in \<open>auto simp: live_phases_def\<close>)
  have mis: "has_finalizer k \<Longrightarrow> k_Generation k \<noteq> ObservedGeneration (k_Status k) \<Longrightarrow>
      triple ?P (handleGenerationMismatch L) ?Q ?E"
    by (rule triple_pre [where P = "\<lambda>s. st_GetPhase s = GetPhase k \<and>
          sent_within {mismatch_phase (GetPhase k)} log0 s"])
      (use handleGenerationMismatch_sends [OF L] in \<open>auto simp: live_phases_def st_GetPhase_def\<close>)
  have run: "triple ?P (bind_go (reset_retries L) (\<lambda>err.
      case err of Some e \<Rightarrow> return_go (result_requeue, Some e) | None \<Rightarrow> run_machine L Y)) ?Q ?E"
    if "live_phases k = reach1 (GetPhase k)"
  proof -
    let ?I = "in_phase (GetPhase k) (reach1 (GetPhase k)) log0"
    have "keeps ?I (reset_retries L)"
      by (rule keeps_reset_retries [OF L calm_in_phase recounts_in_phase])
    then have "triple ?I (reset_retries L) (\<lambda>_. ?I) (settled (reach1 (GetPhase k)) log0)"
      by (rule triple_weaken) (auto dest: in_phase_settled)
    then have "triple ?I (bind_go (reset_retries L) (\<lambda>err.
        case err of Some e \<Rightarrow> return_go (result_requeue, Some e) | None \<Rightarrow> run_machine L Y))
        (\<lambda>_. settled (reach1 (GetPhase k)) log0) (settled (reach1 (GetPhase k)) log0)"
      by (rule triple_bind)
        (auto intro!: go_rules triple_case_option run_machine_settled L dest: in_phase_settled)
    then show ?thesis
      by (rule triple_weaken)
        (auto simp: that in_phase_def st_GetPhase_def reach1_def dest: settled_sent)
  qed
  show "triple (\<lambda>s. k' = k \<and> ?P s)
     (if \<not> lib_ContainsFinalizer L (k_Finalizers k') (GetFinalizer k') then initialize L
       else if lib_ContainsFinalizer L (k_Finalizers k') (GetFinalizer k') \<and>
           k_Generation k' \<noteq> ObservedGeneration (k_Status k') then handleGenerationMismatch L
       else
         bind_go (reset_retries L) (\<lambda>err.
           case err of
             Some e \<Rightarrow> return_go (result_requeue, Some e)
           | None \<Rightarrow> run_machine L Y)) ?Q ?E"
  proof (cases "k' = k")
    case True
    show ?thesis
      unfolding True ContainsFinalizer_iff [OF L]
      by (rule triple_if, rule triple_pre [OF init], assumption, simp, rule triple_if,
          rule triple_pre [OF mis], simp_all, rule triple_pre [OF run])
        (simp_all add: live_phases_def)
  qed (simp add: triple_def)
qed

lemma has_finalizer_SetPhase [simp]: "has_finalizer (SetPhase p k) = has_finalizer k"
  by (simp add: has_finalizer_def SetPhase_def GetFinalizer_def)

lemma live_phases_Deleting: "has_finalizer k \<Longrightarrow> live_phases (SetPhase PhaseDeleting k) = {PhaseDeleting}"
  by (simp add: live_phases_def kode_res.get_set_phase mismatch_phase_def reach1_def)

lemma allowed_live: "k_DeletionTimestamp k = None \<Longrightarrow> allowed_phases k = live_phases k"
  by (simp add: allowed_phases_def live_phases_def mismatch_phase_def)

lemma reconcile_fetched_sends:
  assumes L: "lawful L"
  shows "triple (\<lambda>s. kode s = k \<and> sent_within (allowed_phases k) log0 s) (reconcile_fetched L Y)
    (\<lambda>_. sent_within (allowed_phases k) log0) (sent_within (allowed_phases k) log0)"
    (is "triple ?P _ ?Q ?E")
  unfolding reconcile_fetched_def
proof (rule triple_bind [where R = "\<lambda>k' s. k' = k \<and> ?P s"])
  show "triple ?P (gets_go kode) (\<lambda>k' s. k' = k \<and> ?P s) ?E"
    by (rule triple_gets) auto
next
  fix k'
  let ?K = "SetPhase PhaseDeleting k"
  let ?D = "\<lambda>s. kode s = ?K \<and> sent_within {PhaseDeleting} log0 s"
  have del: "triple ?P (then_go (set_phase PhaseDeleting) (bind_go (UpdateStatus L) (\<lambda>err.
        case err of Some e \<Rightarrow> return_go (result_requeue, Some e) | None \<Rightarrow> reconcile_live L Y))) ?Q ?E"
    if d: "k_DeletionTimestamp k \<noteq> None" and fin: "has_finalizer k"
  proof (rule triple_then)
    have A: "allowed_phases k = {PhaseDeleting}" using d by (simp add: allowed_phases_def)
    show "triple ?P (set_phase PhaseDeleting) (\<lambda>_. ?D) ?E"
      unfolding set_phase_def A by (rule triple_modify) (auto intro: sent_within_log)
    have "keeps ?D (UpdateStatus L)"
      by (rule sent_UpdateStatus_exact [OF L]) (simp add: kode_res.get_set_phase)
    then have upd: "triple ?D (UpdateStatus L) (\<lambda>_. ?D) (sent_within {PhaseDeleting} log0)"
      by (rule triple_weaken) auto
    show "triple ?D (bind_go (UpdateStatus L) (\<lambda>err.
        case err of Some e \<Rightarrow> return_go (result_requeue, Some e) | None \<Rightarrow> reconcile_live L Y)) ?Q ?E"
      unfolding A
      using reconcile_live_sends [OF L, of ?K log0 Y]
      by (intro triple_bind [OF upd] triple_case_option triple_return)
        (simp_all add: live_phases_Deleting [OF fin])
  qed
  show "triple (\<lambda>s. k' = k \<and> ?P s)
     (if k_DeletionTimestamp k' \<noteq> None then
         if \<not> lib_ContainsFinalizer L (k_Finalizers k') (GetFinalizer k') then
           return_go (result_none, None)
         else
           then_go (set_phase PhaseDeleting)
          (bind_go (UpdateStatus L) (\<lambda>err.
             case err of
               Some e \<Rightarrow> return_go (result_requeue, Some e)
             | None \<Rightarrow> reconcile_live L Y))
       else reconcile_live L Y) ?Q ?E"
  proof (cases "k' = k")
    case True
    show ?thesis
      unfolding True ContainsFinalizer_iff [OF L]
      using reconcile_live_sends [OF L, of k log0 Y]
      by (auto intro!: go_rules triple_pre [OF del] simp: allowed_live elim: triple_pre)
  qed (simp add: triple_def)
qed

text \<open>A whole reconciliation, along the runs that panic too.\<close>

lemma Reconcile_sends_allowed:
  assumes L: "lawful L" and k: "fst (lib_getKode L req (world s)) = Inr k"
    and run: "Reconcile L Y req s = (x, t)"
  shows "\<exists>qs. reqlog t = reqlog s @ qs \<and>
    (\<forall>key st b. ReqPatchStatus key st b \<in> set qs \<longrightarrow> Phase_of st \<in> allowed_phases k)"
proof -
  let ?A = "allowed_phases k"
  obtain w where w: "lib_getKode L req (world s) = (Inr k, w)" using k by (metis prod.collapse)
  let ?u = "s\<lparr>world := w, reqlog := reqlog s @ [ReqGet KindKode req Found], kode := k\<rparr>"
  have "sent_within ?A (reqlog s) ?u" by (auto simp: sent_within_def)
  moreover have "reconcile_fetched L Y ?u = (x, t)"
    using run w by (simp add: Reconcile_def api_get_def answer_of_def go_simps)
  ultimately have "sent_within ?A (reqlog s) t"
    using triple_snd [OF reconcile_fetched_sends [OF L, of k "reqlog s" Y], of ?u] by simp
  then show ?thesis by (simp add: sent_within_def)
qed

subsection \<open>The transition graph\<close>

text \<open>
  One observable step of the controller on the phase of a Kode: the new phase is sent to the API
  server by some reconciliation. The last rule is the initialisation of a new object, whose phase is
  the empty string.
\<close>

inductive phase_step :: "Phase \<Rightarrow> Phase \<Rightarrow> bool" where
  stay: "phase_step p p"
| handler: "q \<in> set (successors p) \<Longrightarrow> phase_step p q"
| mismatch: "p \<noteq> PhaseDeleting \<Longrightarrow> phase_step p PhaseUpdating"
| delete: "phase_step p PhaseDeleting"
| create: "phase_step (PhaseOther '''') PhasePending"

inductive_cases phase_step_Deleting: "phase_step PhaseDeleting q"
inductive_cases phase_step_Failed: "phase_step p PhaseFailed"
inductive_simps phase_step_Active: "phase_step p PhaseActive"

text \<open>From a new object the phases Failed and Unknown are never reached.\<close>

definition visited :: "Phase set" where
  "visited = {PhaseOther '''', PhasePending, PhaseConfiguring, PhaseProvisioning, PhaseActive,
     PhaseUpdating, PhaseDeleting}"

lemma phase_step_visited: "phase_step p q \<Longrightarrow> p \<in> visited \<Longrightarrow> q \<in> visited"
  by (induction rule: phase_step.induct) (auto simp: visited_def)

lemma reachable_visited: "phase_step\<^sup>*\<^sup>* p q \<Longrightarrow> p \<in> visited \<Longrightarrow> q \<in> visited"
  by (induction rule: rtranclp_induct) (auto intro: phase_step_visited)

lemma Deleting_absorbing: "phase_step\<^sup>*\<^sup>* PhaseDeleting q \<Longrightarrow> q = PhaseDeleting"
  by (induction rule: rtranclp_induct) (auto elim: phase_step_Deleting)

text \<open>A Kode becomes Active only from Provisioning, Updating or Unknown.\<close>

lemma Active_predecessors:
  "phase_step p PhaseActive \<longleftrightarrow> p \<in> {PhaseActive, PhaseProvisioning, PhaseUpdating, PhaseUnknown}"
  by (cases p) (auto simp: phase_step_Active)

end
