(* ===== verification/Entrypoint_Routes.thy ===== *)
theory Entrypoint_Routes
  imports Cluster
begin

text \<open>
  internal/controllers/entrypoint/config.go and the constructors of ensure_routes.go: from an
  EntryPoint and an active Kode to the HTTPRoute that publishes it and the SecurityPolicy that
  guards it. The types are those of the Gateway API and of Envoy Gateway, reduced to the fields the
  operator sets.
\<close>

subsection \<open>Routes and policies\<close>

record ParentReference =
  pr_Name :: string
  pr_Namespace :: "string option"

record HTTPPathMatch =
  pm_Type :: string
  pm_Value :: string

record BackendRef =
  br_Kind :: "string option"
  br_Name :: string
  br_Port :: "int32 option"

record HTTPRouteFilter =
  hf_Type :: string
  hf_RedirectScheme :: "string option"

record HTTPRouteRule =
  hr_Matches :: "HTTPPathMatch list"
  hr_Filters :: "HTTPRouteFilter list"
  hr_BackendRefs :: "BackendRef list"

record HTTPRouteSpec =
  hs_ParentRefs :: "ParentReference list"
  hs_Hostnames :: "string list"
  hs_Rules :: "HTTPRouteRule list"

record HTTPRoute =
  ht_Name :: string
  ht_Namespace :: string
  ht_Labels :: labels
  ht_Owners :: "string list"
  ht_Spec :: HTTPRouteSpec

record LocalPolicyTargetReference =
  tr_Group :: string
  tr_Kind :: string
  tr_Name :: string

record PolicySpec =
  ps_TargetRef :: LocalPolicyTargetReference
  ps_ExtAuth :: "ExtAuth option"

record SecurityPolicy =
  sy_Name :: string
  sy_Namespace :: string
  sy_Labels :: labels
  sy_Owners :: "string list"
  sy_Spec :: PolicySpec

subsection \<open>config.go\<close>

definition ep_createLabels :: "EntryPoint \<Rightarrow> labels" where
  "ep_createLabels e =
     [(''app.kubernetes.io/name'', e_Name e), (''app.kubernetes.io/managed-by'', ''kode-operator'')]"

text \<open>The address of a local variable is never nil, so the identity reference is always set.\<close>

definition InitEntryPointResourcesConfig :: "EntryPoint \<Rightarrow> ('s, EntryPointResourceConfig) go" where
  "InitEntryPointResourcesConfig e =
     bind_go (deref_go (es_GatewaySpec (e_Spec e))) (\<lambda>gateway.
     bind_go (case gw_ExistingGatewayRef gateway of
                Some ref \<Rightarrow>
                  bind_go (deref_go (ref_Namespace ref)) (\<lambda>ns. return_go (ref_Name ref, ns))
              | None \<Rightarrow> return_go (e_Name e @ ''-gateway'', '''')) (\<lambda>(gatewayName, gatewayNamespace).
       let identityReference =
             (case es_AuthSpec (e_Spec e) of
                None \<Rightarrow> ''''
              | Some auth \<Rightarrow> (case au_IdentityReference auth of None \<Rightarrow> '''' | Some i \<Rightarrow> i))
       in return_go
            \<lparr>ec_CommonConfig = \<lparr>cc_Labels = ep_createLabels e, cc_Name = e_Name e,
                                cc_Namespace = e_Namespace e\<rparr>,
             ec_EntryPointSpec = e_Spec e,
             ec_GatewayName = gatewayName, ec_GatewayNamespace = gatewayNamespace,
             ec_Protocol = gw_Protocol gateway, ec_IdentityReference = Some identityReference\<rparr>))"

text \<open>A gateway spec without a reference makes the second comparison dereference nil.\<close>

definition HasExistingGateway :: "EntryPoint \<Rightarrow> ('s, bool) go" where
  "HasExistingGateway e =
     (case es_GatewaySpec (e_Spec e) of
        None \<Rightarrow> return_go False
      | Some gateway \<Rightarrow>
          bind_go (deref_go (gw_ExistingGatewayRef gateway)) (\<lambda>ref. return_go (ref_Name ref \<noteq> '''')))"

subsection \<open>The HTTPRoute\<close>

definition constructParentReference :: "EntryPointResourceConfig \<Rightarrow> ParentReference" where
  "constructParentReference config =
     \<lparr>pr_Name = ec_GatewayName config, pr_Namespace = Some (ec_GatewayNamespace config)\<rparr>"

definition constructRedirectRule :: "EntryPointResourceConfig \<Rightarrow> HTTPRouteRule list" where
  "constructRedirectRule config =
     [\<lparr>hr_Matches = [],
       hr_Filters = [\<lparr>hf_Type = ''RequestRedirect'', hf_RedirectScheme = Some (ec_Protocol config)\<rparr>],
       hr_BackendRefs = []\<rparr>]"

definition constructBackendRule :: "Kode \<Rightarrow> int32 \<Rightarrow> HTTPRouteRule list" where
  "constructBackendRule k kodePort =
     [\<lparr>hr_Matches = [\<lparr>pm_Type = ''PathPrefix'', pm_Value = ''/''\<rparr>],
       hr_Filters = [],
       hr_BackendRefs = [\<lparr>br_Kind = Some ''Service'', br_Name = GetServiceName k,
                          br_Port = Some kodePort\<rparr>]\<rparr>]"

definition constructHTTPRouteRules ::
  "bool \<Rightarrow> EntryPointResourceConfig \<Rightarrow> Kode \<Rightarrow> int32 \<Rightarrow> HTTPRouteRule list" where
  "constructHTTPRouteRules isRedirect config k kodePort =
     (if isRedirect then constructRedirectRule config else constructBackendRule k kodePort)"

definition constructRouteName :: "Kode \<Rightarrow> bool \<Rightarrow> string" where
  "constructRouteName k isRedirect = (if isRedirect then k_Name k @ ''-tls-redirect'' else k_Name k)"

text \<open>The host name is only logged.\<close>

definition constructHTTPRoute ::
  "EntryPointResourceConfig \<Rightarrow> Kode \<Rightarrow> bool \<Rightarrow> string \<Rightarrow> string \<Rightarrow> error + HTTPRoute" where
  "constructHTTPRoute config k isRedirect kodeHostname kodeDomain =
     (let kodePort = GetPort k in
      if kodePort = 0 then Inl (ErrorText ''kode port is not set'')
      else Inr
        \<lparr>ht_Name = constructRouteName k isRedirect,
         ht_Namespace = cc_Namespace (ec_CommonConfig config),
         ht_Labels = cc_Labels (ec_CommonConfig config),
         ht_Owners = [],
         ht_Spec = \<lparr>hs_ParentRefs = [constructParentReference config], hs_Hostnames = [kodeDomain],
           hs_Rules = constructHTTPRouteRules isRedirect config k kodePort\<rparr>\<rparr>)"

subsection \<open>The SecurityPolicy\<close>

text \<open>
  \<open>configureExtAuth\<close> appends to the lists of the \<open>ExtAuth\<close> it is given, which is the one of the
  EntryPoint in memory. That object is fetched for each reconciliation, and its spec is neither read
  nor sent after the policy is made, so here the changed \<open>ExtAuth\<close> is the result.
\<close>

definition configureExtAuth :: "ExtAuth \<Rightarrow> EntryPointResourceConfig \<Rightarrow> ExtAuth" where
  "configureExtAuth extAuth config =
     (if HasIdentityReference config then
        extAuth
          \<lparr>ea_HeadersToExtAuth := ea_HeadersToExtAuth extAuth @
             [''authorization'', ''x-forwarded-for'', ''x-forwarded-host'', ''x-forwarded-proto'',
              ''x-auth-user-id''],
           ea_HTTP := (case ea_HTTP extAuth of
                         None \<Rightarrow> None
                       | Some h \<Rightarrow> Some (h\<lparr>eah_HeadersToBackend :=
                                             eah_HeadersToBackend h @ [''x-auth-user-id'']\<rparr>))\<rparr>
      else extAuth)"

definition constructSecurityPolicy ::
  "EntryPointResourceConfig \<Rightarrow> string \<Rightarrow> error + SecurityPolicy" where
  "constructSecurityPolicy config httpsRouteName =
     (let policyName = httpsRouteName @ ''-security-policy'';
          targetRef = \<lparr>tr_Group = ''gateway.networking.k8s.io'', tr_Kind = ''HTTPRoute'',
                       tr_Name = httpsRouteName\<rparr>
      in case es_AuthSpec (ec_EntryPointSpec config) of
           None \<Rightarrow> Inl (ErrorText ''security policy spec is not defined'')
         | Some auth \<Rightarrow>
             (case au_SecurityPolicySpec auth of
                None \<Rightarrow> Inl (ErrorText ''security policy spec is not defined'')
              | Some securityPolicySpec \<Rightarrow>
                  Inr \<lparr>sy_Name = policyName, sy_Namespace = cc_Namespace (ec_CommonConfig config),
                       sy_Labels = cc_Labels (ec_CommonConfig config), sy_Owners = [],
                       sy_Spec = \<lparr>ps_TargetRef = targetRef,
                         ps_ExtAuth = (case spec_ExtAuth securityPolicySpec of
                                         None \<Rightarrow> None
                                       | Some extAuth \<Rightarrow> Some (configureExtAuth extAuth config))\<rparr>\<rparr>))"

subsection \<open>What the constructors make\<close>

definition forwards_to :: "HTTPRoute \<Rightarrow> string \<Rightarrow> int32 \<Rightarrow> bool" where
  "forwards_to route service port =
     (hs_Rules (ht_Spec route) =
        [\<lparr>hr_Matches = [\<lparr>pm_Type = ''PathPrefix'', pm_Value = ''/''\<rparr>], hr_Filters = [],
          hr_BackendRefs = [\<lparr>br_Kind = Some ''Service'', br_Name = service, br_Port = Some port\<rparr>]\<rparr>])"

lemma constructHTTPRoute_ok:
  assumes "constructHTTPRoute config k False hostname domain = Inr route"
  shows "GetPort k \<noteq> 0" and "ht_Name route = k_Name k"
    and "ht_Namespace route = cc_Namespace (ec_CommonConfig config)"
    and "hs_Hostnames (ht_Spec route) = [domain]" and "forwards_to route (GetServiceName k) (GetPort k)"
    and "hs_ParentRefs (ht_Spec route) = [constructParentReference config]"
  using assms
  by (auto simp: constructHTTPRoute_def constructRouteName_def constructHTTPRouteRules_def
      constructBackendRule_def forwards_to_def Let_def split: if_splits)

lemma constructHTTPRoute_port:
  "GetPort k \<noteq> 0 \<longleftrightarrow> (\<exists>route. constructHTTPRoute config k r hostname domain = Inr route)"
  by (simp add: constructHTTPRoute_def Let_def)

lemma constructSecurityPolicy_ok:
  assumes "constructSecurityPolicy config name = Inr policy"
  shows "sy_Name policy = name @ ''-security-policy''"
    and "sy_Namespace policy = cc_Namespace (ec_CommonConfig config)"
    and "tr_Kind (ps_TargetRef (sy_Spec policy)) = ''HTTPRoute''"
    and "tr_Name (ps_TargetRef (sy_Spec policy)) = name"
  using assms by (auto simp: constructSecurityPolicy_def Let_def split: option.splits)

lemma InitEntryPointResourcesConfig_run:
  assumes "InitEntryPointResourcesConfig e s = (Ret config, t)"
  shows "t = s" and "ec_EntryPointSpec config = e_Spec e"
    and "cc_Namespace (ec_CommonConfig config) = e_Namespace e"
    and "ec_IdentityReference config \<noteq> None"
    and "\<exists>gateway. es_GatewaySpec (e_Spec e) = Some gateway \<and> ec_Protocol config = gw_Protocol gateway"
  using assms
  by (auto simp: InitEntryPointResourcesConfig_def go_simps Let_def deref_go_def
      split: option.splits outcome.splits)

end
