(* ===== verification/Entrypoint_Object.thy ===== *)
theory Entrypoint_Object
  imports Entrypoint_Routes Kode_Object
begin

text \<open>
  The libraries the entrypoint controller uses beyond those of the Kode controller, and the methods
  of EntryPoint and Kode (api/v1alpha2) that talk to the API server and that no controller calls
  yet. The receiver is passed and returned, since the client writes the server's answer into it.
\<close>

subsection \<open>Libraries\<close>

record 'w gwlib =
  gw_createOrPatchHTTPRoute :: "HTTPRoute \<Rightarrow> (HTTPRoute \<Rightarrow> ('w st, error + HTTPRoute) go)
    \<Rightarrow> ('w st, OperationResult \<times> error option) go"
  gw_createOrPatchSecurityPolicy ::
    "SecurityPolicy \<Rightarrow> (SecurityPolicy \<Rightarrow> ('w st, error + SecurityPolicy) go)
    \<Rightarrow> ('w st, OperationResult \<times> error option) go"
  gw_patchEntryPointStatus :: "EntryPoint \<Rightarrow> EntryPoint \<Rightarrow> 'w \<Rightarrow> error option \<times> 'w"
  gw_updateEntryPoint :: "EntryPoint \<Rightarrow> 'w \<Rightarrow> (error + EntryPoint) \<times> 'w"
  gw_RetryOnConflict :: "(EntryPoint \<Rightarrow> ('w st, EntryPoint \<times> error option) go)
    \<Rightarrow> EntryPoint \<Rightarrow> ('w st, EntryPoint \<times> error option) go"
  gw_patchKodeStatus :: "Kode \<Rightarrow> Kode \<Rightarrow> 'w \<Rightarrow> (error + Kode) \<times> 'w"

text \<open>
  The documented behaviour: \<open>CreateOrPatch\<close> as in \<^const>\<open>lawful\<close>; the retry calls its function one or
  more times, each on the object the call before has left, and reports the error of a call.
\<close>

definition ep_retry_law ::
  "((EntryPoint \<Rightarrow> ('w st, EntryPoint \<times> error option) go)
    \<Rightarrow> EntryPoint \<Rightarrow> ('w st, EntryPoint \<times> error option) go) \<Rightarrow> bool" where
  "ep_retry_law R =
     (\<forall>I Q E f. (\<forall>e. triple (I e) (f e) (\<lambda>(e', err) s. I e' s \<and> Q err s) E) \<longrightarrow>
        (\<forall>e. triple (I e) (R f e) (\<lambda>(e', err) s. I e' s \<and> Q err s) E))"

definition gw_lawful :: "'w gwlib \<Rightarrow> bool" where
  "gw_lawful G \<longleftrightarrow> create_or_patch_law (gw_createOrPatchHTTPRoute G) \<and>
     create_or_patch_law (gw_createOrPatchSecurityPolicy G) \<and>
     ep_retry_law (gw_RetryOnConflict G)"

subsection \<open>EntryPoint\<close>

definition ep_key :: "EntryPoint \<Rightarrow> NamespacedName" where
  "ep_key e = NamespacedName (e_Namespace e) (e_Name e)"

definition ep_patch_status ::
  "'w gwlib \<Rightarrow> EntryPoint \<Rightarrow> EntryPoint \<Rightarrow> ('w st, error option) go" where
  "ep_patch_status G e base =
     (\<lambda>s. let (r, w) = gw_patchEntryPointStatus G e base (world s)
          in (Ret r, s\<lparr>world := w,
                reqlog := reqlog s @ [ReqPatchEntryPoint (ep_key e) (e_Status e) (r = None)]\<rparr>))"

definition ep_update :: "'w gwlib \<Rightarrow> EntryPoint \<Rightarrow> ('w st, error + EntryPoint) go" where
  "ep_update G e =
     (\<lambda>s. let (r, w) = gw_updateEntryPoint G e (world s)
          in (Ret r, s\<lparr>world := w,
                reqlog := reqlog s @ [ReqUpdateEntryPoint (ep_key e) (e_Finalizers e)
                                        (case r of Inl _ \<Rightarrow> False | Inr _ \<Rightarrow> True)]\<rparr>))"

definition ep_reset_last_error :: "EntryPoint \<Rightarrow> EntryPoint" where
  "ep_reset_last_error e = e\<lparr>e_Status := (e_Status e)\<lparr>LastError := None, LastErrorTime := None\<rparr>\<rparr>"

definition ep_UpdateStatus_attempt ::
  "'w lib \<Rightarrow> 'w gwlib \<Rightarrow> EntryPoint \<Rightarrow> ('w st, EntryPoint \<times> error option) go" where
  "ep_UpdateStatus_attempt L G e =
     bind_go (api_get KindEntryPoint (ep_key e) (lib_getEntryPoint L (ep_key e))) (\<lambda>r.
       case r of
         Inl err \<Rightarrow> return_go (e, IgnoreNotFound err)
       | Inr latest \<Rightarrow>
           let latestEntryPoint = latest\<lparr>e_Status := e_Status e\<rparr>;
               e = (if e_GetPhase e \<noteq> e_GetPhase latestEntryPoint \<and>
                       e_GetPhase latestEntryPoint \<noteq> PhaseFailed
                    then ep_reset_last_error e else e)
           in bind_go (ep_patch_status G latestEntryPoint latest) (\<lambda>err. return_go (e, err)))"

definition ep_UpdateStatus ::
  "'w lib \<Rightarrow> 'w gwlib \<Rightarrow> EntryPoint \<Rightarrow> ('w st, EntryPoint \<times> error option) go" where
  "ep_UpdateStatus L G e = gw_RetryOnConflict G (ep_UpdateStatus_attempt L G) e"

definition ep_AddFinalizer ::
  "'w lib \<Rightarrow> 'w gwlib \<Rightarrow> EntryPoint \<Rightarrow> ('w st, EntryPoint \<times> error option) go" where
  "ep_AddFinalizer L G e =
     (let e = e\<lparr>e_Finalizers := lib_AddFinalizer L (e_Finalizers e) (e_GetFinalizer e)\<rparr> in
      bind_go (ep_update G e) (\<lambda>r.
        case r of Inl err \<Rightarrow> return_go (e, Some err) | Inr e' \<Rightarrow> return_go (e', None)))"

definition ep_RemoveFinalizer ::
  "'w lib \<Rightarrow> 'w gwlib \<Rightarrow> EntryPoint \<Rightarrow> ('w st, EntryPoint \<times> error option) go" where
  "ep_RemoveFinalizer L G e =
     (let e = e\<lparr>e_Finalizers := lib_RemoveFinalizer L (e_Finalizers e) (e_GetFinalizer e)\<rparr> in
      bind_go (ep_update G e) (\<lambda>r.
        case r of Inl err \<Rightarrow> return_go (e, Some err) | Inr e' \<Rightarrow> return_go (e', None)))"

subsection \<open>Kode\<close>

text \<open>
  The patch is made against a copy of the object in memory, not against the latest one, and the
  server's answer replaces the object in memory.
\<close>

definition UpdateUrl :: "'w gwlib \<Rightarrow> string \<Rightarrow> ('w st, error option) go" where
  "UpdateUrl G kodeUrl =
     bind_go (gets_go kode) (\<lambda>base.
     then_go (modify_status (\<lambda>t. t\<lparr>KodeUrl := kodeUrl\<rparr>))
    (bind_go (gets_go kode) (\<lambda>k.
     bind_go (\<lambda>s. let (r, w) = gw_patchKodeStatus G k base (world s)
                  in (Ret r, s\<lparr>world := w, reqlog := reqlog s @
                        [ReqPatchStatus (kode_key k) (k_Status k)
                           (case r of Inl _ \<Rightarrow> False | Inr _ \<Rightarrow> True)]\<rparr>)) (\<lambda>r.
       case r of
         Inl e \<Rightarrow> return_go (Some e)
       | Inr answer \<Rightarrow> then_go (modify_go (\<lambda>s. s\<lparr>kode := answer\<rparr>)) (return_go None)))))"

definition GetRuntime :: "Kode \<Rightarrow> Runtime option" where
  "GetRuntime k = Runtime_of (k_Status k)"

subsection \<open>UpdateStatus leaves the receiver as it is\<close>

lemma ep_UpdateStatus_attempt_eq:
  "ep_UpdateStatus_attempt L G e =
     bind_go (api_get KindEntryPoint (ep_key e) (lib_getEntryPoint L (ep_key e))) (\<lambda>r.
       case r of
         Inl err \<Rightarrow> return_go (e, IgnoreNotFound err)
       | Inr latest \<Rightarrow>
           bind_go (ep_patch_status G (latest\<lparr>e_Status := e_Status e\<rparr>) latest) (\<lambda>err.
             return_go (e, err)))"
proof -
  have dead: "(if e_GetPhase e \<noteq> e_GetPhase (latest\<lparr>e_Status := e_Status e\<rparr>) \<and> b then x else e) = e"
    for latest b x by (simp add: e_GetPhase_def)
  show ?thesis unfolding ep_UpdateStatus_attempt_def Let_def dead ..
qed

lemma ep_retryD:
  "ep_retry_law R \<Longrightarrow> (\<And>e. triple (I e) (f e) (\<lambda>(e', err) s. I e' s \<and> Q err s) E) \<Longrightarrow>
     triple (I e) (R f e) (\<lambda>(e', err) s. I e' s \<and> Q err s) E"
  unfolding ep_retry_law_def by blast

lemma ep_UpdateStatus_keeps:
  assumes "gw_lawful G"
  shows "triple (\<lambda>_. True) (ep_UpdateStatus L G e) (\<lambda>(e', _) _. e' = e) (\<lambda>_. True)"
proof -
  have law: "ep_retry_law (gw_RetryOnConflict G)" using assms by (simp add: gw_lawful_def)
  have "triple (\<lambda>_. x = e) (ep_UpdateStatus_attempt L G x) (\<lambda>(e', err) _. e' = e \<and> True) (\<lambda>_. True)"
    for x
    unfolding ep_UpdateStatus_attempt_eq
    by (rule tripleI)
      (auto simp: bind_go_def return_go_def split: prod.splits outcome.splits sum.splits)
  from ep_retryD [OF law, where I = "\<lambda>x _. x = e" and Q = "\<lambda>_ _. True", OF this] show ?thesis
    unfolding ep_UpdateStatus_def by (rule triple_weaken) auto
qed

end
