(* ===== verification/Fake_Cluster.thy ===== *)
theory Fake_Cluster
  imports Kode_Reconciler Entrypoint_Object
begin

text \<open>
  An in-memory API server and the other libraries as concrete functions, in the manner of the fake
  clients that controller tests use. It shows that the documented behaviour assumed of the libraries
  (\<^const>\<open>lawful\<close>, \<^const>\<open>reads_pure\<close>) can be met, and the operator's definitions run on it.
\<close>

subsection \<open>The store\<close>

record store =
  fk_now :: Time
  fk_kodes :: "(NamespacedName \<times> Kode) list"
  fk_entrypoints :: "(NamespacedName \<times> EntryPoint) list"
  fk_templates :: "(NamespacedName \<times> ContainerTemplateSharedSpec) list"
  fk_clustertemplates :: "(NamespacedName \<times> ContainerTemplateSharedSpec) list"
  fk_secrets :: "(NamespacedName \<times> Secret) list"
  fk_services :: "(NamespacedName \<times> Service) list"
  fk_statefulsets :: "(NamespacedName \<times> StatefulSet) list"
  fk_pvcs :: "(NamespacedName \<times> PersistentVolumeClaim) list"
  fk_pods :: "Pod list"
  fk_routes :: "(NamespacedName \<times> HTTPRoute) list"
  fk_policies :: "(NamespacedName \<times> SecurityPolicy) list"

definition not_found :: error where
  "not_found = APIStatus ReasonNotFound ''not found''"

definition fk_get :: "('w \<Rightarrow> (NamespacedName \<times> 'o) list) \<Rightarrow> NamespacedName \<Rightarrow> 'w \<Rightarrow> (error + 'o) \<times> 'w" where
  "fk_get field key w = (case map_of (field w) key of None \<Rightarrow> Inl not_found | Some x \<Rightarrow> Inr x, w)"

definition fk_listPods :: "string \<Rightarrow> labels \<Rightarrow> store \<Rightarrow> (error + Pod list) \<times> store" where
  "fk_listPods ns ls w =
     (Inr (filter (\<lambda>p. pod_Namespace p = ns \<and> list_all (\<lambda>(k, v). map_of (pod_Labels p) k = Some v) ls)
        (fk_pods w)), w)"

definition fk_patchStatus :: "Kode \<Rightarrow> Kode \<Rightarrow> store \<Rightarrow> error option \<times> store" where
  "fk_patchStatus k base w =
     (case map_of (fk_kodes w) (kode_key k) of
        None \<Rightarrow> (Some not_found, w)
      | Some old \<Rightarrow> (None, w\<lparr>fk_kodes := AList.update (kode_key k) (old\<lparr>k_Status := k_Status k\<rparr>)
                              (fk_kodes w)\<rparr>))"

text \<open>An object marked for deletion disappears with its last finalizer.\<close>

definition fk_updateKode :: "Kode \<Rightarrow> store \<Rightarrow> error option \<times> store" where
  "fk_updateKode k w =
     (case map_of (fk_kodes w) (kode_key k) of
        None \<Rightarrow> (Some not_found, w)
      | Some old \<Rightarrow>
          (None,
           if k_DeletionTimestamp k \<noteq> None \<and> k_Finalizers k = []
           then w\<lparr>fk_kodes := AList.delete (kode_key k) (fk_kodes w)\<rparr>
           else w\<lparr>fk_kodes := AList.update (kode_key k) (k\<lparr>k_Status := k_Status old\<rparr>) (fk_kodes w)\<rparr>))"

fun fk_delete :: "ObjKind \<Rightarrow> NamespacedName \<Rightarrow> store \<Rightarrow> error option \<times> store" where
  "fk_delete KindSecret key w =
     (if map_of (fk_secrets w) key = None then (Some not_found, w)
      else (None, w\<lparr>fk_secrets := AList.delete key (fk_secrets w)\<rparr>))"
| "fk_delete KindService key w =
     (if map_of (fk_services w) key = None then (Some not_found, w)
      else (None, w\<lparr>fk_services := AList.delete key (fk_services w)\<rparr>))"
| "fk_delete KindStatefulSet key w =
     (if map_of (fk_statefulsets w) key = None then (Some not_found, w)
      else (None, w\<lparr>fk_statefulsets := AList.delete key (fk_statefulsets w)\<rparr>))"
| "fk_delete KindPersistentVolumeClaim key w =
     (if map_of (fk_pvcs w) key = None then (Some not_found, w)
      else (None, w\<lparr>fk_pvcs := AList.delete key (fk_pvcs w)\<rparr>))"
| "fk_delete KindPod key w =
     (None, w\<lparr>fk_pods := filter (\<lambda>p. NamespacedName (pod_Namespace p) (pod_Name p) \<noteq> key) (fk_pods w)\<rparr>)"
| "fk_delete kind key w = (Some not_found, w)"

subsection \<open>Retries and CreateOrPatch\<close>

fun is_conflict :: "error option \<Rightarrow> bool" where
  "is_conflict (Some (APIStatus ReasonConflict m)) = True"
| "is_conflict _ = False"

fun fk_retry :: "nat \<Rightarrow> ('s, error option) go \<Rightarrow> ('s, error option) go" where
  "fk_retry 0 f = f"
| "fk_retry (Suc n) f = bind_go f (\<lambda>e. if is_conflict e then fk_retry n f else return_go e)"

fun fk_backoff ::
  "nat \<Rightarrow> ('s, error + Template option) go \<Rightarrow> ('s, error + Template) go" where
  "fk_backoff 0 f = return_go (Inl WaitTimeout)"
| "fk_backoff (Suc n) f =
     bind_go f (\<lambda>r.
       case r of
         Inl e \<Rightarrow> return_go (Inl e)
       | Inr (Some t) \<Rightarrow> return_go (Inr t)
       | Inr None \<Rightarrow> fk_backoff n f)"

definition fk_createOrPatch ::
  "('o \<Rightarrow> NamespacedName) \<Rightarrow> ('w \<Rightarrow> (NamespacedName \<times> 'o) list)
    \<Rightarrow> ((NamespacedName \<times> 'o) list \<Rightarrow> 'w \<Rightarrow> 'w)
    \<Rightarrow> 'o \<Rightarrow> ('o \<Rightarrow> ('w st, error + 'o) go) \<Rightarrow> ('w st, OperationResult \<times> error option) go" where
  "fk_createOrPatch key field put obj f =
     bind_go (gets_go (\<lambda>s. map_of (field (world s)) (key obj))) (\<lambda>found.
     bind_go (f (case found of None \<Rightarrow> obj | Some x \<Rightarrow> x)) (\<lambda>r.
       case r of
         Inl e \<Rightarrow> return_go (OperationResultNone, Some e)
       | Inr x \<Rightarrow>
           then_go (modify_go (\<lambda>s. s\<lparr>world := put (AList.update (key obj) x (field (world s))) (world s)\<rparr>))
                   (return_go (case found of None \<Rightarrow> OperationResultCreated
                                | Some _ \<Rightarrow> OperationResultUpdated, None))))"

text \<open>A kind is its own name and hash and range order are the identity; any function will do.\<close>

definition L0 :: "store lib" where
  "L0 = \<lparr>lib_now = fk_now,
     lib_getKode = fk_get fk_kodes, lib_getEntryPoint = fk_get fk_entrypoints,
     lib_getContainerTemplate = fk_get fk_templates,
     lib_getClusterContainerTemplate = fk_get fk_clustertemplates,
     lib_getSecret = fk_get fk_secrets, lib_getService = fk_get fk_services,
     lib_getStatefulSet = fk_get fk_statefulsets, lib_getPVC = fk_get fk_pvcs,
     lib_listPods = fk_listPods, lib_patchKodeStatus = fk_patchStatus,
     lib_updateKode = fk_updateKode, lib_delete = fk_delete,
     lib_RetryOnConflict = fk_retry 4, lib_ExponentialBackoff = fk_backoff,
     lib_createOrPatchSecret = fk_createOrPatch (\<lambda>x. NamespacedName (sec_Namespace x) (sec_Name x))
       fk_secrets (\<lambda>x. fk_secrets_update (\<lambda>_. x)),
     lib_createOrPatchService = fk_createOrPatch (\<lambda>x. NamespacedName (svc_Namespace x) (svc_Name x))
       fk_services (\<lambda>x. fk_services_update (\<lambda>_. x)),
     lib_createOrPatchStatefulSet = fk_createOrPatch (\<lambda>x. NamespacedName (ss_Namespace x) (ss_Name x))
       fk_statefulsets (\<lambda>x. fk_statefulsets_update (\<lambda>_. x)),
     lib_createOrPatchPVC = fk_createOrPatch (\<lambda>x. NamespacedName (pvc_Namespace x) (pvc_Name x))
       fk_pvcs (\<lambda>x. fk_pvcs_update (\<lambda>_. x)),
     lib_SetControllerReference = (\<lambda>kind key owners. Inr [nn_Name key]),
     lib_ContainsFinalizer = (\<lambda>fs f. f \<in> set fs),
     lib_AddFinalizer = (\<lambda>fs f. if f \<in> set fs then fs else fs @ [f]),
     lib_RemoveFinalizer = (\<lambda>fs f. filter (\<lambda>x. x \<noteq> f) fs),
     lib_objectGVK = (\<lambda>kind. (''Kind'', ''v1'')), lib_ObjectKinds = (\<lambda>kind. Inr []),
     lib_typeName = (\<lambda>kind. ''Object''), lib_sha256hex = (\<lambda>text. text), lib_mapRange = (\<lambda>ks. ks),
     lib_IsTestEnvironment = False, lib_ReconcileInterval = seconds 5,
     lib_LongReconcileInterval = seconds 60\<rparr>"

text \<open>The gateway's part of the store.\<close>

definition fk_patchEntryPoint :: "EntryPoint \<Rightarrow> EntryPoint \<Rightarrow> store \<Rightarrow> error option \<times> store" where
  "fk_patchEntryPoint e base w =
     (case map_of (fk_entrypoints w) (ep_key e) of
        None \<Rightarrow> (Some not_found, w)
      | Some old \<Rightarrow> (None, w\<lparr>fk_entrypoints :=
          AList.update (ep_key e) (old\<lparr>e_Status := e_Status e\<rparr>) (fk_entrypoints w)\<rparr>))"

definition fk_updateEntryPoint :: "EntryPoint \<Rightarrow> store \<Rightarrow> (error + EntryPoint) \<times> store" where
  "fk_updateEntryPoint e w =
     (case map_of (fk_entrypoints w) (ep_key e) of
        None \<Rightarrow> (Inl not_found, w)
      | Some old \<Rightarrow> (Inr (e\<lparr>e_Status := e_Status old\<rparr>), w\<lparr>fk_entrypoints :=
          AList.update (ep_key e) (e\<lparr>e_Status := e_Status old\<rparr>) (fk_entrypoints w)\<rparr>))"

definition fk_answerStatus :: "Kode \<Rightarrow> Kode \<Rightarrow> store \<Rightarrow> (error + Kode) \<times> store" where
  "fk_answerStatus k base w =
     (case fk_patchStatus k base w of (Some e, w') \<Rightarrow> (Inl e, w') | (None, w') \<Rightarrow> (Inr k, w'))"

fun fk_ep_retry :: "nat \<Rightarrow> (EntryPoint \<Rightarrow> ('s, EntryPoint \<times> error option) go)
    \<Rightarrow> EntryPoint \<Rightarrow> ('s, EntryPoint \<times> error option) go" where
  "fk_ep_retry 0 f e = f e"
| "fk_ep_retry (Suc n) f e =
     bind_go (f e) (\<lambda>(e', err). if is_conflict err then fk_ep_retry n f e' else return_go (e', err))"

definition G0 :: "store gwlib" where
  "G0 = \<lparr>gw_createOrPatchHTTPRoute = fk_createOrPatch (\<lambda>x. NamespacedName (ht_Namespace x) (ht_Name x))
       fk_routes (\<lambda>x. fk_routes_update (\<lambda>_. x)),
     gw_createOrPatchSecurityPolicy = fk_createOrPatch (\<lambda>x. NamespacedName (sy_Namespace x) (sy_Name x))
       fk_policies (\<lambda>x. fk_policies_update (\<lambda>_. x)),
     gw_patchEntryPointStatus = fk_patchEntryPoint, gw_updateEntryPoint = fk_updateEntryPoint,
     gw_RetryOnConflict = fk_ep_retry 4, gw_patchKodeStatus = fk_answerStatus\<rparr>"

subsection \<open>It meets the documented behaviour\<close>

lemma fk_retry_law: "retry_law (fk_retry n)"
proof -
  have "triple I (fk_retry n f) (\<lambda>e s. I s \<and> Q e s) E" if f: "triple I f (\<lambda>e s. I s \<and> Q e s) E"
    for I :: "'a st \<Rightarrow> bool" and Q E f
  proof (induction n)
    case (Suc n)
    show ?case
      unfolding fk_retry.simps
      by (rule triple_bind [OF f], rule triple_if)
        (auto intro!: triple_return intro: triple_pre [OF Suc])
  qed (simp add: f)
  then show ?thesis by (simp add: retry_law_def)
qed

lemma fk_backoff_law: "backoff_law fk_backoff"
proof -
  have "triple I (fk_backoff n f)
      (\<lambda>r s. I s \<and> (case r of Inr t \<Rightarrow> Q (Inr (Some t)) s | Inl e \<Rightarrow> True)) E"
    if f: "triple I f (\<lambda>r s. I s \<and> Q r s) E"
    for I :: "'a st \<Rightarrow> bool" and Q E f n
  proof (induction n)
    case 0
    show ?case unfolding fk_backoff.simps by (rule triple_return) simp
  next
    case (Suc n)
    show ?case
      unfolding fk_backoff.simps
      by (rule triple_bind [OF f], rule triple_case_sum, rule triple_return, simp,
          rule triple_case_option)
        (auto intro!: triple_return intro: triple_pre [OF Suc])
  qed
  then show ?thesis by (auto simp: backoff_law_def)
qed

lemma fk_createOrPatch_law: "create_or_patch_law (fk_createOrPatch key field put)"
  unfolding create_or_patch_law_def
proof (intro allI impI)
  fix I :: "'b st \<Rightarrow> bool" and E obj and f :: "'a \<Rightarrow> ('b st, error + 'a) go"
  assume "world_free I \<and> (\<forall>x. triple I (f x) (\<lambda>_. I) E)"
  then have w: "\<And>s v. I s \<Longrightarrow> I (s\<lparr>world := v\<rparr>)" and f: "\<And>x. triple I (f x) (\<lambda>_. I) E"
    by (auto simp: world_free_def)
  show "triple I (fk_createOrPatch key field put obj f) (\<lambda>_. I) E"
    unfolding fk_createOrPatch_def
    by (rule triple_bind [where R = "\<lambda>_. I"], rule triple_gets, assumption,
        rule triple_bind [OF f], rule triple_case_sum, rule triple_return, assumption,
        rule triple_then [where R = I], rule triple_modify, erule w, rule triple_return, assumption)
qed

lemma lawful_L0: "lawful L0"
  by (auto simp: lawful_def L0_def fk_retry_law fk_backoff_law fk_createOrPatch_law)

lemma reads_pure_L0: "reads_pure L0"
  by (simp add: reads_pure_def L0_def fk_get_def fk_listPods_def)

lemma fk_ep_retry_law: "ep_retry_law (fk_ep_retry n)"
proof -
  have "triple (I e) (fk_ep_retry n f e) (\<lambda>(e', err) s. I e' s \<and> Q err s) E"
    if f: "\<And>e. triple (I e) (f e) (\<lambda>(e', err) s. I e' s \<and> Q err s) E"
    for I :: "EntryPoint \<Rightarrow> 'a st \<Rightarrow> bool" and Q E f e
  proof (induction n arbitrary: e)
    case (Suc n)
    show ?case
      unfolding fk_ep_retry.simps
      by (rule triple_bind [OF f])
        (auto intro!: go_rules intro: triple_pre [OF Suc])
  qed (simp add: f)
  then show ?thesis by (auto simp: ep_retry_law_def)
qed

lemma gw_lawful_G0: "gw_lawful G0"
  by (simp add: gw_lawful_def G0_def fk_createOrPatch_law fk_ep_retry_law)

end
