(* ===== verification/Scenario.thy ===== *)
theory Scenario
  imports Fake_Cluster Kode_Convergence
begin

text \<open>
  Concrete objects for the witnesses: a Kode in the store of Fake_Cluster in its different
  situations, the container template it refers to, and states of a reconciliation over them.
\<close>

definition demo_yaml :: yaml_lib where
  "demo_yaml = \<lparr>yaml_MarshalHCM = (\<lambda>h. Inr ''hcm''), yaml_UnmarshalMap = (\<lambda>s. Inr [(''hcm'', YamlString s)]),
     yaml_MarshalBootstrap = (\<lambda>b. Inr ''bootstrap'')\<rparr>"

definition demo_ref :: CrossNamespaceObjectReference where
  "demo_ref = \<lparr>ref_APIVersion = None, ref_Kind = ''ContainerTemplate'', ref_Name = ''dev'',
     ref_Namespace = Some ''team''\<rparr>"

definition demo_spec :: ContainerTemplateSharedSpec where
  "demo_spec = \<lparr>cs_Credentials = None, cs_EntryPointRef = None, cs_InactiveAfterSeconds = None,
     cs_RecycleAfterSeconds = None, cs_Port = 8000, ct_Type = ''code-server'', ct_Runtime = '''',
     ct_Image = ''code-server:4'', ct_Command = [], ct_Env = [], ct_EnvFrom = [], ct_Args = [],
     ct_TZ = ''UTC'', ct_PUID = 1000, ct_PGID = 1000, ct_DefaultHome = ''/config'',
     ct_DefaultWorkspace = ''workspace'', ct_AllowPrivileged = None, ct_InitPlugins = []\<rparr>"

definition demo_template :: Template where
  "demo_template = \<lparr>t_Kind = ''ContainerTemplate'', t_Name = ''dev'', t_Namespace = ''team'',
     t_Port = 8000, t_ContainerTemplateSpec = Some demo_spec, t_EntryPointRef = None,
     t_EntryPointSpec = None\<rparr>"

definition demo_storage :: "bool option \<Rightarrow> KodeStorageSpec" where
  "demo_storage keep = \<lparr>st_AccessModes = Some [''ReadWriteOnce''], st_StorageClassName = None,
     st_Resources = Some \<lparr>vr_Requests = Some [(''storage'', \<lparr>q_amount = 5, q_text = ''5Gi''\<rparr>)],
       vr_Limits = None\<rparr>,
     st_KeepVolume = keep, st_ExistingVolumeClaim = None\<rparr>"

definition demo_status :: "Phase \<Rightarrow> int \<Rightarrow> KodeStatus" where
  "demo_status p gen = \<lparr>Conditions = [], ObservedGeneration = gen, LastError = None,
     LastErrorTime = None, Phase_of = p, KodeUrl = '''', KodePort = 0, KodeIconUrl = '''',
     Runtime_of = None, LastActivityTime = None, RetryCount = 0, DeletionCycle = 0\<rparr>"

text \<open>A Kode just created by a user.\<close>

definition fresh_kode :: Kode where
  "fresh_kode = \<lparr>k_Name = ''alice'', k_Namespace = ''team'', k_Generation = 1,
     k_DeletionTimestamp = None, k_Finalizers = [],
     k_Spec = \<lparr>ks_TemplateRef = demo_ref, ks_Credentials = None, ks_Home = None,
       ks_Workspace = None, ks_Storage = Some (demo_storage None), ks_UserConfig = None,
       ks_Privileged = None, ks_InitPlugins = []\<rparr>,
     k_Status = demo_status (PhaseOther '''') 0\<rparr>"

text \<open>The same Kode later: with its finalizer, in a given phase, perhaps deleted by the user.\<close>

definition demo_kode :: "Phase \<Rightarrow> Time option \<Rightarrow> Kode" where
  "demo_kode p del = fresh_kode\<lparr>k_Finalizers := [KodeFinalizerName], k_DeletionTimestamp := del,
     k_Status := demo_status p 1\<rparr>"

definition keeping_kode :: Kode where
  "keeping_kode = (demo_kode PhaseDeleting (Some 7))
     \<lparr>k_Spec := (k_Spec fresh_kode)\<lparr>ks_Storage := Some (demo_storage (Some True))\<rparr>\<rparr>"

definition demo_key :: NamespacedName where
  "demo_key = NamespacedName ''team'' ''alice''"

definition demo_store :: "Kode \<Rightarrow> store" where
  "demo_store k = \<lparr>fk_now = 100, fk_kodes = [(demo_key, k)], fk_entrypoints = [],
     fk_templates = [(NamespacedName ''team'' ''dev'', demo_spec)], fk_clustertemplates = [],
     fk_secrets = [], fk_services = [], fk_statefulsets = [], fk_pvcs = [], fk_pods = [],
     fk_routes = [], fk_policies = []\<rparr>"

definition demo_st :: "Kode \<Rightarrow> store st" where
  "demo_st k = \<lparr>world = demo_store k, kode = k, cache = [], events = [], reqlog = []\<rparr>"

lemma demo_fetch [simp]: "fst (lib_getKode L0 demo_key (world (demo_st k))) = Inr k"
  by (simp add: L0_def fk_get_def demo_st_def demo_store_def)

lemma demo_kode_simps [simp]:
  "k_DeletionTimestamp (demo_kode p del) = del" "GetPhase (demo_kode p del) = p"
  "has_finalizer (demo_kode p del)" "k_Generation (demo_kode p del) = 1"
  "ObservedGeneration (k_Status (demo_kode p del)) = 1"
  "k_Spec (demo_kode p del) = k_Spec fresh_kode"
  by (simp_all add: demo_kode_def demo_status_def fresh_kode_def has_finalizer_def GetFinalizer_def
      GetPhase_def)

lemma fresh_kode_simps [simp]:
  "k_DeletionTimestamp fresh_kode = None" "GetPhase fresh_kode = PhaseOther ''''"
  "\<not> has_finalizer fresh_kode"
  by (simp_all add: fresh_kode_def demo_status_def has_finalizer_def GetPhase_def)

lemma keeping_kode_simps [simp]:
  "k_DeletionTimestamp keeping_kode = Some 7" "has_finalizer keeping_kode"
  "ks_Storage (k_Spec keeping_kode) = Some (demo_storage (Some True))"
  by (simp_all add: keeping_kode_def demo_kode_def fresh_kode_def has_finalizer_def GetFinalizer_def)

subsection \<open>Children\<close>

definition demo_labels :: labels where
  "demo_labels = createLabels fresh_kode demo_template"

definition demo_secret :: Secret where
  "demo_secret = \<lparr>sec_Name = ''alice-auth'', sec_Namespace = ''team'', sec_Labels = demo_labels,
     sec_Owners = [''alice''], sec_Data = [(''username'', ''abc''), (''password'', '''')]\<rparr>"

definition demo_service :: Service where
  "demo_service = \<lparr>svc_Name = ''alice-svc'', svc_Namespace = ''team'', svc_Labels = [],
     svc_Owners = [''alice''],
     svc_Spec = \<lparr>svcs_Selector = demo_labels,
       svcs_Ports = [\<lparr>sp_Protocol = ''TCP'', sp_Port = 8000, sp_TargetPort = 8000\<rparr>]\<rparr>\<rparr>"

definition demo_statefulset :: StatefulSet where
  "demo_statefulset = \<lparr>ss_Name = ''alice'', ss_Namespace = ''team'', ss_Labels = Some demo_labels,
     ss_Owners = [''alice''], ss_Spec = StatefulSetSpec_zero\<lparr>sts_Replicas := Some 1\<rparr>,
     ss_ReadyReplicas = 1\<rparr>"

definition demo_pvc :: PersistentVolumeClaim where
  "demo_pvc = \<lparr>pvc_Name = ''alice-pvc'', pvc_Namespace = ''team'', pvc_Labels = [],
     pvc_Annotations = [], pvc_Owners = [''alice''],
     pvc_Spec = PVCSpec_zero\<lparr>pvcs_VolumeName := ''pv-1''\<rparr>, pvc_StatusPhase = ''Bound''\<rparr>"

definition demo_pod :: Pod where
  "demo_pod = \<lparr>pod_Name = ''alice-0'', pod_Namespace = ''team'', pod_Labels = demo_labels,
     pod_Containers = [], pod_StatusPhase = ''Running'',
     pod_Conditions = [\<lparr>pc_Type = ''Ready'', pc_Status = ConditionTrue\<rparr>]\<rparr>"

text \<open>A state in which every child of the Kode exists and is ready.\<close>

definition demo_ready_st :: "Kode \<Rightarrow> store st" where
  "demo_ready_st k = (demo_st k)\<lparr>world := (demo_store k)
     \<lparr>fk_secrets := [(NamespacedName ''team'' ''alice-auth'', demo_secret)],
      fk_services := [(NamespacedName ''team'' ''alice-svc'', demo_service)],
      fk_statefulsets := [(NamespacedName ''team'' ''alice'', demo_statefulset)],
      fk_pvcs := [(NamespacedName ''team'' ''alice-pvc'', demo_pvc)],
      fk_pods := [demo_pod]\<rparr>\<rparr>"

lemma demo_ready_fetch [simp]: "fst (lib_getKode L0 demo_key (world (demo_ready_st k))) = Inr k"
  by (simp add: L0_def fk_get_def demo_ready_st_def demo_st_def demo_store_def)

subsection \<open>Evaluation\<close>

text \<open>The defining equations of the executable definitions and of the concrete objects.\<close>

lemmas run_defs =
  digit_char_def format_int_def itoa_def path_clean_def path_join2_def seconds_def
  NamespacedName_String_def IgnoreNotFound_def quantity_zero_def quantity_Equal_def
  Requests_Storage_def PVCSpec_zero_def Container_zero_def StatefulSetSpec_zero_def
  result_none_def result_requeue_def result_after_def TemplateKindContainer_def
  TemplateKindClusterContainer_def KodeFinalizerName_def EntryPointFinalizerName_def
  DefaultKodeVolumeStorageName_def DefaultUsername_def ProtocolHTTP_def ProtocolHTTPS_def
  RoutingTypeSubdomain_def RoutingTypePath_def RuntimeContainer_def kode_key_def
  SetCondition_def GetCondition_def DeleteCondition_def GetFinalizer_def GetSecretName_def
  GetServiceName_def GetStatefulSetName_def GetPVCName_def GetPort_def GetPhase_def SetPhase_def
  IsEmpty_def GenerateKodeUrlForEntryPoint_def e_GetPhase_def e_SetPhase_def e_GetFinalizer_def
  IsSubdomainRouting_def IsPathRouting_def IsHTTPS_def HasIdentityReference_def
  ObjectKeyFromConfig_def MaskSecretData_def MaskEnvVar_def MaskEnvVars_def MaskSpec_def
  data_lookup_def GetUsernameAndPasswordFromSecret_def MergeLabels_def k_SetCondition_def
  k_GetCondition_def k_DeleteCondition_def e_SetCondition_def e_GetCondition_def
  e_DeleteCondition_def ext_authz_config_def router_config_def socket_address_def getHTTPFilters_def
  static_cluster_def getClusters_def http_connection_manager_def bootstrap_config_def
  GenerateEnvoyConfig_def EnvoyProxyContainerName_def EnvoyProxyContainerImage_def
  EnvoyProxyRunAsUser_def ProxyInitContainerName_def ProxyInitContainerImage_def
  createProxySetupContainer_def createEnvoyContainer_def auth_env_def
  createBasicAuthContainer_def useBasicAuth_of_def ConstructEnvoyContainers_def answer_of_def
  api_get_def api_list_pods_def api_patch_status_def api_update_def api_delete_def
  log_request_def AddTypeInformationToObject_def record_event_def CreateOrPatch_def
  reset_last_error_def UpdateStatus_attempt_def UpdateStatus_def AddFinalizer_def
  RemoveFinalizer_def modify_status_def set_condition_def SetRuntime_def GetLatestKode_def
  GetLatestEntryPoint_def NewStateMachine_def RegisterHandler_def HandleState_def
  st_GetPhase_def st_SetPhase_def res_key_def deleteResource_def manager_Cleanup_def
  Kode_GetResources_def Kode_ShouldDelete_def kind_of_name_def EntryPoint_GetResources_def
  EntryPoint_ShouldDelete_def validateRef_def getCacheKey_def handleNotFoundError_def
  fill_template_def fetchContainerTemplate_def fetchClusterContainerTemplate_def
  fecthEntryPoint_def fetchTemplate_def backoff_Steps_def fetch_condition_def Fetch_def
  validateInitPlugin_def ValidateKode_def SetValidationCondition_def createLabels_def
  InitKodeResourcesConfig_def secret_data_def constructSecretSpec_def constructServiceSpec_def
  constructPVCSpec_def constructContainerPort_def plain_env_def password_env_def
  constructCodeServerContainers_def constructWebtopContainers_def constructVolumesAndMounts_def
  constructInitPluginContainer_def pod_template_text_def calculatePodTemplateHash_def
  ensureSidecarContainers_def workspace_and_mount_def pod_template_hash_key_def
  finish_StatefulSet_def constructStatefulSetSpec_def child_key_def required_fields_def
  checkSecretReady_def checkServiceReady_def checkStatefulSetReady_def checkPVCReady_def
  isPodReady_def checkPodsReady_def ComposeResourceChecks_def checkResourcesReady_def
  check_gone_def skip_PVC_def checkResourcesDeleted_def SetControllerReference_def
  with_login_def spec_with_login_def config_with_login_def write_credentials_def
  mutate_secret_def ensureSecret_def mutate_service_def ensureService_def mutate_statefulset_def
  ensureStatefulSet_def mutate_pvc_existing_def mutate_pvc_new_def mutate_pvc_def
  ensurePersistentVolumeClaim_def mark_def detectSecretChanges_def detectServiceChanges_def
  detectStatefulSetChanges_def detectPVCChanges_def detectChanges_def apply_pvc_def
  apply_statefulset_def apply_service_def apply_secret_def applyConfiguration_def
  hasMatchingAccessModes_def the_list_def validateSecret_def validateService_def
  validateStatefulSet_def validatePVC_def validateConfiguration_def emit_def
  fetchTemplatesWithRetry_def handleReconcileError_def update_or_fail_def update_or_stay_def
  warn_and_fail_def determineCurrentState_def handlePendingState_def change_list_def
  handleConfiguringState_def handleProvisioningState_def refresh_condition_def
  active_healthy_def handleActiveState_def updating_finish_def updating_no_changes_def
  handleUpdatingState_def modify_deletion_cycle_def deleting_first_cycle_def
  deleting_next_cycle_def deleting_finish_def handleDeletingState_def maxRetries_def
  determineRecoveryPhase_def failed_give_up_def failed_retry_def handleFailedState_def
  determineResourceState_def set_phase_def resolve_to_def unknown_resolve_def
  handleUnknownState_def handleGenerationMismatch_def kode_machine_def run_machine_def
  initialize_def reset_retries_def reconcile_live_def reconcile_fetched_def Reconcile_def
  HandleReconcileError_def not_found_def fk_get_def fk_listPods_def fk_patchStatus_def
  fk_updateKode_def fk_createOrPatch_def L0_def go_simps map_eq_def Let_def

lemmas demo_defs = demo_yaml_def demo_ref_def demo_spec_def demo_template_def demo_storage_def
  demo_status_def fresh_kode_def demo_kode_def keeping_kode_def demo_key_def demo_store_def demo_st_def
  demo_labels_def demo_secret_def demo_service_def demo_statefulset_def demo_pvc_def demo_pod_def
  demo_ready_st_def

subsection \<open>Converged children\<close>

definition demo_config :: KodeResourceConfig where
  "demo_config = InitKodeResourcesConfig (demo_kode PhaseUpdating None) demo_template"

definition demo_built :: StatefulSet where
  "demo_built =
     (case fst (constructStatefulSetSpec L0 demo_yaml (demo_kode PhaseUpdating None) demo_config
              (demo_st fresh_kode)) of
        Ret (Inr d) \<Rightarrow> d | _ \<Rightarrow> demo_statefulset)"

definition demo_set :: StatefulSet where
  "demo_set = demo_statefulset\<lparr>ss_Spec := ss_Spec demo_built, ss_ReadyReplicas := 0\<rparr>"

definition demo_claim :: PersistentVolumeClaim where
  "demo_claim = demo_pvc\<lparr>pvc_Spec := PVCSpec_zero\<lparr>pvcs_AccessModes := Some [''ReadWriteOnce''],
     pvcs_Resources := \<lparr>vr_Requests = Some [(''storage'', \<lparr>q_amount = 5, q_text = ''5Gi''\<rparr>)],
       vr_Limits = None\<rparr>\<rparr>\<rparr>"

definition demo_image_pod :: Pod where
  "demo_image_pod = demo_pod\<lparr>pod_Containers := pt_Containers (sts_Template (ss_Spec demo_built)),
     pod_StatusPhase := ''Pending''\<rparr>"

definition demo_converged_st :: "store st" where
  "demo_converged_st = (demo_st (demo_kode PhaseUpdating None))
     \<lparr>world := (demo_store (demo_kode PhaseUpdating None))
       \<lparr>fk_secrets := [(NamespacedName ''team'' ''alice-auth'', demo_secret)],
        fk_services := [(NamespacedName ''team'' ''alice-svc'', demo_service)],
        fk_statefulsets := [(NamespacedName ''team'' ''alice'', demo_set)],
        fk_pvcs := [(NamespacedName ''team'' ''alice-pvc'', demo_claim)],
        fk_pods := [demo_image_pod]\<rparr>\<rparr>"

lemma demo_built_run:
  "constructStatefulSetSpec L0 demo_yaml (demo_kode PhaseUpdating None) demo_config s =
     (Ret (Inr demo_built), s)"
  by (simp add: demo_built_def demo_config_def run_defs demo_defs eval_nat_numeral)

lemma demo_ensured:
  "ensured L0 demo_yaml demo_config (kode demo_converged_st) (world demo_converged_st)"
  unfolding ensured_def
proof (intro conjI)
  let ?k = "kode demo_converged_st" and ?w = "world demo_converged_st"
  have k: "?k = demo_kode PhaseUpdating None" by (simp add: demo_converged_st_def demo_st_def)
  show "\<exists>cr. rc_Credentials demo_config = Some cr"
    unfolding demo_config_def using rc_Credentials_Init by blast
  have "mutate_secret L0 demo_config demo_secret demo_converged_st = (Ret (Inr demo_secret), demo_converged_st)"
    "fst (lib_getSecret L0 (child_key ?k (GetSecretName ?k)) ?w) = Inr demo_secret"
    by (simp_all add: demo_converged_st_def demo_config_def run_defs demo_defs)
  then show "\<exists>secret x (s :: store st) t. mutate_secret L0 demo_config x s = (Ret (Inr secret), t) \<and>
      fst (lib_getSecret L0 (child_key ?k (GetSecretName ?k)) ?w) = Inr secret" by blast
  have "mutate_service L0 demo_config demo_service demo_converged_st = (Ret (Inr demo_service), demo_converged_st)"
    "fst (lib_getService L0 (child_key ?k (GetServiceName ?k)) ?w) = Inr demo_service"
    by (simp_all add: demo_converged_st_def demo_config_def run_defs demo_defs)
  then show "\<exists>service x (s :: store st) t. mutate_service L0 demo_config x s = (Ret (Inr service), t) \<and>
      fst (lib_getService L0 (child_key ?k (GetServiceName ?k)) ?w) = Inr service" by blast
  have set: "mutate_statefulset L0 demo_config demo_built demo_set demo_converged_st =
      (Ret (Inr demo_set), demo_converged_st)"
    "fst (lib_getStatefulSet L0 (child_key ?k (GetStatefulSetName ?k)) ?w) = Inr demo_set"
    "fst (lib_listPods L0 (k_Namespace ?k) (config_labels demo_config) ?w) = Inr [demo_image_pod]"
    by (simp_all add: demo_converged_st_def demo_config_def demo_set_def demo_image_pod_def
        run_defs demo_defs)
  have "desired_statefulset L0 demo_yaml ?k demo_config demo_built"
    by (simp add: desired_statefulset_def k demo_built_run)
  moreover have "map c_Image (pod_Containers demo_image_pod) =
      map c_Image (pt_Containers (sts_Template (ss_Spec demo_set)))"
    by (simp add: demo_image_pod_def demo_set_def)
  ultimately show "\<exists>set d x (s :: store st) t. mutate_statefulset L0 demo_config d x s = (Ret (Inr set), t) \<and>
      desired_statefulset L0 demo_yaml ?k demo_config d \<and>
      fst (lib_getStatefulSet L0 (child_key ?k (GetStatefulSetName ?k)) ?w) = Inr set \<and>
      (\<exists>pods. fst (lib_listPods L0 (k_Namespace ?k) (config_labels demo_config) ?w) = Inr pods \<and>
         (\<forall>pod \<in> List.set pods. map c_Image (pod_Containers pod) =
            map c_Image (pt_Containers (sts_Template (ss_Spec set)))))"
    using set by (intro exI conjI) (assumption | simp)+
  have "constructPVCSpec demo_config demo_converged_st = (Ret (Inr (demo_claim\<lparr>pvc_Name := '''',
      pvc_Namespace := '''', pvc_Owners := [], pvc_StatusPhase := ''''\<rparr>)), demo_converged_st)"
    "fst (lib_getPVC L0 (child_key ?k (GetPVCName ?k)) ?w) = Inr demo_claim"
    by (simp_all add: demo_converged_st_def demo_config_def demo_claim_def run_defs demo_defs)
  then show "\<forall>storage. ks_Storage (rc_KodeSpec demo_config) = Some storage \<and>
      st_ExistingVolumeClaim storage = None \<longrightarrow>
      (\<exists>pvc c (s :: store st) t. constructPVCSpec demo_config s = (Ret (Inr c), t) \<and>
         fst (lib_getPVC L0 (child_key ?k (GetPVCName ?k)) ?w) = Inr pvc \<and> pvc_Spec pvc = pvc_Spec c)"
    by fastforce
qed

lemma demo_converged:
  "converged L0 demo_yaml demo_config (kode demo_converged_st) (world demo_converged_st)"
  by (rule ensured_converged [OF demo_ensured])

end
