(* ===== verification/Kode_Deletion.thy ===== *)
theory Kode_Deletion
  imports Kode_Reconciler
begin

text \<open>
  Safety of deletion, over the requests of whole reconciliations: which objects the operator deletes,
  and what it has seen before it gives up its finalizer.
\<close>

subsection \<open>What a reconciliation leaves alone in the object\<close>

text \<open>
  The names of the child resources, the storage and the metadata of the Kode in memory do not change:
  only the status does, and the credentials read from an existing secret.
\<close>

definition same_identity :: "Kode \<Rightarrow> Kode \<Rightarrow> bool" where
  "same_identity k k' \<longleftrightarrow>
     k_Name k' = k_Name k \<and> k_Namespace k' = k_Namespace k \<and> k_Generation k' = k_Generation k \<and>
     k_Finalizers k' = k_Finalizers k \<and> k_DeletionTimestamp k' = k_DeletionTimestamp k \<and>
     ks_Storage (k_Spec k') = ks_Storage (k_Spec k) \<and> GetSecretName k' = GetSecretName k"

lemma same_identity_refl [simp]: "same_identity k k"
  by (simp add: same_identity_def)

lemma GetSecretName_status [simp]: "GetSecretName (k\<lparr>k_Status := t\<rparr>) = GetSecretName k"
  by (simp add: GetSecretName_def split: option.split)

lemma same_identity_status [simp]:
  "same_identity k (k'\<lparr>k_Status := t\<rparr>) = same_identity k k'"
  by (simp add: same_identity_def)

lemma same_identity_condition [simp]:
  "same_identity k (k_SetCondition n t st re m k') = same_identity k k'"
  "same_identity k (SetPhase p k') = same_identity k k'"
  by (simp_all add: k_SetCondition_def SetPhase_def)

lemma same_identity_login [simp]:
  "same_identity k (k'\<lparr>k_Spec := spec_with_login u p (k_Spec k')\<rparr>) = same_identity k k'"
  by (auto simp: same_identity_def GetSecretName_def spec_with_login_def with_login_def
      split: option.splits)

lemma same_identity_resources:
  assumes "same_identity k k'"
  shows "Kode_GetResources k' = Kode_GetResources k" "Kode_ShouldDelete k' = Kode_ShouldDelete k"
    "GetPVCName k' = GetPVCName k" "skip_PVC L k' = skip_PVC L k" "child_key k' n = child_key k n"
    "GetStatefulSetName k' = GetStatefulSetName k" "GetServiceName k' = GetServiceName k"
    "GetSecretName k' = GetSecretName k"
  using assms
  by (auto simp: same_identity_def Kode_GetResources_def Kode_ShouldDelete_def GetPVCName_def
      GetServiceName_def GetStatefulSetName_def skip_PVC_def child_key_def fun_eq_iff
      split: option.splits)

lemma calm_same_identity: "calm (\<lambda>s. same_identity k (kode s))"
  by (simp add: tame_def read_closed_def patch_closed_def cache_closed_def)

subsection \<open>Assertions a whole reconciliation keeps\<close>

text \<open>
  \<open>firm K I\<close>: tame, and also kept by a change of the phase and by an update of finalizers; \<open>tough K I\<close>:
  by a change of the retry count as well. A tough assertion survives a reconciliation if the cleanup
  keeps it and, where the reconciliation can get to one of the two handlers that write, what they write
  is in \<open>K\<close>.
\<close>

definition firm :: "(ObjKind \<times> NamespacedName) set \<Rightarrow> ('w st \<Rightarrow> bool) \<Rightarrow> bool" where
  "firm K I \<longleftrightarrow> tame K I \<and> (\<forall>s p. I s \<longrightarrow> I (s\<lparr>kode := SetPhase p (kode s)\<rparr>)) \<and>
     (\<forall>s w key fs b. I s \<longrightarrow> I (s\<lparr>world := w, reqlog := reqlog s @ [ReqUpdateFinalizers key fs b]\<rparr>))"

definition tough :: "(ObjKind \<times> NamespacedName) set \<Rightarrow> ('w st \<Rightarrow> bool) \<Rightarrow> bool" where
  "tough K I \<longleftrightarrow> firm K I \<and> recounts I"

lemmas tough_defs = tough_def firm_def recounts_def tame_def read_closed_def patch_closed_def cache_closed_def

abbreviation robust :: "('w st \<Rightarrow> bool) \<Rightarrow> bool" where
  "robust \<equiv> tough UNIV"

definition writing_phase :: "Phase \<Rightarrow> bool" where
  "writing_phase p \<longleftrightarrow> p \<in> {PhaseConfiguring, PhaseUpdating}"

definition writes :: "Kode \<Rightarrow> bool" where
  "writes k \<longleftrightarrow> k_DeletionTimestamp k = None \<and> has_finalizer k \<and>
     k_Generation k = ObservedGeneration (k_Status k) \<and> writing_phase (GetPhase k)"

definition cleanup_kode :: "'w lib \<Rightarrow> ('w st, ctrl_Result \<times> error option) go" where
  "cleanup_kode L =
     bind_go (gets_go kode) (\<lambda>k. manager_Cleanup L (Kode_GetResources k) (Kode_ShouldDelete k))"

lemma deleting_first_cycle_eq:
  "deleting_first_cycle L =
     then_go (modify_deletion_cycle (\<lambda>_. 1))
    (bind_go (cleanup_kode L) (\<lambda>(result, err).
       case err of
         Some e \<Rightarrow> warn_and_fail L ''CleanupFailed'' ''Failed to initiate cleanup: '' e
                     ''Failed to initiate cleanup''
       | None \<Rightarrow>
           then_go (emit L EventTypeNormal ''DeletionStarted'' ''Resource cleanup initiated'')
                   (update_or_stay L PhaseDeleting (return_go (PhaseDeleting, result, None)))))"
  by (simp add: deleting_first_cycle_def cleanup_kode_def bind_go_assoc)

lemma tame_deleting_finish:
  "lawful L \<Longrightarrow> tame K I \<Longrightarrow> keeps I (RemoveFinalizer L) \<Longrightarrow> keeps I (deleting_finish L)"
  unfolding deleting_finish_def by (intro go_rules tame_blocks) auto

lemma tame_deleting_cycles:
  "lawful L \<Longrightarrow> tame K I \<Longrightarrow> keeps I (cleanup_kode L) \<Longrightarrow> keeps I (deleting_first_cycle L)"
  "lawful L \<Longrightarrow> tame K I \<Longrightarrow> keeps I (cleanup_kode L) \<Longrightarrow> keeps I (deleting_next_cycle L)"
  unfolding deleting_first_cycle_eq deleting_next_cycle_def modify_deletion_cycle_def
  by (intro go_rules tame_blocks tame_modify_status; simp)+

lemma tame_handleDeleting:
  "lawful L \<Longrightarrow> tame K I \<Longrightarrow> keeps I (cleanup_kode L) \<Longrightarrow> keeps I (RemoveFinalizer L) \<Longrightarrow>
     keeps I (handleDeletingState L)"
  unfolding handleDeletingState_def
  by (intro go_rules tame_blocks keeps_seq_go tame_deleting_cycles tame_deleting_finish)
    (auto intro: tame_set_condition)

lemmas calm_deleting_finish = tame_deleting_finish [where K = UNIV]
lemmas calm_deleting_cycles = tame_deleting_cycles [where K = UNIV]

lemma firmD:
  assumes "firm K I"
  shows "tame K I" "I s \<Longrightarrow> I (s\<lparr>kode := SetPhase p (kode s)\<rparr>)" "keeps I (AddFinalizer L)"
    "keeps I (RemoveFinalizer L)" "keeps I (set_phase p)"
proof -
  show c: "tame K I" and s: "I s \<Longrightarrow> I (s\<lparr>kode := SetPhase p (kode s)\<rparr>)" for s p
    using assms by (auto simp: firm_def)
  show "keeps I (AddFinalizer L)" "keeps I (RemoveFinalizer L)"
    using assms calmD(1) [OF c] by (auto simp: firm_def intro!: keeps_AddFinalizer keeps_RemoveFinalizer)
  show "keeps I (set_phase p)"
    unfolding set_phase_def by (rule triple_modify) (rule s)
qed

lemma tough_firm: "tough K I \<Longrightarrow> firm K I"
  by (simp add: tough_def)

lemma tough_recounts: "tough K I \<Longrightarrow> recounts I"
  by (simp add: tough_def)

lemmas toughD = firmD [OF tough_firm]
lemmas robustD = toughD [where K = UNIV]

lemma tame_resolve_to:
  "lawful L \<Longrightarrow> tame K I \<Longrightarrow> keeps I (set_phase p) \<Longrightarrow> keeps I (resolve_to L p re m)"
  unfolding resolve_to_def by (intro go_rules tame_blocks) auto

lemma firm_handleUnknown: "lawful L \<Longrightarrow> firm K I \<Longrightarrow> keeps I (handleUnknownState L)"
  unfolding handleUnknownState_def unknown_resolve_def
  by (frule firmD(1), intro go_rules tame_blocks tame_resolve_to tame_determineResourceState keeps_seq_go)
    (auto intro: tame_set_condition firmD)

lemma firm_handlers:
  assumes L: "lawful L" and I: "firm K I" and cl: "keeps I (cleanup_kode L)"
    and fits: "writing_phase p \<Longrightarrow> fits K I" and failed: "p = PhaseFailed \<Longrightarrow> recounts I"
    and h: "map_of (kode_machine L Y) p = Some h"
  shows "keeps I h"
proof -
  note c = firmD(1) [OF I]
  show ?thesis
    using h firm_handleUnknown [OF L I] tame_handlePending [OF L c] tame_handleConfiguring [OF L c fits]
      tame_handleProvisioning [OF L c] tame_handleActive [OF L c] tame_handleUpdating [OF L c fits]
      tame_handleDeleting [OF L c cl firmD(4) [OF I]] tame_handleFailed [OF L c failed]
    by (cases p) (auto simp: map_of_kode_machine writing_phase_def)
qed

lemma firm_run_machine:
  assumes L: "lawful L" and I: "firm K I" and cl: "keeps I (cleanup_kode L)"
    and fits: "writing_phase p \<Longrightarrow> fits K I" and failed: "p = PhaseFailed \<Longrightarrow> recounts I"
  shows "triple (\<lambda>s. I s \<and> st_GetPhase s = p) (run_machine L Y) (\<lambda>_. I) I"
proof -
  have phase: "keeps I (modify_go (st_SetPhase q))" for q
    unfolding st_SetPhase_def by (rule triple_modify) (rule firmD(2) [OF I])
  note upd = tame_UpdateStatus [OF L firmD(1) [OF I]]
  have "keeps I (case map_of (kode_machine L Y) p of
      None \<Rightarrow> return_go (result_none, Some (ErrorText (''no handler for phase '' @ phase_string p)))
    | Some handler \<Rightarrow>
        bind_go handler (\<lambda>(nextPhase, result, err).
          case err of
            Some e \<Rightarrow> return_go (result_after i, Some e)
          | None \<Rightarrow>
              if nextPhase \<noteq> p then
                then_go (modify_go (st_SetPhase nextPhase)) (bind_go (UpdateStatus L) (\<lambda>uerr.
                  case uerr of Some e \<Rightarrow> return_go (result_after i, Some e)
                  | None \<Rightarrow> return_go (result, None)))
              else return_go (result, None)))" for i
    by (intro go_rules phase upd firm_handlers [OF L I cl fits failed]) auto
  then have "triple (\<lambda>s. I s \<and> st_GetPhase s = p)
      (HandleState st_GetPhase st_SetPhase (UpdateStatus L) i (kode_machine L Y)) (\<lambda>_. I) I" for i
    unfolding HandleState_def by (rule triple_bind_gets)
  then show ?thesis
    unfolding run_machine_def by (rule triple_bind) (auto intro!: go_rules)
qed

lemma tough_UpdateStatus_exact:
  assumes L: "lawful L" and I: "tough K I"
  shows "keeps (\<lambda>s. I s \<and> kode s = k) (UpdateStatus L)"
  by (rule keeps_UpdateStatus [OF L])
    (use calmD(1,2) [OF toughD(1) [OF I]] in \<open>auto simp: read_closed_def patch_closed_def\<close>)

lemma firm_prelude:
  assumes L: "lawful L" and I: "firm K I"
  shows "keeps I (initialize L)" "keeps I (handleGenerationMismatch L)"
proof -
  note c = firmD(1) [OF I]
  note rules = firmD [OF I] tame_modify_status [OF c] tame_UpdateStatus [OF L c] tame_set_condition [OF c]
  show "keeps I (initialize L)"
    unfolding initialize_def by (intro go_rules rules) auto
  show "keeps I (handleGenerationMismatch L)"
    unfolding handleGenerationMismatch_def
    by (intro go_rules rules keeps_seq_go) (auto intro: rules)
qed

text \<open>The three ways on from the finalizer test, for the Kode in memory.\<close>

lemma reconcile_live_eq:
  assumes "lawful L" and "kode s = k"
  shows "reconcile_live L Y s =
      (if \<not> has_finalizer k then initialize L
       else if k_Generation k \<noteq> ObservedGeneration (k_Status k) then handleGenerationMismatch L
       else bind_go (reset_retries L) (\<lambda>err.
         case err of Some e \<Rightarrow> return_go (result_requeue, Some e) | None \<Rightarrow> run_machine L Y)) s"
  using assms(2)
  by (simp add: reconcile_live_def bind_go_def [of "gets_go kode"] gets_go_run ContainsFinalizer_iff [OF assms(1)])

lemma reconcile_fetched_eq:
  assumes "lawful L" and "kode s = k"
  shows "reconcile_fetched L Y s =
      (if k_DeletionTimestamp k \<noteq> None then
         if \<not> has_finalizer k then return_go (result_none, None)
         else then_go (set_phase PhaseDeleting) (bind_go (UpdateStatus L) (\<lambda>err. case err of
             Some e \<Rightarrow> return_go (result_requeue, Some e) | None \<Rightarrow> reconcile_live L Y))
       else reconcile_live L Y) s"
  using assms(2)
  by (simp add: reconcile_fetched_def bind_go_def [of "gets_go kode"] gets_go_run ContainsFinalizer_iff [OF assms(1)])

lemma tough_reconcile_live:
  assumes L: "lawful L" and I: "tough K I" and cl: "keeps I (cleanup_kode L)"
    and fits: "has_finalizer k \<Longrightarrow> k_Generation k = ObservedGeneration (k_Status k) \<Longrightarrow>
      writing_phase (GetPhase k) \<Longrightarrow> fits K I"
  shows "triple (\<lambda>s. I s \<and> kode s = k) (reconcile_live L Y) (\<lambda>_. I) I"
proof -
  note c = toughD(1) [OF I]
  note prelude = firm_prelude [OF L tough_firm [OF I]]
  have run: "triple (\<lambda>s. I s \<and> kode s = k) (bind_go (reset_retries L) (\<lambda>err.
      case err of Some e \<Rightarrow> return_go (result_requeue, Some e) | None \<Rightarrow> run_machine L Y)) (\<lambda>_. I) I"
    if "writing_phase (GetPhase k) \<Longrightarrow> fits K I"
  proof -
    let ?J = "\<lambda>s. I s \<and> st_GetPhase s = GetPhase k"
    have "tame K (\<lambda>s. st_GetPhase s = GetPhase k)"
      by (simp add: tame_def read_closed_def patch_closed_def cache_closed_def st_GetPhase_def GetPhase_def)
    with c have J: "tame K ?J" by (rule tame_conj)
    have "recounts ?J"
      using recounts_conj [OF tough_recounts [OF I] recounts_phase] by (simp add: st_GetPhase_def)
    then have "keeps ?J (reset_retries L)" by (rule keeps_reset_retries [OF L J])
    then have "triple ?J (reset_retries L) (\<lambda>_. ?J) I" by (rule triple_weaken) auto
    then have "triple ?J (bind_go (reset_retries L) (\<lambda>err.
        case err of Some e \<Rightarrow> return_go (result_requeue, Some e) | None \<Rightarrow> run_machine L Y)) (\<lambda>_. I) I"
      by (rule triple_bind) (auto intro!: go_rules firm_run_machine [OF L tough_firm [OF I] cl that tough_recounts [OF I]])
    then show ?thesis by (rule triple_pre) (auto simp: st_GetPhase_def)
  qed
  have "triple (\<lambda>s. I s \<and> kode s = k)
      (if \<not> has_finalizer k then initialize L
       else if k_Generation k \<noteq> ObservedGeneration (k_Status k) then handleGenerationMismatch L
       else bind_go (reset_retries L) (\<lambda>err.
         case err of Some e \<Rightarrow> return_go (result_requeue, Some e) | None \<Rightarrow> run_machine L Y)) (\<lambda>_. I) I"
    by (intro triple_if run triple_pre [OF prelude(1)] triple_pre [OF prelude(2)] fits) auto
  then show ?thesis by (simp add: triple_def reconcile_live_eq [OF L])
qed

lemma tough_reconcile_fetched:
  assumes L: "lawful L" and I: "tough K I" and cl: "keeps I (cleanup_kode L)"
    and fits: "writes k \<Longrightarrow> fits K I"
  shows "triple (\<lambda>s. I s \<and> kode s = k) (reconcile_fetched L Y) (\<lambda>_. I) I"
proof -
  let ?k = "SetPhase PhaseDeleting k"
  have "\<not> writing_phase (GetPhase ?k)" by (simp add: writing_phase_def kode_res.get_set_phase)
  then have del: "triple (\<lambda>s. I s \<and> kode s = ?k) (reconcile_live L Y) (\<lambda>_. I) I"
    by (intro tough_reconcile_live [OF L I cl]) simp
  have phase: "triple (\<lambda>s. I s \<and> kode s = k) (set_phase PhaseDeleting) (\<lambda>_ s. I s \<and> kode s = ?k) I"
    unfolding set_phase_def by (rule triple_modify) (auto intro: toughD(2) [OF I])
  have upd: "triple (\<lambda>s. I s \<and> kode s = ?k) (UpdateStatus L) (\<lambda>_ s. I s \<and> kode s = ?k) I"
    by (rule triple_weaken [OF tough_UpdateStatus_exact [OF L I, of ?k]]) auto
  have live: "triple (\<lambda>s. I s \<and> kode s = k) (reconcile_live L Y) (\<lambda>_. I) I"
    if "k_DeletionTimestamp k = None"
    by (intro tough_reconcile_live [OF L I cl] fits) (simp add: writes_def that)
  have "triple (\<lambda>s. I s \<and> kode s = k)
      (if k_DeletionTimestamp k \<noteq> None then
         if \<not> has_finalizer k then return_go (result_none, None)
         else then_go (set_phase PhaseDeleting) (bind_go (UpdateStatus L) (\<lambda>err. case err of
             Some e \<Rightarrow> return_go (result_requeue, Some e) | None \<Rightarrow> reconcile_live L Y))
       else reconcile_live L Y) (\<lambda>_. I) I"
    by (intro triple_if triple_then [OF phase] triple_bind [OF upd] triple_case_option del live
        triple_return) auto
  then show ?thesis by (simp add: triple_def reconcile_fetched_eq [OF L])
qed

lemma robust_reconcile_fetched:
  assumes "lawful L" and "robust I" and "keeps I (cleanup_kode L)"
  shows "keeps I (reconcile_fetched L Y)"
  using tough_reconcile_fetched [OF assms fits_UNIV] by (auto simp: triple_def)

subsection \<open>Only the deletable children are deleted\<close>

text \<open>The objects a Kode lets the operator delete: its deletable resources, and pods.\<close>

definition deletable :: "Kode \<Rightarrow> ObjKind \<Rightarrow> NamespacedName \<Rightarrow> bool" where
  "deletable k kind n \<longleftrightarrow>
     kind = KindPod \<or>
     (\<exists>res \<in> set (Kode_GetResources k). Kode_ShouldDelete k res \<and> kind = res_Object res \<and>
        n = res_key res)"

definition deletes_within :: "Kode \<Rightarrow> Request list \<Rightarrow> 'w st \<Rightarrow> bool" where
  "deletes_within k log0 s \<longleftrightarrow>
     same_identity k (kode s) \<and>
     (\<exists>qs. reqlog s = log0 @ qs \<and> (\<forall>kind n b. ReqDelete kind n b \<in> set qs \<longrightarrow> deletable k kind n))"

lemma deletes_within_append:
  "deletes_within k log0 s \<Longrightarrow> (same_identity k (kode s) \<Longrightarrow> same_identity k (kode t)) \<Longrightarrow>
     reqlog t = reqlog s @ qs \<Longrightarrow>
     (\<And>kind n b. ReqDelete kind n b \<in> set qs \<Longrightarrow> deletable k kind n) \<Longrightarrow> deletes_within k log0 t"
  unfolding deletes_within_def by (auto; blast)

lemma deletes_within_same:
  "deletes_within k log0 s \<Longrightarrow> (same_identity k (kode s) \<Longrightarrow> same_identity k (kode t)) \<Longrightarrow>
     reqlog t = reqlog s \<Longrightarrow> deletes_within k log0 t"
  by (rule deletes_within_append [where qs = "[]"]) auto

lemma deletes_within_identity: "deletes_within k log0 s \<Longrightarrow> same_identity k (kode s)"
  by (simp add: deletes_within_def)

lemma deletes_within_snoc:
  "deletes_within k log0 s \<Longrightarrow> (same_identity k (kode s) \<Longrightarrow> same_identity k (kode t)) \<Longrightarrow>
     reqlog t = reqlog s @ [q] \<Longrightarrow>
     (\<And>kind n b. q = ReqDelete kind n b \<Longrightarrow> kind = KindPod) \<Longrightarrow> deletes_within k log0 t"
  by (erule deletes_within_append) (auto simp: deletable_def)

lemma robust_deletes_within: "robust (deletes_within k log0)"
  unfolding tough_defs
  by (intro conjI allI impI; (elim conjE)?)
    ((erule deletes_within_same; (simp; fail)) | (erule deletes_within_snoc, simp, simp, simp))+

lemma cleanup_deletes_within: "keeps (deletes_within k log0) (cleanup_kode L)"
proof -
  have step: "deletes_within k log0 (snd (cleanup_kode L s))" if I: "deletes_within k log0 s" for s
  proof -
    let ?rs = "Kode_GetResources (kode s)" and ?d = "Kode_ShouldDelete (kode s)"
    obtain res err t ds where run: "manager_Cleanup L ?rs ?d s = (Ret (res, err), t)"
      "reqlog t = reqlog s @ ds" "kode t = kode s"
      "\<forall>k n b. ReqDelete k n b \<in> set ds \<longrightarrow> (\<exists>x \<in> set ?rs. ?d x \<and> k = kind_of_name (res_Kind x) \<and>
         n = NamespacedName (k_Namespace (kode s)) (res_Name x))"
      using kode_cleanup.Cleanup_run [of L "kode s" s] by blast
    note id = deletes_within_identity [OF I]
    have "deletable k kind n" if q: "ReqDelete kind n b \<in> set ds" for kind n b
    proof -
      from run(4) q obtain x where x: "x \<in> set ?rs" "?d x" "kind = kind_of_name (res_Kind x)"
        "n = NamespacedName (k_Namespace (kode s)) (res_Name x)"
        by blast
      then have "kind = res_Object x" "n = res_key x"
        using kode_cleanup.kinds_match [of x "kode s"] kode_cleanup.own_namespace [of x "kode s"]
        by (simp_all add: res_key_def)
      with x show ?thesis
        using same_identity_resources(1,2) [OF id] by (auto simp: deletable_def)
    qed
    then have "deletes_within k log0 t"
      using run(2,3) id by (intro deletes_within_append [OF I]) auto
    with run(1) show ?thesis by (simp add: cleanup_kode_def go_simps)
  qed
  show ?thesis
    by (rule tripleI) (use step in \<open>force\<close>)+
qed

text \<open>Every object a reconciliation asks to delete is deletable by the Kode it fetched.\<close>

lemma Reconcile_deletes:
  assumes L: "lawful L" and k: "fst (lib_getKode L req (world s)) = Inr k"
    and run: "Reconcile L Y req s = (x, t)"
  shows "\<exists>qs. reqlog t = reqlog s @ qs \<and>
    (\<forall>kind n b. ReqDelete kind n b \<in> set qs \<longrightarrow> deletable k kind n)"
proof -
  obtain w where w: "lib_getKode L req (world s) = (Inr k, w)" using k by (metis prod.collapse)
  let ?u = "s\<lparr>world := w, reqlog := reqlog s @ [ReqGet KindKode req Found], kode := k\<rparr>"
  have "deletes_within k (reqlog s) ?u" by (auto simp: deletes_within_def)
  moreover have "reconcile_fetched L Y ?u = (x, t)"
    using run w by (simp add: Reconcile_def api_get_def answer_of_def go_simps)
  ultimately have "deletes_within k (reqlog s) t"
    using triple_snd [OF robust_reconcile_fetched [OF L robust_deletes_within cleanup_deletes_within,
          of k "reqlog s" Y], of ?u] by simp
  then show ?thesis by (simp add: deletes_within_def)
qed

text \<open>A volume the user wants to keep, or brought along, is not deletable.\<close>

lemma kept_volume_not_deletable:
  assumes "ks_Storage (k_Spec k) = Some st"
    and "st_KeepVolume st = Some True \<or> st_ExistingVolumeClaim st \<noteq> None"
  shows "\<not> deletable k KindPersistentVolumeClaim n"
  using assms by (auto simp: deletable_def Kode_GetResources_def Kode_ShouldDelete_def)

subsection \<open>The finalizer is given up only when the children are gone\<close>

text \<open>
  The answers the operator must have got for every child resource; the claim is skipped in a test
  environment, without storage, and for a claim the user brought along.
\<close>

definition gone_evidence :: "'w lib \<Rightarrow> Kode \<Rightarrow> Request list \<Rightarrow> bool" where
  "gone_evidence L k qs \<longleftrightarrow>
     ReqGet KindStatefulSet (child_key k (GetStatefulSetName k)) NotFound \<in> set qs \<and>
     ReqGet KindSecret (child_key k (GetSecretName k)) NotFound \<in> set qs \<and>
     ReqGet KindService (child_key k (GetServiceName k)) NotFound \<in> set qs \<and>
     (skip_PVC L k \<or> ReqGet KindPersistentVolumeClaim (child_key k (GetPVCName k)) NotFound \<in> set qs)"

lemma gone_evidence_append:
  "gone_evidence L k qs \<Longrightarrow> gone_evidence L k (qs @ r)"
  "gone_evidence L k qs \<Longrightarrow> gone_evidence L k (r @ qs)"
  by (auto simp: gone_evidence_def)

lemma check_gone_evidence:
  assumes "check_gone kind nameFunc skipCheck request s = (Ret (Inr True), t)"
  shows "kode t = kode s \<and> (\<exists>qs. reqlog t = reqlog s @ qs \<and>
    (skipCheck (kode s) \<or> ReqGet kind (child_key (kode s) (nameFunc (kode s))) NotFound \<in> set qs))"
  using assms
  by (auto simp: check_gone_def api_get_def answer_of_def Let_def go_simps
      split: if_splits prod.splits sum.splits)

lemma run_checks_True:
  assumes "run_checks (c # cs) s = (Ret (Inr True), t)"
  obtains u where "c s = (Ret (Inr True), u)" "run_checks cs u = (Ret (Inr True), t)"
  using assms by (auto simp: go_simps split: prod.splits outcome.splits sum.splits if_splits)

lemma checkResourcesDeleted_evidence:
  assumes "checkResourcesDeleted L s = (Ret (Inr True), t)"
  shows "kode t = kode s \<and> (\<exists>qs. reqlog t = reqlog s @ qs \<and> gone_evidence L (kode s) qs)"
proof -
  obtain u1 u2 u3 where
    c: "check_gone KindStatefulSet GetStatefulSetName (\<lambda>_. False) (lib_getStatefulSet L) s = (Ret (Inr True), u1)"
      "check_gone KindSecret GetSecretName (\<lambda>_. False) (lib_getSecret L) u1 = (Ret (Inr True), u2)"
      "check_gone KindService GetServiceName (\<lambda>_. False) (lib_getService L) u2 = (Ret (Inr True), u3)"
      "check_gone KindPersistentVolumeClaim GetPVCName (skip_PVC L) (lib_getPVC L) u3 = (Ret (Inr True), t)"
    using assms unfolding checkResourcesDeleted_def
    by (elim run_checks_True) (simp add: go_simps)
  obtain q1 q2 q3 q4 where q: "reqlog u1 = reqlog s @ q1" "reqlog u2 = reqlog u1 @ q2"
    "reqlog u3 = reqlog u2 @ q3" "reqlog t = reqlog u3 @ q4"
    "ReqGet KindStatefulSet (child_key (kode s) (GetStatefulSetName (kode s))) NotFound \<in> set q1"
    "ReqGet KindSecret (child_key (kode s) (GetSecretName (kode s))) NotFound \<in> set q2"
    "ReqGet KindService (child_key (kode s) (GetServiceName (kode s))) NotFound \<in> set q3"
    "skip_PVC L (kode s) \<or>
       ReqGet KindPersistentVolumeClaim (child_key (kode s) (GetPVCName (kode s))) NotFound \<in> set q4"
    "kode t = kode s"
    using c [THEN check_gone_evidence] by (elim conjE exE) auto
  then show ?thesis
    by (intro conjI exI [of _ "q1 @ q2 @ q3 @ q4"]) (auto simp: gone_evidence_def)
qed

definition no_finalizer_update :: "Request list \<Rightarrow> bool" where
  "no_finalizer_update qs \<longleftrightarrow> (\<forall>key fs b. ReqUpdateFinalizers key fs b \<notin> set qs)"

text \<open>Before the children are known to be gone, and after.\<close>

definition holding :: "Kode \<Rightarrow> Request list \<Rightarrow> 'w st \<Rightarrow> bool" where
  "holding k log0 s \<longleftrightarrow>
     same_identity k (kode s) \<and> (\<exists>qs. reqlog s = log0 @ qs \<and> no_finalizer_update qs)"

definition released :: "'w lib \<Rightarrow> Kode \<Rightarrow> Request list \<Rightarrow> 'w st \<Rightarrow> bool" where
  "released L k log0 s \<longleftrightarrow>
     same_identity k (kode s) \<and> (\<exists>qs. reqlog s = log0 @ qs \<and> gone_evidence L k qs)"

lemma holding_same:
  "holding k log0 s \<Longrightarrow> (same_identity k (kode s) \<Longrightarrow> same_identity k (kode t)) \<Longrightarrow>
     reqlog t = reqlog s \<Longrightarrow> holding k log0 t"
  by (auto simp: holding_def)

lemma holding_snoc:
  "holding k log0 s \<Longrightarrow> (same_identity k (kode s) \<Longrightarrow> same_identity k (kode t)) \<Longrightarrow>
     reqlog t = reqlog s @ [q] \<Longrightarrow> (\<And>key fs b. q \<noteq> ReqUpdateFinalizers key fs b) \<Longrightarrow> holding k log0 t"
  unfolding holding_def no_finalizer_update_def by (elim conjE exE) (simp, metis)

lemma released_append:
  "released L k log0 s \<Longrightarrow> (same_identity k (kode s) \<Longrightarrow> same_identity k (kode t)) \<Longrightarrow>
     reqlog t = reqlog s @ qs \<Longrightarrow> released L k log0 t"
  unfolding released_def by (auto intro: gone_evidence_append)

lemma released_same:
  "released L k log0 s \<Longrightarrow> (same_identity k (kode s) \<Longrightarrow> same_identity k (kode t)) \<Longrightarrow>
     reqlog t = reqlog s \<Longrightarrow> released L k log0 t"
  by (auto simp: released_def)

lemma calm_holding: "calm (holding k log0)"
  unfolding tame_def read_closed_def patch_closed_def cache_closed_def
  by (intro conjI allI impI; (elim conjE)?)
    ((erule holding_same; (simp; fail)) | (erule holding_snoc, simp, simp, simp))+

lemma recounts_holding: "recounts (holding k log0)"
  unfolding recounts_def by (intro allI impI, erule holding_same) simp_all

lemma robust_released: "robust (released L k log0)"
  unfolding tough_defs
  by (intro conjI allI impI; (elim conjE)?)
    ((erule released_same; (simp; fail)) | (erule released_append, simp, simp))+

lemma holding_Cleanup: "keeps (holding k log0) (cleanup_kode L)"
  unfolding cleanup_kode_def
  by (intro go_rules keeps_manager_Cleanup) (erule holding_snoc, simp, simp, simp)

lemma checkResourcesDeleted_released:
  "triple (holding k log0) (checkResourcesDeleted L)
     (\<lambda>r s. if r = Inr True then released L k log0 s else holding k log0 s) (holding k log0)"
proof (rule tripleI)
  fix s x t
  assume I: "holding k log0 s" and run: "checkResourcesDeleted L s = (Ret x, t)"
  show "if x = Inr True then released L k log0 t else holding k log0 t"
  proof (cases "x = Inr True")
    case True
    note id = I [unfolded holding_def, THEN conjunct1]
    have "gone_evidence L (kode s) qs = gone_evidence L k qs" for qs
      unfolding gone_evidence_def same_identity_resources [OF id] ..
    then show ?thesis
      using checkResourcesDeleted_evidence [OF run [unfolded True]] I True
      by (auto simp: released_def holding_def intro: gone_evidence_append)
  next
    case False
    then show ?thesis
      using tripleD [OF deleted_check.keeps_check [OF calmD(1) [OF calm_holding]] I run] by simp
  qed
next
  fix s t
  assume "holding k log0 s" and "checkResourcesDeleted L s = (Panic, t)"
  then show "holding k log0 t"
    using triple_panicD [OF deleted_check.keeps_check [OF calmD(1) [OF calm_holding]]] by blast
qed

lemma deleting_after_check:
  assumes L: "lawful L"
  shows "triple (holding k log0)
    (bind_go (checkResourcesDeleted L) (\<lambda>c.
       case c of
         Inl e \<Rightarrow> warn_and_fail L ''DeletionCheckFailed''
                    ''Failed to check child resources deletion status: '' e
                    ''Failed to check child resources deletion''
       | Inr childResourcesDeleted \<Rightarrow>
           if \<not> childResourcesDeleted then
             bind_go (gets_go (\<lambda>s. DeletionCycle (k_Status (kode s)))) (\<lambda>cycle.
               if cycle = 0 then deleting_first_cycle L else deleting_next_cycle L)
           else deleting_finish L))
    (\<lambda>_ s. holding k log0 s \<or> released L k log0 s) (\<lambda>s. holding k log0 s \<or> released L k log0 s)"
    (is "triple ?H _ (\<lambda>_. ?F) ?F")
proof (rule triple_bind)
  show "triple ?H (checkResourcesDeleted L)
      (\<lambda>r s. if r = Inr True then released L k log0 s else holding k log0 s) ?F"
    by (rule triple_weaken [OF checkResourcesDeleted_released]) auto
next
  fix c :: "error + bool"
  have hold: "triple ?H m (\<lambda>_. ?F) ?F" if "keeps ?H m" for m :: "('a st, 'b) go"
    by (rule triple_weaken [OF that]) auto
  have finish: "triple (released L k log0) (deleting_finish L) (\<lambda>_. ?F) ?F"
    by (rule triple_weaken [OF calm_deleting_finish [OF L robustD(1,4) [OF robust_released]]]) auto
  show "triple (\<lambda>s. if c = Inr True then released L k log0 s else holding k log0 s)
    (case c of
         Inl e \<Rightarrow> warn_and_fail L ''DeletionCheckFailed''
                    ''Failed to check child resources deletion status: '' e
                    ''Failed to check child resources deletion''
       | Inr childResourcesDeleted \<Rightarrow>
           if \<not> childResourcesDeleted then
             bind_go (gets_go (\<lambda>s. DeletionCycle (k_Status (kode s)))) (\<lambda>cycle.
               if cycle = 0 then deleting_first_cycle L else deleting_next_cycle L)
           else deleting_finish L) (\<lambda>_. ?F) ?F"
  proof (cases c)
    case (Inl e)
    then show ?thesis by (simp add: hold calm_warn_and_fail L calm_holding)
  next
    case (Inr b)
    have "keeps ?H (bind_go (gets_go (\<lambda>s. DeletionCycle (k_Status (kode s)))) (\<lambda>cycle.
        if cycle = 0 then deleting_first_cycle L else deleting_next_cycle L))"
      by (intro go_rules calm_deleting_cycles L calm_holding holding_Cleanup)
    then show ?thesis using Inr finish by (cases b) (auto intro: hold)
  qed
qed

lemma handleDeleting_safe:
  assumes L: "lawful L"
  shows "triple (holding k log0) (handleDeletingState L)
    (\<lambda>_ s. holding k log0 s \<or> released L k log0 s) (\<lambda>s. holding k log0 s \<or> released L k log0 s)"
    (is "triple ?H _ (\<lambda>_. ?F) ?F")
proof -
  have conds: "triple ?H (seq_go ms) (\<lambda>_. ?H) ?F" if "\<And>m. m \<in> set ms \<Longrightarrow> keeps ?H m" for ms
    by (rule triple_weaken [OF keeps_seq_go [OF that]]) auto
  have upd: "triple ?H (UpdateStatus L) (\<lambda>_. ?H) ?F"
    by (rule triple_weaken [OF calm_UpdateStatus [OF L calm_holding]]) auto
  show ?thesis
    unfolding handleDeletingState_def update_or_stay_def
    by (rule triple_then [OF conds])
      (auto intro: calm_set_condition calm_holding
        intro!: triple_bind [OF upd] triple_case_option triple_return deleting_after_check L)
qed

subsection \<open>The same for a whole reconciliation of a deleted Kode\<close>

lemma keeps_disj: "keeps I m \<Longrightarrow> keeps J m \<Longrightarrow> keeps (\<lambda>s. I s \<or> J s) m"
  by (fastforce simp: triple_def split: prod.splits outcome.splits)

lemma status_closed_holding: "status_closed (holding k log0)"
  unfolding status_closed_def by (intro allI impI, erule holding_same) simp_all

lemma holding_set_phase: "keeps (holding k log0) (modify_go (st_SetPhase p))"
    "keeps (holding k log0) (set_phase p)"
  unfolding st_SetPhase_def SetPhase_def set_phase_def
  by (rule triple_modify; use status_closed_holding in \<open>auto simp: status_closed_def\<close>)+

lemma released_set_phase: "keeps (released L k log0) (modify_go (st_SetPhase p))"
  unfolding st_SetPhase_def by (rule triple_modify) (rule robustD(2) [OF robust_released])

lemma deleting_machine_safe:
  assumes L: "lawful L"
  shows "triple (\<lambda>s. st_GetPhase s = PhaseDeleting \<and> holding k log0 s) (run_machine L Y)
    (\<lambda>_ s. holding k log0 s \<or> released L k log0 s) (\<lambda>s. holding k log0 s \<or> released L k log0 s)"
    (is "triple _ _ (\<lambda>_. ?F) ?F")
  unfolding run_machine_def HandleState_def bind_go_assoc
proof (rule triple_bind [where R = "\<lambda>p s. p = PhaseDeleting \<and> holding k log0 s"])
  show "triple (\<lambda>s. st_GetPhase s = PhaseDeleting \<and> holding k log0 s) (gets_go st_GetPhase)
      (\<lambda>p s. p = PhaseDeleting \<and> holding k log0 s) ?F"
    by (rule triple_gets) auto
next
  fix p
  have F: "keeps ?F (modify_go (st_SetPhase q))" "keeps ?F (UpdateStatus L)" for q
    by (intro keeps_disj holding_set_phase released_set_phase calm_UpdateStatus L calm_holding
        robustD(1) [OF robust_released])+
  let ?next = "\<lambda>(nextPhase, result, err).
      (case err of
         Some e \<Rightarrow> return_go (result_after (lib_ReconcileInterval L), Some e)
       | None \<Rightarrow>
           if nextPhase \<noteq> p then
             then_go (modify_go (st_SetPhase nextPhase))
               (bind_go (UpdateStatus L) (\<lambda>uerr.
                  case uerr of Some e \<Rightarrow> return_go (result_after (lib_ReconcileInterval L), Some e)
                  | None \<Rightarrow> return_go (result, None)))
           else return_go (result, None))"
  have next': "keeps ?F (?next x)" for x
    by (cases x) (auto intro!: go_rules F)
  have "triple (holding k log0) (bind_go (handleDeletingState L) ?next) (\<lambda>_. ?F) ?F"
    by (rule triple_bind [OF handleDeleting_safe [OF L]]) (rule next')
  then have run: "triple (holding k log0) (bind_go (bind_go (handleDeletingState L) ?next)
      (\<lambda>(result, err). case err of Some e \<Rightarrow> return_go (result_requeue, Some e)
         | None \<Rightarrow> return_go (result, None))) (\<lambda>_. ?F) ?F"
    by (rule triple_bind) (auto intro!: go_rules)
  show "triple (\<lambda>s. p = PhaseDeleting \<and> holding k log0 s)
      (bind_go (case map_of (kode_machine L Y) p of
         None \<Rightarrow> return_go (result_none, Some (ErrorText (''no handler for phase '' @ phase_string p)))
       | Some handler \<Rightarrow> bind_go handler ?next) (\<lambda>(result, err).
         case err of Some e \<Rightarrow> return_go (result_requeue, Some e)
         | None \<Rightarrow> return_go (result, None))) (\<lambda>_. ?F) ?F"
  proof (cases "p = PhaseDeleting")
    case True
    show ?thesis
      using run unfolding True map_of_kode_machine option.case by (rule triple_pre) simp
  qed simp
qed

text \<open>The state after the phase Deleting was stored: the object in memory is known exactly.\<close>

definition marked :: "Kode \<Rightarrow> Request list \<Rightarrow> 'w st \<Rightarrow> bool" where
  "marked k log0 s \<longleftrightarrow> kode s = SetPhase PhaseDeleting k \<and> holding k log0 s"

lemma marked_keeps:
  "keeps (holding k log0) m \<Longrightarrow>
     triple (marked k log0) m (\<lambda>_ s. holding k log0 s \<or> released L k log0 s)
       (\<lambda>s. holding k log0 s \<or> released L k log0 s)"
  by (erule triple_weaken) (auto simp: marked_def)

lemma holding_mismatch:
  "lawful L \<Longrightarrow> keeps (holding k log0) (handleGenerationMismatch L)"
  unfolding handleGenerationMismatch_def
  by (intro go_rules holding_set_phase calm_modify_status calm_UpdateStatus keeps_seq_go calm_holding)
    (auto intro: calm_set_condition calm_holding holding_set_phase)

lemma marked_run:
  assumes L: "lawful L"
  shows "triple (marked k log0) (bind_go (reset_retries L) (\<lambda>err.
      case err of Some e \<Rightarrow> return_go (result_requeue, Some e) | None \<Rightarrow> run_machine L Y))
    (\<lambda>_ s. holding k log0 s \<or> released L k log0 s) (\<lambda>s. holding k log0 s \<or> released L k log0 s)"
    (is "triple _ ?m (\<lambda>_. ?F) ?F")
proof -
  let ?P = "\<lambda>s. st_GetPhase s = PhaseDeleting \<and> holding k log0 s"
  have "calm (\<lambda>s. st_GetPhase s = PhaseDeleting)"
    by (simp add: tame_def read_closed_def patch_closed_def cache_closed_def st_GetPhase_def GetPhase_def)
  then have calmP: "calm ?P" by (rule calm_conj [OF _ calm_holding])
  have "recounts ?P"
    using recounts_conj [OF recounts_phase recounts_holding] by (simp add: st_GetPhase_def)
  then have "keeps ?P (reset_retries L)" by (rule keeps_reset_retries [OF L calmP])
  then have "triple ?P (reset_retries L) (\<lambda>_. ?P) ?F" by (rule triple_weaken) auto
  then have "triple ?P ?m (\<lambda>_. ?F) ?F"
    by (rule triple_bind) (auto intro!: triple_case_option triple_return deleting_machine_safe L)
  then show ?thesis
    by (rule triple_pre) (auto simp: marked_def st_GetPhase_def kode_res.get_set_phase)
qed

lemma marked_live:
  assumes L: "lawful L" and fin: "has_finalizer k"
  shows "triple (marked k log0) (reconcile_live L Y)
    (\<lambda>_ s. holding k log0 s \<or> released L k log0 s) (\<lambda>s. holding k log0 s \<or> released L k log0 s)"
    (is "triple _ _ (\<lambda>_. ?F) ?F")
proof -
  have init: "triple (\<lambda>s. k' = SetPhase PhaseDeleting k \<and> marked k log0 s) (initialize L) (\<lambda>_. ?F) ?F"
    if "\<not> has_finalizer k'" for k'
    using that fin by (auto simp: triple_def)
  show ?thesis
    unfolding reconcile_live_def
    by (rule triple_bind [where R = "\<lambda>k' s. k' = SetPhase PhaseDeleting k \<and> marked k log0 s"],
        rule triple_gets, simp add: marked_def)
      (auto simp: ContainsFinalizer_iff [OF L]
        intro!: triple_if init triple_pre [OF marked_keeps [OF holding_mismatch [OF L]]]
          triple_pre [OF marked_run [OF L]])
qed

lemma marked_UpdateStatus:
  assumes "lawful L"
  shows "keeps (marked k log0) (UpdateStatus L)"
  by (rule keeps_UpdateStatus [OF assms])
    (use calmD(1,2) [OF calm_holding, of k log0] in
      \<open>auto simp: marked_def read_closed_def patch_closed_def\<close>)

text \<open>
  A reconciliation of a deleted Kode updates the finalizers only after the API server answered
  NotFound for every child resource in that same reconciliation.
\<close>

lemma Reconcile_releases:
  assumes L: "lawful L" and k: "fst (lib_getKode L req (world s)) = Inr k"
    and del: "k_DeletionTimestamp k \<noteq> None" and fin: "has_finalizer k"
    and run: "Reconcile L Y req s = (x, t)"
  shows "\<exists>qs. reqlog t = reqlog s @ qs \<and>
    ((\<exists>key fs b. ReqUpdateFinalizers key fs b \<in> set qs) \<longrightarrow> gone_evidence L k qs)"
proof -
  obtain w where w: "lib_getKode L req (world s) = (Inr k, w)" using k by (metis prod.collapse)
  let ?u = "s\<lparr>world := w, reqlog := reqlog s @ [ReqGet KindKode req Found],
              kode := SetPhase PhaseDeleting k\<rparr>"
  let ?F = "\<lambda>t. holding k (reqlog s) t \<or> released L k (reqlog s) t"
  let ?rest = "bind_go (UpdateStatus L) (\<lambda>err. case err of
      Some e \<Rightarrow> return_go (result_requeue, Some e) | None \<Rightarrow> reconcile_live L Y)"
  have rest: "?rest ?u = (x, t)"
    using run w del fin
    by (simp add: Reconcile_def api_get_def answer_of_def reconcile_fetched_def go_simps
        ContainsFinalizer_iff [OF L] set_phase_def)
  have start: "marked k (reqlog s) ?u"
    by (auto simp: marked_def holding_def no_finalizer_update_def SetPhase_def)
  have "triple (marked k (reqlog s)) (UpdateStatus L) (\<lambda>_. marked k (reqlog s)) ?F"
    by (rule triple_weaken [OF marked_UpdateStatus [OF L]]) (auto simp: marked_def)
  then have "triple (marked k (reqlog s)) ?rest (\<lambda>_. ?F) ?F"
    by (rule triple_bind, intro triple_case_option marked_live L fin triple_return)
      (auto simp: marked_def)
  from triple_snd [OF this start] rest have "?F t" by simp
  then show ?thesis by (auto simp: holding_def released_def no_finalizer_update_def)
qed

end
