(* ===== verification/Kode_Lifecycle.thy ===== *)
theory Kode_Lifecycle
  imports Kode_Deletion
begin

text \<open>
  Properties over the life of a Kode: the objects that can ever be stored, what a reconciliation may
  do before the finalizer is in place, the evidence behind the phase Active, and the statuses that
  are sent.
\<close>

subsection \<open>The objects that can ever be stored\<close>

text \<open>
  A Kode is created with an empty phase; users and the API server may change anything but the
  status; the operator changes the status by the patches its reconciliations send. A reconciliation
  may work on any object stored at some time, so reads from a stale cache are included.
\<close>

inductive stored :: "'w lib \<Rightarrow> yaml_lib \<Rightarrow> Kode \<Rightarrow> bool" for L Y where
  created: "GetPhase k = PhaseOther '''' \<Longrightarrow> stored L Y k"
| edited: "stored L Y k \<Longrightarrow> k_Status k' = k_Status k \<Longrightarrow> stored L Y k'"
| patched: "stored L Y k \<Longrightarrow> fst (lib_getKode L req (world s)) = Inr k \<Longrightarrow>
    ReqPatchStatus key st b \<in> set (new_requests s (snd (Reconcile L Y req s))) \<Longrightarrow>
    stored L Y (k\<lparr>k_Status := st\<rparr>)"

lemma visited_allowed: "GetPhase k \<in> visited \<Longrightarrow> allowed_phases k \<subseteq> visited"
  by (auto simp: allowed_phases_def visited_def reach1_def split: if_splits)

lemma Reconcile_patch_allowed:
  assumes "lawful L" and "fst (lib_getKode L req (world s)) = Inr k"
    and "ReqPatchStatus key st b \<in> set (new_requests s (snd (Reconcile L Y req s)))"
  shows "Phase_of st \<in> allowed_phases k"
  using new_requestsI [OF Reconcile_sends_allowed [OF assms(1,2) prod.collapse [symmetric]]] assms(3)
  by blast

lemma stored_visited: "stored L Y k \<Longrightarrow> lawful L \<Longrightarrow> GetPhase k \<in> visited"
proof (induction rule: stored.induct)
  case (created k)
  then show ?case by (simp add: visited_def)
next
  case (edited k k')
  then show ?case by (simp add: GetPhase_def)
next
  case (patched k req s key st b)
  then show ?case
    using Reconcile_patch_allowed [OF _ patched.hyps(2,3)] visited_allowed [of k]
    by (auto simp: GetPhase_def)
qed

subsection \<open>Nothing is created before the finalizer is in place\<close>

fun touches_child :: "Request \<Rightarrow> bool" where
  "touches_child (ReqCreateOrPatch kind key) = True"
| "touches_child (ReqDelete kind key b) = True"
| "touches_child _ = False"

definition no_child_touched :: "Request list \<Rightarrow> 'w st \<Rightarrow> bool" where
  "no_child_touched log0 s \<longleftrightarrow> (\<exists>qs. reqlog s = log0 @ qs \<and> list_all (\<lambda>q. \<not> touches_child q) qs)"

lemma no_child_touched_same:
  "no_child_touched log0 s \<Longrightarrow> reqlog t = reqlog s \<Longrightarrow> no_child_touched log0 t"
  by (simp add: no_child_touched_def)

lemma no_child_touched_closed:
  "read_closed (no_child_touched log0)" "patch_closed (no_child_touched log0)"
  "status_closed (no_child_touched log0)"
  by (auto simp: read_closed_def patch_closed_def status_closed_def no_child_touched_def)

lemma initialize_touches_no_child:
  assumes "lawful L"
  shows "keeps (no_child_touched log0) (initialize L)"
proof -
  have fin: "keeps (no_child_touched log0) (AddFinalizer L)"
    by (rule keeps_AddFinalizer [OF no_child_touched_closed(1)]) (auto simp: no_child_touched_def)
  have phase: "keeps (no_child_touched log0) (set_phase p)" for p
    unfolding set_phase_def by (rule triple_modify) (erule no_child_touched_same, simp)
  show ?thesis
    unfolding initialize_def
    by (intro go_rules fin phase keeps_modify_status keeps_UpdateStatus assms
        no_child_touched_closed) auto
qed

lemma Reconcile_fetched:
  assumes "fst (lib_getKode L req (world s)) = Inr k"
  obtains u where "Reconcile L Y req s = reconcile_fetched L Y u" "kode u = k"
    "reqlog u = reqlog s @ [ReqGet KindKode req Found]"
proof -
  obtain w where w: "lib_getKode L req (world s) = (Inr k, w)" using assms by (metis prod.collapse)
  show thesis
    by (rule that [of "s\<lparr>world := w, reqlog := reqlog s @ [ReqGet KindKode req Found], kode := k\<rparr>"])
      (simp_all add: Reconcile_def api_get_def answer_of_def go_simps w)
qed

lemma Reconcile_without_finalizer:
  assumes L: "lawful L" and k: "fst (lib_getKode L req (world s)) = Inr k"
    and fin: "\<not> has_finalizer k"
  shows "no_child_touched (reqlog s) (snd (Reconcile L Y req s))"
proof -
  obtain u where u: "Reconcile L Y req s = reconcile_fetched L Y u" "kode u = k"
    "reqlog u = reqlog s @ [ReqGet KindKode req Found]"
    by (rule Reconcile_fetched [OF k])
  have "no_child_touched (reqlog s) u" by (simp add: no_child_touched_def u)
  moreover have "reconcile_fetched L Y u =
      (if k_DeletionTimestamp k \<noteq> None then (Ret (result_none, None), u) else initialize L u)"
    using fin by (simp add: reconcile_fetched_def reconcile_live_def go_simps u(2)
        ContainsFinalizer_iff [OF L])
  ultimately show ?thesis
    using triple_snd [OF initialize_touches_no_child [OF L]] by (simp add: u(1))
qed

subsection \<open>The evidence behind the phase Active\<close>

lemma announces_error:
  "announces h {} \<Longrightarrow> h s = (Ret (q, r, None), t) \<Longrightarrow> False"
  unfolding announces_def by (drule (1) yieldsD) simp

text \<open>
  If a handler announces \<open>p\<close> only after the readiness check said yes, the check did say yes. The
  shape shared by the handlers: fetch the template, configure, check.
\<close>

lemma checked_announcement:
  assumes h: "h = bind_go (fetchTemplatesWithRetry L) (\<lambda>r.
      case r of
        Inl e \<Rightarrow> fail1 e
      | Inr template \<Rightarrow>
          bind_go (gets_go (\<lambda>s. InitKodeResourcesConfig (kode s) template)) (\<lambda>config.
          bind_go (checkResourcesReady L config) (\<lambda>c.
            case c of Inl e \<Rightarrow> fail2 e | Inr ready \<Rightarrow>
              if \<not> ready then notready else yes template)))"
    and no: "\<And>e. announces (fail1 e) (- {p})" "\<And>e. announces (fail2 e) (- {p})"
      "announces notready (- {p})"
    and run: "h s = (Ret (p, r, None), t)"
  shows "\<exists>template u v. fetchTemplatesWithRetry L s = (Ret (Inr template), u) \<and>
    checkResourcesReady L (InitKodeResourcesConfig (kode u) template) u = (Ret (Inr True), v)"
proof -
  have not: "announces m (- {p}) \<Longrightarrow> m s' = (Ret (p, r', None), t') \<Longrightarrow> False"
    for m :: "'a st handler" and s' r' t'
    unfolding announces_def by (drule (1) yieldsD) simp
  obtain r1 u where f: "fetchTemplatesWithRetry L s = (Ret r1, u)"
    using run by (cases "fetchTemplatesWithRetry L s"; cases "fst (fetchTemplatesWithRetry L s)")
      (auto simp: h go_simps)
  obtain template where t: "r1 = Inr template"
    using run f not [OF no(1)] by (cases r1) (auto simp: h go_simps)
  let ?c = "checkResourcesReady L (InitKodeResourcesConfig (kode u) template) u"
  obtain c v where c: "?c = (Ret c, v)"
    using run f t by (cases ?c; cases "fst ?c") (auto simp: h go_simps)
  obtain b where b: "c = Inr b"
    using run f t c not [OF no(2)] by (cases c) (auto simp: h go_simps)
  have "b" using run f t c b not [OF no(3)] by (cases b) (auto simp: h go_simps)
  with f t c b show ?thesis by auto
qed

lemma announces_fails:
  "announces (warn_and_fail L re t e m) S" "announces (handleReconcileError L e m) S"
  by (intro yield_rules)+

lemma Provisioning_evidence:
  assumes "handleProvisioningState L s = (Ret (PhaseActive, r, None), t)"
  shows "\<exists>template u v. fetchTemplatesWithRetry L s = (Ret (Inr template), u) \<and>
    checkResourcesReady L (InitKodeResourcesConfig (kode u) template) u = (Ret (Inr True), v)"
  by (rule checked_announcement [OF handleProvisioningState_def _ _ _ assms])
    (intro yield_rules announces_fails; simp)+

lemma all_ready_verdict:
  assumes "reads_pure L"
    and "\<exists>template u v. fetchTemplatesWithRetry L s = (Ret (Inr template), u) \<and>
      checkResourcesReady L (InitKodeResourcesConfig (kode u) template) u = (Ret (Inr True), v)"
  shows "\<exists>template u. fetchTemplatesWithRetry L s = (Ret (Inr template), u) \<and>
    all_ready L (InitKodeResourcesConfig (kode u) template) (kode u) (world u)"
  using assms(2) resources_check.verdict [OF assms(1)] by fastforce

subsection \<open>The statuses that are sent\<close>

text \<open>Every status patch of \<open>UpdateStatus\<close> carries the status in memory, unchanged.\<close>

definition sends_status :: "Kode \<Rightarrow> Request list \<Rightarrow> 'w st \<Rightarrow> bool" where
  "sends_status k log0 s \<longleftrightarrow> kode s = k \<and>
     (\<exists>qs. reqlog s = log0 @ qs \<and> (\<forall>key st b. ReqPatchStatus key st b \<in> set qs \<longrightarrow> st = k_Status k) \<and>
       (\<forall>q \<in> set qs. \<not> touches_child q))"

lemma sends_status_closed:
  "read_closed (sends_status k log0)" "patch_closed (sends_status k log0)"
  by (auto simp: read_closed_def patch_closed_def sends_status_def) blast

lemma UpdateStatus_sends:
  assumes "lawful L"
  shows "sends_status (kode s) (reqlog s) (snd (UpdateStatus L s))"
  by (rule triple_snd [OF keeps_UpdateStatus [OF assms sends_status_closed]])
    (auto simp: sends_status_def)

subsection \<open>What does not depend on the world\<close>

text \<open>
  \<open>status_frame f\<close>: the field \<open>f\<close> of the status is one that conditions, runtime and errors do not
  touch. Whatever a handler does between two assignments to such a field keeps its value.
\<close>

definition status_frame :: "(KodeStatus \<Rightarrow> 'a) \<Rightarrow> bool" where
  "status_frame f \<longleftrightarrow>
     (\<forall>t c. f (t\<lparr>Conditions := c\<rparr>) = f t) \<and> (\<forall>t r. f (t\<lparr>Runtime_of := r\<rparr>) = f t) \<and>
     (\<forall>t e. f (t\<lparr>LastError := e\<rparr>) = f t) \<and> (\<forall>t e. f (t\<lparr>LastErrorTime := e\<rparr>) = f t)"

definition holds_field :: "(KodeStatus \<Rightarrow> 'a) \<Rightarrow> 'a \<Rightarrow> ('w st \<Rightarrow> bool) \<Rightarrow> 'w st \<Rightarrow> bool" where
  "holds_field f x J s \<longleftrightarrow> f (k_Status (kode s)) = x \<and> J s"

text \<open>Assertions on the history that reading and status patches keep.\<close>

definition log_closed :: "('w st \<Rightarrow> bool) \<Rightarrow> bool" where
  "log_closed J \<longleftrightarrow> read_closed J \<and> patch_closed J \<and> cache_closed J \<and> status_closed J"

lemma status_frame_RetryCount: "status_frame RetryCount" "status_frame DeletionCycle"
  by (simp_all add: status_frame_def)

lemma holds_field_closed:
  assumes "log_closed J"
  shows "read_closed (holds_field f x J)" "patch_closed (holds_field f x J)"
    "cache_closed (holds_field f x J)"
  using assms by (auto simp: log_closed_def holds_field_def read_closed_def patch_closed_def
      cache_closed_def)

lemma holds_modify:
  "log_closed J \<Longrightarrow> (\<And>t. f (g t) = f t) \<Longrightarrow> keeps (holds_field f x J) (modify_status g)"
  unfolding modify_status_def
  by (rule triple_modify) (simp add: holds_field_def log_closed_def status_closed_def)

lemma holds_modify_error:
  assumes "log_closed J" "status_frame f"
  shows "keeps (holds_field f x J) (modify_status (\<lambda>t. t\<lparr>LastError := e\<rparr>))"
    "keeps (holds_field f x J) (modify_status (\<lambda>t. t\<lparr>LastErrorTime := e'\<rparr>))"
    "keeps (holds_field f x J) (modify_status (\<lambda>t. t\<lparr>Runtime_of := r\<rparr>))"
    "keeps (holds_field f x J) (modify_status
       (\<lambda>t. if LastError t \<noteq> None then t\<lparr>LastError := e, LastErrorTime := e'\<rparr> else t))"
  using assms(2) by (auto simp: status_frame_def intro!: holds_modify assms(1))

lemma holds_set_condition:
  "log_closed J \<Longrightarrow> status_frame f \<Longrightarrow> keeps (holds_field f x J) (set_condition L t st re m)"
  unfolding set_condition_def
  by (rule triple_modify)
    (auto simp: holds_field_def log_closed_def status_closed_def status_frame_def
      k_SetCondition_def SetCondition_def)

lemma holds_UpdateStatus:
  "lawful L \<Longrightarrow> log_closed J \<Longrightarrow> keeps (holds_field f x J) (UpdateStatus L)"
  by (intro keeps_UpdateStatus holds_field_closed)

lemma holds_emit: "log_closed J \<Longrightarrow> keeps (holds_field f x J) (emit L et re m)"
  by (intro keeps_emit keeps_record_event holds_field_closed)

lemma holds_fail:
  "lawful L \<Longrightarrow> log_closed J \<Longrightarrow> status_frame f \<Longrightarrow>
     keeps (holds_field f x J) (handleReconcileError L e m)"
  "lawful L \<Longrightarrow> log_closed J \<Longrightarrow> status_frame f \<Longrightarrow>
     keeps (holds_field f x J) (warn_and_fail L re t e m)"
proof -
  show err: "keeps (holds_field f x J) (handleReconcileError L e m)"
    if "lawful L" "log_closed J" "status_frame f" for e m
    unfolding handleReconcileError_def
    by (intro go_rules keeps_seq_go holds_modify_error holds_UpdateStatus that)
      (auto intro: holds_set_condition holds_modify_error that)
  show "keeps (holds_field f x J) (warn_and_fail L re t e m)"
    if "lawful L" "log_closed J" "status_frame f"
    unfolding warn_and_fail_def by (intro go_rules holds_emit err that)
qed

lemma holds_update_or_stay:
  "lawful L \<Longrightarrow> log_closed J \<Longrightarrow> keeps (holds_field f x J) h \<Longrightarrow>
     keeps (holds_field f x J) (update_or_stay L p h)"
  unfolding update_or_stay_def by (intro go_rules holds_UpdateStatus) auto

lemma holds_fetchTemplates:
  "lawful L \<Longrightarrow> log_closed J \<Longrightarrow> status_frame f \<Longrightarrow>
     keeps (holds_field f x J) (fetchTemplatesWithRetry L)"
  unfolding fetchTemplatesWithRetry_def SetRuntime_def Let_def
  by (intro go_rules keeps_Fetch holds_field_closed holds_modify_error holds_UpdateStatus) auto

lemmas holds_rules = holds_modify_error holds_set_condition holds_UpdateStatus holds_emit holds_fail
  holds_update_or_stay holds_fetchTemplates

subsection \<open>Recovery is bounded\<close>

lemma log_closed_True: "log_closed (\<lambda>_. True)"
  by (simp add: log_closed_def read_closed_def patch_closed_def cache_closed_def status_closed_def)

text \<open>The retry count after a run of the handler of Failed, panics included.\<close>

lemma handleFailedState_count:
  assumes L: "lawful L"
  shows "RetryCount (k_Status (kode (snd (handleFailedState L s)))) =
    (if RetryCount (k_Status (kode s)) \<ge> maxRetries then RetryCount (k_Status (kode s))
     else RetryCount (k_Status (kode s)) + 1)"
proof -
  let ?n = "RetryCount (k_Status (kode s))" and ?H = "\<lambda>n. holds_field RetryCount n (\<lambda>_. True)"
  note rules = holds_rules L log_closed_True status_frame_RetryCount(1)
  have up: "keeps (?H n) (failed_give_up L)" for n
    unfolding failed_give_up_def
    by (intro go_rules keeps_seq_go rules; (auto intro: holds_set_condition rules)?)
  have recover: "keeps (?H n) (determineRecoveryPhase L)" for n
    unfolding determineRecoveryPhase_def
    by (intro go_rules rules resources_check.keeps_check holds_field_closed) auto
  have inc: "triple (?H m) (modify_status (\<lambda>t. t\<lparr>RetryCount := RetryCount t + 1\<rparr>))
      (\<lambda>_. ?H (m + 1)) (?H (m + 1))" for m
    unfolding modify_status_def by (rule triple_modify) (simp add: holds_field_def)
  have retry: "triple (?H m) (failed_retry L) (\<lambda>_. ?H (m + 1)) (?H (m + 1))" for m
    unfolding failed_retry_def
    by (rule triple_then [OF inc], intro go_rules keeps_seq_go rules recover)
      (auto intro: rules intro!: holds_modify [OF log_closed_True])
  from triple_snd [OF retry, of ?n s] triple_snd [OF up, of ?n s] show ?thesis
    by (simp add: handleFailedState_def go_simps holds_field_def)
qed

subsection \<open>Cleanup is requested in the first deletion cycle only\<close>

definition no_delete :: "Request list \<Rightarrow> 'w st \<Rightarrow> bool" where
  "no_delete log0 s \<longleftrightarrow> (\<exists>qs. reqlog s = log0 @ qs \<and> list_all (\<lambda>q. \<not> is_delete q) qs)"

lemma log_closed_no_delete: "log_closed (no_delete log0)"
  by (auto simp: log_closed_def read_closed_def patch_closed_def cache_closed_def status_closed_def
      no_delete_def)

abbreviation later_cycle :: "Request list \<Rightarrow> 'w st \<Rightarrow> bool" where
  "later_cycle log0 \<equiv> holds_field (\<lambda>t. DeletionCycle t > 0) True (no_delete log0)"

lemma handleDeletingState_later:
  assumes L: "lawful L"
  shows "keeps (later_cycle log0) (handleDeletingState L)"
proof -
  let ?H = "later_cycle log0"
  have frame: "status_frame (\<lambda>t. DeletionCycle t > 0)" by (simp add: status_frame_def)
  note rules = holds_rules L log_closed_no_delete frame
  have closed: "read_closed ?H"
    by (rule holds_field_closed [OF log_closed_no_delete])
  have fin: "keeps ?H (RemoveFinalizer L)"
    by (rule keeps_RemoveFinalizer [OF closed])
      (auto simp: holds_field_def no_delete_def)
  have inc: "keeps ?H (modify_deletion_cycle (\<lambda>n. n + 1))"
    unfolding modify_deletion_cycle_def modify_status_def
    by (rule triple_modify) (auto simp: holds_field_def no_delete_def)
  have next_cycle: "keeps ?H (deleting_next_cycle L)" "keeps ?H (deleting_finish L)"
    unfolding deleting_next_cycle_def deleting_finish_def
    by (intro go_rules inc fin rules; auto)+
  have cycle: "keeps ?H (bind_go (gets_go (\<lambda>s. DeletionCycle (k_Status (kode s)))) (\<lambda>cycle.
      if cycle = 0 then deleting_first_cycle L else deleting_next_cycle L))"
    by (rule triple_bind [where R = "\<lambda>c s. c > 0 \<and> ?H s"], rule triple_gets,
        simp add: holds_field_def, rule triple_if)
      (simp add: triple_def, rule triple_pre [OF next_cycle(1)], simp)
  show ?thesis
    unfolding handleDeletingState_def
    by (intro go_rules keeps_seq_go rules cycle next_cycle deleted_check.keeps_check closed)
      (auto intro: rules)
qed

end
