(* ===== verification/Entrypoint_Reconciler.thy ===== *)
theory Entrypoint_Reconciler
  imports Entrypoint_Object Kode_Handlers
begin

text \<open>
  internal/controllers/entrypoint/reconciler.go, utils.go and the operations of ensure_routes.go:
  the second controller of the operator publishes a Kode that the first one has made Active. The
  EntryPoint in memory is passed along, since the operations set conditions on it that are never
  sent.
\<close>

subsection \<open>utils.go\<close>

definition findEntryPointForKode :: "'w lib \<Rightarrow> ('w st, error + EntryPoint) go" where
  "findEntryPointForKode L =
     bind_go (gets_go kode) (\<lambda>k.
     bind_go (Fetch L (ks_TemplateRef (k_Spec k))) (\<lambda>r.
       case r of
         Inl e \<Rightarrow> return_go (Inl (Wrapped ''failed to fetch template: '' e))
       | Inr template \<Rightarrow>
           if t_Kind template = TemplateKindContainer \<or> t_Kind template = TemplateKindClusterContainer
           then
             (case t_ContainerTemplateSpec template of
                None \<Rightarrow> return_go (Inl (ErrorText
                          ''invalid ContainerTemplate: missing ContainerTemplateSpec''))
              | Some spec \<Rightarrow>
                  (case cs_EntryPointRef spec of
                     None \<Rightarrow> return_go (Inl (ErrorText ''missing EntryPointRef in template''))
                   | Some entryPointRef \<Rightarrow>
                       bind_go (deref_go (ref_Namespace entryPointRef)) (\<lambda>ns.
                       bind_go (GetLatestEntryPoint L (ref_Name entryPointRef) ns) (\<lambda>er.
                         case er of
                           Inl e \<Rightarrow> return_go (Inl (Wrapped ''failed to get EntryPoint: '' e))
                         | Inr latestEntryPoint \<Rightarrow> return_go (Inr latestEntryPoint)))))
           else return_go (Inl (ErrorText (''unknown template kind: '' @ t_Kind template)))))"

subsection \<open>ensure_routes.go\<close>

text \<open>
  The mutate functions set the owner reference and nothing else: what the constructors made counts
  only when the object does not exist yet.
\<close>

definition mutate_route :: "'w lib \<Rightarrow> EntryPoint \<Rightarrow> HTTPRoute \<Rightarrow> ('w st, error + HTTPRoute) go" where
  "mutate_route L e route =
     (case lib_SetControllerReference L KindEntryPoint
             (NamespacedName (e_Namespace e) (e_Name e)) (ht_Owners route) of
        Inl err \<Rightarrow> return_go (Inl err)
      | Inr owners \<Rightarrow> return_go (Inr (route\<lparr>ht_Owners := owners\<rparr>)))"

definition mutate_policy ::
  "'w lib \<Rightarrow> EntryPoint \<Rightarrow> SecurityPolicy \<Rightarrow> ('w st, error + SecurityPolicy) go" where
  "mutate_policy L e policy =
     (case lib_SetControllerReference L KindEntryPoint
             (NamespacedName (e_Namespace e) (e_Name e)) (sy_Owners policy) of
        Inl err \<Rightarrow> return_go (Inl err)
      | Inr owners \<Rightarrow> return_go (Inr (policy\<lparr>sy_Owners := owners\<rparr>)))"

text \<open>The event for the result of \<open>CreateOrPatch\<close>; other results leave reason and message empty.\<close>

definition record_result :: "'w lib \<Rightarrow> OperationResult \<Rightarrow> string \<Rightarrow> string \<Rightarrow> ('w st, error option) go" where
  "record_result L result kind name =
     (case result of
        OperationResultNone \<Rightarrow> return_go None
      | OperationResultCreated \<Rightarrow>
          then_go (emit L EventTypeNormal ''Created'' (kind @ '' created, '' @ name)) (return_go None)
      | OperationResultUpdated \<Rightarrow>
          then_go (emit L EventTypeNormal ''Updated'' (kind @ '' updated, '' @ name)) (return_go None)
      | OperationResultOther \<Rightarrow>
          then_go (emit L EventTypeNormal '''' '''') (return_go None))"

definition createOrUpdateRoute ::
  "'w lib \<Rightarrow> 'w gwlib \<Rightarrow> EntryPoint \<Rightarrow> HTTPRoute \<Rightarrow> ('w st, error option) go" where
  "createOrUpdateRoute L G e route =
     bind_go (CreateOrPatch L KindHTTPRoute (NamespacedName (ht_Namespace route) (ht_Name route))
                (gw_createOrPatchHTTPRoute G) route (mutate_route L e)) (\<lambda>(result, err).
       case err of
         Some x \<Rightarrow> return_go (Some (Wrapped ''failed to ensure HTTPRoute: '' x))
       | None \<Rightarrow> record_result L result ''HTTPRoute'' (ht_Name route))"

definition createOrUpdateSecurityPolicy ::
  "'w lib \<Rightarrow> 'w gwlib \<Rightarrow> EntryPoint \<Rightarrow> EntryPointResourceConfig \<Rightarrow> string \<Rightarrow> ('w st, error option) go" where
  "createOrUpdateSecurityPolicy L G e config httpsRouteName =
     (case constructSecurityPolicy config httpsRouteName of
        Inl x \<Rightarrow> return_go (Some (Wrapped ''failed to construct SecurityPolicy: '' x))
      | Inr policy \<Rightarrow>
          bind_go (CreateOrPatch L KindSecurityPolicy
                     (NamespacedName (sy_Namespace policy) (sy_Name policy))
                     (gw_createOrPatchSecurityPolicy G) policy (mutate_policy L e)) (\<lambda>(result, err).
            case err of
              Some x \<Rightarrow> return_go (Some (Wrapped ''failed to ensure SecurityPolicy: '' x))
            | None \<Rightarrow> record_result L result ''SecurityPolicy'' (sy_Name policy)))"

text \<open>A failure is noted on the EntryPoint in memory.\<close>

definition route_failure ::
  "'w lib \<Rightarrow> EntryPoint \<Rightarrow> string \<Rightarrow> string \<Rightarrow> error
    \<Rightarrow> ('w st, EntryPoint \<times> ctrl_Result \<times> error option) go" where
  "route_failure L e reason text err =
     bind_go (gets_go (\<lambda>s. lib_now L (world s))) (\<lambda>now.
       return_go (e_SetCondition now ConditionTypeReady ConditionFalse reason (text @ Error err) e,
                  result_none, Some err))"

definition wants_policy :: "EntryPointResourceConfig \<Rightarrow> bool" where
  "wants_policy config \<longleftrightarrow>
     (case es_AuthSpec (ec_EntryPointSpec config) of
        None \<Rightarrow> False | Some auth \<Rightarrow> au_SecurityPolicySpec auth \<noteq> None) \<and>
     ec_Protocol config = ProtocolHTTPS"

text \<open>The conditions of the Kode and its status after the route and the policy are in place.\<close>

definition routes_ready ::
  "'w lib \<Rightarrow> EntryPoint \<Rightarrow> ('w st, EntryPoint \<times> ctrl_Result \<times> error option) go" where
  "routes_ready L e =
     then_go (seq_go
       [set_condition L ConditionTypeReady ConditionTrue ''HTTPRoutesEnsured''
          ''HTTPRoutes have been successfully ensured'',
        set_condition L ConditionTypeAvailable ConditionTrue ''HTTPRoutesAvailable''
          ''HTTPRoutes are available'',
        set_condition L ConditionTypeProgressing ConditionFalse ''HTTPRoutesReady''
          ''HTTPRoutes are ready''])
    (bind_go (UpdateStatus L) (\<lambda>err.
       case err of
         Some x \<Rightarrow> return_go (e, result_none, Some x)
       | None \<Rightarrow> return_go (e, result_none, None)))"

definition ensureHTTPRoutes ::
  "'w lib \<Rightarrow> 'w gwlib \<Rightarrow> EntryPoint \<Rightarrow> EntryPointResourceConfig \<Rightarrow> string \<Rightarrow> string
    \<Rightarrow> ('w st, EntryPoint \<times> ctrl_Result \<times> error option) go" where
  "ensureHTTPRoutes L G e config kodeHostname kodeDomain =
     bind_go (gets_go kode) (\<lambda>k.
       case constructHTTPRoute config k False kodeHostname kodeDomain of
         Inl x \<Rightarrow> route_failure L e ''HTTPRouteConstructionFailed''
                    ''Failed to construct HTTPS route: '' x
       | Inr httpsRoute \<Rightarrow>
     bind_go (createOrUpdateRoute L G e httpsRoute) (\<lambda>err.
       case err of
         Some x \<Rightarrow> route_failure L e ''HTTPRouteCreationFailed''
                     ''Failed to create or update HTTPRoute: '' x
       | None \<Rightarrow>
     bind_go (if wants_policy config
              then createOrUpdateSecurityPolicy L G e config (ht_Name httpsRoute)
              else return_go None) (\<lambda>err.
       case err of
         Some x \<Rightarrow> route_failure L e ''SecurityPolicyCreationFailed''
                     ''Failed to create or update SecurityPolicy: '' x
       | None \<Rightarrow> routes_ready L e)))"

subsection \<open>reconciler.go\<close>

text \<open>The block with which \<open>reconcileKode\<close> gives up, three times in the source.\<close>

definition give_up :: "'w lib \<Rightarrow> string \<Rightarrow> error \<Rightarrow> ('w st, ctrl_Result \<times> error option) go" where
  "give_up L text err =
     then_go (set_condition L ConditionTypeError ConditionTrue ''ReconciliationFailed''
                (text @ Error err))
    (then_go (modify_status (\<lambda>t. t\<lparr>Phase_of := PhaseFailed, LastError := Some (Error err)\<rparr>))
    (bind_go (gets_go (\<lambda>s. lib_now L (world s))) (\<lambda>now.
     then_go (modify_status (\<lambda>t. t\<lparr>LastErrorTime := Some now\<rparr>))
    (bind_go (UpdateStatus L) (\<lambda>updateErr.
       case updateErr of
         Some u \<Rightarrow> return_go (result_after (seconds 5), Some (ErrorText
             (''primary error: '' @ Error err @ '', kode status update error: '' @ Error u)))
       | None \<Rightarrow>
           then_go (emit L EventTypeWarning ''Failed'' (''Failed to reconcile Kode: '' @ Error err))
             (return_go (result_after (seconds 5), Some err)))))))"

definition publish_url :: "'w lib \<Rightarrow> string \<Rightarrow> ('w st, ctrl_Result \<times> error option) go" where
  "publish_url L kodeUrl =
     (if kodeUrl \<noteq> '''' then
        then_go (modify_status (\<lambda>t. t\<lparr>KodeUrl := kodeUrl\<rparr>))
       (then_go (set_condition L ConditionTypeAvailable ConditionTrue ''ResourcesReady''
                   ''Kode is available and ready to use'')
       (bind_go (UpdateStatus L) (\<lambda>err.
          case err of
            Some x \<Rightarrow> return_go (result_after (seconds 5), Some (Wrapped ''failed to update Kode URL: '' x))
          | None \<Rightarrow> return_go (result_none, None))))
      else return_go (result_none, None))"

definition reconcileKode :: "'w lib \<Rightarrow> 'w gwlib \<Rightarrow> ('w st, ctrl_Result \<times> error option) go" where
  "reconcileKode L G =
     bind_go (gets_go kode) (\<lambda>k.
       if GetPhase k \<noteq> PhaseActive then return_go (result_none, None)
       else
     bind_go (findEntryPointForKode L) (\<lambda>r.
       case r of
         Inl x \<Rightarrow>
           if IsNotFound x then return_go (result_after (seconds 1), None)
           else give_up L ''Unable to find EntryPoint for Kode: '' x
       | Inr entryPoint \<Rightarrow>
     bind_go (InitEntryPointResourcesConfig entryPoint) (\<lambda>config.
       case GenerateKodeUrlForEntryPoint (es_RoutingType (e_Spec entryPoint))
              (es_BaseDomain (e_Spec entryPoint)) (k_Name k) (ec_Protocol config) of
         Inl x \<Rightarrow> give_up L ''Failed to construct Kode URL: '' x
       | Inr address \<Rightarrow>
           if KodeUrl (k_Status k) = ka_Url address then return_go (result_none, None)
           else if GetPort k = 0 then return_go (result_after (seconds 5), None)
           else
     bind_go (ensureHTTPRoutes L G entryPoint config (ka_Hostname address) (ka_Domain address))
       (\<lambda>(entryPoint, created, err).
       case err of
         Some x \<Rightarrow> give_up L ''Failed to ensure HTTPRoute: '' x
       | None \<Rightarrow> publish_url L (ka_Url address)))))"

text \<open>A request without a namespace is taken for an EntryPoint, any other for a Kode.\<close>

definition ep_Reconcile ::
  "'w lib \<Rightarrow> 'w gwlib \<Rightarrow> NamespacedName \<Rightarrow> ('w st, ctrl_Result \<times> error option) go" where
  "ep_Reconcile L G req =
     (if nn_Namespace req = '''' then
        bind_go (api_get KindEntryPoint req (lib_getEntryPoint L req)) (\<lambda>r.
          case r of
            Inl e \<Rightarrow> return_go (result_none, IgnoreNotFound e)
          | Inr entryPoint \<Rightarrow> return_go (result_none, None))
      else
        bind_go (api_get KindKode req (lib_getKode L req)) (\<lambda>r.
          case r of
            Inl e \<Rightarrow> return_go (result_none, IgnoreNotFound e)
          | Inr k \<Rightarrow> then_go (modify_go (\<lambda>s. s\<lparr>kode := k\<rparr>)) (reconcileKode L G)))"

end
