(* ===== verification/Entrypoint_Safety.thy ===== *)
theory Entrypoint_Safety
  imports Entrypoint_Reconciler Kode_Phases
begin

text \<open>
  What the entrypoint controller may do to the cluster and to a Kode, and that it leaves a published
  Kode alone.
\<close>

subsection \<open>What the operations keep\<close>

text \<open>
  \<open>route_closed I\<close>: reading, sending the status in memory, caching a template and creating or
  patching a route or a policy keep \<open>I\<close>.
\<close>

definition route_closed :: "('w st \<Rightarrow> bool) \<Rightarrow> bool" where
  "route_closed I \<longleftrightarrow> read_closed I \<and> patch_closed I \<and> cache_closed I \<and>
     (\<forall>s kind key. kind \<in> {KindHTTPRoute, KindSecurityPolicy} \<longrightarrow> I s \<longrightarrow>
        I (s\<lparr>reqlog := reqlog s @ [ReqCreateOrPatch kind key]\<rparr>))"

lemma route_closedD:
  assumes "route_closed I"
  shows "read_closed I" "patch_closed I" "cache_closed I"
    and "I s \<Longrightarrow> kind \<in> {KindHTTPRoute, KindSecurityPolicy} \<Longrightarrow>
      I (s\<lparr>reqlog := reqlog s @ [ReqCreateOrPatch kind key]\<rparr>)"
  using assms by (auto simp: route_closed_def)

lemma route_emit: "route_closed I \<Longrightarrow> keeps I (emit L et re m)"
  unfolding emit_def by (intro go_rules keeps_record_event route_closedD(1))

lemma route_CreateOrPatch:
  assumes "create_or_patch_law C" and "route_closed I" and "\<And>x. keeps I (f x)"
    and "kind \<in> {KindHTTPRoute, KindSecurityPolicy}"
  shows "keeps I (CreateOrPatch L kind key C obj f)"
proof -
  have "keeps I (C obj f)"
    using assms(1,3) route_closedD(1) [OF assms(2)]
    by (auto simp: create_or_patch_law_def read_closed_world_free)
  moreover have "keeps I (log_request (ReqCreateOrPatch kind key))"
    unfolding log_request_def by (rule triple_modify) (rule route_closedD(4) [OF assms(2) _ assms(4)])
  ultimately show ?thesis
    unfolding CreateOrPatch_def by (intro go_rules) simp_all
qed

lemma route_record_result: "route_closed I \<Longrightarrow> keeps I (record_result L result kind name)"
  unfolding record_result_def
  by (cases result) (auto intro!: go_rules route_emit)

lemma keeps_mutate: "keeps I (mutate_route L e x)" "keeps I (mutate_policy L e y)"
  unfolding mutate_route_def mutate_policy_def by (intro go_rules; simp)+

lemma gw_lawfulD:
  assumes "gw_lawful G"
  shows "create_or_patch_law (gw_createOrPatchHTTPRoute G)"
    and "create_or_patch_law (gw_createOrPatchSecurityPolicy G)"
  using assms by (auto simp: gw_lawful_def)

lemma route_createOrUpdate:
  assumes "gw_lawful G" and "route_closed I"
  shows "keeps I (createOrUpdateRoute L G e route)"
    and "keeps I (createOrUpdateSecurityPolicy L G e config name)"
  unfolding createOrUpdateRoute_def createOrUpdateSecurityPolicy_def
  by (intro go_rules route_CreateOrPatch gw_lawfulD assms keeps_mutate route_record_result; simp)+

lemma route_find:
  "lawful L \<Longrightarrow> read_closed I \<Longrightarrow> cache_closed I \<Longrightarrow> keeps I (findEntryPointForKode L)"
  unfolding findEntryPointForKode_def GetLatestEntryPoint_def
  by (intro go_rules keeps_Fetch keeps_api_get) simp_all

lemma route_Init: "keeps I (InitEntryPointResourcesConfig e)"
  unfolding InitEntryPointResourcesConfig_def Let_def by (intro go_rules) simp_all

lemma route_failure_keeps: "keeps I (route_failure L e re t err)"
  unfolding route_failure_def by (intro go_rules) simp_all

subsection \<open>The requests of the controller\<close>

text \<open>
  An honest status is that of an active Kode, or that of a failed one that says why: the phase
  Failed comes with an error text and the condition Error.
\<close>

definition honest :: "KodeStatus \<Rightarrow> bool" where
  "honest t \<longleftrightarrow> Phase_of t = PhaseActive \<or>
     (Phase_of t = PhaseFailed \<and> LastError t \<noteq> None \<and>
      (\<exists>c. GetCondition ConditionTypeError t = Some c \<and> co_Status c = ConditionTrue))"

fun entrypoint_request :: "Request \<Rightarrow> bool" where
  "entrypoint_request (ReqPatchStatus key t b) = honest t"
| "entrypoint_request (ReqCreateOrPatch kind key) = (kind \<in> {KindHTTPRoute, KindSecurityPolicy})"
| "entrypoint_request (ReqUpdateFinalizers key fs b) = False"
| "entrypoint_request (ReqDelete kind key b) = False"
| "entrypoint_request (ReqPatchEntryPoint key t b) = False"
| "entrypoint_request (ReqUpdateEntryPoint key fs b) = False"
| "entrypoint_request _ = True"

definition sound :: "Request list \<Rightarrow> 'w st \<Rightarrow> bool" where
  "sound log0 s \<longleftrightarrow> honest (k_Status (kode s)) \<and>
     (\<exists>qs. reqlog s = log0 @ qs \<and> list_all entrypoint_request qs)"

lemma sound_closed: "route_closed (sound log0)"
  by (auto simp: route_closed_def read_closed_def patch_closed_def cache_closed_def sound_def)

lemmas sound_closedD = route_closedD [OF sound_closed]

lemma GetCondition_SetCondition:
  "\<exists>c. GetCondition t (SetCondition n t st re m s) = Some c \<and> co_Status c = st"
  "u \<noteq> t \<Longrightarrow> GetCondition u (SetCondition n t st re m s) = GetCondition u s"
  using SetCondition_found [of t st re m n "Conditions s"]
  by (auto simp: GetCondition_def SetCondition_def find_set_condition_other)

lemma honest_condition:
  "honest t \<Longrightarrow> ty \<noteq> ConditionTypeError \<Longrightarrow> honest (SetCondition n ty st re m t)"
  unfolding honest_def using GetCondition_SetCondition(2) [of ConditionTypeError ty n st re m t]
  by (auto simp: SetCondition_def)

lemma sound_set_condition:
  "ty \<noteq> ConditionTypeError \<Longrightarrow> keeps (sound log0) (set_condition L ty st re m)"
  unfolding set_condition_def k_SetCondition_def
  by (rule triple_modify) (auto simp: sound_def honest_condition)

lemma sound_publish: "lawful L \<Longrightarrow> keeps (sound log0) (publish_url L url)"
  unfolding publish_url_def modify_status_def
  by (intro go_rules triple_modify sound_set_condition keeps_UpdateStatus sound_closedD)
    (auto simp: sound_def honest_def GetCondition_def)

lemma sound_routes_ready: "lawful L \<Longrightarrow> keeps (sound log0) (routes_ready L e)"
  unfolding routes_ready_def
  by (intro go_rules keeps_seq_go keeps_UpdateStatus sound_closedD)
    (auto intro: sound_set_condition)

lemma sound_give_up:
  assumes L: "lawful L"
  shows "keeps (sound log0) (give_up L text err)"
proof -
  let ?log = "\<lambda>s. \<exists>qs. reqlog s = log0 @ qs \<and> list_all entrypoint_request qs"
  let ?err = "\<lambda>s. (\<exists>c. GetCondition ConditionTypeError (k_Status (kode s)) = Some c \<and>
      co_Status c = ConditionTrue) \<and> ?log s"
  have cond: "triple (sound log0) (set_condition L ConditionTypeError ConditionTrue re m)
      (\<lambda>_. ?err) (sound log0)" for re m
    unfolding set_condition_def k_SetCondition_def
    by (rule triple_modify) (use GetCondition_SetCondition(1) in \<open>auto simp: sound_def\<close>)
  have fail: "triple ?err (modify_status (\<lambda>t. t\<lparr>Phase_of := PhaseFailed, LastError := Some x\<rparr>))
      (\<lambda>_. sound log0) (sound log0)" for x
    unfolding modify_status_def
    by (rule triple_modify) (auto simp: sound_def honest_def GetCondition_def)
  have time: "keeps (sound log0) (modify_status (\<lambda>t. t\<lparr>LastErrorTime := x\<rparr>))" for x
    unfolding modify_status_def
    by (rule triple_modify) (auto simp: sound_def honest_def GetCondition_def)
  show ?thesis
    unfolding give_up_def
    by (rule triple_then [OF cond], rule triple_then [OF fail],
        intro go_rules time keeps_UpdateStatus L sound_closedD route_emit sound_closed) simp_all
qed

lemma sound_ensureHTTPRoutes:
  "lawful L \<Longrightarrow> gw_lawful G \<Longrightarrow> keeps (sound log0) (ensureHTTPRoutes L G e config host domain)"
  unfolding ensureHTTPRoutes_def
  by (intro go_rules route_createOrUpdate sound_closed route_failure_keeps sound_routes_ready)
    simp_all

lemma reconcileKode_sound:
  assumes "lawful L" and "gw_lawful G" and "GetPhase (kode s) = PhaseActive"
  shows "sound (reqlog s) (snd (reconcileKode L G s))"
proof -
  have "keeps (sound (reqlog s)) (reconcileKode L G)"
    unfolding reconcileKode_def
    by (intro go_rules route_find sound_closedD assms sound_give_up route_Init
        sound_ensureHTTPRoutes sound_publish) simp_all
  moreover have "sound (reqlog s) s"
    using assms(3) by (simp add: sound_def honest_def GetPhase_def)
  ultimately show ?thesis by (rule triple_snd)
qed

lemma reconcileKode_inactive:
  "GetPhase (kode s) \<noteq> PhaseActive \<Longrightarrow> reconcileKode L G s = (Ret (result_none, None), s)"
  by (simp add: reconcileKode_def go_simps)

subsection \<open>A published Kode is left alone\<close>

lemma find_frame:
  assumes "lawful L" and "findEntryPointForKode L s = (x, u)"
  shows "kode u = kode s"
proof -
  have "keeps (\<lambda>t. kode t = kode s) (findEntryPointForKode L)"
    by (rule route_find [OF assms(1)]) (auto simp: read_closed_def cache_closed_def)
  from triple_snd [OF this, of s] assms(2) show ?thesis by simp
qed

lemma GenerateKodeUrl_Some:
  assumes "GenerateKodeUrlForEntryPoint ty domain name protocol = Inr a"
  shows "ka_Url a \<noteq> ''''" and "ty = RoutingTypeSubdomain \<or> ty = RoutingTypePath"
  using assms by (auto simp: GenerateKodeUrlForEntryPoint_def Let_def split: if_splits)

definition only_gets :: "Request list \<Rightarrow> 'w st \<Rightarrow> bool" where
  "only_gets log0 s \<longleftrightarrow> (\<exists>qs. reqlog s = log0 @ qs \<and> list_all is_read qs)"

lemma only_gets_closed: "read_closed (only_gets log0)" "cache_closed (only_gets log0)"
  by (auto simp: read_closed_def cache_closed_def only_gets_def)

lemma reconcileKode_settled:
  assumes "findEntryPointForKode L s = (Ret (Inr e), u)"
    and "InitEntryPointResourcesConfig e u = (Ret config, u)"
    and "GenerateKodeUrlForEntryPoint (es_RoutingType (e_Spec e)) (es_BaseDomain (e_Spec e))
      (k_Name (kode s)) (ec_Protocol config) = Inr a"
    and "KodeUrl (k_Status (kode s)) = ka_Url a" and "GetPhase (kode s) = PhaseActive"
  shows "reconcileKode L G s = (Ret (result_none, None), u)"
  using assms by (simp add: reconcileKode_def go_simps)

lemma find_only_gets:
  "lawful L \<Longrightarrow> findEntryPointForKode L s = (x, u) \<Longrightarrow> only_gets (reqlog s) u"
  using triple_snd [OF route_find [OF _ only_gets_closed(1) only_gets_closed(2)], of L "reqlog s" s]
  by (simp add: only_gets_def)

subsection \<open>A whole reconciliation\<close>

lemma ep_Reconcile_fetched:
  assumes "fst (lib_getKode L req (world s)) = Inr k" and "nn_Namespace req \<noteq> ''''"
  obtains u where "ep_Reconcile L G req s = reconcileKode L G u" "kode u = k"
    "reqlog u = reqlog s @ [ReqGet KindKode req Found]"
proof -
  obtain w where w: "lib_getKode L req (world s) = (Inr k, w)" using assms(1) by (metis prod.collapse)
  show thesis
    by (rule that [of "s\<lparr>world := w, reqlog := reqlog s @ [ReqGet KindKode req Found], kode := k\<rparr>"])
      (use assms(2) in \<open>simp_all add: ep_Reconcile_def api_get_def answer_of_def go_simps w\<close>)
qed

lemma ep_Reconcile_unfetched:
  assumes "nn_Namespace req = '''' \<or> (\<exists>e. fst (lib_getKode L req (world s)) = Inl e)"
  shows "\<exists>q. reqlog (snd (ep_Reconcile L G req s)) = reqlog s @ [q] \<and> is_read q"
  using assms
  by (auto simp: ep_Reconcile_def api_get_def go_simps split: prod.splits sum.splits)

lemma ep_Reconcile_requests:
  assumes L: "lawful L" and G: "gw_lawful G"
  shows "\<exists>qs. reqlog (snd (ep_Reconcile L G req s)) = reqlog s @ qs \<and> list_all entrypoint_request qs"
proof (cases "nn_Namespace req = '''' \<or> (\<exists>e. fst (lib_getKode L req (world s)) = Inl e)")
  case True
  from ep_Reconcile_unfetched [OF this, of G] obtain q where
    q: "reqlog (snd (ep_Reconcile L G req s)) = reqlog s @ [q]" "is_read q" by blast
  then have "list_all entrypoint_request [q]" by (cases q) auto
  with q(1) show ?thesis by blast
next
  case False
  then obtain k where k: "fst (lib_getKode L req (world s)) = Inr k" "nn_Namespace req \<noteq> ''''"
    by (cases "fst (lib_getKode L req (world s))") auto
  obtain u where u: "ep_Reconcile L G req s = reconcileKode L G u" "kode u = k"
    "reqlog u = reqlog s @ [ReqGet KindKode req Found]"
    by (rule ep_Reconcile_fetched [OF k])
  have "\<exists>qs. reqlog (snd (reconcileKode L G u)) = reqlog u @ qs \<and> list_all entrypoint_request qs"
  proof (cases "GetPhase k = PhaseActive")
    case True
    then show ?thesis using reconcileKode_sound [OF L G, of u] u(2) by (auto simp: sound_def)
  next
    case False
    then show ?thesis using reconcileKode_inactive [of u L G] u(2) by simp
  qed
  then show ?thesis by (auto simp: u)
qed

lemma ep_Reconcile_inactive:
  assumes "fst (lib_getKode L req (world s)) = Inr k" and "GetPhase k \<noteq> PhaseActive"
  shows "\<exists>qs. reqlog (snd (ep_Reconcile L G req s)) = reqlog s @ qs \<and> list_all is_read qs"
proof (cases "nn_Namespace req = ''''")
  case True
  then show ?thesis using ep_Reconcile_unfetched [of req L s G] by fastforce
next
  case False
  obtain u where "ep_Reconcile L G req s = reconcileKode L G u" "kode u = k"
    "reqlog u = reqlog s @ [ReqGet KindKode req Found]"
    by (rule ep_Reconcile_fetched [OF assms(1) False])
  then show ?thesis using reconcileKode_inactive [of u L G] assms(2) by simp
qed

end
