(* ===== verification/Operator.thy ===== *)
theory Operator
  imports Kode_Lifecycle Entrypoint_Safety
begin

text \<open>
  The two controllers of the operator on one Kode. Their reconciliations interleave in any order,
  each on any object that was stored at some time, so stale reads are included; users and the API
  server change the metadata and the spec in between.
\<close>

subsection \<open>Objects the two controllers can store\<close>

inductive operated :: "'w lib \<Rightarrow> 'w gwlib \<Rightarrow> yaml_lib \<Rightarrow> Kode \<Rightarrow> bool" for L G Y where
  created: "GetPhase k = PhaseOther '''' \<Longrightarrow> operated L G Y k"
| edited: "operated L G Y k \<Longrightarrow> k_Status k' = k_Status k \<Longrightarrow> operated L G Y k'"
| by_kode: "operated L G Y k \<Longrightarrow> fst (lib_getKode L req (world s)) = Inr k \<Longrightarrow>
    ReqPatchStatus key st b \<in> set (new_requests s (snd (Reconcile L Y req s))) \<Longrightarrow>
    operated L G Y (k\<lparr>k_Status := st\<rparr>)"
| by_entrypoint: "operated L G Y k \<Longrightarrow> fst (lib_getKode L req (world s)) = Inr k \<Longrightarrow>
    ReqPatchStatus key st b \<in> set (new_requests s (snd (ep_Reconcile L G req s))) \<Longrightarrow>
    operated L G Y (k\<lparr>k_Status := st\<rparr>)"

text \<open>
  The phase as one machine: a step of the Kode controller, or the entrypoint controller declaring an
  active Kode failed.
\<close>

inductive operator_step :: "Phase \<Rightarrow> Phase \<Rightarrow> bool" where
  kode_step: "phase_step p q \<Longrightarrow> operator_step p q"
| unroutable: "operator_step PhaseActive PhaseFailed"

inductive_cases operator_step_Deleting: "operator_step PhaseDeleting q"
inductive_cases operator_step_Failed: "operator_step p PhaseFailed"
inductive_simps operator_step_Active: "operator_step p PhaseActive"

lemma entrypoint_patch:
  assumes "lawful L" and "gw_lawful G" and "fst (lib_getKode L req (world s)) = Inr k"
    and "ReqPatchStatus key st b \<in> set (new_requests s (snd (ep_Reconcile L G req s)))"
  shows "GetPhase k = PhaseActive" and "honest st"
proof -
  show "honest st"
    using new_requestsI [OF ep_Reconcile_requests [OF assms(1,2)]] assms(4)
    by (fastforce simp: list_all_iff)
  show "GetPhase k = PhaseActive"
  proof (rule ccontr)
    assume "GetPhase k \<noteq> PhaseActive"
    from new_requestsI [OF ep_Reconcile_inactive [OF assms(3) this]] assms(4) show False
      by (fastforce simp: list_all_iff)
  qed
qed

lemma entrypoint_patch_step:
  assumes "lawful L" and "gw_lawful G" and "fst (lib_getKode L req (world s)) = Inr k"
    and "ReqPatchStatus key st b \<in> set (new_requests s (snd (ep_Reconcile L G req s)))"
  shows "operator_step (GetPhase k) (Phase_of st)"
  using entrypoint_patch [OF assms]
  by (auto simp: honest_def intro: operator_step.unroutable kode_step [OF phase_step.stay])

subsection \<open>Phases that are reached\<close>

definition operated_phases :: "Phase set" where
  "operated_phases = insert PhaseFailed visited"

lemma operated_allowed: "GetPhase k \<in> operated_phases \<Longrightarrow> allowed_phases k \<subseteq> operated_phases"
  by (auto simp: operated_phases_def allowed_phases_def visited_def reach1_def split: if_splits)

lemma operated_visited: "operated L G Y k \<Longrightarrow> lawful L \<Longrightarrow> gw_lawful G \<Longrightarrow> GetPhase k \<in> operated_phases"
proof (induction rule: operated.induct)
  case (created k)
  then show ?case by (simp add: operated_phases_def visited_def)
next
  case (edited k k')
  then show ?case by (simp add: GetPhase_def)
next
  case (by_kode k req s key st b)
  then show ?case
    using Reconcile_patch_allowed [OF _ by_kode.hyps(2,3)] operated_allowed [of k]
    by (auto simp: GetPhase_def)
next
  case (by_entrypoint k req s key st b)
  then show ?case
    using entrypoint_patch(2) [OF _ _ by_entrypoint.hyps(2,3)]
    by (auto simp: GetPhase_def honest_def operated_phases_def visited_def)
qed

lemma operator_step_Unknown: "operator_step p PhaseUnknown \<Longrightarrow> p = PhaseUnknown"
  by (auto elim!: operator_step.cases phase_step.cases; cases p) auto

lemma operator_reachable:
  "operator_step\<^sup>*\<^sup>* p q \<Longrightarrow> p \<in> operated_phases \<Longrightarrow> q \<in> operated_phases"
proof (induction rule: rtranclp_induct)
  case (step q r)
  from step.hyps(2) step.IH [OF step.prems] show ?case
    by (induction rule: operator_step.induct)
      (auto simp: operated_phases_def visited_def elim!: phase_step.cases)
qed

lemma operator_Deleting_absorbing: "operator_step\<^sup>*\<^sup>* PhaseDeleting q \<Longrightarrow> q = PhaseDeleting"
  by (induction rule: rtranclp_induct) (auto elim!: operator_step_Deleting phase_step_Deleting)

lemma operator_Failed_from: "operator_step p PhaseFailed \<Longrightarrow> p \<in> {PhaseActive, PhaseFailed}"
  by (auto elim!: operator_step_Failed phase_step_Failed; cases p) auto

text \<open>The Kode controller sends the phase Failed only for a Kode that is failed already.\<close>

lemma Failed_allowed: "PhaseFailed \<in> allowed_phases k \<Longrightarrow> GetPhase k = PhaseFailed"
  by (cases "GetPhase k") (auto simp: allowed_phases_def reach1_def split: if_splits)

end
