(* ===== verification/Kode_Conditions.thy ===== *)
theory Kode_Conditions
  imports Operator
begin

text \<open>
  The conditions of a Kode along its life: their types stay distinct, none is ever lost, and the three
  conditions that the handler of Active reads without a test are there whenever a Kode is Active.
\<close>

subsection \<open>What setting conditions cannot break\<close>

text \<open>
  \<open>cond_closed P\<close>: a property of condition lists that setting a condition keeps. A reconciliation,
  of either controller, that starts on a Kode with such a property sends no status without it.
\<close>

definition cond_closed :: "(Condition list \<Rightarrow> bool) \<Rightarrow> bool" where
  "cond_closed P \<longleftrightarrow> (\<forall>c cs. P cs \<longrightarrow> P (set_condition_in c cs))"

definition conds_hold :: "(Condition list \<Rightarrow> bool) \<Rightarrow> Request list \<Rightarrow> 'w st \<Rightarrow> bool" where
  "conds_hold P log0 s \<longleftrightarrow> P (Conditions (k_Status (kode s))) \<and>
     (\<exists>qs. reqlog s = log0 @ qs \<and> (\<forall>key st b. ReqPatchStatus key st b \<in> set qs \<longrightarrow> P (Conditions st)))"

lemma conds_hold_append:
  "conds_hold P log0 s \<Longrightarrow> Conditions (k_Status (kode t)) = Conditions (k_Status (kode s)) \<Longrightarrow>
     reqlog t = reqlog s @ qs \<Longrightarrow>
     (\<And>key st b. ReqPatchStatus key st b \<in> set qs \<Longrightarrow> P (Conditions st)) \<Longrightarrow> conds_hold P log0 t"
  unfolding conds_hold_def by (auto; blast)

lemma conds_hold_same:
  "conds_hold P log0 s \<Longrightarrow> Conditions (k_Status (kode t)) = Conditions (k_Status (kode s)) \<Longrightarrow>
     reqlog t = reqlog s \<Longrightarrow> conds_hold P log0 t"
  by (rule conds_hold_append [where qs = "[]"]) auto

lemma conds_hold_snoc:
  "conds_hold P log0 s \<Longrightarrow> Conditions (k_Status (kode t)) = Conditions (k_Status (kode s)) \<Longrightarrow>
     reqlog t = reqlog s @ [q] \<Longrightarrow>
     (\<And>key st b. q = ReqPatchStatus key st b \<Longrightarrow> st = k_Status (kode s)) \<Longrightarrow> conds_hold P log0 t"
  by (rule conds_hold_append [where qs = "[q]"]) (auto simp: conds_hold_def)

lemma conds_hold_set:
  "cond_closed P \<Longrightarrow> conds_hold P log0 s \<Longrightarrow>
     conds_hold P log0 (s\<lparr>kode := k_SetCondition n t st re m (kode s)\<rparr>)"
  by (auto simp: conds_hold_def cond_closed_def k_SetCondition_def SetCondition_def)

lemma robust_conds_hold: "cond_closed P \<Longrightarrow> robust (conds_hold P log0)"
  unfolding tough_defs
  by (intro conjI allI impI; (elim conjE)?)
    ((erule conds_hold_same; (simp add: SetPhase_def; fail)) | (rule conds_hold_set; assumption)
     | (erule conds_hold_snoc, simp, simp, simp))+

lemma conds_hold_cleanup: "keeps (conds_hold P log0) (cleanup_kode L)"
  unfolding cleanup_kode_def
  by (intro go_rules keeps_manager_Cleanup) (erule conds_hold_snoc, simp, simp, simp)

lemma Reconcile_conditions:
  assumes L: "lawful L" and P: "cond_closed P" and k: "fst (lib_getKode L req (world s)) = Inr k"
    and "P (Conditions (k_Status k))"
    and "ReqPatchStatus key st b \<in> set (new_requests s (snd (Reconcile L Y req s)))"
  shows "P (Conditions st)"
proof -
  obtain u where u: "Reconcile L Y req s = reconcile_fetched L Y u" "kode u = k"
    "reqlog u = reqlog s @ [ReqGet KindKode req Found]"
    by (rule Reconcile_fetched [OF k])
  have "conds_hold P (reqlog s) u" using assms(4) by (simp add: conds_hold_def u)
  then have "conds_hold P (reqlog s) (snd (Reconcile L Y req s))"
    using triple_snd [OF robust_reconcile_fetched [OF L robust_conds_hold [OF P] conds_hold_cleanup]]
    by (simp add: u(1))
  with assms(5) show ?thesis unfolding conds_hold_def by (auto dest: new_requests_eq)
qed

text \<open>
  The entrypoint controller: a calm assertion that survives the change of the phase with which it gives a
  Kode up survives its reconciliation.
\<close>

lemma calm_route: "calm I \<Longrightarrow> route_closed I"
  using calmD [where K = UNIV] unfolding route_closed_def by blast

lemma calm_reconcileKode:
  assumes L: "lawful L" and G: "gw_lawful G" and calm: "calm I"
    and fails: "\<And>e. keeps I (modify_status (\<lambda>t. t\<lparr>Phase_of := PhaseFailed, LastError := e\<rparr>))"
  shows "keeps I (reconcileKode L G)"
proof -
  note route = calm_route [OF calm]
  note closed = route_closedD [OF route]
  note set = calm_set_condition [OF calm] and chg = calm_modify_status [OF calm]
  have ends: "keeps I (give_up L msg x)" "keeps I (publish_url L url)" for msg x url
    unfolding give_up_def publish_url_def
    by (intro go_rules set fails chg keeps_UpdateStatus L closed route_emit route; simp)+
  have ready: "keeps I (routes_ready L e)" for e
    unfolding routes_ready_def
    by (intro go_rules keeps_seq_go keeps_UpdateStatus L closed) (auto intro: set)
  have ensure: "keeps I (ensureHTTPRoutes L G e config host domain)" for e config host domain
    unfolding ensureHTTPRoutes_def
    by (intro go_rules route_createOrUpdate G route route_failure_keeps ready) simp_all
  show ?thesis
    unfolding reconcileKode_def
    by (intro go_rules route_find closed L ends route_Init ensure) simp_all
qed

lemma calm_ep_Reconcile:
  assumes L: "lawful L" and G: "gw_lawful G" and calm: "calm I"
    and fails: "\<And>e. keeps I (modify_status (\<lambda>t. t\<lparr>Phase_of := PhaseFailed, LastError := e\<rparr>))"
    and k: "fst (lib_getKode L req (world s)) = Inr k"
    and start: "\<And>u. kode u = k \<Longrightarrow> reqlog u = reqlog s @ [ReqGet KindKode req Found] \<Longrightarrow> I u"
    and q: "ReqPatchStatus key st b \<in> set (new_requests s (snd (ep_Reconcile L G req s)))"
  shows "I (snd (ep_Reconcile L G req s))"
proof (cases "nn_Namespace req = ''''")
  case True
  then obtain q' where "reqlog (snd (ep_Reconcile L G req s)) = reqlog s @ [q']" "is_read q'"
    using ep_Reconcile_unfetched [of req L s G] by blast
  with q show ?thesis by (cases q') (auto dest!: new_requests_eq)
next
  case False
  obtain u where u: "ep_Reconcile L G req s = reconcileKode L G u" "kode u = k"
    "reqlog u = reqlog s @ [ReqGet KindKode req Found]"
    by (rule ep_Reconcile_fetched [OF k False])
  from triple_snd [OF calm_reconcileKode [OF L G calm fails], of u] start [OF u(2,3)] show ?thesis
    by (simp add: u(1))
qed

lemma conds_hold_fails:
  "keeps (conds_hold P log0) (modify_status (\<lambda>t. t\<lparr>Phase_of := PhaseFailed, LastError := e\<rparr>))"
  unfolding modify_status_def by (rule triple_modify) (erule conds_hold_same, simp_all)

lemma ep_Reconcile_conditions:
  assumes "lawful L" and "gw_lawful G" and P: "cond_closed P"
    and "fst (lib_getKode L req (world s)) = Inr k" and "P (Conditions (k_Status k))"
    and q: "ReqPatchStatus key st b \<in> set (new_requests s (snd (ep_Reconcile L G req s)))"
  shows "P (Conditions st)"
proof -
  have "conds_hold P (reqlog s) (snd (ep_Reconcile L G req s))"
    by (rule calm_ep_Reconcile [OF assms(1,2) robustD(1) [OF robust_conds_hold [OF P]] conds_hold_fails assms(4) _ q])
      (simp add: conds_hold_def assms(5))
  with q show ?thesis unfolding conds_hold_def by (auto dest: new_requests_eq)
qed

subsection \<open>Types stay distinct, none is lost\<close>

lemma cond_closed_distinct: "cond_closed (\<lambda>cs. distinct (map co_Type cs))"
  by (simp add: cond_closed_def set_condition_distinct)

lemma cond_closed_present: "cond_closed (\<lambda>cs. T \<subseteq> set (map co_Type cs))"
  by (auto simp: cond_closed_def simp del: set_map simp add: set_condition_types)

subsection \<open>The three conditions of an active Kode\<close>

definition announced :: "Condition list \<Rightarrow> bool" where
  "announced cs \<longleftrightarrow>
     {ConditionTypeReady, ConditionTypeAvailable, ConditionTypeProgressing} \<subseteq> set (map co_Type cs)"

definition equipped :: "KodeStatus \<Rightarrow> bool" where
  "equipped t \<longleftrightarrow> Phase_of t \<in> {PhaseOther '''', PhasePending, PhaseDeleting} \<or> announced (Conditions t)"

lemma cond_closed_announced: "cond_closed announced"
  unfolding announced_def by (rule cond_closed_present)

text \<open>Every status sent is equipped.\<close>

definition equipped_log :: "Request list \<Rightarrow> 'w st \<Rightarrow> bool" where
  "equipped_log log0 s \<longleftrightarrow>
     (\<exists>qs. reqlog s = log0 @ qs \<and> (\<forall>key st b. ReqPatchStatus key st b \<in> set qs \<longrightarrow> equipped st))"

text \<open>\<open>equipping T log0\<close>: besides, the conditions of the types \<open>T\<close> are set in memory.\<close>

definition equipping :: "Phase \<Rightarrow> ConditionType set \<Rightarrow> Request list \<Rightarrow> 'w st \<Rightarrow> bool" where
  "equipping p T log0 s \<longleftrightarrow> GetPhase (kode s) = p \<and>
     (p \<in> {PhasePending, PhaseUpdating}) \<and>
     (p = PhasePending \<or> {ConditionTypeReady, ConditionTypeAvailable, ConditionTypeProgressing} \<subseteq> T) \<and>
     T \<subseteq> set (map co_Type (Conditions (k_Status (kode s)))) \<and> equipped_log log0 s"

lemma equipping_equipped: "equipping p T log0 s \<Longrightarrow> equipped (k_Status (kode s))"
  by (auto simp: equipping_def equipped_def announced_def GetPhase_def)

lemma equipped_log_snoc:
  "equipped_log log0 s \<Longrightarrow> reqlog t = reqlog s @ [q] \<Longrightarrow>
     (\<And>key st b. q = ReqPatchStatus key st b \<Longrightarrow> equipped st) \<Longrightarrow> equipped_log log0 t"
  unfolding equipped_log_def by (auto; blast)

lemma calm_equipping: "calm (equipping p T log0)"
proof -
  have set: "T \<subseteq> set (map co_Type cs) \<Longrightarrow> T \<subseteq> set (map co_Type (set_condition_in c cs))" for c cs
    using cond_closed_present [of T] by (simp add: cond_closed_def)
  have log: "equipped_log log0 (s\<lparr>kode := k\<rparr>) = equipped_log log0 s" for s :: "'a st" and k
    by (simp add: equipped_log_def)
  have snoc: "equipping p T log0 s \<Longrightarrow> kode t = kode s \<Longrightarrow> reqlog t = reqlog s @ [q] \<Longrightarrow>
      (\<And>key st b. q = ReqPatchStatus key st b \<Longrightarrow> st = k_Status (kode s)) \<Longrightarrow> equipping p T log0 t"
    for s t :: "'a st" and q
    using equipping_equipped [of p T log0 s] equipped_log_snoc [of log0 s t q]
    unfolding equipping_def by auto
  have same: "equipping p T log0 s \<Longrightarrow> kode t = kode s \<Longrightarrow> reqlog t = reqlog s \<Longrightarrow> equipping p T log0 t"
    for s t :: "'a st"
    by (simp add: equipping_def equipped_log_def)
  show ?thesis
    unfolding tame_def read_closed_def patch_closed_def cache_closed_def
    by (intro conjI allI impI; (elim conjE)?)
      ((erule same; simp; fail) | (erule snoc, simp, simp, simp; fail)
       | (auto simp: equipping_def GetPhase_def k_SetCondition_def SetCondition_def log
           simp del: set_map dest: set; fail))+
qed

abbreviation three :: "ConditionType set" where
  "three \<equiv> {ConditionTypeReady, ConditionTypeAvailable, ConditionTypeProgressing}"

definition with_conditions :: "Phase \<Rightarrow> ConditionType set \<Rightarrow> Request list \<Rightarrow> 'w st \<Rightarrow> bool" where
  "with_conditions p T log0 s \<longleftrightarrow> GetPhase (kode s) = p \<and>
     T \<subseteq> set (map co_Type (Conditions (k_Status (kode s)))) \<and> equipped_log log0 s"

lemma with_conditions_set:
  "triple (with_conditions p T log0) (set_condition L t st re m)
     (\<lambda>_. with_conditions p (insert t T) log0) (equipped_log log0)"
  unfolding set_condition_def
proof (rule triple_modify)
  fix s :: "'a st"
  assume I: "with_conditions p T log0 s"
  let ?k = "k_SetCondition (lib_now L (world s)) t st re m (kode s)"
  have "insert t T \<subseteq> set (map co_Type (Conditions (k_Status ?k)))"
    using I unfolding with_conditions_def k_SetCondition_def SetCondition_def
    by (auto simp: set_condition_types simp del: set_map)
  then show "with_conditions p (insert t T) log0 (s\<lparr>kode := ?k\<rparr>)"
    using I by (simp add: with_conditions_def equipped_log_def GetPhase_def)
qed

lemma with_conditions_three:
  assumes "p \<in> {PhasePending, PhaseUpdating}"
  shows "triple (with_conditions p {} log0)
     (seq_go [set_condition L ConditionTypeReady st re m, set_condition L ConditionTypeAvailable st' re' m',
        set_condition L ConditionTypeProgressing st'' re'' m''])
     (\<lambda>_. equipping p three log0) (equipped_log log0)"
  unfolding seq_go.simps
  by (rule triple_then [OF with_conditions_set], rule triple_then [OF with_conditions_set],
      rule triple_then [OF with_conditions_set], rule triple_return)
    (use assms in \<open>auto simp: with_conditions_def equipping_def\<close>)

lemma equipping_log: "equipping p T log0 s \<Longrightarrow> equipped_log log0 s"
  by (simp add: equipping_def)

lemma equipping_pending: "equipping PhasePending {} log0 s \<longleftrightarrow> with_conditions PhasePending {} log0 s"
  "equipping PhasePending T log0 s \<Longrightarrow> equipping PhasePending {} log0 s"
  by (auto simp: equipping_def with_conditions_def)

text \<open>A generation mismatch is announced with all three conditions.\<close>

lemma handleGenerationMismatch_equipped:
  assumes L: "lawful L" and "p \<noteq> PhaseDeleting"
  shows "triple (\<lambda>s. GetPhase (kode s) = p \<and> equipped_log log0 s) (handleGenerationMismatch L)
    (\<lambda>_. equipped_log log0) (equipped_log log0)"
  unfolding handleGenerationMismatch_def
proof (rule triple_bind [where R = "\<lambda>k s. GetPhase k = p \<and> equipped_log log0 s"])
  let ?W = "with_conditions PhaseUpdating {} log0" and ?E = "equipped_log log0"
  let ?U = "equipping PhaseUpdating three log0"
  fix k
  have gen: "triple (\<lambda>s. GetPhase k = p \<and> ?E s) (modify_status (\<lambda>t. t\<lparr>ObservedGeneration := g\<rparr>))
      (\<lambda>_ s. GetPhase k = p \<and> ?E s) ?E" for g
    unfolding modify_status_def by (rule triple_modify) (simp add: equipped_log_def)
  have phase: "triple ?E (set_phase PhaseUpdating) (\<lambda>_. ?W) ?E"
    unfolding set_phase_def
    by (rule triple_modify) (simp add: with_conditions_def equipped_log_def kode_res.get_set_phase)
  have last: "triple ?U (bind_go (UpdateStatus L) (\<lambda>err.
        case err of Some e \<Rightarrow> return_go (result_requeue, Some e)
        | None \<Rightarrow> return_go (result_requeue, None))) (\<lambda>_. ?E) ?E"
    by (rule triple_weaken [where P = ?U and Q = "\<lambda>_. ?U" and E = ?U])
      (auto intro!: go_rules calm_UpdateStatus calm_equipping L dest: equipping_log)
  have branch: "triple (\<lambda>s. GetPhase k = p \<and> ?E s)
      (if GetPhase k \<noteq> PhaseDeleting then seq_go (set_phase PhaseUpdating # ms) else return_go ())
      (\<lambda>_. ?U) ?E"
    if "triple ?W (seq_go ms) (\<lambda>_. ?U) ?E" for ms
    using assms(2) triple_then [OF phase that] by (auto simp: triple_def)
  show "triple (\<lambda>s. GetPhase k = p \<and> ?E s)
     (then_go (modify_status (\<lambda>t. t\<lparr>ObservedGeneration := k_Generation k\<rparr>))
     (then_go (if GetPhase k \<noteq> PhaseDeleting then
                seq_go
                  [set_phase PhaseUpdating,
                   set_condition L ConditionTypeReady ConditionFalse ''GenerationMismatch''
                     ''Generation mismatch detected, resource is being updated'',
                   set_condition L ConditionTypeAvailable ConditionFalse ''GenerationMismatch''
                     ''Generation mismatch detected, resource is being updated'',
                   set_condition L ConditionTypeProgressing ConditionTrue ''GenerationMismatch''
                     ''Generation mismatch detected, resource is being updated'']
              else return_go ())
    (bind_go (UpdateStatus L) (\<lambda>err.
       case err of
         Some e \<Rightarrow> return_go (result_requeue, Some e)
       | None \<Rightarrow> return_go (result_requeue, None))))) (\<lambda>_. ?E) ?E"
    by (rule triple_then [OF gen], rule triple_then [OF branch last]) (rule with_conditions_three, simp)
qed (rule triple_gets, simp)

lemma triple_panic_kept: "triple P m Q E \<Longrightarrow> keeps P m \<Longrightarrow> triple P m Q P"
  by (rule tripleI) (auto dest: tripleD triple_panicD)

text \<open>Pending is left with all three conditions.\<close>

lemma handlePendingState_equipped:
  assumes L: "lawful L"
  shows "triple (equipping PhasePending {} log0) (handlePendingState L)
    (\<lambda>(q, r, err) s. equipping PhasePending (if err = None then three else {}) log0 s)
    (equipping PhasePending {} log0)"
proof -
  let ?A = "equipping PhasePending {} log0" and ?B = "equipping PhasePending three log0"
  let ?Q = "\<lambda>(q :: Phase, r :: ctrl_Result, err :: error option) s.
    equipping PhasePending (if err = None then three else {}) log0 s"
  have fail: "triple ?A (handleReconcileError L e m) ?Q ?A" for e m
  proof -
    have "yields (handleReconcileError L e m) (\<lambda>(q, r, err). err \<noteq> None)"
      unfolding handleReconcileError_def by (intro yield_rules) simp
    from keeps_yields [OF calm_handleReconcileError [OF L calm_equipping] this] show ?thesis
      by (rule triple_weaken) auto
  qed
  have set: "triple ?A (seq_go
         [set_condition L ConditionTypeReady st re m, set_condition L ConditionTypeAvailable st' re' m',
          set_condition L ConditionTypeProgressing st'' re'' m'']) (\<lambda>_. ?B) ?A"
    for st re m st' re' m' st'' re'' m''
  proof -
    have "triple ?A (seq_go
         [set_condition L ConditionTypeReady st re m, set_condition L ConditionTypeAvailable st' re' m',
          set_condition L ConditionTypeProgressing st'' re'' m'']) (\<lambda>_. ?B) (equipped_log log0)"
      by (rule triple_pre [OF with_conditions_three]) (simp_all add: equipping_pending(1))
    moreover have "keeps ?A (seq_go
         [set_condition L ConditionTypeReady st re m, set_condition L ConditionTypeAvailable st' re' m',
          set_condition L ConditionTypeProgressing st'' re'' m''])"
      by (intro keeps_seq_go) (auto intro: calm_set_condition calm_equipping)
    ultimately show ?thesis by (rule triple_panic_kept)
  qed
  have leave: "triple ?B (update_or_fail L m (return_go (PhaseConfiguring, result_requeue, None))) ?Q ?A"
    for m
  proof -
    have "triple ?B (UpdateStatus L) (\<lambda>_. ?B) ?A"
      by (rule triple_weaken [OF calm_UpdateStatus [OF L calm_equipping [of PhasePending three log0]]])
        (auto intro: equipping_pending(2))
    then show ?thesis
      unfolding update_or_fail_def
      by (rule triple_bind)
        (auto intro!: triple_case_option triple_return triple_pre [OF fail] intro: equipping_pending(2))
  qed
  show ?thesis
    unfolding handlePendingState_def Let_def
    by (rule triple_bind [where R = "\<lambda>_. ?A"], rule triple_gets, assumption, rule triple_if, rule fail,
        rule triple_then [OF set leave])
qed

lemma equipping_SetPhase:
  "equipping PhasePending three log0 s \<Longrightarrow>
     announced (Conditions (k_Status (kode (st_SetPhase q s)))) \<and> equipped_log log0 (st_SetPhase q s)"
  by (simp add: equipping_def announced_def st_SetPhase_def SetPhase_def equipped_log_def)

lemma equipped_log_same: "equipped_log log0 s \<Longrightarrow> reqlog t = reqlog s \<Longrightarrow> equipped_log log0 t"
  by (simp add: equipped_log_def)

lemma announced_equipped: "announced (Conditions t) \<Longrightarrow> equipped t"
  by (simp add: equipped_def)

lemma announced_update:
  assumes "lawful L"
  shows "triple (\<lambda>s. announced (Conditions (k_Status (kode s))) \<and> equipped_log log0 s) (UpdateStatus L)
    (\<lambda>_. equipped_log log0) (equipped_log log0)"
proof -
  let ?I = "\<lambda>s. announced (Conditions (k_Status (kode s))) \<and> equipped_log log0 s"
  have "keeps ?I (UpdateStatus L)"
    by (rule keeps_UpdateStatus [OF assms])
      (auto simp: read_closed_def patch_closed_def intro: equipped_log_same equipped_log_snoc
        announced_equipped)
  then show ?thesis by (rule triple_weaken) auto
qed

lemma run_machine_pending:
  assumes L: "lawful L"
  shows "triple (equipping PhasePending {} log0) (run_machine L Y) (\<lambda>_. equipped_log log0)
    (equipped_log log0)"
proof -
  let ?A = "equipping PhasePending {} log0" and ?E = "equipped_log log0"
  let ?B = "equipping PhasePending three log0"
  let ?J = "\<lambda>s. announced (Conditions (k_Status (kode s))) \<and> equipped_log log0 s"
  have set: "triple ?B (modify_go (st_SetPhase q)) (\<lambda>_. ?J) ?E" for q
    by (rule triple_modify) (rule equipping_SetPhase)
  have move: "triple ?B (then_go (modify_go (st_SetPhase q)) (bind_go (UpdateStatus L) (\<lambda>uerr.
        case uerr of Some e \<Rightarrow> return_go (r', Some e) | None \<Rightarrow> return_go (r, None)))) (\<lambda>_. ?E) ?E"
    for q r and r' :: ctrl_Result
    by (rule triple_then [OF set], rule triple_bind [OF announced_update [OF L]])
      (auto intro!: go_rules)
  have after: "triple (equipping PhasePending (if err = None then three else {}) log0)
      (case err of
         Some e \<Rightarrow> return_go (r', Some e)
       | None \<Rightarrow>
           if q \<noteq> PhasePending then
             then_go (modify_go (st_SetPhase q)) (bind_go (UpdateStatus L) (\<lambda>uerr.
               case uerr of Some e \<Rightarrow> return_go (r', Some e) | None \<Rightarrow> return_go (r, None)))
           else return_go (r, None)) (\<lambda>_. ?E) ?E" for err q r and r' :: ctrl_Result
    by (cases err) (auto intro!: move triple_return dest: equipping_log)
  have "triple ?A (HandleState st_GetPhase st_SetPhase (UpdateStatus L) i (kode_machine L Y))
      (\<lambda>_. ?E) ?E" for i
    unfolding HandleState_def
  proof (rule triple_bind [where R = "\<lambda>p s. p = PhasePending \<and> ?A s"])
    fix p
    show "triple (\<lambda>s. p = PhasePending \<and> ?A s)
      (case map_of (kode_machine L Y) p of
         None \<Rightarrow> return_go (result_none, Some (ErrorText (''no handler for phase '' @ phase_string p)))
       | Some handler \<Rightarrow>
           bind_go handler (\<lambda>(nextPhase, result, err).
             case err of
               Some e \<Rightarrow> return_go (result_after i, Some e)
             | None \<Rightarrow>
                 if nextPhase \<noteq> p then
                   then_go (modify_go (st_SetPhase nextPhase)) (bind_go (UpdateStatus L) (\<lambda>uerr.
                     case uerr of Some e \<Rightarrow> return_go (result_after i, Some e)
                     | None \<Rightarrow> return_go (result, None)))
                 else return_go (result, None))) (\<lambda>_. ?E) ?E"
    proof (cases "p = PhasePending")
      case True
      have "triple ?A (handlePendingState L)
          (\<lambda>(q, r, err) s. equipping PhasePending (if err = None then three else {}) log0 s) ?E"
        by (rule triple_weaken [OF handlePendingState_equipped [OF L]]) (auto dest: equipping_log)
      then show ?thesis
        unfolding True map_of_kode_machine option.case
        by (intro triple_pre [OF triple_bind]) (assumption, auto intro: after)
    qed (simp add: triple_def)
  qed (rule triple_gets, simp add: equipping_def st_GetPhase_def)
  then show ?thesis
    unfolding run_machine_def by (rule triple_bind) (auto intro!: go_rules)
qed

subsection \<open>Every status the operator stores is equipped\<close>

lemma new_requests_equipped:
  "equipped_log (reqlog s) t \<Longrightarrow> ReqPatchStatus key st b \<in> set (new_requests s t) \<Longrightarrow> equipped st"
  unfolding equipped_log_def by (auto dest: new_requests_eq)

lemma reset_retries_pending:
  "lawful L \<Longrightarrow> keeps (equipping PhasePending {} log0) (reset_retries L)"
  by (rule keeps_reset_retries [OF _ calm_equipping])
    (auto simp: recounts_def equipping_def equipped_log_def GetPhase_def)

lemma reconcile_pending_equipped:
  assumes L: "lawful L"
  shows "triple (equipping PhasePending {} log0)
    (bind_go (reset_retries L) (\<lambda>err.
       case err of Some e \<Rightarrow> return_go (result_requeue, Some e) | None \<Rightarrow> run_machine L Y))
    (\<lambda>_. equipped_log log0) (equipped_log log0)"
proof -
  have "triple (equipping PhasePending {} log0) (reset_retries L)
      (\<lambda>_. equipping PhasePending {} log0) (equipped_log log0)"
    by (rule triple_weaken [OF reset_retries_pending [OF L, of log0]]) (auto dest: equipping_log)
  then show ?thesis
    by (rule triple_bind)
      (auto intro!: triple_case_option triple_return run_machine_pending L dest: equipping_log)
qed

text \<open>
  What is left once deletion, initialisation and the phases without a handler are set aside: a
  generation mismatch, or the phase Pending.
\<close>

lemma reconcile_fetched_equipped:
  assumes L: "lawful L" and "k_DeletionTimestamp k = None" "has_finalizer k"
    and "kode u = k" "equipped_log log0 u"
    and p: "k_Generation k \<noteq> ObservedGeneration (k_Status k) \<and> GetPhase k \<noteq> PhaseDeleting \<or>
      k_Generation k = ObservedGeneration (k_Status k) \<and> GetPhase k = PhasePending"
  shows "equipped_log log0 (snd (reconcile_fetched L Y u))"
proof (cases "k_Generation k = ObservedGeneration (k_Status k)")
  case True
  with assms have "reconcile_fetched L Y u = bind_go (reset_retries L) (\<lambda>err.
       case err of Some e \<Rightarrow> return_go (result_requeue, Some e) | None \<Rightarrow> run_machine L Y) u"
    by (simp add: reconcile_fetched_def reconcile_live_def ContainsFinalizer_iff bind_go_def [of "gets_go kode"]
        gets_go_run)
  moreover have "equipping PhasePending {} log0 u"
    using assms True by (simp add: equipping_def)
  ultimately show ?thesis using triple_snd [OF reconcile_pending_equipped [OF L]] by metis
next
  case False
  with assms have "reconcile_fetched L Y u = handleGenerationMismatch L u"
    by (simp add: reconcile_fetched_def reconcile_live_def ContainsFinalizer_iff bind_go_def [of "gets_go kode"]
        gets_go_run)
  with False assms show ?thesis
    using triple_snd [OF handleGenerationMismatch_equipped [OF L, of "GetPhase k" log0], of u] by simp
qed

lemma Reconcile_equipped:
  assumes L: "lawful L" and k: "fst (lib_getKode L req (world s)) = Inr k"
    and eq: "equipped (k_Status k)"
    and q: "ReqPatchStatus key st b \<in> set (new_requests s (snd (Reconcile L Y req s)))"
  shows "equipped st"
proof (cases "announced (Conditions (k_Status k))")
  case True
  show ?thesis
    by (rule announced_equipped, rule Reconcile_conditions [OF L cond_closed_announced k True q])
next
  case False
  then have phase: "GetPhase k \<in> {PhaseOther '''', PhasePending, PhaseDeleting}"
    using eq by (auto simp: equipped_def GetPhase_def)
  have allowed: "Phase_of st \<in> allowed_phases k" by (rule Reconcile_patch_allowed [OF L k q])
  show ?thesis
  proof (cases "k_DeletionTimestamp k = None \<and> has_finalizer k \<and>
      (k_Generation k \<noteq> ObservedGeneration (k_Status k) \<and> GetPhase k \<noteq> PhaseDeleting \<or>
       k_Generation k = ObservedGeneration (k_Status k) \<and> GetPhase k = PhasePending)")
    case True
    obtain u where u: "Reconcile L Y req s = reconcile_fetched L Y u" "kode u = k"
      "reqlog u = reqlog s @ [ReqGet KindKode req Found]"
      by (rule Reconcile_fetched [OF k])
    have "equipped_log (reqlog s) u" by (simp add: equipped_log_def u(3))
    with True have "equipped_log (reqlog s) (snd (reconcile_fetched L Y u))"
      by (intro reconcile_fetched_equipped [OF L _ _ u(2)]) auto
    then show ?thesis using q by (simp add: u(1) new_requests_equipped)
  next
    case False
    with phase allowed have "Phase_of st \<in> {PhaseOther '''', PhasePending, PhaseDeleting}"
      by (auto simp: allowed_phases_def reach1_def split: if_splits)
    then show ?thesis by (auto simp: equipped_def)
  qed
qed

lemma operated_equipped:
  "operated L G Y k \<Longrightarrow> lawful L \<Longrightarrow> gw_lawful G \<Longrightarrow> equipped (k_Status k)"
proof (induction rule: operated.induct)
  case (created k)
  then show ?case by (simp add: equipped_def GetPhase_def)
next
  case (edited k k')
  then show ?case by simp
next
  case (by_kode k req s key st b)
  then show ?case using Reconcile_equipped [OF _ by_kode.hyps(2) _ by_kode.hyps(3)] by simp
next
  case (by_entrypoint k req s key st b)
  note L = by_entrypoint.prems
  have "GetPhase k = PhaseActive"
    by (rule entrypoint_patch(1) [OF L by_entrypoint.hyps(2,3)])
  then have "announced (Conditions (k_Status k))"
    using by_entrypoint.IH [OF L] by (simp add: equipped_def GetPhase_def)
  from ep_Reconcile_conditions [OF L cond_closed_announced by_entrypoint.hyps(2) this by_entrypoint.hyps(3)]
  show ?case by (simp add: announced_equipped)
qed

subsection \<open>When the handler of Active panics\<close>

abbreviation types_set :: "'w st \<Rightarrow> ConditionType set" where
  "types_set s \<equiv> set (map co_Type (Conditions (k_Status (kode s))))"

abbreviation no_panic :: "('s, 'a) go \<Rightarrow> bool" where
  "no_panic m \<equiv> triple (\<lambda>_. True) m (\<lambda>_ _. True) (\<lambda>_. False)"

lemma GetCondition_None: "GetCondition t c = None \<longleftrightarrow> t \<notin> set (map co_Type (Conditions c))"
  by (auto simp: GetCondition_def find_None_iff)

lemma refresh_condition_run:
  "t \<notin> types_set s \<Longrightarrow> fst (refresh_condition L t st re m s) = Panic"
  "t \<in> types_set s \<Longrightarrow> \<exists>b u. refresh_condition L t st re m s = (Ret b, u) \<and> types_set u = types_set s"
proof -
  assume "t \<notin> types_set s"
  then have none: "GetCondition t (k_Status (kode s)) = None" by (simp only: GetCondition_None not_False_eq_True)
  show "fst (refresh_condition L t st re m s) = Panic"
    by (simp add: none refresh_condition_def k_GetCondition_def go_simps)
next
  assume t: "t \<in> types_set s"
  then obtain c where "GetCondition t (k_Status (kode s)) = Some c"
    by (metis GetCondition_None not_None_eq)
  moreover have "types_set (s\<lparr>kode := k_SetCondition n t st re m (kode s)\<rparr>) = types_set s" for n
    using t by (simp add: k_SetCondition_def SetCondition_def set_condition_types insert_absorb
        del: set_map)
  ultimately show "\<exists>b u. refresh_condition L t st re m s = (Ret b, u) \<and> types_set u = types_set s"
    by (simp add: refresh_condition_def k_GetCondition_def set_condition_def go_simps ex_bool_eq)
qed

lemma no_panic_UpdateStatus:
  assumes "lawful L"
  shows "no_panic (UpdateStatus L)"
proof -
  have "no_panic (UpdateStatus_attempt L)"
    unfolding UpdateStatus_attempt_eq
    by (rule triple_bind [where R = "\<lambda>_ _. True"], rule triple_gets, simp,
        rule triple_bind [where R = "\<lambda>_ _. True"])
      (auto simp: triple_def api_get_def api_patch_status_def return_go_def
        split: prod.splits sum.splits)
  then show ?thesis
    unfolding UpdateStatus_def
    using triple_retry [OF assms, of "\<lambda>_. True" "UpdateStatus_attempt L" "\<lambda>_ _. True" "\<lambda>_. False"]
    by simp
qed

lemma no_panic_bind: "no_panic m \<Longrightarrow> (\<And>x. no_panic (f x)) \<Longrightarrow> no_panic (bind_go m f)"
  by (rule triple_bind)

lemma no_panic_then: "no_panic m \<Longrightarrow> no_panic n \<Longrightarrow> no_panic (then_go m n)"
  by (rule triple_then)

lemma no_panic_basic: "no_panic (gets_go f)" "no_panic (modify_go g)" "no_panic (return_go x)"
  by (simp_all add: triple_def go_simps)

lemma no_panic_seq: "(\<And>m. m \<in> set ms \<Longrightarrow> no_panic m) \<Longrightarrow> no_panic (seq_go ms)"
  by (induction ms) (auto intro!: no_panic_then no_panic_basic)

lemma no_panic_fail: "lawful L \<Longrightarrow> no_panic (handleReconcileError L e m)"
  unfolding handleReconcileError_def
  by (intro no_panic_bind no_panic_then no_panic_basic no_panic_UpdateStatus no_panic_seq)
    (auto simp: set_condition_def modify_status_def no_panic_basic)

lemma no_panicD: "no_panic m \<Longrightarrow> fst (m s) \<noteq> Panic"
  by (cases "m s") (auto simp: triple_def split: prod.splits outcome.splits)

lemma refresh_then_panics:
  assumes T: "types_set s = T" and f: "\<And>b u. types_set u = T \<Longrightarrow> (fst (f b u) = Panic) = P"
  shows "(fst (bind_go (refresh_condition L t st re m) f s) = Panic) = (t \<notin> T \<or> P)"
proof (cases "t \<in> T")
  case True
  with refresh_condition_run(2) [of t s L st re m] T f show ?thesis by (auto simp: bind_go_run)
next
  case False
  with refresh_condition_run(1) [of t s L st re m] T show ?thesis
    by (auto simp: bind_go_run split: prod.splits outcome.splits)
qed

text \<open>The handler panics exactly when one of the three conditions is missing.\<close>

lemma active_healthy_panics:
  assumes L: "lawful L"
  shows "fst (active_healthy L s) = Panic \<longleftrightarrow> \<not> announced (Conditions (k_Status (kode s)))"
proof -
  have tail: "(fst ((if b then update_or_fail L m (return_go x) else return_go y) u) = Panic) = False"
    for b m u and x y :: "Phase \<times> ctrl_Result \<times> error option"
    unfolding update_or_fail_def eq_False
    by (intro no_panicD triple_if no_panic_bind no_panic_UpdateStatus L triple_case_option
        no_panic_basic no_panic_fail)
  have "(fst (active_healthy L s) = Panic) =
      (ConditionTypeReady \<notin> types_set s \<or> ConditionTypeAvailable \<notin> types_set s \<or>
       ConditionTypeProgressing \<notin> types_set s \<or> False)"
    unfolding active_healthy_def
    by (rule refresh_then_panics [OF refl], (rule refresh_then_panics, assumption)+, rule tail)
  then show ?thesis unfolding announced_def by auto
qed

end
