(* ===== verification/Kode_Progress.thy ===== *)
theory Kode_Progress
  imports Kode_Conditions
begin

text \<open>
  Progress: how recovery from the phase Failed is counted and given up, over whole reconciliations, and
  the deletion of a Kode whose children are gone, which ends in one reconciliation if the API server
  obliges.
\<close>

subsection \<open>The retry count that is sent\<close>

text \<open>
  \<open>counted n A log0 s\<close>: the Kode in memory has the retry count \<open>n\<close>, and each status sent since \<open>log0\<close> has
  one in \<open>A\<close>.
\<close>

definition sent_counts :: "int set \<Rightarrow> Request list \<Rightarrow> 'w st \<Rightarrow> bool" where
  "sent_counts A log0 s \<longleftrightarrow>
     (\<exists>qs. reqlog s = log0 @ qs \<and> (\<forall>key st b. ReqPatchStatus key st b \<in> set qs \<longrightarrow> RetryCount st \<in> A))"

definition counted :: "int \<Rightarrow> int set \<Rightarrow> Request list \<Rightarrow> 'w st \<Rightarrow> bool" where
  "counted n A log0 s \<longleftrightarrow> RetryCount (k_Status (kode s)) = n \<and> sent_counts A log0 s"

lemma sent_counts_same: "sent_counts A log0 s \<Longrightarrow> reqlog t = reqlog s \<Longrightarrow> sent_counts A log0 t"
  by (simp add: sent_counts_def)

lemma sent_counts_snoc:
  "sent_counts A log0 s \<Longrightarrow> reqlog t = reqlog s @ [q] \<Longrightarrow>
     (\<And>key st b. q = ReqPatchStatus key st b \<Longrightarrow> RetryCount st \<in> A) \<Longrightarrow> sent_counts A log0 t"
  unfolding sent_counts_def by (auto; blast)

lemma counted_same:
  "counted n A log0 s \<Longrightarrow> RetryCount (k_Status (kode t)) = RetryCount (k_Status (kode s)) \<Longrightarrow>
     reqlog t = reqlog s \<Longrightarrow> counted n A log0 t"
  by (auto simp: counted_def intro: sent_counts_same)

lemma counted_snoc:
  "counted n A log0 s \<Longrightarrow> n \<in> A \<Longrightarrow> RetryCount (k_Status (kode t)) = RetryCount (k_Status (kode s)) \<Longrightarrow>
     reqlog t = reqlog s @ [q] \<Longrightarrow>
     (\<And>key st b. q = ReqPatchStatus key st b \<Longrightarrow> st = k_Status (kode s)) \<Longrightarrow> counted n A log0 t"
  by (auto simp: counted_def intro: sent_counts_snoc)

lemma counted_sent: "counted n A log0 s \<Longrightarrow> sent_counts A log0 s"
  by (simp add: counted_def)

lemma firm_counted: "n \<in> A \<Longrightarrow> firm UNIV (counted n A log0)"
  unfolding firm_def tame_def read_closed_def patch_closed_def cache_closed_def
  by (intro conjI allI impI; (elim conjE)?)
    ((erule counted_same; (simp add: SetPhase_def k_SetCondition_def SetCondition_def; fail))
     | (erule counted_snoc, assumption, simp, simp, simp))+

lemma counted_cleanup: "n \<in> A \<Longrightarrow> keeps (counted n A log0) (cleanup_kode L)"
  unfolding cleanup_kode_def
  by (intro go_rules keeps_manager_Cleanup) (erule counted_snoc, assumption, simp, simp, simp)

lemma counted_recount:
  "triple (counted n A log0) (modify_status (\<lambda>t. t\<lparr>RetryCount := g (RetryCount t)\<rparr>))
     (\<lambda>_. counted (g n) A log0) (sent_counts A log0)"
  unfolding modify_status_def by (rule triple_modify) (auto simp: counted_def intro: sent_counts_same)

text \<open>What the handler of Failed makes of the count, and what every other reconciliation does.\<close>

definition attempt_count :: "int \<Rightarrow> int" where
  "attempt_count c = (if c < maxRetries then c + 1 else c)"

definition reset_count :: "int \<Rightarrow> int" where
  "reset_count c = (if c > 0 then 0 else c)"

lemma counted_handleFailed:
  assumes L: "lawful L" and A: "attempt_count c \<in> A"
  shows "triple (counted c A log0) (handleFailedState L) (\<lambda>_. counted (attempt_count c) A log0) (sent_counts A log0)"
proof -
  let ?I = "counted (attempt_count c) A log0"
  have t: "calm ?I" by (rule firmD(1) [OF firm_counted [OF A]])
  have sent: "keeps ?I m \<Longrightarrow> triple ?I m (\<lambda>_. ?I) (sent_counts A log0)" for m :: "'a st handler"
    by (erule triple_weaken) (auto dest: counted_sent)
  show ?thesis
  proof (cases "c < maxRetries")
    case True
    have "keeps ?I (bind_go (gets_go (\<lambda>s. RetryCount (k_Status (kode s)))) (\<lambda>n.
     then_go (seq_go
       [set_condition L ConditionTypeReady ConditionFalse ''AttemptingRecovery''
          (''Recovery attempt '' @ itoa n @ '' of '' @ itoa maxRetries),
        set_condition L ConditionTypeAvailable ConditionFalse ''RecoveryInProgress''
          ''Service availability unknown during recovery'',
        set_condition L ConditionTypeProgressing ConditionTrue ''RecoveryInProgress''
          (''Attempting recovery (try '' @ itoa n @ ''/'' @ itoa maxRetries @ '')''),
        modify_status (\<lambda>t. if LastError t \<noteq> None then t\<lparr>LastError := None, LastErrorTime := None\<rparr>
                          else t)])
    (update_or_stay L PhaseFailed
       (then_go (emit L EventTypeNormal ''RecoveryAttempt''
                   (''Starting recovery attempt '' @ itoa n @ '' of '' @ itoa maxRetries))
       (bind_go (determineRecoveryPhase L) (\<lambda>recoveryPhase.
        then_go (emit L EventTypeNormal ''RecoveryTransition''
                   (''Transitioning to '' @ phase_string recoveryPhase @ '' phase for recovery''))
                (return_go (recoveryPhase, result_requeue, None))))))))"
      by (intro go_rules tame_blocks tame_determineRecoveryPhase keeps_seq_go L t)
        (auto intro: t tame_set_condition [OF t] tame_modify_status [OF t])
    then have "triple (counted c A log0) (failed_retry L) (\<lambda>_. ?I) (sent_counts A log0)"
      unfolding failed_retry_def using True counted_recount [of c A log0 "\<lambda>n. n + 1"]
      by (intro triple_then [OF _ sent]) (simp_all add: attempt_count_def)
    then show ?thesis
      unfolding handleFailedState_def
      by (intro triple_bind [where R = "\<lambda>n s. n = c \<and> counted c A log0 s"] triple_gets)
        (use True in \<open>auto simp: counted_def [of c] triple_def\<close>)
  next
    case False
    have "keeps ?I (failed_give_up L)"
      unfolding failed_give_up_def
      by (intro go_rules tame_blocks keeps_seq_go L t) (auto intro: t tame_set_condition [OF t])
    from sent [OF this] False show ?thesis
      unfolding handleFailedState_def
      by (intro triple_bind [where R = "\<lambda>n s. n = c \<and> counted c A log0 s"] triple_gets)
        (auto simp: counted_def [of c] attempt_count_def triple_def)
  qed
qed

text \<open>The machine: the handler of Failed counts, and no other changes the count.\<close>

lemma counted_HandleState:
  assumes L: "lawful L" and h: "map_of (kode_machine L Y) p = Some h"
    and run: "triple P h (\<lambda>_. counted n A log0) (sent_counts A log0)" and A: "n \<in> A"
  shows "triple (\<lambda>s. P s \<and> st_GetPhase s = p) (run_machine L Y)
    (\<lambda>_. sent_counts A log0) (sent_counts A log0)"
proof -
  let ?I = "counted n A log0"
  note f = firm_counted [OF A, of log0]
  have phase: "keeps ?I (modify_go (st_SetPhase q))" for q
    unfolding st_SetPhase_def by (rule triple_modify) (rule firmD(2) [OF f])
  have "keeps ?I (case r of (nextPhase, result, err) \<Rightarrow>
          case err of
            Some e \<Rightarrow> return_go (result_after i, Some e)
          | None \<Rightarrow>
              if nextPhase \<noteq> p then
                then_go (modify_go (st_SetPhase nextPhase)) (bind_go (UpdateStatus L) (\<lambda>uerr.
                  case uerr of Some e \<Rightarrow> return_go (result_after i, Some e)
                  | None \<Rightarrow> return_go (result, None)))
              else return_go (result, None))" for i and r :: "Phase \<times> ctrl_Result \<times> error option"
    by (intro go_rules phase tame_UpdateStatus [OF L firmD(1) [OF f]])
  then have "triple ?I (case r of (nextPhase, result, err) \<Rightarrow>
          case err of
            Some e \<Rightarrow> return_go (result_after i, Some e)
          | None \<Rightarrow>
              if nextPhase \<noteq> p then
                then_go (modify_go (st_SetPhase nextPhase)) (bind_go (UpdateStatus L) (\<lambda>uerr.
                  case uerr of Some e \<Rightarrow> return_go (result_after i, Some e)
                  | None \<Rightarrow> return_go (result, None)))
              else return_go (result, None)) (\<lambda>_. sent_counts A log0) (sent_counts A log0)" for i r
    by (rule triple_weaken) (auto dest: counted_sent)
  from triple_bind [OF run this]
  have "triple (\<lambda>s. P s \<and> st_GetPhase s = p)
      (HandleState st_GetPhase st_SetPhase (UpdateStatus L) i (kode_machine L Y))
      (\<lambda>_. sent_counts A log0) (sent_counts A log0)" for i
    unfolding HandleState_def by (intro triple_bind_gets) (simp add: h)
  then show ?thesis
    unfolding run_machine_def by (rule triple_bind) (auto intro!: go_rules)
qed

lemma counted_run_machine:
  assumes L: "lawful L" and A: "(if p = PhaseFailed then attempt_count c else c) \<in> A"
  shows "triple (\<lambda>s. counted c A log0 s \<and> st_GetPhase s = p) (run_machine L Y)
    (\<lambda>_. sent_counts A log0) (sent_counts A log0)"
proof (cases "p = PhaseFailed")
  case True
  then show ?thesis
    using A counted_HandleState [OF L map_of_kode_machine(7) counted_handleFailed [OF L]] by simp
next
  case False
  with A have n: "c \<in> A" by simp
  show ?thesis
    by (rule triple_weaken [OF firm_run_machine [OF L firm_counted [OF n] counted_cleanup [OF n] fits_UNIV]])
      (use False in \<open>auto dest: counted_sent\<close>)
qed

lemma counted_reset:
  assumes L: "lawful L" and A: "p \<noteq> PhaseFailed \<Longrightarrow> reset_count c \<in> A"
  shows "triple (\<lambda>s. counted c A log0 s \<and> st_GetPhase s = p) (reset_retries L)
    (\<lambda>_ s. counted (if p = PhaseFailed then c else reset_count c) A log0 s \<and> st_GetPhase s = p)
    (sent_counts A log0)"
proof -
  let ?P = "\<lambda>s. counted c A log0 s \<and> st_GetPhase s = p"
  let ?Q = "\<lambda>s. counted (if p = PhaseFailed then c else reset_count c) A log0 s \<and> st_GetPhase s = p"
  have upd: "triple ?Q (UpdateStatus L) (\<lambda>_. ?Q) (sent_counts A log0)" if "p \<noteq> PhaseFailed"
  proof -
    have "tame UNIV (\<lambda>s. st_GetPhase s = p)"
      by (simp add: tame_def read_closed_def patch_closed_def cache_closed_def st_GetPhase_def GetPhase_def)
    from tame_conj [OF firmD(1) [OF firm_counted [OF A [OF that]]] this, of log0]
    have "calm ?Q" using that by simp
    from tame_UpdateStatus [OF L this] show ?thesis by (rule triple_weaken) (auto dest: counted_sent)
  qed
  have chg: "triple ?P (modify_status (\<lambda>t. t\<lparr>RetryCount := 0\<rparr>)) (\<lambda>_. ?Q) (sent_counts A log0)"
    if "p \<noteq> PhaseFailed" "c > 0"
    unfolding modify_status_def
    by (rule triple_modify)
      (use that in \<open>auto simp: counted_def reset_count_def st_GetPhase_def GetPhase_def intro: sent_counts_same\<close>)
  have "triple ?P (bind_go (gets_go kode) (\<lambda>k.
      if GetPhase k \<noteq> PhaseFailed \<and> RetryCount (k_Status k) > 0 then
         then_go (modify_status (\<lambda>t. t\<lparr>RetryCount := 0\<rparr>)) (UpdateStatus L)
      else return_go None)) (\<lambda>_. ?Q) (sent_counts A log0)"
  proof (rule triple_bind [where R = "\<lambda>k s. GetPhase k = p \<and> RetryCount (k_Status k) = c \<and> ?P s"])
    show "triple ?P (gets_go kode) (\<lambda>k s. GetPhase k = p \<and> RetryCount (k_Status k) = c \<and> ?P s) (sent_counts A log0)"
      by (rule triple_gets) (simp add: counted_def st_GetPhase_def)
  next
    fix k
    let ?R = "\<lambda>s. GetPhase k = p \<and> RetryCount (k_Status k) = c \<and> ?P s"
    show "triple ?R (if GetPhase k \<noteq> PhaseFailed \<and> RetryCount (k_Status k) > 0 then
         then_go (modify_status (\<lambda>t. t\<lparr>RetryCount := 0\<rparr>)) (UpdateStatus L)
      else return_go None) (\<lambda>_. ?Q) (sent_counts A log0)"
    proof (cases "p \<noteq> PhaseFailed \<and> c > 0")
      case True
      then have "triple ?P (then_go (modify_status (\<lambda>t. t\<lparr>RetryCount := 0\<rparr>)) (UpdateStatus L))
          (\<lambda>_. ?Q) (sent_counts A log0)"
        by (intro triple_then [OF chg upd]) simp_all
      then show ?thesis using True by (auto simp: triple_def)
    next
      case False
      then show ?thesis by (auto simp: triple_def return_go_def reset_count_def)
    qed
  qed
  then show ?thesis by (simp only: reset_retries_def)
qed

subsection \<open>The retry count of a reconciliation\<close>

definition allowed_retries :: "Kode \<Rightarrow> int set" where
  "allowed_retries k =
     (let c = RetryCount (k_Status k) in
      if \<not> has_finalizer k \<or> k_Generation k \<noteq> ObservedGeneration (k_Status k) then {c}
      else if k_DeletionTimestamp k \<noteq> None then {c, reset_count c}
      else if GetPhase k = PhaseFailed then {attempt_count c}
      else {reset_count c})"

lemma counted_reconcile_live:
  assumes L: "lawful L"
    and A: "\<not> has_finalizer k \<or> k_Generation k \<noteq> ObservedGeneration (k_Status k) \<Longrightarrow> RetryCount (k_Status k) \<in> A"
      "has_finalizer k \<Longrightarrow> k_Generation k = ObservedGeneration (k_Status k) \<Longrightarrow>
        (if GetPhase k = PhaseFailed then attempt_count (RetryCount (k_Status k))
         else reset_count (RetryCount (k_Status k))) \<in> A"
  shows "triple (\<lambda>s. kode s = k \<and> sent_counts A log0 s) (reconcile_live L Y)
    (\<lambda>_. sent_counts A log0) (sent_counts A log0)"
proof -
  let ?c = "RetryCount (k_Status k)" and ?E = "sent_counts A log0"
  let ?P = "\<lambda>s. counted ?c A log0 s \<and> st_GetPhase s = GetPhase k"
  have sent: "triple ?P m (\<lambda>_. ?E) ?E" if "keeps (counted ?c A log0) m"
    for m :: "('a st, ctrl_Result \<times> error option) go"
    using that by (rule triple_weaken) (auto dest: counted_sent)
  have run: "triple ?P (bind_go (reset_retries L) (\<lambda>err.
      case err of Some e \<Rightarrow> return_go (result_requeue, Some e) | None \<Rightarrow> run_machine L Y)) (\<lambda>_. ?E) ?E"
    if "has_finalizer k" "k_Generation k = ObservedGeneration (k_Status k)"
    using A(2) [OF that]
    by (intro triple_bind [OF counted_reset [OF L]] triple_case_option triple_return
        triple_pre [OF counted_run_machine [OF L, of "GetPhase k" "if GetPhase k = PhaseFailed then ?c else reset_count ?c"]])
      (auto dest: counted_sent)
  have "triple ?P (if \<not> has_finalizer k then initialize L
       else if k_Generation k \<noteq> ObservedGeneration (k_Status k) then handleGenerationMismatch L
       else bind_go (reset_retries L) (\<lambda>err.
         case err of Some e \<Rightarrow> return_go (result_requeue, Some e) | None \<Rightarrow> run_machine L Y)) (\<lambda>_. ?E) ?E"
    by (intro triple_if run sent firm_prelude [OF L firm_counted] A(1)) auto
  then show ?thesis
    by (simp add: triple_def reconcile_live_eq [OF L] counted_def st_GetPhase_def)
qed

lemma counted_reconcile_fetched:
  assumes L: "lawful L"
  shows "triple (\<lambda>s. kode s = k \<and> sent_counts (allowed_retries k) log0 s) (reconcile_fetched L Y)
    (\<lambda>_. sent_counts (allowed_retries k) log0) (sent_counts (allowed_retries k) log0)"
proof -
  let ?A = "allowed_retries k" and ?k = "SetPhase PhaseDeleting k"
  let ?E = "sent_counts ?A log0"
  have same: "k_Status ?k = (k_Status k)\<lparr>Phase_of := PhaseDeleting\<rparr>" "k_Generation ?k = k_Generation k"
    by (simp_all add: SetPhase_def)
  have phase: "triple (\<lambda>s. kode s = k \<and> ?E s) (set_phase PhaseDeleting) (\<lambda>_ s. kode s = ?k \<and> ?E s) ?E"
    unfolding set_phase_def by (rule triple_modify) (auto intro: sent_counts_same)
  have upd: "triple (\<lambda>s. kode s = ?k \<and> ?E s) (UpdateStatus L) (\<lambda>_ s. kode s = ?k \<and> ?E s) ?E"
    if "RetryCount (k_Status k) \<in> ?A"
  proof -
    have "keeps (\<lambda>s. kode s = ?k \<and> ?E s) (UpdateStatus L)"
      using that
      by (intro keeps_UpdateStatus [OF L])
        (auto simp: read_closed_def patch_closed_def same intro: sent_counts_same sent_counts_snoc)
    then show ?thesis by (rule triple_weaken) auto
  qed
  have del: "triple (\<lambda>s. kode s = ?k \<and> ?E s) (reconcile_live L Y) (\<lambda>_. ?E) ?E"
    if "k_DeletionTimestamp k \<noteq> None" "has_finalizer k"
    by (rule counted_reconcile_live [OF L])
      (use that in \<open>auto simp: same kode_res.get_set_phase allowed_retries_def Let_def\<close>)
  have live: "triple (\<lambda>s. kode s = k \<and> ?E s) (reconcile_live L Y) (\<lambda>_. ?E) ?E"
    if "k_DeletionTimestamp k = None"
    by (rule counted_reconcile_live [OF L]) (use that in \<open>auto simp: allowed_retries_def Let_def\<close>)
  have "triple (\<lambda>s. kode s = k \<and> ?E s)
      (if k_DeletionTimestamp k \<noteq> None then
         if \<not> has_finalizer k then return_go (result_none, None)
         else then_go (set_phase PhaseDeleting) (bind_go (UpdateStatus L) (\<lambda>err. case err of
             Some e \<Rightarrow> return_go (result_requeue, Some e) | None \<Rightarrow> reconcile_live L Y))
       else reconcile_live L Y) (\<lambda>_. ?E) ?E"
    by (intro triple_if triple_then [OF phase] triple_bind [OF upd] triple_case_option del live
        triple_return) (auto simp: allowed_retries_def Let_def)
  then show ?thesis by (simp add: triple_def reconcile_fetched_eq [OF L])
qed

lemma Reconcile_retries:
  assumes L: "lawful L" and k: "fst (lib_getKode L req (world s)) = Inr k"
    and "ReqPatchStatus key st b \<in> set (new_requests s (snd (Reconcile L Y req s)))"
  shows "RetryCount st \<in> allowed_retries k"
proof -
  obtain u where u: "Reconcile L Y req s = reconcile_fetched L Y u" "kode u = k"
    "reqlog u = reqlog s @ [ReqGet KindKode req Found]"
    by (rule Reconcile_fetched [OF k])
  have "sent_counts (allowed_retries k) (reqlog s) u" by (simp add: sent_counts_def u)
  then have "sent_counts (allowed_retries k) (reqlog s) (snd (Reconcile L Y req s))"
    using triple_snd [OF counted_reconcile_fetched [OF L, of k "reqlog s" Y], of u] by (simp add: u(1,2))
  with assms(3) show ?thesis unfolding sent_counts_def by (auto dest: new_requests_eq)
qed

lemma no_panic_emit: "no_panic (emit L et re m)"
  unfolding emit_def record_event_def
  by (intro no_panic_bind no_panic_basic triple_case_option no_panic_then)

lemma no_panic_set_condition: "no_panic (set_condition L t st re m)"
  by (simp add: set_condition_def no_panic_basic)

lemma failed_give_up_returns:
  assumes "lawful L"
  shows "\<exists>r. fst (failed_give_up L s) = Ret (PhaseFailed, r, None) \<and>
    r \<in> {result_after (lib_LongReconcileInterval L), result_requeue}"
proof -
  let ?R = "{result_after (lib_LongReconcileInterval L), result_requeue}"
  have "no_panic (failed_give_up L)"
    unfolding failed_give_up_def update_or_stay_def
    by (intro no_panic_then no_panic_bind no_panic_seq no_panic_emit no_panic_basic
        no_panic_UpdateStatus assms triple_case_option) (auto simp: no_panic_set_condition)
  moreover have y: "yields (failed_give_up L) (\<lambda>(q, r, err). q = PhaseFailed \<and> err = None \<and> r \<in> ?R)"
    unfolding failed_give_up_def update_or_stay_def by (intro yield_rules) auto
  ultimately show ?thesis
    using no_panicD [of "failed_give_up L" s] yieldsD [OF y, of s]
    by (cases "failed_give_up L s"; cases "fst (failed_give_up L s)") auto
qed

lemma counted_fails:
  "keeps (counted n A log0) (modify_status (\<lambda>t. t\<lparr>Phase_of := PhaseFailed, LastError := e\<rparr>))"
  unfolding modify_status_def by (rule triple_modify) (erule counted_same, simp_all)

lemma ep_Reconcile_retries:
  assumes "lawful L" and "gw_lawful G" and "fst (lib_getKode L req (world s)) = Inr k"
    and q: "ReqPatchStatus key st b \<in> set (new_requests s (snd (ep_Reconcile L G req s)))"
  shows "RetryCount st = RetryCount (k_Status k)"
proof -
  let ?c = "RetryCount (k_Status k)"
  have "calm (counted ?c {?c} (reqlog s))" by (rule firmD(1) [OF firm_counted]) simp
  then have "counted ?c {?c} (reqlog s) (snd (ep_Reconcile L G req s))"
    by (rule calm_ep_Reconcile [OF assms(1,2) _ counted_fails assms(3) _ q])
      (simp add: counted_def sent_counts_def)
  with q show ?thesis unfolding counted_def sent_counts_def by (auto dest: new_requests_eq)
qed

text \<open>A failed Kode whose attempts are used up: every status that is sent leaves it as it is.\<close>

definition exhausted :: "Kode \<Rightarrow> bool" where
  "exhausted k \<longleftrightarrow> k_DeletionTimestamp k = None \<and> has_finalizer k \<and>
     k_Generation k = ObservedGeneration (k_Status k) \<and> GetPhase k = PhaseFailed \<and>
     RetryCount (k_Status k) \<ge> maxRetries"

lemma Reconcile_exhausted:
  assumes L: "lawful L" and k: "fst (lib_getKode L req (world s)) = Inr k" and ex: "exhausted k"
  shows "\<exists>r t. Reconcile L Y req s = (Ret (r, None), t) \<and>
    r \<in> {result_after (lib_LongReconcileInterval L), result_requeue} \<and>
    (\<forall>key st b. ReqPatchStatus key st b \<in> set (new_requests s t) \<longrightarrow> Phase_of st = PhaseFailed)"
proof -
  obtain u where u: "Reconcile L Y req s = reconcile_fetched L Y u" "kode u = k"
    "reqlog u = reqlog s @ [ReqGet KindKode req Found]"
    by (rule Reconcile_fetched [OF k])
  let ?I = "settled {PhaseFailed} (reqlog s)"
  obtain r t where t: "failed_give_up L u = (Ret (PhaseFailed, r, None), t)"
    "r \<in> {result_after (lib_LongReconcileInterval L), result_requeue}"
    using failed_give_up_returns [OF L, of u] by (cases "failed_give_up L u") auto
  have "reset_retries L u = (Ret None, u)" "handleFailedState L u = failed_give_up L u"
    using ex by (simp_all add: reset_retries_def handleFailedState_def go_simps u(2) exhausted_def)
  moreover have "st_GetPhase u = PhaseFailed" using ex by (simp add: st_GetPhase_def u(2) exhausted_def)
  ultimately have run: "Reconcile L Y req s = (Ret (r, None), t)"
    using ex t(1) kode_sm.same_phase [of "kode_machine L Y" u "handleFailedState L"]
    by (simp add: u(1) reconcile_fetched_eq [OF L u(2)] reconcile_live_eq [OF L u(2)] exhausted_def
        run_machine_def go_simps map_of_kode_machine)
  have "keeps ?I (failed_give_up L)"
    unfolding failed_give_up_def
    by (intro go_rules tame_blocks keeps_seq_go L) (auto intro: calm_settled calm_set_condition)
  moreover have "?I u" using ex by (auto simp: settled_def st_GetPhase_def u exhausted_def sent_within_def)
  ultimately have "?I t" using triple_snd [of ?I "failed_give_up L" ?I u] t(1) by simp
  with run t(2) show ?thesis by (auto simp: settled_def sent_within_def dest: new_requests_eq)
qed

subsection \<open>Deletion ends\<close>

text \<open>
  \<open>obliging L k R\<close>: in the worlds \<open>R\<close> the API server finds the Kode, accepts its status and its
  finalizers, and answers NotFound for the children; reading and status patches stay in \<open>R\<close>.
\<close>

definition gone_in :: "('w \<Rightarrow> bool) \<Rightarrow> (NamespacedName \<Rightarrow> 'w \<Rightarrow> (error + 'o) \<times> 'w) \<Rightarrow> NamespacedName \<Rightarrow> bool" where
  "gone_in R request key \<longleftrightarrow>
     (\<forall>w. R w \<longrightarrow> answers_NotFound (request key w) \<and> R (snd (request key w)))"

definition obliging :: "'w lib \<Rightarrow> Kode \<Rightarrow> ('w \<Rightarrow> bool) \<Rightarrow> bool" where
  "obliging L k R \<longleftrightarrow>
     (\<forall>w. R w \<longrightarrow> (\<exists>latest w'. lib_getKode L (kode_key k) w = (Inr latest, w') \<and>
        kode_key latest = kode_key k \<and> R w')) \<and>
     (\<forall>w k' base. R w \<and> kode_key k' = kode_key k \<longrightarrow>
        fst (lib_patchKodeStatus L k' base w) = None \<and> R (snd (lib_patchKodeStatus L k' base w))) \<and>
     (\<forall>w k'. R w \<and> kode_key k' = kode_key k \<longrightarrow> fst (lib_updateKode L k' w) = None) \<and>
     gone_in R (lib_getStatefulSet L) (child_key k (GetStatefulSetName k)) \<and>
     gone_in R (lib_getSecret L) (child_key k (GetSecretName k)) \<and>
     gone_in R (lib_getService L) (child_key k (GetServiceName k)) \<and>
     (skip_PVC L k \<or> gone_in R (lib_getPVC L) (child_key k (GetPVCName k)))"

text \<open>While the Kode is being deleted, and once the finalizer was given up.\<close>

definition awaiting :: "Kode \<Rightarrow> ('w \<Rightarrow> bool) \<Rightarrow> Request list \<Rightarrow> 'w st \<Rightarrow> bool" where
  "awaiting k R log0 s \<longleftrightarrow> R (world s) \<and> same_identity k (kode s) \<and> GetPhase (kode s) = PhaseDeleting \<and>
     (\<exists>qs. reqlog s = log0 @ qs)"

definition given_up :: "Kode \<Rightarrow> Request list \<Rightarrow> 'w st \<Rightarrow> bool" where
  "given_up k log0 s \<longleftrightarrow>
     (\<exists>qs fs. reqlog s = log0 @ qs \<and> ReqUpdateFinalizers (kode_key k) fs True \<in> set qs \<and>
        GetFinalizer k \<notin> set fs)"

abbreviation surely :: "('s \<Rightarrow> bool) \<Rightarrow> ('s, 'a) go \<Rightarrow> ('a \<Rightarrow> bool) \<Rightarrow> ('s \<Rightarrow> bool) \<Rightarrow> bool" where
  "surely P m A Q \<equiv> triple P m (\<lambda>x s. A x \<and> Q s) (\<lambda>_. False)"

lemma surelyI:
  assumes "\<And>s. P s \<Longrightarrow> \<exists>x. fst (m s) = Ret x \<and> A x \<and> Q (snd (m s))"
  shows "surely P m A Q"
  by (rule tripleI) (use assms in \<open>fastforce\<close>)+

lemma same_identity_key: "same_identity k k' \<Longrightarrow> kode_key k' = kode_key k"
  by (simp add: same_identity_def kode_key_def)

lemma awaiting_UpdateStatus:
  assumes L: "lawful L" and R: "obliging L k R"
  shows "surely (awaiting k R log0) (UpdateStatus L) (\<lambda>err. err = None) (awaiting k R log0)"
proof -
  have "triple (awaiting k R log0) (UpdateStatus_attempt L)
      (\<lambda>err s. awaiting k R log0 s \<and> err = None) (\<lambda>_. False)"
  proof -
    have "fst (UpdateStatus_attempt L s) = Ret None \<and> awaiting k R log0 (snd (UpdateStatus_attempt L s))"
      if I: "awaiting k R log0 s" for s
    proof -
      have key: "kode_key (kode s) = kode_key k"
        using I by (simp add: awaiting_def same_identity_key)
      obtain latest w' where g: "lib_getKode L (kode_key k) (world s) = (Inr latest, w')"
        "kode_key latest = kode_key k" "R w'"
        using R I unfolding obliging_def awaiting_def by blast
      have "kode_key (latest\<lparr>k_Status := t\<rparr>) = kode_key k" for t
        using g(2) by (simp add: kode_key_def)
      then have p: "fst (lib_patchKodeStatus L (latest\<lparr>k_Status := t\<rparr>) latest w') = None"
        "R (snd (lib_patchKodeStatus L (latest\<lparr>k_Status := t\<rparr>) latest w'))" for t
        using R g(3) unfolding obliging_def by auto
      show ?thesis
        using I p [of "k_Status (kode s)"]
        by (auto simp: UpdateStatus_attempt_eq go_simps api_get_def api_patch_status_def key g(1)
            awaiting_def split: prod.splits)
    qed
    then have "surely (awaiting k R log0) (UpdateStatus_attempt L) (\<lambda>err. err = None) (awaiting k R log0)"
      by (intro surelyI) auto
    then show ?thesis by (rule triple_weaken) auto
  qed
  then have "triple (awaiting k R log0) (UpdateStatus L)
      (\<lambda>err s. awaiting k R log0 s \<and> err = None) (\<lambda>_. False)"
    unfolding UpdateStatus_def by (rule triple_retry [OF L])
  then show ?thesis by (rule triple_weaken) auto
qed

lemma awaiting_update_or_stay:
  assumes "lawful L" "obliging L k R" "triple (awaiting k R log0) h Q (\<lambda>_. False)"
  shows "triple (awaiting k R log0) (update_or_stay L p h) Q (\<lambda>_. False)"
  unfolding update_or_stay_def
  by (rule triple_bind [OF awaiting_UpdateStatus [OF assms(1,2)]])
    (auto intro: triple_pre [OF assms(3)] split: option.split)

lemma awaiting_kode:
  "awaiting k R log0 s \<Longrightarrow> same_identity k k' \<Longrightarrow> GetPhase k' = PhaseDeleting \<Longrightarrow>
     awaiting k R log0 (s\<lparr>kode := k'\<rparr>)"
  by (simp add: awaiting_def)

lemma awaiting_set_condition:
  "triple (awaiting k R log0) (set_condition L t st re m) (\<lambda>_. awaiting k R log0) (\<lambda>_. False)"
  unfolding set_condition_def
  by (rule triple_modify)
    (auto simp: awaiting_def k_SetCondition_def SetCondition_def GetPhase_def)

lemma awaiting_check_gone:
  assumes "\<And>k'. same_identity k k' \<Longrightarrow> skip k' = skip k \<and> name k' = name k"
    and "skip k \<or> gone_in R request (child_key k (name k))"
  shows "surely (awaiting k R log0) (check_gone kind name skip request) (\<lambda>r. r = Inr True)
    (awaiting k R log0)"
proof -
  have "fst (check_gone kind name skip request s) = Ret (Inr True) \<and>
      awaiting k R log0 (snd (check_gone kind name skip request s))"
    if I: "awaiting k R log0 s" for s
  proof -
    have id: "same_identity k (kode s)" and R: "R (world s)" using I by (auto simp: awaiting_def)
    have key: "child_key (kode s) n = child_key k n" for n
      by (rule same_identity_resources(5) [OF id])
    note eq = assms(1) [OF id]
    show ?thesis
      using assms(2) I R
      by (auto simp: check_gone_def go_simps eq key api_get_def gone_in_def answers_NotFound_def
          awaiting_def Let_def split: prod.splits sum.splits)
  qed
  then show ?thesis by (intro surelyI) auto
qed

lemma awaiting_checkResourcesDeleted:
  assumes "obliging L k R"
  shows "surely (awaiting k R log0) (checkResourcesDeleted L) (\<lambda>r. r = Inr True) (awaiting k R log0)"
proof -
  have next_check: "surely (awaiting k R log0) (run_checks (c # cs)) (\<lambda>r. r = Inr True) (awaiting k R log0)"
    if "surely (awaiting k R log0) c (\<lambda>r. r = Inr True) (awaiting k R log0)"
      "surely (awaiting k R log0) (run_checks cs) (\<lambda>r. r = Inr True) (awaiting k R log0)"
    for c and cs :: "('a st, error + bool) go list"
    unfolding run_checks.simps
    by (rule triple_bind [OF that(1)]) (auto intro: triple_pre [OF that(2)] split: sum.split)
  have empty: "surely (awaiting k R log0) (run_checks []) (\<lambda>r. r = Inr True) (awaiting k R log0)"
    by (simp add: triple_return)
  show ?thesis
    unfolding checkResourcesDeleted_def
    by (intro next_check empty awaiting_check_gone)
      (use assms in \<open>auto simp: obliging_def dest: same_identity_resources(3,4,6-8)\<close>)
qed

lemma has_finalizer_identity:
  "same_identity k k' \<Longrightarrow> has_finalizer k' = has_finalizer k"
  by (simp add: same_identity_def has_finalizer_def GetFinalizer_def)

lemma given_up_emit: "triple (given_up k log0) (emit L et re m) (\<lambda>_. given_up k log0) (\<lambda>_. False)"
proof -
  have "keeps (given_up k log0) (emit L et re m)"
    unfolding emit_def record_event_def
    by (intro go_rules triple_modify) (simp_all add: given_up_def)
  from triple_conj [OF this no_panic_emit] show ?thesis by (rule triple_weaken) auto
qed

lemma awaiting_RemoveFinalizer:
  assumes L: "lawful L" and R: "obliging L k R"
  shows "surely (awaiting k R log0) (RemoveFinalizer L) (\<lambda>err. err = None) (given_up k log0)"
proof -
  have "fst (RemoveFinalizer L s) = Ret None \<and> given_up k log0 (snd (RemoveFinalizer L s))"
    if I: "awaiting k R log0 s" for s
  proof -
    have id: "same_identity k (kode s)" and key: "kode_key (kode s) = kode_key k"
      using I by (auto simp: awaiting_def same_identity_key)
    obtain latest w' where g: "lib_getKode L (kode_key k) (world s) = (Inr latest, w')"
      "kode_key latest = kode_key k" "R w'"
      using R I unfolding obliging_def awaiting_def by blast
    let ?fs = "lib_RemoveFinalizer L (k_Finalizers latest) (GetFinalizer (kode s))"
    have "kode_key (latest\<lparr>k_Finalizers := ?fs\<rparr>) = kode_key k" using g(2) by (simp add: kode_key_def)
    with R g(3) have "fst (lib_updateKode L (latest\<lparr>k_Finalizers := ?fs\<rparr>) w') = None"
      unfolding obliging_def by blast
    moreover have "GetFinalizer k \<notin> set ?fs"
      using L by (simp add: lawful_simps GetFinalizer_def)
    ultimately show ?thesis
      using I g \<open>kode_key (latest\<lparr>k_Finalizers := ?fs\<rparr>) = kode_key k\<close>
      by (auto simp: RemoveFinalizer_def go_simps api_get_def api_update_def key awaiting_def
          given_up_def split: prod.splits)
  qed
  then show ?thesis by (intro surelyI) auto
qed

lemma awaiting_deleting_finish:
  assumes L: "lawful L" and R: "obliging L k R" and fin: "has_finalizer k"
  shows "surely (awaiting k R log0) (deleting_finish L)
    (\<lambda>x. x = (PhaseDeleting, result_none, None)) (given_up k log0)"
  unfolding deleting_finish_def
proof (rule triple_bind [where R = "\<lambda>k' s. has_finalizer k' \<and> awaiting k R log0 s"])
  show "triple (awaiting k R log0) (gets_go kode) (\<lambda>k' s. has_finalizer k' \<and> awaiting k R log0 s) (\<lambda>_. False)"
    by (rule triple_gets) (use fin in \<open>auto simp: awaiting_def has_finalizer_identity\<close>)
next
  fix k'
  have released: "surely (given_up k log0)
      (then_go (emit L EventTypeNormal ''DeletionComplete'' ''Resource cleanup completed successfully'')
        (return_go (PhaseDeleting, result_none, None)))
      (\<lambda>x. x = (PhaseDeleting, result_none, None)) (given_up k log0)"
    by (rule triple_then [where R = "given_up k log0"])
      (auto intro: triple_return given_up_emit)
  have "surely (awaiting k R log0) (bind_go (RemoveFinalizer L) (\<lambda>err.
      case err of
        Some e \<Rightarrow> warn_and_fail L ''FinalizerRemovalFailed'' ''Failed to remove finalizer: '' e
                    ''Failed to remove finalizer''
      | None \<Rightarrow>
          then_go (emit L EventTypeNormal ''DeletionComplete'' ''Resource cleanup completed successfully'')
                  (return_go (PhaseDeleting, result_none, None))))
      (\<lambda>x. x = (PhaseDeleting, result_none, None)) (given_up k log0)"
    by (rule triple_bind [OF awaiting_RemoveFinalizer [OF L R]])
      (auto intro: triple_pre [OF released] split: option.split)
  then show "surely (\<lambda>s. has_finalizer k' \<and> awaiting k R log0 s)
     (if lib_ContainsFinalizer L (k_Finalizers k') KodeFinalizerName then
        bind_go (RemoveFinalizer L) (\<lambda>err.
          case err of
            Some e \<Rightarrow> warn_and_fail L ''FinalizerRemovalFailed'' ''Failed to remove finalizer: '' e
                        ''Failed to remove finalizer''
          | None \<Rightarrow>
              then_go (emit L EventTypeNormal ''DeletionComplete'' ''Resource cleanup completed successfully'')
                      (return_go (PhaseDeleting, result_none, None)))
      else return_go (PhaseDeleting, result_none, None))
      (\<lambda>x. x = (PhaseDeleting, result_none, None)) (given_up k log0)"
    by (cases "has_finalizer k'")
      (auto simp: lawful_simps [OF L] has_finalizer_def GetFinalizer_def intro: triple_pre)
qed

lemma triple_seq:
  "(\<And>m. m \<in> set ms \<Longrightarrow> triple P m (\<lambda>_. P) E) \<Longrightarrow> triple P (seq_go ms) (\<lambda>_. P) E"
  by (induction ms) (auto intro!: triple_then [where R = P] triple_return)

lemma awaiting_handleDeleting:
  assumes L: "lawful L" and R: "obliging L k R" and fin: "has_finalizer k"
  shows "surely (awaiting k R log0) (handleDeletingState L)
    (\<lambda>x. x = (PhaseDeleting, result_none, None)) (given_up k log0)"
  unfolding handleDeletingState_def
proof (rule triple_then [where R = "awaiting k R log0"])
  show "triple (awaiting k R log0) (seq_go
       [set_condition L ConditionTypeReady ConditionFalse ''Deleting'' ''Resource is being deleted'',
        set_condition L ConditionTypeAvailable ConditionFalse ''Deleting'' ''Resource is shutting down'',
        set_condition L ConditionTypeProgressing ConditionTrue ''Deleting''
          ''Resource deletion in progress'']) (\<lambda>_. awaiting k R log0) (\<lambda>_. False)"
    by (rule triple_seq) (auto intro: awaiting_set_condition)
qed (rule awaiting_update_or_stay [OF L R],
    rule triple_bind [OF awaiting_checkResourcesDeleted [OF R]],
    auto intro: triple_pre [OF awaiting_deleting_finish [OF L R fin]] split: sum.split)

lemma deleting_machine:
  assumes "surely P (handleDeletingState L) (\<lambda>x. x = (PhaseDeleting, r, None)) R"
    and "\<And>s. P s \<Longrightarrow> GetPhase (kode s) = PhaseDeleting"
  shows "surely P (run_machine L Y) (\<lambda>x. x = (r, None)) R"
proof (rule surelyI)
  fix s :: "'a st"
  assume I: "P s"
  then have phase: "st_GetPhase s = PhaseDeleting" using assms(2) by (simp add: st_GetPhase_def)
  obtain t where t: "handleDeletingState L s = (Ret (PhaseDeleting, r, None), t)" "R t"
    using triple_case [OF assms(1) I]
    by (cases "handleDeletingState L s"; cases "fst (handleDeletingState L s)") auto
  have "run_machine L Y s = (Ret (r, None), t)"
    using t(1) kode_sm.same_phase [of "kode_machine L Y" s "handleDeletingState L"] phase
    by (simp add: run_machine_def go_simps map_of_kode_machine)
  with t(2) show "\<exists>x. fst (run_machine L Y s) = Ret x \<and> x = (r, None) \<and> R (snd (run_machine L Y s))"
    by simp
qed

lemma deleting_run_machine:
  assumes L: "lawful L" and R: "obliging L k R" and fin: "has_finalizer k"
  shows "surely (awaiting k R log0) (run_machine L Y) (\<lambda>x. x = (result_none, None)) (given_up k log0)"
  by (rule deleting_machine [OF awaiting_handleDeleting [OF L R fin]]) (simp add: awaiting_def)

lemma awaiting_reset:
  assumes L: "lawful L" and R: "obliging L k R"
  shows "surely (awaiting k R log0) (reset_retries L) (\<lambda>err. err = None) (awaiting k R log0)"
  unfolding reset_retries_def
proof (rule triple_bind [where R = "\<lambda>_. awaiting k R log0"])
  fix k' :: Kode
  have chg: "triple (awaiting k R log0) (modify_status (\<lambda>t. t\<lparr>RetryCount := 0\<rparr>))
      (\<lambda>_. awaiting k R log0) (\<lambda>_. False)"
    unfolding modify_status_def by (rule triple_modify) (auto simp: awaiting_def GetPhase_def)
  show "surely (awaiting k R log0) (if GetPhase k' \<noteq> PhaseFailed \<and> RetryCount (k_Status k') > 0
      then then_go (modify_status (\<lambda>t. t\<lparr>RetryCount := 0\<rparr>)) (UpdateStatus L)
      else return_go None) (\<lambda>err. err = None) (awaiting k R log0)"
    by (auto intro!: triple_if triple_then [OF chg] triple_return
        intro: awaiting_UpdateStatus [OF L R])
qed (rule triple_gets, simp)

text \<open>Deletion is handled before anything else, once the generation was observed.\<close>

lemma Reconcile_finishes_deletion:
  assumes L: "lawful L" and R: "obliging L k R" and w: "R (world s)"
    and k: "fst (lib_getKode L (kode_key k) (world s)) = Inr k"
    and del: "k_DeletionTimestamp k \<noteq> None" and fin: "has_finalizer k"
    and gen: "k_Generation k = ObservedGeneration (k_Status k)"
  shows "\<exists>t. Reconcile L Y (kode_key k) s = (Ret (result_none, None), t) \<and> given_up k (reqlog s) t"
proof -
  obtain w' where w': "lib_getKode L (kode_key k) (world s) = (Inr k, w')" "R w'"
    using R w k unfolding obliging_def by (metis fst_conv)
  let ?k = "SetPhase PhaseDeleting k"
  let ?A = "awaiting k R (reqlog s)"
  let ?P = "\<lambda>u. ?A u \<and> kode u = ?k"
  let ?u = "s\<lparr>world := w', reqlog := reqlog s @ [ReqGet KindKode (kode_key k) Found], kode := ?k\<rparr>"
  let ?Q = "\<lambda>x. x = (result_none, None)"
  have start: "?P ?u" using w'(2) by (simp add: awaiting_def kode_res.get_set_phase)
  have upd: "triple ?P (UpdateStatus L) (\<lambda>err t. err = None \<and> ?P t) (\<lambda>_. False)"
    by (rule triple_weaken [OF triple_conj [OF awaiting_UpdateStatus [OF L R]
            keeps_UpdateStatus [OF L, of "\<lambda>u. kode u = ?k"]]])
      (auto simp: read_closed_def patch_closed_def)
  have run: "surely ?P (bind_go (reset_retries L) (\<lambda>err.
      case err of Some e \<Rightarrow> return_go (result_requeue, Some e) | None \<Rightarrow> run_machine L Y)) ?Q
      (given_up k (reqlog s))"
    by (rule triple_bind [OF triple_pre [OF awaiting_reset [OF L R]]])
      (auto intro: triple_pre [OF deleting_run_machine [OF L R fin]] split: option.split)
  have "k_Generation ?k = ObservedGeneration (k_Status ?k)" "k_Finalizers ?k = k_Finalizers k"
    "GetFinalizer ?k = GetFinalizer k"
    using gen by (simp_all add: SetPhase_def GetFinalizer_def)
  then have "reconcile_live L Y u = bind_go (reset_retries L) (\<lambda>err.
      case err of Some e \<Rightarrow> return_go (result_requeue, Some e) | None \<Rightarrow> run_machine L Y) u"
    if "kode u = ?k" for u
    using that fin ContainsFinalizer_iff [OF L, of k]
    by (simp add: reconcile_live_def bind_go_def [of "gets_go kode"] gets_go_run)
  then have live: "surely ?P (reconcile_live L Y) ?Q (given_up k (reqlog s))"
    using run by (simp add: triple_def)
  have "surely ?P (bind_go (UpdateStatus L) (\<lambda>err. case err of
      Some e \<Rightarrow> return_go (result_requeue, Some e) | None \<Rightarrow> reconcile_live L Y)) ?Q
      (given_up k (reqlog s))"
    by (rule triple_bind [OF upd]) (auto intro: triple_pre [OF live] split: option.split)
  from triple_case [OF this start] show ?thesis
    using w'(1) del fin
    by (auto simp: Reconcile_def api_get_def answer_of_def reconcile_fetched_def go_simps
        ContainsFinalizer_iff [OF L] set_phase_def split: prod.splits outcome.splits)
qed

end
