(* ===== verification/Scenario_Entrypoint.thy ===== *)
theory Scenario_Entrypoint
  imports Scenario Operator Kode_Progress
begin

text \<open>
  Concrete objects for the witnesses about the entrypoint controller: an active Kode, its template
  with a reference to an EntryPoint, and the EntryPoint with a security policy, in the store of
  Fake_Cluster.
\<close>

definition gate_ref :: CrossNamespaceObjectReference where
  "gate_ref = \<lparr>ref_APIVersion = None, ref_Kind = ''EntryPoint'', ref_Name = ''gate'',
     ref_Namespace = Some ''infra''\<rparr>"

definition gate_auth :: AuthSpec where
  "gate_auth = \<lparr>au_AuthType = ''extAuth'',
     au_SecurityPolicySpec = Some \<lparr>spec_ExtAuth = Some \<lparr>ea_HeadersToExtAuth = [],
       ea_HTTP = Some \<lparr>eah_HeadersToBackend = []\<rparr>, ea_GRPC = False\<rparr>\<rparr>,
     au_IdentityReference = Some ''sub''\<rparr>"

definition gate :: "string \<Rightarrow> EntryPoint" where
  "gate routing = \<lparr>e_Name = ''gate'', e_Namespace = ''infra'', e_Generation = 1, e_Finalizers = [],
     e_Spec = \<lparr>es_RoutingType = routing, es_BaseDomain = ''kode.dev'',
       es_GatewaySpec = Some \<lparr>gw_ExistingGatewayRef = None, gw_Protocol = ''https''\<rparr>,
       es_AuthSpec = Some gate_auth\<rparr>,
     e_Status = \<lparr>Conditions = [], ObservedGeneration = 1, LastError = None, LastErrorTime = None,
       Phase_of = PhasePending, ep_RetryCount = 0, ep_DeletionCycle = 0\<rparr>\<rparr>"

definition active_kode :: "string \<Rightarrow> Kode" where
  "active_kode url = (demo_kode PhaseActive None)
     \<lparr>k_Status := (demo_status PhaseActive 1)\<lparr>KodePort := 8000, KodeUrl := url\<rparr>\<rparr>"

definition gate_store :: "string \<Rightarrow> Kode \<Rightarrow> store" where
  "gate_store routing k = (demo_store k)
     \<lparr>fk_entrypoints := [(NamespacedName ''infra'' ''gate'', gate routing)],
      fk_templates := [(NamespacedName ''team'' ''dev'', demo_spec\<lparr>cs_EntryPointRef := Some gate_ref\<rparr>)]\<rparr>"

definition gate_st :: "string \<Rightarrow> Kode \<Rightarrow> store st" where
  "gate_st routing k = (demo_st k)\<lparr>world := gate_store routing k\<rparr>"

lemmas gate_defs = gate_ref_def gate_auth_def gate_def active_kode_def gate_store_def gate_st_def

lemmas entrypoint_run_defs = ep_createLabels_def InitEntryPointResourcesConfig_def
  constructParentReference_def constructRedirectRule_def constructBackendRule_def
  constructHTTPRouteRules_def constructRouteName_def constructHTTPRoute_def configureExtAuth_def
  constructSecurityPolicy_def findEntryPointForKode_def mutate_route_def mutate_policy_def
  record_result_def createOrUpdateRoute_def createOrUpdateSecurityPolicy_def route_failure_def
  wants_policy_def routes_ready_def ensureHTTPRoutes_def give_up_def publish_url_def
  reconcileKode_def ep_Reconcile_def ep_key_def fk_patchEntryPoint_def fk_updateEntryPoint_def
  fk_answerStatus_def G0_def

lemma gate_fetch [simp]: "fst (lib_getKode L0 demo_key (world (gate_st routing k))) = Inr k"
  by (simp add: L0_def fk_get_def gate_st_def gate_store_def demo_st_def demo_store_def)

lemma active_kode_phase [simp]: "GetPhase (active_kode url) = PhaseActive"
  by (simp add: active_kode_def GetPhase_def demo_status_def)

text \<open>The EntryPoint routes by a type the operator does not know: the Kode is declared failed.\<close>

definition failed_status :: KodeStatus where
  "failed_status = (k_Status (active_kode ''''))
     \<lparr>Conditions := [\<lparr>co_Type = ConditionTypeError, co_Status = ConditionTrue,
        co_Reason = ''ReconciliationFailed'',
        co_Message = ''Failed to construct Kode URL: unsupported routing type: host'',
        co_LastTransitionTime = 100\<rparr>],
      Phase_of := PhaseFailed, LastError := Some ''unsupported routing type: host'',
      LastErrorTime := Some 100\<rparr>"

lemma gate_failed:
  "ReqPatchStatus demo_key failed_status True
     \<in> set (new_requests (gate_st ''host'' (active_kode ''''))
          (snd (ep_Reconcile L0 G0 demo_key (gate_st ''host'' (active_kode '''')))))"
  by (simp add: failed_status_def entrypoint_run_defs gate_defs run_defs demo_defs new_requests_def
      eval_nat_numeral)

lemma port_8000 [simp]: "(8000 :: int32) \<noteq> 0"
  by simp

subsection \<open>A Kode whose spec was edited before it was first reconciled\<close>

definition mismatch_condition :: "ConditionType \<Rightarrow> ConditionStatus \<Rightarrow> Condition" where
  "mismatch_condition t st = \<lparr>co_Type = t, co_Status = st, co_Reason = ''GenerationMismatch'',
     co_Message = ''Generation mismatch detected, resource is being updated'',
     co_LastTransitionTime = 100\<rparr>"

definition updating_status :: KodeStatus where
  "updating_status = (demo_status PhaseUpdating 1)\<lparr>Conditions :=
     [mismatch_condition ConditionTypeReady ConditionFalse,
      mismatch_condition ConditionTypeAvailable ConditionFalse,
      mismatch_condition ConditionTypeProgressing ConditionTrue]\<rparr>"

definition edited_kode :: Kode where
  "edited_kode = (demo_kode (PhaseOther '''') None)\<lparr>k_Status := demo_status (PhaseOther '''') 0\<rparr>"

lemma edited_patch:
  "ReqPatchStatus demo_key updating_status True \<in> set (new_requests (demo_st edited_kode)
     (snd (Reconcile L0 demo_yaml demo_key (demo_st edited_kode))))"
  by (simp add: run_defs demo_defs new_requests_def eval_nat_numeral edited_kode_def
      updating_status_def mismatch_condition_def)

lemma edited_operated: "operated L0 G0 demo_yaml (edited_kode\<lparr>k_Status := updating_status\<rparr>)"
  by (rule operated.by_kode [OF operated.created demo_fetch edited_patch])
    (simp add: edited_kode_def GetPhase_def demo_status_def)

subsection \<open>A deleted Kode whose children are gone\<close>

text \<open>The worlds in which the fake API server obliges: the Kode is there, its children are not.\<close>

definition childless :: "store \<Rightarrow> bool" where
  "childless w \<longleftrightarrow> (\<exists>k. map_of (fk_kodes w) demo_key = Some k \<and> kode_key k = demo_key) \<and>
     fk_secrets w = [] \<and> fk_services w = [] \<and> fk_statefulsets w = [] \<and> fk_pvcs w = []"

lemma kode_key_status [simp]: "kode_key (k\<lparr>k_Status := t\<rparr>) = kode_key k"
  by (simp add: kode_key_def)

lemma obliging_childless: "kode_key k = demo_key \<Longrightarrow> obliging L0 k childless"
  by (auto simp: obliging_def gone_in_def childless_def L0_def fk_get_def fk_patchStatus_def
      fk_updateKode_def not_found_def answers_NotFound_def update_conv' split: option.splits)

lemma childless_demo_st: "kode_key k = demo_key \<Longrightarrow> childless (world (demo_st k))"
  by (simp add: childless_def demo_st_def demo_store_def)

lemma demo_kode_key [simp]: "kode_key (demo_kode p del) = demo_key"
  by (simp add: kode_key_def demo_kode_def fresh_kode_def demo_key_def)

end
