(* ===== verification/Data_Properties.thy ===== *)
theory Data_Properties
  imports Kode_Convergence Scenario_Entrypoint
begin

text \<open>
  Properties of the operator's data: validation, credentials, labels, addresses, the template cache,
  and the configuration of the sidecar.
\<close>

section \<open>Validation\<close>

lemma plugin_errors_indices:
  "plugin_errors i ps =
     map (\<lambda>j. ''initPlugin['' @ itoa (int j) @ '']: image is required'')
       (filter (\<lambda>j. ip_Image (ps ! (j - i)) = '''') [i..<i + length ps])"
proof (induction ps arbitrary: i)
  case (Cons p ps)
  have shift: "filter (\<lambda>j. ip_Image ((p # ps) ! (j - i)) = '''') [Suc i..<Suc i + length ps] =
      filter (\<lambda>j. ip_Image (ps ! (j - Suc i)) = '''') [Suc i..<Suc i + length ps]"
    by (rule filter_cong) (auto simp: nth_Cons' diff_Suc split: nat.splits)
  have "[i..<i + length (p # ps)] = i # [Suc i..<Suc i + length ps]"
    by (simp add: upt_conv_Cons del: upt_Suc)
  with Cons [of "Suc i"] shift show ?case
    by (simp add: validateInitPlugin_def del: upt_Suc)
qed simp

text \<open>
  C33. Validation is exact: the errors are one message for each init plugin without an image, with its
  index, in the order of the plugins, and the result is valid exactly if there is none.
\<close>

theorem ValidateKode_exact:
  "(let ps = ks_InitPlugins (k_Spec k) in
    Errors (ValidateKode k) =
      map (\<lambda>i. ''initPlugin['' @ itoa (int i) @ '']: image is required'')
        (filter (\<lambda>i. ip_Image (ps ! i) = '''') [0..<length ps]) \<and>
    Valid (ValidateKode k) = (Errors (ValidateKode k) = []))"
  using plugin_errors_indices [of 0]
  by (simp add: Errors_ValidateKode Valid_ValidateKode plugin_errors_empty Let_def
      flip: plugin_errors_empty [of 0])

section \<open>Secrets\<close>

definition sensitive :: "string \<Rightarrow> bool" where
  "sensitive key \<longleftrightarrow> key = ''password'' \<or> key = ''secret''"

lemma MaskString_eq_iff: "MaskString a = MaskString b \<longleftrightarrow> length a = length b"
  by (metis MaskString_replicate length_replicate)

text \<open>
  A masked secret shows of its sensitive entries the length and nothing else: two secrets look
  the same when masked exactly if they have the same keys in the same order, equal values under the
  other keys, and values of equal length under \<^verbatim>\<open>password\<close> and \<^verbatim>\<open>secret\<close>.
\<close>

theorem MaskSecretData_hides:
  "MaskSecretData s = MaskSecretData t \<longleftrightarrow>
     list_all2 (\<lambda>(k, v) (k', v').
         k = k' \<and> (if sensitive k then length v = length v' else v = v'))
       (sec_Data s) (sec_Data t)"
proof -
  have "map (\<lambda>(k, v). if sensitive k then (k, MaskString v) else (k, v)) xs =
      map (\<lambda>(k, v). if sensitive k then (k, MaskString v) else (k, v)) ys \<longleftrightarrow>
      list_all2 (\<lambda>(k, v) (k', v').
         k = k' \<and> (if sensitive k then length v = length v' else v = v')) xs ys" for xs ys
    by (induction xs arbitrary: ys; case_tac ys) (auto simp: MaskString_eq_iff split: if_splits)
  then show ?thesis by (simp add: MaskSecretData_def sensitive_def)
qed

text \<open>
  C34. What is written is read back: from a secret that the mutate function filled for some
  credentials, \<open>GetUsernameAndPasswordFromSecret\<close> returns exactly these credentials, or the error
  for a missing user name where that is empty.
\<close>

theorem credentials_roundtrip:
  assumes "mutate_secret L config x s = (Ret (Inr secret), t)" and "rc_Credentials config = Some cr"
  shows "GetUsernameAndPasswordFromSecret secret =
    (if cr_Username cr = '''' then Inl (ErrorText ''username not found in secret'')
     else Inr (cr_Username cr, cr_Password cr))"
  using mutate_secret_run [OF assms]
  by (simp add: GetUsernameAndPasswordFromSecret_def secret_data_def data_lookup_def)

theorem credentials_roundtrip_witness:
  "GetUsernameAndPasswordFromSecret demo_secret = Inr (''abc'', '''')"
proof -
  obtain cr where cr: "rc_Credentials demo_config = Some cr"
    "cr_Username cr = ''abc''" "cr_Password cr = ''''"
    by (simp add: demo_config_def InitKodeResourcesConfig_def demo_kode_def fresh_kode_def
        DefaultUsername_def)
  have "mutate_secret L0 demo_config demo_secret demo_converged_st =
      (Ret (Inr demo_secret), demo_converged_st)"
    by (simp add: demo_converged_st_def demo_config_def run_defs demo_defs)
  from credentials_roundtrip [OF this cr(1)] show ?thesis by (simp add: cr)
qed

section \<open>Labels\<close>

lemma fold_last_wins:
  "fold (\<lambda>ls m. m ++ map_of ls) slices m key =
     (case find (\<lambda>ls. map_of ls key \<noteq> None) (rev slices) of
        None \<Rightarrow> m key | Some ls \<Rightarrow> map_of ls key)"
proof (induction slices rule: rev_induct)
  case (snoc ls slices)
  then show ?case by (auto simp: map_add_def split: option.split)
qed simp

text \<open>
  The last one wins: looking a key up in merged labels gives its value in the last of the maps
  that has it.
\<close>

theorem MergeLabels_last_wins:
  assumes "\<And>ls. ls \<in> set slices \<Longrightarrow> distinct (map fst ls)"
  shows "map_of (MergeLabels slices) key =
    (case find (\<lambda>ls. map_of ls key \<noteq> None) (rev slices) of None \<Rightarrow> None | Some ls \<Rightarrow> map_of ls key)"
  using fold_last_wins [of slices Map.empty key] map_of_MergeLabels [OF assms] by simp

theorem MergeLabels_last_wins_witness:
  "map_of (MergeLabels [[(''app'', ''a''), (''team'', ''t'')], [(''app'', ''b'')]]) ''app'' = Some ''b''"
proof -
  let ?slices = "[[(''app'', ''a''), (''team'', ''t'')], [(''app'', ''b'')]]"
  have "distinct (map fst ls)" if "ls \<in> set ?slices" for ls :: labels
    using that by auto
  from MergeLabels_last_wins [of ?slices, OF this] show ?thesis by simp
qed

section \<open>Addresses\<close>

text \<open>
  Under one EntryPoint a URL belongs to one name: the URLs generated for two Kodes are the same
  exactly if the Kodes have the same name. The namespace plays no part, so two Kodes of the same name
  in different namespaces share a URL.
\<close>

theorem url_identifies_name:
  assumes "GenerateKodeUrlForEntryPoint ty domain n protocol = Inr a"
    and "GenerateKodeUrlForEntryPoint ty domain m protocol = Inr b"
  shows "ka_Url a = ka_Url b \<longleftrightarrow> n = m"
  using assms by (auto simp: GenerateKodeUrlForEntryPoint_def Let_def split: if_splits)

theorem url_identifies_name_witness:
  "\<exists>a b. GenerateKodeUrlForEntryPoint ''path'' ''kode.dev'' ''alice'' ''https'' = Inr a \<and>
     GenerateKodeUrlForEntryPoint ''path'' ''kode.dev'' ''bob'' ''https'' = Inr b \<and> ka_Url a \<noteq> ka_Url b"
proof -
  have "GenerateKodeUrlForEntryPoint ''path'' ''kode.dev'' n ''https'' =
      Inr \<lparr>ka_Hostname = n, ka_Domain = ''kode.dev'', ka_Url = ''https://kode.dev/'' @ n,
           ka_Path = ''/'' @ n\<rparr>" for n
    by (simp add: GenerateKodeUrlForEntryPoint_def Let_def RoutingTypePath_def RoutingTypeSubdomain_def)
  from this [of "''alice''"] this [of "''bob''"] url_identifies_name [OF this this, of "''alice''" "''bob''"]
  show ?thesis by (intro exI conjI) (assumption | simp)+
qed

section \<open>The template cache\<close>

text \<open>Every cached template is complete and stands under its own key.\<close>

definition template_key :: "Template \<Rightarrow> string" where
  "template_key t = t_Kind t @ ''/'' @ t_Namespace t @ ''/'' @ t_Name t"

definition cache_ok :: "Template gomap \<Rightarrow> bool" where
  "cache_ok c \<longleftrightarrow> list_all (\<lambda>(key, t). template_wf t \<and> template_key t = key) c"

lemma fill_template_namespace [simp]: "t_Namespace (fill_template spec t) = t_Namespace t"
  by (simp add: fill_template_def Let_def)

lemma yields_fetchTemplate_key:
  "yields (fetchTemplate L ref)
     (\<lambda>r. case r of Inl e \<Rightarrow> \<not> IsNotFound e | Inr t \<Rightarrow> template_wf t \<and> template_key t = getCacheKey ref)"
proof -
  let ?t0 = "\<lparr>t_Kind = ref_Kind ref, t_Name = ref_Name ref,
            t_Namespace = (case ref_Namespace ref of None \<Rightarrow> '''' | Some n \<Rightarrow> n),
            t_Port = 0, t_ContainerTemplateSpec = None, t_EntryPointRef = None,
            t_EntryPointSpec = None\<rparr>"
  let ?A = "\<lambda>r. case r of Inl e \<Rightarrow> \<not> IsNotFound e
       | Inr t \<Rightarrow> template_wf t \<and> template_key t = getCacheKey ref"
  have "yields (fetchContainerTemplate L ?t0 ref) ?A" "yields (fetchClusterContainerTemplate L ?t0 ref) ?A"
    unfolding fetchContainerTemplate_def fetchClusterContainerTemplate_def Let_def
    by (intro yield_rules; auto simp: fill_template_wf template_key_def getCacheKey_def
        handleNotFoundError_def)+
  then show ?thesis
    unfolding fetchTemplate_def Let_def
    by (intro yields_if yields_bind_strong [where B = ?A] yield_rules)
      (auto simp: template_wf_def template_key_def split: option.splits)
qed

lemma cache_ok_update: "cache_ok c \<Longrightarrow> template_wf t \<Longrightarrow> cache_ok (AList.update (template_key t) t c)"
  by (induction c) (auto simp: cache_ok_def)

lemma cache_ok_lookup:
  "cache_ok c \<Longrightarrow> map_of c key = Some t \<Longrightarrow> template_wf t \<and> template_key t = key"
  by (auto simp: cache_ok_def list_all_iff dest!: map_of_SomeD)

lemma triple_backoff:
  assumes "lawful L" and "triple I f (\<lambda>r s. I s \<and> Q r s) E"
  shows "triple I (lib_ExponentialBackoff L n f)
    (\<lambda>r s. I s \<and> (case r of Inr t \<Rightarrow> Q (Inr (Some t)) s | Inl e \<Rightarrow> True)) E"
proof -
  have "backoff_law (lib_ExponentialBackoff L)" using assms(1) by (simp add: lawful_def)
  then show ?thesis using assms(2) unfolding backoff_law_def by (elim allE impE)
qed

lemma backoff_yields:
  assumes "lawful L"
  shows "triple (\<lambda>s. cache_ok (cache s)) (lib_ExponentialBackoff L n (fetch_condition L ref))
    (\<lambda>r s. cache_ok (cache s) \<and>
       (case r of Inl e \<Rightarrow> True | Inr t \<Rightarrow> template_wf t \<and> template_key t = getCacheKey ref))
    (\<lambda>s. cache_ok (cache s))"
proof -
  let ?I = "\<lambda>s :: 'a st. cache_ok (cache s)"
  let ?Q = "\<lambda>r (s :: 'a st). case r of Inr (Some t) \<Rightarrow> template_wf t \<and> template_key t = getCacheKey ref
      | _ \<Rightarrow> True"
  have keep: "keeps ?I (fetch_condition L ref)"
    by (rule keeps_fetch_condition) (simp add: read_closed_def)
  have "yields (fetch_condition L ref)
      (\<lambda>r. case r of Inr (Some t) \<Rightarrow> template_wf t \<and> template_key t = getCacheKey ref | _ \<Rightarrow> True)"
    unfolding fetch_condition_def
    by (rule yields_bind_strong [OF yields_fetchTemplate_key]) (auto intro!: yield_rules)
  with keep have "triple ?I (fetch_condition L ref) (\<lambda>r s. ?I s \<and> ?Q r s) ?I"
    by (auto intro!: tripleI dest: tripleD triple_panicD yieldsD)
  from triple_backoff [OF assms, where Q = ?Q, OF this] show ?thesis
    by (rule triple_weaken) (auto split: sum.splits)
qed

text \<open>
  C29. The cache stays coherent: fetching keeps the invariant that every cached template is complete
  and stored under the key of its kind, namespace and name, along failing runs too; and what is
  returned, from the cache or from the API server, is a complete template of the reference asked for.
\<close>

theorem Fetch_cache_coherent:
  assumes "lawful L" and "cache_ok (cache s)" and "Fetch L ref s = (r, t)"
  shows "cache_ok (cache t) \<and>
    (case r of Ret (Inr template) \<Rightarrow> template_wf template \<and> template_key template = getCacheKey ref
     | _ \<Rightarrow> True)"
proof -
  let ?I = "\<lambda>s :: 'a st. cache_ok (cache s)"
  let ?Q = "\<lambda>r (s :: 'a st). ?I s \<and>
    (case r of Inl e \<Rightarrow> True | Inr t \<Rightarrow> template_wf t \<and> template_key t = getCacheKey ref)"
  have store: "triple (\<lambda>s. ?Q (Inr t) s) (then_go
      (modify_go (\<lambda>s. s\<lparr>cache := AList.update (getCacheKey ref) t (cache s)\<rparr>)) (return_go (Inr t))) ?Q ?I"
    for t
  proof (rule triple_then [OF triple_modify])
    fix s :: "'a st" assume "?Q (Inr t) s"
    then show "?Q (Inr t) (s\<lparr>cache := AList.update (getCacheKey ref) t (cache s)\<rparr>)"
      using cache_ok_update [of "cache s" t] by simp
  next
    show "triple (?Q (Inr t)) (return_go (Inr t)) ?Q ?I" by (rule triple_return) simp
  qed
  have hit: "triple (\<lambda>s. ?I s \<and> map_of (cache s) (getCacheKey ref) = hit)
      (case hit of Some t \<Rightarrow> return_go (Inr t)
       | None \<Rightarrow> bind_go (lib_ExponentialBackoff L backoff_Steps (fetch_condition L ref)) (\<lambda>r.
           case r of
             Inl e \<Rightarrow> return_go (Inl (Wrapped ''failed to fetch template after retries: '' e))
           | Inr t \<Rightarrow> then_go
               (modify_go (\<lambda>s. s\<lparr>cache := AList.update (getCacheKey ref) t (cache s)\<rparr>))
               (return_go (Inr t)))) ?Q ?I" for hit
  proof (cases hit)
    case None
    have "triple ?I (bind_go (lib_ExponentialBackoff L backoff_Steps (fetch_condition L ref)) (\<lambda>r.
           case r of
             Inl e \<Rightarrow> return_go (Inl (Wrapped ''failed to fetch template after retries: '' e))
           | Inr t \<Rightarrow> then_go
               (modify_go (\<lambda>s. s\<lparr>cache := AList.update (getCacheKey ref) t (cache s)\<rparr>))
               (return_go (Inr t)))) ?Q ?I"
      by (rule triple_bind [OF backoff_yields [OF assms(1)]], rule triple_case_sum)
        (auto intro!: triple_return intro: triple_pre [OF store])
    then show ?thesis unfolding None by (auto elim: triple_pre)
  qed (auto simp: triple_def go_simps dest: cache_ok_lookup)
  have "triple ?I (Fetch L ref) ?Q ?I"
    unfolding Fetch_def Let_def
    by (intro triple_case_option triple_return triple_bind [OF triple_gets hit]) auto
  from triple_case [OF this assms(2)] assms(3) show ?thesis by (cases r) (auto split: sum.splits)
qed

lemma gate_fetch_run:
  "\<exists>template t. Fetch L0 demo_ref (gate_st ''path'' k) = (Ret (Inr template), t)"
  by (simp add: entrypoint_run_defs gate_defs run_defs demo_defs eval_nat_numeral)

theorem Fetch_cache_coherent_witness:
  "\<exists>template. fst (Fetch L0 demo_ref (gate_st ''path'' fresh_kode)) = Ret (Inr template) \<and>
     template_key template = ''ContainerTemplate/team/dev''"
proof -
  obtain template t where run: "Fetch L0 demo_ref (gate_st ''path'' fresh_kode) = (Ret (Inr template), t)"
    using gate_fetch_run by blast
  have "cache_ok (cache (gate_st ''path'' fresh_kode))"
    by (simp add: gate_st_def demo_st_def cache_ok_def)
  from Fetch_cache_coherent [OF lawful_L0 this run] run show ?thesis
    by (simp add: getCacheKey_def demo_ref_def)
qed

text \<open>
  A template is fetched once: after a fetch that succeeded, fetching the same reference again
  returns the same template and changes nothing, the history of requests included. So a template that
  changes in the cluster is not seen before the operator restarts.
\<close>

theorem Fetch_once:
  assumes "Fetch L ref s = (Ret (Inr template), t)"
  shows "Fetch L ref t = (Ret (Inr template), t)"
proof -
  obtain v: "validateRef ref = None" using assms by (cases "validateRef ref") (auto simp: Fetch_def go_simps Let_def)
  show ?thesis
  proof (cases "map_of (cache s) (getCacheKey ref)")
    case None
    with assms v have "map_of (cache t) (getCacheKey ref) = Some template"
      by (auto simp: Fetch_def go_simps Let_def update_conv' split: prod.splits outcome.splits sum.splits)
    then show ?thesis by (simp add: Fetch_def v go_simps Let_def)
  qed (use assms v in \<open>auto simp: Fetch_def go_simps Let_def\<close>)
qed

theorem Fetch_once_witness:
  "\<exists>template t. Fetch L0 demo_ref (gate_st ''path'' fresh_kode) = (Ret (Inr template), t) \<and>
     Fetch L0 demo_ref t = (Ret (Inr template), t)"
  using gate_fetch_run Fetch_once by blast

text \<open>
  What \<^verbatim>\<open>wait.ExponentialBackoff\<close> documents of its error: it is the one of the condition function, or
  the time-out.
\<close>

definition backoff_reports ::
  "(nat \<Rightarrow> ('w st, error + Template option) go \<Rightarrow> ('w st, error + Template) go) \<Rightarrow> bool" where
  "backoff_reports B \<longleftrightarrow>
     (\<forall>A n f. yields f A \<longrightarrow>
        yields (B n f) (\<lambda>r. case r of Inl e \<Rightarrow> e = WaitTimeout \<or> A (Inl e) | Inr t \<Rightarrow> True))"

lemma yields_fetch_condition: "yields (fetch_condition L ref) (\<lambda>r. \<exists>found. r = Inr found)"
  unfolding fetch_condition_def
  by (rule yields_bind_strong [OF yields_fetchTemplate_key]) (auto intro!: yield_rules)

lemma yields_Fetch_error:
  assumes "backoff_reports (lib_ExponentialBackoff L)"
  shows "yields (Fetch L ref) (\<lambda>r. case r of Inl e \<Rightarrow> \<not> IsNotFound e | Inr t \<Rightarrow> True)"
proof -
  have "yields (lib_ExponentialBackoff L n (fetch_condition L ref))
      (\<lambda>r. case r of Inl e \<Rightarrow> e = WaitTimeout | Inr t \<Rightarrow> True)" for n
    using assms yields_fetch_condition [of L ref] unfolding backoff_reports_def
    by (fastforce elim: yields_weaken split: sum.splits)
  note backoff = this
  have "validateRef ref = Some e \<Longrightarrow> \<not> IsNotFound e" for e
    by (auto simp: validateRef_def split: if_splits)
  then show ?thesis
    unfolding Fetch_def Let_def
    by (intro yields_case_option yields_bind [of _ _ "gets_go f" for f] yields_return
        yields_bind_strong [OF backoff] yields_case_sum yields_then) (auto split: sum.splits)
qed

text \<open>
  C30. A missing template is never noticed as missing: whatever the API server answers, the condition
  function of the backoff does not stop with an error, no error of \<open>Fetch\<close> is one that \<^verbatim>\<open>IsNotFound\<close>
  recognises, and \<open>fetchTemplatesWithRetry\<close> never says \<^verbatim>\<open>template not found\<close>. The error type for a missing
  template carries no API status. So the code does not do what it means to: the early return with the
  comment \<^verbatim>\<open>Don't retry for NotFound errors\<close> (template.go:60) and the branch for a missing template
  (utils.go:48) are dead, and a missing template is retried until the time-out like any other error.
\<close>

theorem missing_template_unnoticed:
  assumes "backoff_reports (lib_ExponentialBackoff L)"
  shows "fst (fetch_condition L ref s) \<noteq> Ret (Inl e) \<and>
    (fst (Fetch L ref s) = Ret (Inl e) \<longrightarrow> \<not> IsNotFound e) \<and>
    fst (fetchTemplatesWithRetry L s) \<noteq> Ret (Inl (Wrapped ''template not found: '' e))"
proof -
  have "yields (fetchTemplatesWithRetry L) (\<lambda>r. r \<noteq> Inl (Wrapped ''template not found: '' e))"
    unfolding fetchTemplatesWithRetry_def Let_def
    by (rule yields_bind, rule yields_bind_strong [OF yields_Fetch_error [OF assms]]) (auto intro!: yield_rules)
  then show ?thesis
    using yieldsD [OF yields_fetch_condition [of L ref], of s] yieldsD [OF yields_Fetch_error [OF assms], of ref s]
    by (cases "fetch_condition L ref s"; cases "Fetch L ref s"; cases "fetchTemplatesWithRetry L s")
      (auto dest: yieldsD)
qed

lemma fk_backoff_reports: "backoff_reports fk_backoff"
proof -
  have "yields (fk_backoff n f) (\<lambda>r. case r of Inl e \<Rightarrow> e = WaitTimeout \<or> A (Inl e) | Inr t \<Rightarrow> True)"
    if "yields f A" for n A and f :: "('s, error + Template option) go"
    by (induction n) (auto intro!: yield_rules yields_bind_strong [OF that])
  then show ?thesis unfolding backoff_reports_def by blast
qed

theorem missing_template_unnoticed_witness:
  "\<exists>e. fst (Fetch L0 (demo_ref\<lparr>ref_Name := ''none''\<rparr>) (demo_st fresh_kode)) = Ret (Inl e) \<and> \<not> IsNotFound e"
proof -
  have "\<exists>e. fst (Fetch L0 (demo_ref\<lparr>ref_Name := ''none''\<rparr>) (demo_st fresh_kode)) = Ret (Inl e)"
    by (simp add: run_defs demo_defs eval_nat_numeral)
  moreover have "backoff_reports (lib_ExponentialBackoff L0)" by (simp add: L0_def fk_backoff_reports)
  ultimately show ?thesis using missing_template_unnoticed by blast
qed

section \<open>The sidecar\<close>

text \<open>
  What Envoy reads in the YAML tree of its configuration: \<open>sel\<close> follows a path of keys through maps and
  through all elements of the lists on the way.
\<close>

fun entries :: "string \<Rightarrow> yaml \<Rightarrow> yaml list" where
  "entries key (YamlMap m) =
     (case map_of m key of None \<Rightarrow> [] | Some (YamlList vs) \<Rightarrow> vs | Some v \<Rightarrow> [v])"
| "entries key v = []"

primrec sel :: "string list \<Rightarrow> yaml \<Rightarrow> yaml list" where
  "sel [] v = [v]"
| "sel (key # path) v = concat (map (sel path) (entries key v))"

definition listeners :: "yaml \<Rightarrow> yaml list" where
  "listeners = sel [''static_resources'', ''listeners'']"

definition defined_clusters :: "yaml \<Rightarrow> yaml list" where
  "defined_clusters = sel [''static_resources'', ''clusters'', ''name'']"

text \<open>The connection managers of a listener, known by the type that their configuration names.\<close>

definition managers :: "yaml \<Rightarrow> yaml list" where
  "managers listener = filter (\<lambda>m. sel [''@type''] m = [YamlString
       ''type.googleapis.com/envoy.extensions.filters.network.http_connection_manager.v3.HttpConnectionManager''])
     (sel [''filter_chains'', ''filters'', ''typed_config''] listener)"

text \<open>
  The names of clusters in a tree: the field \<^verbatim>\<open>cluster\<close> of a route, and \<^verbatim>\<open>cluster_name\<close> in the
  configuration of a filter. In a listener these are references; in a cluster's own load assignment
  the second is not, so only listeners are searched.
\<close>

function cluster_refs :: "yaml \<Rightarrow> yaml list" where
  "cluster_refs (YamlMap []) = []"
| "cluster_refs (YamlMap ((k, v) # m)) =
     (if k = ''cluster'' \<or> k = ''cluster_name'' then [v] else cluster_refs v) @ cluster_refs (YamlMap m)"
| "cluster_refs (YamlList []) = []"
| "cluster_refs (YamlList (v # vs)) = cluster_refs v @ cluster_refs (YamlList vs)"
| "cluster_refs (YamlString s) = []"
| "cluster_refs YamlNull = []"
| "cluster_refs (YamlInt i) = []"
| "cluster_refs (YamlBool b) = []"
  by pat_completeness auto
termination by (relation "measure size") auto

definition used_clusters :: "yaml \<Rightarrow> yaml list" where
  "used_clusters tree = concat (map cluster_refs (listeners tree))"

text \<open>The filters of all connection managers, in their order.\<close>

definition http_filters :: "yaml \<Rightarrow> yaml list" where
  "http_filters tree = concat (map (sel [''http_filters'', ''name'']) (concat (map managers (listeners tree))))"

definition yaml_faithful :: "yaml_lib \<Rightarrow> bool" where
  "yaml_faithful Y \<longleftrightarrow> (\<forall>h text. yaml_MarshalHCM Y h = Inr text \<longrightarrow>
     yaml_UnmarshalMap Y text = Inr (yaml_HTTPConnectionManager h))"

text \<open>The bootstrap configuration when the connection manager is read back as it was.\<close>

definition faithful_bootstrap :: "KodeResourceConfig \<Rightarrow> bool \<Rightarrow> BootstrapConfig" where
  "faithful_bootstrap config auth =
     bootstrap_config config auth (yaml_HTTPConnectionManager (http_connection_manager auth))"

lemma GenerateEnvoyConfig_faithful:
  "yaml_faithful Y \<Longrightarrow> GenerateEnvoyConfig Y config auth = Inr text \<Longrightarrow>
     yaml_MarshalBootstrap Y (faithful_bootstrap config auth) = Inr text"
  by (auto simp: GenerateEnvoyConfig_def yaml_faithful_def faithful_bootstrap_def split: sum.splits)

lemmas tree_defs = faithful_bootstrap_def bootstrap_config_def http_connection_manager_def getClusters_def
  static_cluster_def getHTTPFilters_def ext_authz_config_def router_config_def yaml_defs unless_def
  LocalityLbEndpoints_zero_def LbEndpoint_zero_def Endpoint_zero_def DynamicValue_zero_def
  socket_address_def Address_zero_def SocketAddress_zero_def listeners_def managers_def

text \<open>
  C28. The Envoy configuration is closed: whether or not authentication is on, and whatever the port, the
  clusters that its listeners refer to, in routes and in filters, are exactly those it defines, each of
  them defined once and with a load assignment of its own name; the cluster of the authentication
  service is there exactly if authentication is asked for; and the connection managers of the listeners
  have the router as their last filter, with the authentication filter before it exactly if it is asked
  for. All of this is read from the YAML tree of the configuration that is written. The connection
  manager is marshalled and read back by the YAML library; for a library that gives the tree of the
  struct back, it is the tree of what the code built.
\<close>

theorem envoy_config_closed:
  assumes "yaml_faithful Y" and "GenerateEnvoyConfig Y config auth = Inr text"
  shows "\<exists>b. yaml_MarshalBootstrap Y b = Inr text \<and>
    (let tree = yaml_BootstrapConfig b in
     distinct (defined_clusters tree) \<and> set (used_clusters tree) = set (defined_clusters tree) \<and>
     sel [''static_resources'', ''clusters'', ''load_assignment'', ''cluster_name''] tree = defined_clusters tree \<and>
     (YamlString ''basic_auth_service'' \<in> set (defined_clusters tree) \<longleftrightarrow> auth) \<and>
     http_filters tree = (if auth then [YamlString ''envoy.filters.http.ext_authz''] else []) @
       [YamlString ''envoy.filters.http.router''])"
  by (rule exI [of _ "faithful_bootstrap config auth"])
    (use GenerateEnvoyConfig_faithful [OF assms] in \<open>simp add: Let_def tree_defs defined_clusters_def
      used_clusters_def http_filters_def\<close>)

text \<open>A library that can write one connection manager, and reads it back.\<close>

definition one_yaml :: "HTTPConnectionManager \<Rightarrow> yaml_lib" where
  "one_yaml h0 = \<lparr>yaml_MarshalHCM = (\<lambda>h. if h = h0 then Inr ''hcm'' else Inl (ErrorText ''other'')),
     yaml_UnmarshalMap = (\<lambda>text. Inr (yaml_HTTPConnectionManager h0)),
     yaml_MarshalBootstrap = (\<lambda>b. Inr ''bootstrap'')\<rparr>"

theorem envoy_config_closed_witness:
  "\<exists>b. yaml_MarshalBootstrap (one_yaml (http_connection_manager True)) b = Inr ''bootstrap'' \<and>
     set (used_clusters (yaml_BootstrapConfig b)) = set (defined_clusters (yaml_BootstrapConfig b))"
proof -
  let ?Y = "one_yaml (http_connection_manager True)"
  have "yaml_faithful ?Y" by (auto simp: yaml_faithful_def one_yaml_def split: if_splits)
  moreover have "GenerateEnvoyConfig ?Y demo_config True = Inr ''bootstrap''"
    by (simp add: GenerateEnvoyConfig_def one_yaml_def)
  ultimately show ?thesis using envoy_config_closed by (force simp: Let_def)
qed

text \<open>The container ports of some containers.\<close>

definition exposed :: "Container list \<Rightarrow> (string \<times> int32) list" where
  "exposed cs = concat (map (\<lambda>c. map (\<lambda>p. (c_Name c, cp_ContainerPort p)) (c_Ports c)) cs)"

text \<open>
  Where Envoy sends a request that comes in on a port: every listener on that port hands it to its
  connection managers; their routes for any host and any path name a cluster, and the definition of
  that cluster its endpoints. Before, the authentication filters ask the endpoints of their clusters.
\<close>

definition endpoints_of :: "yaml \<Rightarrow> yaml \<Rightarrow> (yaml list \<times> yaml list) list" where
  "endpoints_of tree cluster =
     map (\<lambda>a. (sel [''address''] a, sel [''port_value''] a))
       (concat (map (sel [''load_assignment'', ''endpoints'', ''lb_endpoints'', ''endpoint'', ''address'', ''socket_address''])
          (filter (\<lambda>c. sel [''name''] c = [cluster]) (sel [''static_resources'', ''clusters''] tree))))"

definition managers_on :: "yaml \<Rightarrow> int32 \<Rightarrow> yaml list" where
  "managers_on tree port = concat (map managers
     (filter (\<lambda>l. sel [''address'', ''socket_address'', ''port_value''] l = [YamlWord port]) (listeners tree)))"

definition routed_clusters :: "yaml \<Rightarrow> yaml list" where
  "routed_clusters manager =
     concat (map (sel [''route'', ''cluster''])
       (filter (\<lambda>r. sel [''match'', ''prefix''] r = [YamlString ''/''])
         (concat (map (sel [''routes''])
           (filter (\<lambda>v. YamlString ''*'' \<in> set (sel [''domains''] v))
             (sel [''route_config'', ''virtual_hosts''] manager))))))"

definition forwarded :: "yaml \<Rightarrow> int32 \<Rightarrow> (yaml list \<times> yaml list) list" where
  "forwarded tree port =
     concat (map (endpoints_of tree) (concat (map routed_clusters (managers_on tree port))))"

definition authorised_by :: "yaml \<Rightarrow> int32 \<Rightarrow> (yaml list \<times> yaml list) list" where
  "authorised_by tree port =
     concat (map (endpoints_of tree) (concat (map
       (sel [''http_filters'', ''typed_config'', ''grpc_service'', ''envoy_grpc'', ''cluster_name''])
       (managers_on tree port))))"

text \<open>An endpoint in the pod itself.\<close>

definition at_home :: "int32 \<Rightarrow> yaml list \<times> yaml list" where
  "at_home port = ([YamlString ''127.0.0.1''], [YamlWord port])"

text \<open>
  The chain from the Service to the application: the Service selects the pods of the set; they run
  Envoy with the given configuration; and each port of the Service, of which there is at least one, is
  one that the Envoy container exposes and on which Envoy forwards to the one port of the first
  container, the application, and to nothing else. If it is to authenticate, it asks the one port of the
  authentication sidecar first. No two processes of the pod want the same port.
\<close>

definition chained :: "StatefulSet \<Rightarrow> Service \<Rightarrow> yaml \<Rightarrow> string \<Rightarrow> bool \<Rightarrow> bool" where
  "chained ss svc tree text auth \<longleftrightarrow>
     (let pod = sts_Template (ss_Spec ss); app = hd (pt_Containers pod); sidecars = tl (pt_Containers pod);
        asked = exposed (filter (\<lambda>c. c_Name c = ''basic-auth-sidecar'') sidecars) in
      svcs_Selector (svc_Spec svc) = pt_Labels pod \<and>
      list_ex (\<lambda>c. c_Name c = EnvoyProxyContainerName \<and> c_Args c = [''--config-yaml'', text]) sidecars \<and>
      svcs_Ports (svc_Spec svc) \<noteq> [] \<and> length (c_Ports app) = 1 \<and> length asked = (if auth then 1 else 0) \<and>
      list_all (\<lambda>p. (EnvoyProxyContainerName, sp_TargetPort p) \<in> set (exposed sidecars) \<and>
          forwarded tree (sp_TargetPort p) = map (at_home \<circ> cp_ContainerPort) (c_Ports app) \<and>
          authorised_by tree (sp_TargetPort p) = map (at_home \<circ> snd) asked)
        (svcs_Ports (svc_Spec svc)) \<and>
      distinct (map (YamlWord \<circ> snd) (exposed (pt_Containers pod)) @
        sel [''admin'', ''address'', ''socket_address'', ''port_value''] tree))"

text \<open>
  C27. Traffic is led to the application: for a template of a known type, with a port that is none of
  those the pod uses itself, and a configuration that could be generated, the StatefulSet, the Service
  and the Envoy bootstrap configuration made from the same resource configuration fit together: from the
  port of the Service through a listener of Envoy, its connection manager, the route it has for every
  host and path, and the cluster that this route names, to the port of the application. This is about
  the objects that are made, not about the behaviour of Envoy or of the redirection by the init container.
\<close>

theorem traffic_reaches_application:
  assumes "t_ContainerTemplateSpec t = Some spec" and "ct_Type spec \<in> {''code-server'', ''webtop''}"
    and "t_Port t \<notin> {0, word_of_int DefaultKodePodPort, 9901}" and "auth \<Longrightarrow> t_Port t \<noteq> 9001"
    and "config = InitKodeResourcesConfig k t" and "auth = useBasicAuth_of config"
    and "yaml_faithful Y" and "GenerateEnvoyConfig Y config auth = Inr text"
  shows "\<exists>ss svc b. constructStatefulSetSpec L Y k config s = (Ret (Inr ss), s) \<and>
    constructServiceSpec config = Inr svc \<and> yaml_MarshalBootstrap Y b = Inr text \<and>
    chained ss svc (yaml_BootstrapConfig b) text auth"
proof -
  let ?b = "faithful_bootstrap config auth" and ?envoy = "createEnvoyContainer config text"
  let ?front = "?envoy\<lparr>c_Ports := [\<lparr>cp_Name = ''proxy-http'', cp_ContainerPort = rc_Port config, cp_Protocol = ''TCP''\<rparr>]\<rparr>"
  let ?cs = "?front # (if auth then [createBasicAuthContainer config] else [])"
  have "ensureSidecarContainers Y config = Inr (?cs, [createProxySetupContainer config])"
    using assms(6,8) by (simp add: ensureSidecarContainers_def ConstructEnvoyContainers_def Let_def)
  then obtain ss where ss: "constructStatefulSetSpec L Y k config s = (Ret (Inr ss), s)"
    "statefulset_ok k spec config ?cs [createProxySetupContainer config] ss"
    using constructStatefulSetSpec_ok [OF assms(1,2)] assms(5) by blast
  let ?pod = "sts_Template (ss_Spec ss)"
  obtain c0 where pod: "pt_Labels ?pod = config_labels config" "pt_Containers ?pod = c0 # ?cs"
      "c_Ports c0 = [constructContainerPort]"
    using ss(2) by (cases "pt_Containers ?pod") (auto simp: statefulset_ok_def Let_def)
  obtain svc where svc: "constructServiceSpec config = Inr svc" "svc_Spec svc = desired_service_spec config"
    using constructServiceSpec_spec by blast
  have port: "rc_Port config \<notin> {0, word_of_int DefaultKodePodPort, 9901}" "auth \<Longrightarrow> rc_Port config \<noteq> 9001"
    using assms(3-5) by (simp_all add: InitKodeResourcesConfig_def)
  have "uint (rc_Port config) = n \<Longrightarrow> rc_Port config = word_of_int n" for n by auto
  with port have port: "uint (rc_Port config) \<notin> {0, 3000, 9901}" "auth \<Longrightarrow> uint (rc_Port config) \<noteq> 9001"
    "rc_Port config \<noteq> 0"
    by (fastforce simp: DefaultKodePodPort_def)+
  have "chained ss svc (yaml_BootstrapConfig ?b) text auth"
    using port
    by (auto simp: chained_def Let_def svc(2) pod desired_service_spec_def exposed_def createEnvoyContainer_def
        createBasicAuthContainer_def Container_zero_def constructContainerPort_def DefaultKodePodPort_def
        EnvoyProxyContainerName_def tree_defs forwarded_def authorised_by_def
        managers_on_def routed_clusters_def endpoints_of_def at_home_def)
  with ss(1) svc(1) GenerateEnvoyConfig_faithful [OF assms(7,8)] show ?thesis by blast
qed

theorem traffic_reaches_application_witness:
  "\<exists>b. length (forwarded (yaml_BootstrapConfig b) 8000) = 1 \<and> authorised_by (yaml_BootstrapConfig b) 8000 = []"
proof -
  let ?Y = "one_yaml (http_connection_manager False)"
  have "yaml_faithful ?Y" by (auto simp: yaml_faithful_def one_yaml_def split: if_splits)
  moreover have "GenerateEnvoyConfig ?Y demo_config False = Inr ''bootstrap''"
    by (simp add: GenerateEnvoyConfig_def one_yaml_def)
  moreover have "False = useBasicAuth_of demo_config"
    by (simp add: useBasicAuth_of_def demo_config_def demo_template_def)
  ultimately obtain ss svc b where "constructServiceSpec demo_config = Inr svc"
    "chained ss svc (yaml_BootstrapConfig b) ''bootstrap'' False"
    using traffic_reaches_application [of demo_template demo_spec False demo_config
        "demo_kode PhaseUpdating None" ?Y "''bootstrap''" L0 "demo_st fresh_kode"]
    by (auto simp: demo_config_def demo_template_def demo_spec_def DefaultKodePodPort_def)
  then show ?thesis
    by (intro exI [of _ b])
      (auto simp: chained_def Let_def constructServiceSpec_def demo_config_def demo_template_def
        InitKodeResourcesConfig_def)
qed

end
