(* ===== verification/Kode_Server.thy ===== *)
theory Kode_Server
  imports Kode_Progress Kode_Convergence
begin

text \<open>
  An API server that serves: the interface \<open>api_server\<close> states what a client may expect of a server
  that is up and of the libraries in front of it, and the locale shows what the operations of the
  operator then do. The writes of the server are functions on the world; reads see what was written.
\<close>

subsection \<open>What the server promises\<close>

text \<open>Two worlds that read the same but for the objects of one kind.\<close>

definition reads_like :: "'w lib \<Rightarrow> ObjKind \<Rightarrow> 'w \<Rightarrow> 'w \<Rightarrow> bool" where
  "reads_like L kind w w' \<longleftrightarrow>
     (\<forall>key. (kind \<noteq> KindKode \<longrightarrow> fst (lib_getKode L key w') = fst (lib_getKode L key w)) \<and>
        (kind \<noteq> KindSecret \<longrightarrow> fst (lib_getSecret L key w') = fst (lib_getSecret L key w)) \<and>
        (kind \<noteq> KindService \<longrightarrow> fst (lib_getService L key w') = fst (lib_getService L key w)) \<and>
        (kind \<noteq> KindStatefulSet \<longrightarrow> fst (lib_getStatefulSet L key w') = fst (lib_getStatefulSet L key w)) \<and>
        (kind \<noteq> KindPersistentVolumeClaim \<longrightarrow> fst (lib_getPVC L key w') = fst (lib_getPVC L key w)) \<and>
        fst (lib_getEntryPoint L key w') = fst (lib_getEntryPoint L key w) \<and>
        fst (lib_getContainerTemplate L key w') = fst (lib_getContainerTemplate L key w) \<and>
        fst (lib_getClusterContainerTemplate L key w') = fst (lib_getClusterContainerTemplate L key w)) \<and>
     (\<forall>ns ls. fst (lib_listPods L ns ls w') = fst (lib_listPods L ns ls w))"

lemma reads_like_refl [simp]: "reads_like L kind w w"
  by (simp add: reads_like_def)

lemma reads_likeD:
  assumes "reads_like L kind w w'"
  shows "kind \<noteq> KindKode \<Longrightarrow> fst (lib_getKode L key w') = fst (lib_getKode L key w)"
    and "kind \<noteq> KindSecret \<Longrightarrow> fst (lib_getSecret L key w') = fst (lib_getSecret L key w)"
    and "kind \<noteq> KindService \<Longrightarrow> fst (lib_getService L key w') = fst (lib_getService L key w)"
    and "kind \<noteq> KindStatefulSet \<Longrightarrow> fst (lib_getStatefulSet L key w') = fst (lib_getStatefulSet L key w)"
    and "kind \<noteq> KindPersistentVolumeClaim \<Longrightarrow> fst (lib_getPVC L key w') = fst (lib_getPVC L key w)"
    and "fst (lib_getEntryPoint L key w') = fst (lib_getEntryPoint L key w)"
    and "fst (lib_getContainerTemplate L key w') = fst (lib_getContainerTemplate L key w)"
    and "fst (lib_getClusterContainerTemplate L key w') = fst (lib_getClusterContainerTemplate L key w)"
    and "fst (lib_listPods L ns ls w') = fst (lib_listPods L ns ls w)"
  using assms by (simp_all add: reads_like_def)

text \<open>
  The algorithm \<^verbatim>\<open>controllerutil.CreateOrPatch\<close> documents: get the object; if there is none, mutate the
  given one and create it, otherwise mutate the one found and patch it.
\<close>

definition create_or_patch ::
  "('o \<Rightarrow> NamespacedName) \<Rightarrow> (NamespacedName \<Rightarrow> 'w \<Rightarrow> (error + 'o) \<times> 'w)
    \<Rightarrow> (NamespacedName \<Rightarrow> 'o \<Rightarrow> 'w \<Rightarrow> 'w)
    \<Rightarrow> 'o \<Rightarrow> ('o \<Rightarrow> ('w st, error + 'o) go) \<Rightarrow> ('w st, OperationResult \<times> error option) go" where
  "create_or_patch key get put obj f =
     bind_go (gets_go (\<lambda>s. fst (get (key obj) (world s)))) (\<lambda>found.
       let write = (\<lambda>x result. bind_go (f x) (\<lambda>r.
             case r of
               Inl e \<Rightarrow> return_go (OperationResultNone, Some e)
             | Inr y \<Rightarrow> then_go (modify_go (\<lambda>s. s\<lparr>world := put (key obj) y (world s)\<rparr>))
                                 (return_go (result, None))))
       in case found of
            Inr old \<Rightarrow> write old OperationResultUpdated
          | Inl e \<Rightarrow> if IsNotFound e then write obj OperationResultCreated
                      else return_go (OperationResultNone, Some e))"

definition stores ::
  "'w lib \<Rightarrow> ('w \<Rightarrow> bool) \<Rightarrow> ObjKind \<Rightarrow> (NamespacedName \<Rightarrow> 'w \<Rightarrow> (error + 'o) \<times> 'w)
    \<Rightarrow> (NamespacedName \<Rightarrow> 'o \<Rightarrow> 'w \<Rightarrow> 'w) \<Rightarrow> bool" where
  "stores L up kind get put \<longleftrightarrow>
     (\<forall>key x w. up w \<longrightarrow> up (put key x w) \<and> reads_like L kind w (put key x w) \<and>
        fst (get key (put key x w)) = Inr x)"

abbreviation secret_key :: "Secret \<Rightarrow> NamespacedName" where
  "secret_key x \<equiv> NamespacedName (sec_Namespace x) (sec_Name x)"

abbreviation service_key :: "Service \<Rightarrow> NamespacedName" where
  "service_key x \<equiv> NamespacedName (svc_Namespace x) (svc_Name x)"

abbreviation set_key :: "StatefulSet \<Rightarrow> NamespacedName" where
  "set_key x \<equiv> NamespacedName (ss_Namespace x) (ss_Name x)"

abbreviation claim_key :: "PersistentVolumeClaim \<Rightarrow> NamespacedName" where
  "claim_key x \<equiv> NamespacedName (pvc_Namespace x) (pvc_Name x)"

locale api_server =
  fixes L :: "'w lib" and up :: "'w \<Rightarrow> bool"
    and putSecret :: "NamespacedName \<Rightarrow> Secret \<Rightarrow> 'w \<Rightarrow> 'w"
    and putService :: "NamespacedName \<Rightarrow> Service \<Rightarrow> 'w \<Rightarrow> 'w"
    and putSet :: "NamespacedName \<Rightarrow> StatefulSet \<Rightarrow> 'w \<Rightarrow> 'w"
    and putClaim :: "NamespacedName \<Rightarrow> PersistentVolumeClaim \<Rightarrow> 'w \<Rightarrow> 'w"
  assumes lawful: "lawful L" and reads_pure: "reads_pure L"
    and more_pure: "snd (lib_getKode L key w) = w" "snd (lib_getEntryPoint L key w) = w"
      "snd (lib_getContainerTemplate L key w) = w" "snd (lib_getClusterContainerTemplate L key w) = w"
    and found_key: "up w \<Longrightarrow> fst (lib_getKode L key w) = Inr k \<Longrightarrow> kode_key k = key"
    and patch_status: "up w \<Longrightarrow> fst (lib_getKode L (kode_key k) w) = Inr old \<Longrightarrow>
      \<exists>w'. lib_patchKodeStatus L k base w = (None, w') \<and> up w' \<and> reads_like L KindKode w w' \<and>
        fst (lib_getKode L (kode_key k) w') = Inr (old\<lparr>k_Status := k_Status k\<rparr>)"
    and update: "up w \<Longrightarrow> fst (lib_getKode L (kode_key k) w) = Inr old \<Longrightarrow>
      k_DeletionTimestamp k = None \<Longrightarrow>
      \<exists>w'. lib_updateKode L k w = (None, w') \<and> up w' \<and> reads_like L KindKode w w' \<and>
        fst (lib_getKode L (kode_key k) w') = Inr (k\<lparr>k_Status := k_Status old\<rparr>)"
    and no_retry: "f s = (Ret None, t) \<Longrightarrow> lib_RetryOnConflict L f s = (Ret None, t)"
    and no_backoff: "c s = (Ret (Inr (Some x)), t) \<Longrightarrow>
      lib_ExponentialBackoff L (Suc n) c s = (Ret (Inr x), t)"
    and typed: "AddTypeInformationToObject L (Some kind) = None"
    and own: "\<exists>os. lib_SetControllerReference L KindKode key [] = Inr os"
    and writes: "lib_createOrPatchSecret L = create_or_patch secret_key (lib_getSecret L) putSecret"
      "lib_createOrPatchService L = create_or_patch service_key (lib_getService L) putService"
      "lib_createOrPatchStatefulSet L = create_or_patch set_key (lib_getStatefulSet L) putSet"
      "lib_createOrPatchPVC L = create_or_patch claim_key (lib_getPVC L) putClaim"
    and stored: "stores L up KindSecret (lib_getSecret L) putSecret"
      "stores L up KindService (lib_getService L) putService"
      "stores L up KindStatefulSet (lib_getStatefulSet L) putSet"
      "stores L up KindPersistentVolumeClaim (lib_getPVC L) putClaim"

text \<open>The Kode in its phase: nothing but its status has changed, and its generation is observed.\<close>

definition live :: "Kode \<Rightarrow> Phase \<Rightarrow> Kode \<Rightarrow> bool" where
  "live k p x \<longleftrightarrow> (\<exists>t. x = k\<lparr>k_Status := t\<rparr> \<and> Phase_of t = p \<and> ObservedGeneration t = k_Generation k)"

text \<open>The template that a reference gets from the world, with the spec of its EntryPoint if that is found.\<close>

definition template_at :: "'w lib \<Rightarrow> CrossNamespaceObjectReference \<Rightarrow> 'w \<Rightarrow> Template \<Rightarrow> bool" where
  "template_at L ref w template \<longleftrightarrow> ref_Name ref \<noteq> '''' \<and>
     (\<exists>spec. (if ref_Kind ref = TemplateKindContainer then
          fst (lib_getContainerTemplate L (NamespacedName
            (case ref_Namespace ref of None \<Rightarrow> '''' | Some n \<Rightarrow> n) (ref_Name ref)) w) = Inr spec
        else ref_Kind ref = TemplateKindClusterContainer \<and>
          fst (lib_getClusterContainerTemplate L (NamespacedName '''' (ref_Name ref)) w) = Inr spec) \<and>
       (let t = fill_template spec \<lparr>t_Kind = ref_Kind ref, t_Name = ref_Name ref,
            t_Namespace = (case ref_Namespace ref of None \<Rightarrow> '''' | Some n \<Rightarrow> n),
            t_Port = 0, t_ContainerTemplateSpec = None, t_EntryPointRef = None,
            t_EntryPointSpec = None\<rparr>
        in case cs_EntryPointRef spec of
             None \<Rightarrow> template = t
           | Some epRef \<Rightarrow>
               (case fst (lib_getEntryPoint L (NamespacedName '''' (ref_Name epRef)) w) of
                  Inl e \<Rightarrow> IsNotFound e \<and> template = t
                | Inr ep \<Rightarrow> template = t\<lparr>t_EntryPointSpec := Some (e_Spec ep)\<rparr>)))"

text \<open>
  \<open>serving L up k template Q p q s\<close>: the server is up, the Kode is in phase \<open>p\<close> in memory and in phase
  \<open>q\<close> in the cluster, its template can be had (and is what the cache has, if it has one), and \<open>Q\<close>
  holds of the world.
\<close>

definition serving ::
  "'w lib \<Rightarrow> ('w \<Rightarrow> bool) \<Rightarrow> Kode \<Rightarrow> Template \<Rightarrow> ('w \<Rightarrow> bool) \<Rightarrow> Phase \<Rightarrow> Phase \<Rightarrow> 'w st \<Rightarrow> bool" where
  "serving L up k template Q p q s \<longleftrightarrow> up (world s) \<and> live k p (kode s) \<and>
     (\<exists>x. fst (lib_getKode L (kode_key k) (world s)) = Inr x \<and> live k q x) \<and>
     template_at L (ks_TemplateRef (k_Spec k)) (world s) template \<and>
     map_of (cache s) (getCacheKey (ks_TemplateRef (k_Spec k))) \<in> {None, Some template} \<and> Q (world s)"

text \<open>What the Kode's own status does not disturb.\<close>

definition apart :: "'w lib \<Rightarrow> ('w \<Rightarrow> bool) \<Rightarrow> bool" where
  "apart L Q \<longleftrightarrow> (\<forall>w w'. Q w \<and> reads_like L KindKode w w' \<longrightarrow> Q w')"

lemma live_self [simp]: "live k (GetPhase k) k \<longleftrightarrow> ObservedGeneration (k_Status k) = k_Generation k"
  by (auto simp: live_def GetPhase_def intro!: exI [of _ "k_Status k"] dest: arg_cong [where f = k_Status])

lemma live_key: "live k p x \<Longrightarrow> kode_key x = kode_key k"
  by (auto simp: live_def kode_key_def)

lemma live_spec: "live k p x \<Longrightarrow> k_Spec x = k_Spec k"
  by (auto simp: live_def)

lemma live_phase: "live k p x \<Longrightarrow> GetPhase x = p"
  by (auto simp: live_def GetPhase_def)

lemma live_status:
  "live k p x \<Longrightarrow> Phase_of t = q \<Longrightarrow> ObservedGeneration t = k_Generation k \<Longrightarrow> live k q (x\<lparr>k_Status := t\<rparr>)"
  by (auto simp: live_def)

lemma live_generation: "live k p x \<Longrightarrow> ObservedGeneration (k_Status x) = k_Generation k"
  by (auto simp: live_def)

lemma template_at_like:
  "template_at L ref w template \<Longrightarrow> reads_like L kind w w' \<Longrightarrow> template_at L ref w' template"
  by (simp only: template_at_def reads_likeD(6-8) simp_thms)

subsection \<open>What the operator's requests then do\<close>

lemma apart_like: "apart L Q \<Longrightarrow> Q w \<Longrightarrow> reads_like L KindKode w w' \<Longrightarrow> Q w'"
  by (auto simp: apart_def)

text \<open>Changes of the Kode in memory.\<close>

lemma serving_live: "serving L up k template Q p q s \<Longrightarrow> live k p (kode s)"
  by (simp add: serving_def)

lemma serving_status:
  "serving L up k template Q p q s \<Longrightarrow> Phase_of t = p' \<Longrightarrow>
     (ObservedGeneration (k_Status (kode s)) = k_Generation k \<Longrightarrow> ObservedGeneration t = k_Generation k) \<Longrightarrow>
     serving L up k template Q p' q (s\<lparr>kode := (kode s)\<lparr>k_Status := t\<rparr>\<rparr>)"
  by (auto simp: serving_def live_def)

lemma serving_log [simp]:
  "serving L up k template Q p q (s\<lparr>reqlog := qs\<rparr>) = serving L up k template Q p q s"
  "serving L up k template Q p q (s\<lparr>events := es\<rparr>) = serving L up k template Q p q s"
  by (simp_all add: serving_def)

lemma serving_same_but_log:
  "serving L up k template Q p q s \<Longrightarrow> same_but_log s t \<Longrightarrow> serving L up k template Q p q t"
  by (auto simp: same_but_log_def)

lemma serving_set_condition:
  "triple (serving L up k template Q p q) (set_condition L' t st re m)
     (\<lambda>_. serving L up k template Q p q) (\<lambda>_. False)"
  unfolding set_condition_def
  by (rule triple_modify, unfold k_SetCondition_def SetCondition_def, rule serving_status)
    (auto dest!: serving_live live_phase simp: GetPhase_def)

lemma serving_modify_status:
  assumes "\<And>t. Phase_of (f t) = Phase_of t"
    and "\<And>t. ObservedGeneration t = k_Generation k \<Longrightarrow> ObservedGeneration (f t) = k_Generation k"
  shows "triple (serving L up k template Q p q) (modify_status f)
     (\<lambda>_. serving L up k template Q p q) (\<lambda>_. False)"
  unfolding modify_status_def
  by (rule triple_modify, rule serving_status)
    (auto dest!: serving_live live_phase simp: GetPhase_def assms)

lemma serving_set_phase:
  "triple (serving L up k template Q p q) (set_phase p') (\<lambda>_. serving L up k template Q p' q) (\<lambda>_. False)"
  unfolding set_phase_def
  by (rule triple_modify, unfold SetPhase_def, rule serving_status) auto

context api_server
begin

lemma create_or_patch_laws:
  "create_or_patch_law (lib_createOrPatchSecret L)" "create_or_patch_law (lib_createOrPatchService L)"
  "create_or_patch_law (lib_createOrPatchStatefulSet L)" "create_or_patch_law (lib_createOrPatchPVC L)"
  by (rule lawful_create_or_patch [OF lawful])+

lemma emit_run: "\<exists>es. emit L et re m s = (Ret (), s\<lparr>events := es\<rparr>)"
  by (auto simp: emit_def record_event_def typed go_simps)

lemma emit_keeps:
  assumes "\<And>s es. I s \<Longrightarrow> I (s\<lparr>events := es\<rparr>)"
  shows "triple I (emit L et re m) (\<lambda>_. I) (\<lambda>_. False)"
  unfolding triple_def
proof (intro allI impI)
  fix s :: "'w st"
  assume "I s"
  moreover obtain es where "emit L et re m s = (Ret (), s\<lparr>events := es\<rparr>)" using emit_run by blast
  ultimately show "case emit L et re m s of (Ret x, t) \<Rightarrow> I t | (Panic, t) \<Rightarrow> False"
    using assms by simp
qed

lemma serving_emit:
  "triple (serving L up k template Q p q) (emit L et re m) (\<lambda>_. serving L up k template Q p q) (\<lambda>_. False)"
  by (rule emit_keeps) simp

text \<open>The write of the status, made out: it is the one that \<open>lib_patchKodeStatus\<close> answers.\<close>

lemma UpdateStatus_patches:
  assumes up: "up (world s)" and x: "fst (lib_getKode L (kode_key (kode s)) (world s)) = Inr x"
  defines "new \<equiv> x\<lparr>k_Status := k_Status (kode s)\<rparr>"
  defines "w' \<equiv> snd (lib_patchKodeStatus L new x (world s))"
  shows "\<exists>qs. UpdateStatus L s = (Ret None, s\<lparr>world := w', reqlog := reqlog s @ qs\<rparr>)"
    and "up w'" and "reads_like L KindKode (world s) w'"
    and "fst (lib_getKode L (kode_key (kode s)) w') = Inr new"
proof -
  let ?key = "kode_key (kode s)"
  have get: "lib_getKode L ?key (world s) = (Inr x, world s)"
    using x more_pure(1) [of ?key "world s"] by (metis prod.collapse)
  have new: "kode_key new = ?key" using found_key [OF up x] by (simp add: kode_key_def new_def)
  have p: "lib_patchKodeStatus L new x (world s) = (None, w')" "up w'"
    "reads_like L KindKode (world s) w'" "fst (lib_getKode L ?key w') = Inr new"
    using patch_status [OF up, of new x x] x new by (auto simp: w'_def new_def)
  have "UpdateStatus_attempt L s = (Ret None, s\<lparr>world := w', reqlog := reqlog s @
      [ReqGet KindKode ?key Found, ReqPatchStatus ?key (k_Status (kode s)) True]\<rparr>)"
    using p(1) new
    by (simp add: UpdateStatus_attempt_eq go_simps api_get_def api_patch_status_def get answer_of_def new_def)
  then show "\<exists>qs. UpdateStatus L s = (Ret None, s\<lparr>world := w', reqlog := reqlog s @ qs\<rparr>)"
    unfolding UpdateStatus_def by (blast intro: no_retry)
  show "up w'" "reads_like L KindKode (world s) w'" "fst (lib_getKode L ?key w') = Inr new"
    by (rule p(2-4))+
qed

lemma UpdateStatus_run:
  assumes "up (world s)" and "fst (lib_getKode L (kode_key (kode s)) (world s)) = Inr x"
  shows "\<exists>w' qs. UpdateStatus L s = (Ret None, s\<lparr>world := w', reqlog := reqlog s @ qs\<rparr>) \<and> up w' \<and>
    reads_like L KindKode (world s) w' \<and>
    fst (lib_getKode L (kode_key (kode s)) w') = Inr (x\<lparr>k_Status := k_Status (kode s)\<rparr>)"
  using UpdateStatus_patches [OF assms] by blast

lemma serving_UpdateStatus:
  assumes Q: "apart L Q"
  shows "surely (serving L up k template Q p q) (UpdateStatus L) (\<lambda>err. err = None)
    (serving L up k template Q p p)"
proof (rule surelyI)
  fix s :: "'w st"
  assume I: "serving L up k template Q p q s"
  then obtain x where x: "fst (lib_getKode L (kode_key k) (world s)) = Inr x" "live k q x"
    and up: "up (world s)" and live: "live k p (kode s)" and Qs: "Q (world s)"
    by (auto simp: serving_def)
  obtain w' qs where w': "UpdateStatus L s = (Ret None, s\<lparr>world := w', reqlog := reqlog s @ qs\<rparr>)" "up w'"
    "reads_like L KindKode (world s) w'"
    "fst (lib_getKode L (kode_key k) w') = Inr (x\<lparr>k_Status := k_Status (kode s)\<rparr>)"
    using UpdateStatus_run [OF up, of x] x(1) live_key [OF live] by auto
  have "live k p (x\<lparr>k_Status := k_Status (kode s)\<rparr>)"
    using live x(2) by (auto simp: live_def)
  then have "serving L up k template Q p p (s\<lparr>world := w', reqlog := reqlog s @ qs\<rparr>)"
    using I w'(2-4) template_at_like [OF _ w'(3)] apart_like [OF Q Qs w'(3)]
    by (auto simp: serving_def)
  with w'(1) show "\<exists>err. fst (UpdateStatus L s) = Ret err \<and> err = None \<and>
      serving L up k template Q p p (snd (UpdateStatus L s))"
    by simp
qed

lemma serving_update_or_fail:
  assumes "apart L Q" and "triple (serving L up k template Q p p) h A (\<lambda>_. False)"
  shows "triple (serving L up k template Q p q) (update_or_fail L m h) A (\<lambda>_. False)"
  unfolding update_or_fail_def
  by (rule triple_bind_known [OF serving_UpdateStatus [OF assms(1)]]) (simp add: assms(2))

lemma fetchTemplate_run:
  assumes "template_at L ref (world s) template"
  shows "\<exists>t. fetchTemplate L ref s = (Ret (Inr template), t) \<and> same_but_log s t"
proof -
  note gets = api_get_pure [where f = "lib_getContainerTemplate L key" for key, OF more_pure(3)]
    api_get_pure [where f = "lib_getClusterContainerTemplate L key" for key, OF more_pure(4)]
    api_get_pure [where f = "lib_getEntryPoint L key" for key, OF more_pure(2)]
  let ?ns = "case ref_Namespace ref of None \<Rightarrow> '''' | Some n \<Rightarrow> n"
  let ?base = "\<lparr>t_Kind = ref_Kind ref, t_Name = ref_Name ref, t_Namespace = ?ns,
    t_Port = 0, t_ContainerTemplateSpec = None, t_EntryPointRef = None, t_EntryPointSpec = None\<rparr>"
  let ?one = "if ref_Kind ref = TemplateKindContainer then fetchContainerTemplate L ?base ref
    else fetchClusterContainerTemplate L ?base ref"
  obtain spec where kind: "ref_Kind ref = TemplateKindContainer \<or> ref_Kind ref = TemplateKindClusterContainer"
    and spec: "if ref_Kind ref = TemplateKindContainer
        then fst (lib_getContainerTemplate L (NamespacedName ?ns (ref_Name ref)) (world s)) = Inr spec
        else fst (lib_getClusterContainerTemplate L (NamespacedName '''' (ref_Name ref)) (world s)) = Inr spec"
    and entry: "case cs_EntryPointRef spec of None \<Rightarrow> template = fill_template spec ?base
      | Some epRef \<Rightarrow>
          (case fst (lib_getEntryPoint L (NamespacedName '''' (ref_Name epRef)) (world s)) of
             Inl e \<Rightarrow> IsNotFound e \<and> template = fill_template spec ?base
           | Inr ep \<Rightarrow> template = (fill_template spec ?base)\<lparr>t_EntryPointSpec := Some (e_Spec ep)\<rparr>)"
    using assms unfolding template_at_def Let_def by (auto split: if_splits)
  have "\<exists>u. ?one s = (Ret (Inr (fill_template spec ?base)), u) \<and> same_but_log s u"
    using spec
    by (cases "ref_Kind ref = TemplateKindContainer")
      (simp_all add: fetchContainerTemplate_def fetchClusterContainerTemplate_def gets go_simps
        same_but_log_snoc Let_def)
  then obtain u where u: "?one s = (Ret (Inr (fill_template spec ?base)), u)" "same_but_log s u"
    by blast
  have ref: "t_EntryPointRef (fill_template spec ?base) = cs_EntryPointRef spec"
    by (cases "cs_EntryPointRef spec") (simp_all add: fill_template_def)
  have run: "fetchTemplate L ref s = (case cs_EntryPointRef spec of
      None \<Rightarrow> (Ret (Inr (fill_template spec ?base)), u)
    | Some epRef \<Rightarrow> bind_go (fecthEntryPoint L epRef) (\<lambda>er. case er of
          Inl e \<Rightarrow> if IsNotFound e then return_go (Inr (fill_template spec ?base))
                   else return_go (Inl (Wrapped ''failed to fetch EntryPoint: '' e))
        | Inr ep \<Rightarrow> return_go (Inr ((fill_template spec ?base)\<lparr>t_EntryPointSpec := Some (e_Spec ep)\<rparr>))) u)"
    using kind u(1)
    by (auto simp: fetchTemplate_def Let_def bind_go_def [of ?one] ref go_simps split: option.split)
  show ?thesis
    using entry u(2) same_but_logD [OF u(2)] same_but_log_trans [OF u(2) same_but_log_snoc]
    by (cases "cs_EntryPointRef spec")
      (auto simp: run fecthEntryPoint_def gets go_simps Let_def split: sum.splits)
qed

text \<open>A template that can be had, and is what the cache has if it has one, is fetched.\<close>

lemma Fetch_run:
  assumes at: "template_at L ref (world s) template"
    and cached: "map_of (cache s) (getCacheKey ref) \<in> {None, Some template}"
  shows "\<exists>u c. Fetch L ref s = (Ret (Inr template), u\<lparr>cache := c\<rparr>) \<and> same_but_log s u \<and>
    (c = cache s \<or> c = AList.update (getCacheKey ref) template (cache s))"
proof -
  have ref: "validateRef ref = None"
    using at by (auto simp: template_at_def validateRef_def TemplateKindContainer_def
        TemplateKindClusterContainer_def split: if_splits)
  show ?thesis
  proof (cases "map_of (cache s) (getCacheKey ref)")
    case (Some t)
    with cached have "Fetch L ref s = (Ret (Inr template), s\<lparr>cache := cache s\<rparr>)"
      by (simp add: Fetch_def ref go_simps Let_def)
    then show ?thesis by (blast intro: same_but_log_refl)
  next
    case None
    obtain u where u: "fetchTemplate L ref s = (Ret (Inr template), u)" "same_but_log s u"
      using fetchTemplate_run [OF at] by blast
    have "fetch_condition L ref s = (Ret (Inr (Some template)), u)"
      by (simp add: fetch_condition_def u(1) go_simps)
    then have "lib_ExponentialBackoff L backoff_Steps (fetch_condition L ref) s = (Ret (Inr template), u)"
      by (simp add: backoff_Steps_def no_backoff eval_nat_numeral)
    then have "Fetch L ref s = (Ret (Inr template),
        u\<lparr>cache := AList.update (getCacheKey ref) template (cache s)\<rparr>)"
      using None same_but_logD [OF u(2)] by (simp add: Fetch_def ref go_simps Let_def)
    with u(2) show ?thesis by blast
  qed
qed

lemma serving_Fetch:
  "surely (serving L up k template Q p q) (Fetch L (ks_TemplateRef (k_Spec k))) (\<lambda>r. r = Inr template)
     (serving L up k template Q p q)"
proof (rule surelyI)
  fix s :: "'w st"
  assume I: "serving L up k template Q p q s"
  let ?ref = "ks_TemplateRef (k_Spec k)" and ?I = "serving L up k template Q p q"
  have "template_at L ?ref (world s) template" "map_of (cache s) (getCacheKey ?ref) \<in> {None, Some template}"
    using I by (simp_all add: serving_def)
  from Fetch_run [OF this] obtain u c where u: "Fetch L ?ref s = (Ret (Inr template), u\<lparr>cache := c\<rparr>)"
    "same_but_log s u" "c = cache s \<or> c = AList.update (getCacheKey ?ref) template (cache s)" by blast
  have "?I (u\<lparr>cache := c\<rparr>)"
    using I u(3) same_but_logD [OF u(2)] by (auto simp: serving_def update_conv')
  with u(1) show "\<exists>r. fst (Fetch L ?ref s) = Ret r \<and> r = Inr template \<and> ?I (snd (Fetch L ?ref s))"
    by simp
qed

lemma serving_SetRuntime:
  assumes "apart L Q"
  shows "surely (serving L up k template Q p q) (SetRuntime L rt) (\<lambda>err. err = None)
    (serving L up k template Q p p)"
  unfolding SetRuntime_def
proof (rule triple_then [OF serving_modify_status])
  show "surely (serving L up k template Q p q) (bind_go (UpdateStatus L) (\<lambda>err. case err of
      Some e \<Rightarrow> return_go (Some (Wrapped ''failed to update status with runtime: '' e))
    | None \<Rightarrow> return_go None)) (\<lambda>err. err = None) (serving L up k template Q p p)"
    by (rule triple_bind_known [OF serving_UpdateStatus [OF assms]]) (simp add: triple_return)
qed simp_all

lemma template_at_spec:
  "template_at L' ref w template \<Longrightarrow>
     (ref_Kind ref = TemplateKindContainer \<or> ref_Kind ref = TemplateKindClusterContainer) \<and>
     (\<exists>spec. t_ContainerTemplateSpec template = Some spec)"
proof -
  have fill: "t_ContainerTemplateSpec (fill_template spec t) = Some spec" for spec t
    by (simp add: fill_template_def Let_def)
  assume "template_at L' ref w template"
  then show ?thesis
    unfolding template_at_def Let_def
    by (elim conjE exE) (auto simp: fill split: if_split_asm option.split_asm sum.split_asm)
qed

lemma serving_fetchTemplates:
  assumes Q: "apart L Q"
  shows "surely (serving L up k template Q p q) (fetchTemplatesWithRetry L) (\<lambda>r. r = Inr template)
    (serving L up k template Q p p)"
  unfolding fetchTemplatesWithRetry_def
proof (rule triple_gets_bind)
  fix s :: "'w st"
  let ?I = "serving L up k template Q p"
  assume I: "?I q s"
  let ?ref = "ks_TemplateRef (k_Spec k)"
  have spec: "k_Spec (kode s) = k_Spec k" using I by (auto simp: serving_def dest: live_spec)
  obtain cs where at: "ref_Kind ?ref = TemplateKindContainer \<or> ref_Kind ?ref = TemplateKindClusterContainer"
    "t_ContainerTemplateSpec template = Some cs"
    using I template_at_spec [of L ?ref "world s" template] by (auto simp: serving_def)
  let ?set = "bind_go (SetRuntime L \<lparr>rt_Runtime = RuntimeContainer, rt_Type = ct_Runtime cs\<rparr>)
        (\<lambda>err. case err of
              Some e \<Rightarrow> return_go (Inl (Wrapped ''failed to update runtime: '' e))
            | None \<Rightarrow> return_go (Inr template))"
  have set: "surely (?I q) ?set (\<lambda>r. r = Inr template) (?I p)"
    by (rule triple_bind_known [OF serving_SetRuntime [OF Q]]) (simp add: triple_return)
  show "surely (?I q) (let ref = ks_TemplateRef (k_Spec (kode s)) in bind_go (Fetch L ref) (\<lambda>r. case r of
           Inl e \<Rightarrow>
             if IsNotFound e then return_go (Inl (Wrapped ''template not found: '' e))
             else return_go (Inl (Wrapped ''failed to fetch template: '' e))
         | Inr template \<Rightarrow>
             if ref_Kind ref = TemplateKindContainer \<or> ref_Kind ref = TemplateKindClusterContainer then
               bind_go (deref_go (t_ContainerTemplateSpec template)) (\<lambda>spec.
               bind_go (SetRuntime L \<lparr>rt_Runtime = RuntimeContainer, rt_Type = ct_Runtime spec\<rparr>) (\<lambda>err.
                 case err of
                   Some e \<Rightarrow> return_go (Inl (Wrapped ''failed to update runtime: '' e))
                 | None \<Rightarrow> return_go (Inr template)))
             else return_go (Inr template))) (\<lambda>r. r = Inr template) (?I p)"
    unfolding Let_def spec
    by (rule triple_bind_known [OF serving_Fetch]) (use at set in \<open>simp add: deref_go_def\<close>)
qed

end

end
