(* ===== verification/Kode_Rise.thy ===== *)
theory Kode_Rise
  imports Kode_Server
begin

text \<open>
  A Kode comes up: on a server that serves (\<open>api_server\<close>), the reconciliations of a new Kode lead it
  through Pending, Configuring and Provisioning to Active. The children it finds on the way may be
  missing or as configured, in any combination, as an interrupted run leaves them.
\<close>

subsection \<open>What depends on the spec alone\<close>

text \<open>Two Kodes of one name and one spec: only metadata and status differ.\<close>

definition alike :: "Kode \<Rightarrow> Kode \<Rightarrow> bool" where
  "alike k x \<longleftrightarrow> k_Name x = k_Name k \<and> k_Namespace x = k_Namespace k \<and> k_Spec x = k_Spec k"

lemma alike_status: "alike k (k\<lparr>k_Status := t\<rparr>)"
  by (simp add: alike_def)

lemma alike_finalizers: "alike k (k\<lparr>k_Finalizers := fs\<rparr>)"
  by (simp add: alike_def)

lemma live_alike: "live k p x \<Longrightarrow> alike k x"
  by (auto simp: live_def alike_def)

lemma alike_GetPVCName: "alike k x \<Longrightarrow> GetPVCName x = GetPVCName k"
  by (simp add: alike_def GetPVCName_def split: option.split)

lemma constructStatefulSetSpec_alike:
  assumes "alike k x"
  shows "constructStatefulSetSpec L Y x c = constructStatefulSetSpec L Y k c"
proof -
  note same = assms [unfolded alike_def]
  have volumes: "constructVolumesAndMounts m x c = constructVolumesAndMounts m k c" for m
    by (simp add: constructVolumesAndMounts_def same alike_GetPVCName [OF assms])
  have finish: "finish_StatefulSet L Y x c = finish_StatefulSet L Y k c"
    by (intro ext) (simp only: finish_StatefulSet_def volumes same)
  have password: "password_env x = password_env k"
    by (intro ext) (simp add: password_env_def GetSecretName_def same cong: option.case_cong)
  have containers: "constructCodeServerContainers x = constructCodeServerContainers k"
    "constructWebtopContainers x = constructWebtopContainers k"
    by (intro ext; simp only: constructCodeServerContainers_def constructWebtopContainers_def password same)+
  show ?thesis unfolding constructStatefulSetSpec_def finish containers ..
qed

lemma alike_names:
  assumes "alike k x"
  shows "GetSecretName x = GetSecretName k" "GetServiceName x = GetServiceName k"
    "GetStatefulSetName x = GetStatefulSetName k" "GetPVCName x = GetPVCName k"
    "child_key x n = child_key k n" "k_Name x = k_Name k" "k_Namespace x = k_Namespace k"
    "k_Spec x = k_Spec k" "InitKodeResourcesConfig x template = InitKodeResourcesConfig k template"
    "constructStatefulSetSpec L Y x c = constructStatefulSetSpec L Y k c"
    "needs_claim x = needs_claim k" "required_fields x = required_fields k" "kode_key x = kode_key k"
  using assms
  by (auto simp: alike_def alike_GetPVCName [OF assms] constructStatefulSetSpec_alike [OF assms]
      GetSecretName_def GetServiceName_def GetStatefulSetName_def child_key_def kode_key_def
      InitKodeResourcesConfig_def createLabels_def needs_claim_def required_fields_def fun_eq_iff
      cong: option.case_cong)

lemmas live_names = alike_names [OF live_alike]

lemma converged_alike:
  assumes "alike k x"
  shows "converged L Y config x w = converged L Y config k w"
    "startable L Y config x w = startable L Y config k w"
    "missing_children L x w = missing_children L k w"
  by (simp_all add: converged_fine startable_def missing_children_def secret_fine_def service_fine_def
      set_fine_def pvc_converged_def desired_statefulset_def alike_names [OF assms] cong: option.case_cong)

lemma all_ready_alike:
  assumes "alike k x"
  shows "all_ready L config x w = all_ready L config k w"
  by (simp add: all_ready_def secret_ready_def service_ready_def statefulset_ready_def pvc_ready_def
      pods_ready_def alike_names [OF assms] cong: option.case_cong sum.case_cong)

text \<open>The storage asked for can be had: it names a claim, or says how much it needs.\<close>

definition storage_sound :: "Kode \<Rightarrow> bool" where
  "storage_sound k \<longleftrightarrow>
     (case ks_Storage (k_Spec k) of
        None \<Rightarrow> True
      | Some storage \<Rightarrow> st_ExistingVolumeClaim storage \<noteq> None \<or>
          st_Resources storage \<noteq> None \<and> \<not> IsEmpty (Some storage))"

text \<open>What the operator can configure on its own: it makes the secret, and the storage is sound.\<close>

definition configurable :: "Kode \<Rightarrow> bool" where
  "configurable k \<longleftrightarrow> storage_sound k \<and>
     (case ks_Credentials (k_Spec k) of None \<Rightarrow> True | Some cr \<Rightarrow> cr_ExistingSecret cr = None)"

lemma configurable_credentials:
  "configurable k \<Longrightarrow>
     \<exists>cr. rc_Credentials (InitKodeResourcesConfig k template) = Some cr \<and> cr_ExistingSecret cr = None"
  by (auto simp: configurable_def InitKodeResourcesConfig_def split: option.splits)

subsection \<open>The stages of applying a configuration\<close>

text \<open>The pods there are run the images of the set to be made.\<close>

definition pods_fine :: "'w lib \<Rightarrow> yaml_lib \<Rightarrow> KodeResourceConfig \<Rightarrow> Kode \<Rightarrow> 'w \<Rightarrow> bool" where
  "pods_fine L Y config k w \<longleftrightarrow>
     (\<exists>d pods. desired_statefulset L Y k config d \<and>
        fst (lib_listPods L (k_Namespace k) (config_labels config) w) = Inr pods \<and>
        (\<forall>pod \<in> set pods. map c_Image (pod_Containers pod) =
           map c_Image (pt_Containers (sts_Template (ss_Spec d)))))"

definition secret_labelled :: "'w lib \<Rightarrow> KodeResourceConfig \<Rightarrow> Kode \<Rightarrow> 'w \<Rightarrow> bool" where
  "secret_labelled L config k w \<longleftrightarrow>
     (case fst (lib_getSecret L (child_key k (GetSecretName k)) w) of
        Inl e \<Rightarrow> True | Inr secret \<Rightarrow> hasRequiredLabels (sec_Labels secret) (config_labels config))"

text \<open>After \<open>n\<close> of the four steps, the children of these are fine, and the others are as they were.\<close>

definition stage ::
  "'w lib \<Rightarrow> yaml_lib \<Rightarrow> KodeResourceConfig \<Rightarrow> Kode \<Rightarrow> string list \<Rightarrow> nat \<Rightarrow> 'w \<Rightarrow> bool" where
  "stage L Y config k changes n w \<longleftrightarrow>
     secret_labelled L config k w \<and> pods_fine L Y config k w \<and>
     (if 0 < n \<or> ''secret'' \<notin> set changes then secret_fine L config k w
      else answers_NotFound (lib_getSecret L (child_key k (GetSecretName k)) w)) \<and>
     (if 1 < n \<or> ''service'' \<notin> set changes then service_fine L config k w
      else answers_NotFound (lib_getService L (child_key k (GetServiceName k)) w)) \<and>
     (if 2 < n \<or> ''statefulset'' \<notin> set changes then set_fine L Y config k w
      else answers_NotFound (lib_getStatefulSet L (child_key k (GetStatefulSetName k)) w)) \<and>
     (if 3 < n \<or> ''pvc'' \<notin> set changes then pvc_converged L config k w
      else needs_claim k \<and> answers_NotFound (lib_getPVC L (child_key k (GetPVCName k)) w))"

lemma fine_like:
  assumes "reads_like L kind w w'"
  shows "kind \<noteq> KindSecret \<Longrightarrow> secret_fine L config k w' = secret_fine L config k w"
    "kind \<noteq> KindSecret \<Longrightarrow> secret_labelled L config k w' = secret_labelled L config k w"
    "kind \<noteq> KindService \<Longrightarrow> service_fine L config k w' = service_fine L config k w"
    "kind \<noteq> KindStatefulSet \<Longrightarrow> set_fine L Y config k w' = set_fine L Y config k w"
    "kind \<noteq> KindPersistentVolumeClaim \<Longrightarrow> pvc_converged L config k w' = pvc_converged L config k w"
    "pods_fine L Y config k w' = pods_fine L Y config k w"
    "kind \<noteq> KindSecret \<Longrightarrow> answers_NotFound (lib_getSecret L key w') = answers_NotFound (lib_getSecret L key w)"
    "kind \<noteq> KindService \<Longrightarrow> answers_NotFound (lib_getService L key w') = answers_NotFound (lib_getService L key w)"
    "kind \<noteq> KindStatefulSet \<Longrightarrow>
       answers_NotFound (lib_getStatefulSet L key w') = answers_NotFound (lib_getStatefulSet L key w)"
    "kind \<noteq> KindPersistentVolumeClaim \<Longrightarrow>
       answers_NotFound (lib_getPVC L key w') = answers_NotFound (lib_getPVC L key w)"
  by (simp_all add: secret_fine_def secret_labelled_def service_fine_def set_fine_def
      pvc_converged_def pods_fine_def answers_NotFound_def reads_likeD [OF assms]
      cong: option.case_cong)

lemma apart_stage: "apart L (stage L Y config k changes n)"
proof -
  have "stage L Y config k changes n w' = stage L Y config k changes n w"
    if "reads_like L KindKode w w'" for w w'
    unfolding stage_def by (simp only: fine_like [OF that] ObjKind.distinct not_False_eq_True)
  then show ?thesis by (auto simp: apart_def)
qed

lemma stage_next:
  assumes "stage L Y config k changes n w"
  shows "n = 0 \<Longrightarrow> reads_like L KindSecret w w' \<Longrightarrow> secret_fine L config k w' \<Longrightarrow>
      secret_labelled L config k w' \<Longrightarrow> stage L Y config k changes 1 w'"
    "n = 1 \<Longrightarrow> reads_like L KindService w w' \<Longrightarrow> service_fine L config k w' \<Longrightarrow>
      stage L Y config k changes 2 w'"
    "n = 2 \<Longrightarrow> reads_like L KindStatefulSet w w' \<Longrightarrow> set_fine L Y config k w' \<Longrightarrow>
      stage L Y config k changes 3 w'"
    "n = 3 \<Longrightarrow> reads_like L KindPersistentVolumeClaim w w' \<Longrightarrow> pvc_converged L config k w' \<Longrightarrow>
      stage L Y config k changes 4 w'"
  using assms unfolding stage_def by (simp_all add: fine_like split: if_split_asm)

lemma stage_first:
  assumes "startable L Y config k w" and "secret_labelled L config k w" and "pods_fine L Y config k w"
    and "ks_Storage (rc_KodeSpec config) = ks_Storage (k_Spec k)"
  shows "stage L Y config k (missing_children L k w) 0 w"
  using assms not_missing(1,2,4) [of L config k w] not_missing(3) [of L Y config k w]
  by (auto simp: stage_def startable_def missing_children_def)

lemma stage_last:
  "stage L Y config k changes 4 w \<longleftrightarrow>
     converged L Y config k w \<and> secret_labelled L config k w \<and> pods_fine L Y config k w"
  by (auto simp: stage_def converged_fine)

text \<open>The worlds in which a Kode can be configured, and those in which it is.\<close>

definition startable_in :: "'w lib \<Rightarrow> yaml_lib \<Rightarrow> Kode \<Rightarrow> Template \<Rightarrow> 'w \<Rightarrow> bool" where
  "startable_in L Y k template w \<longleftrightarrow>
     (let config = InitKodeResourcesConfig k template in
      startable L Y config k w \<and> secret_labelled L config k w \<and> pods_fine L Y config k w)"

definition configured_in :: "'w lib \<Rightarrow> yaml_lib \<Rightarrow> Kode \<Rightarrow> Template \<Rightarrow> 'w \<Rightarrow> bool" where
  "configured_in L Y k template w \<longleftrightarrow>
     (let config = InitKodeResourcesConfig k template in
      converged L Y config k w \<and> secret_labelled L config k w \<and> pods_fine L Y config k w)"

definition provisioned_in :: "'w lib \<Rightarrow> yaml_lib \<Rightarrow> Kode \<Rightarrow> Template \<Rightarrow> bool \<Rightarrow> 'w \<Rightarrow> bool" where
  "provisioned_in L Y k template b w \<longleftrightarrow> configured_in L Y k template w \<and>
     all_ready L (InitKodeResourcesConfig k template) k w = b"

lemma in_alike:
  assumes a: "alike k x"
  shows "startable_in L Y x template = startable_in L Y k template"
    "configured_in L Y x template = configured_in L Y k template"
    "provisioned_in L Y x template b = provisioned_in L Y k template b"
    "configurable x = configurable k"
proof -
  show "startable_in L Y x template = startable_in L Y k template"
    and c: "configured_in L Y x template = configured_in L Y k template"
    by (intro ext; simp add: startable_in_def configured_in_def alike_names [OF a] converged_alike [OF a]
        secret_labelled_def pods_fine_def desired_statefulset_def Let_def)+
  show "provisioned_in L Y x template b = provisioned_in L Y k template b"
    by (intro ext) (simp add: provisioned_in_def c alike_names [OF a] all_ready_alike [OF a])
  show "configurable x = configurable k"
    by (simp add: configurable_def storage_sound_def alike_names [OF a])
qed

lemma stage_configured:
  "stage L Y (InitKodeResourcesConfig k template) k changes 4 = configured_in L Y k template"
  by (simp add: fun_eq_iff stage_last configured_in_def Let_def)

lemma apart_in:
  "apart L (startable_in L Y k template)" "apart L (configured_in L Y k template)"
  "apart L (provisioned_in L Y k template b)"
proof -
  have "startable L Y config k w' = startable L Y config k w"
    if "reads_like L KindKode w w'" for config w w'
    unfolding startable_def by (simp only: fine_like [OF that] ObjKind.distinct not_False_eq_True)
  then show "apart L (startable_in L Y k template)"
    by (auto simp: apart_def startable_in_def fine_like Let_def)
  show 2: "apart L (configured_in L Y k template)"
    using apart_stage [of L Y "InitKodeResourcesConfig k template" k "[]" 4] by (simp only: stage_configured)
  have "all_ready L config k w' = all_ready L config k w" if "reads_like L KindKode w w'" for config w w'
    using that
    by (simp add: all_ready_def secret_ready_def service_ready_def statefulset_ready_def pvc_ready_def
        pods_ready_def reads_likeD cong: option.case_cong)
  with 2 show "apart L (provisioned_in L Y k template b)"
    by (auto simp: apart_def provisioned_in_def)
qed

subsection \<open>Creating a child\<close>

text \<open>A mutate function or a request that leaves the Kode, the cache and the world alone.\<close>

definition same_memory :: "'w st \<Rightarrow> 'w st \<Rightarrow> bool" where
  "same_memory s t \<longleftrightarrow> kode t = kode s \<and> cache t = cache s \<and> world t = world s"

text \<open>What a successful creation leaves: the object \<open>y\<close> in the world, and the rest as it was.\<close>

definition created ::
  "'w lib \<Rightarrow> ('w \<Rightarrow> bool) \<Rightarrow> ObjKind \<Rightarrow> (NamespacedName \<Rightarrow> 'w \<Rightarrow> (error + 'o) \<times> 'w)
    \<Rightarrow> NamespacedName \<Rightarrow> 'o \<Rightarrow> 'w st \<Rightarrow> 'w st \<Rightarrow> bool" where
  "created L up kind get key y s t \<longleftrightarrow> kode t = kode s \<and> cache t = cache s \<and> up (world t) \<and>
     reads_like L kind (world s) (world t) \<and> fst (get key (world t)) = Inr y"

lemma serving_created:
  assumes "serving L up k template Q p q s" and "created L up kind get key y s t"
    and "kind \<noteq> KindKode" and "Q' (world t)"
  shows "serving L up k template Q' p q t"
  using assms template_at_like [of L _ "world s" template kind "world t"]
  by (auto simp: serving_def created_def reads_likeD(1))

context api_server
begin

lemma CreateOrPatch_creates:
  assumes C: "C = create_or_patch keyof get put" and st: "stores L up kind get put"
    and key: "keyof obj = key" and gone: "answers_NotFound (get key (world s))" and up: "up (world s)"
    and run: "f obj (s\<lparr>reqlog := reqlog s @ [ReqCreateOrPatch kind key]\<rparr>) = (Ret (Inr y), t)"
    and t: "same_memory s t"
  shows "\<exists>u. CreateOrPatch L kind key C obj f s = (Ret (OperationResultCreated, None), u) \<and>
    created L up kind get key y s u"
proof -
  obtain e where e: "fst (get key (world s)) = Inl e" "IsNotFound e"
    using gone by (cases "fst (get key (world s))") (auto simp: answers_NotFound_def)
  have "CreateOrPatch L kind key C obj f s =
      (Ret (OperationResultCreated, None), t\<lparr>world := put key y (world t)\<rparr>)"
    using run e
    by (simp add: CreateOrPatch_def typed log_request_def C create_or_patch_def go_simps key Let_def)
  moreover have "created L up kind get key y s (t\<lparr>world := put key y (world t)\<rparr>)"
    using st up t by (auto simp: created_def same_memory_def stores_def)
  ultimately show ?thesis by blast
qed

lemma owner_run: "\<exists>os. SetControllerReference L [] build s = (Ret (Inr (build os)), s)"
  using own [of "kode_key (kode s)"] by (auto simp: SetControllerReference_def go_simps)

lemma ensureSecret_creates:
  assumes up: "up (world s)" and live: "live k p (kode s)"
    and config: "config = InitKodeResourcesConfig k template"
    and cr: "rc_Credentials config = Some cr" "cr_ExistingSecret cr = None"
    and gone: "answers_NotFound (lib_getSecret L (child_key k (GetSecretName k)) (world s))"
  shows "\<exists>t y. ensureSecret L config s = (Ret (config, None), t) \<and>
    created L up KindSecret (lib_getSecret L) (child_key k (GetSecretName k)) y s t \<and>
    sec_Data y = secret_data cr \<and> sec_Labels y = config_labels config"
proof -
  let ?obj = "\<lparr>sec_Name = GetSecretName k, sec_Namespace = k_Namespace k,
    sec_Labels = config_labels config, sec_Owners = [], sec_Data = []\<rparr>"
  let ?key = "child_key k (GetSecretName k)"
  let ?s = "s\<lparr>reqlog := reqlog s @ [ReqCreateOrPatch KindSecret ?key]\<rparr>"
  obtain os where "SetControllerReference L [] (\<lambda>owners.
      ?obj\<lparr>sec_Data := secret_data cr, sec_Owners := owners\<rparr>) ?s =
      (Ret (Inr (?obj\<lparr>sec_Data := secret_data cr, sec_Owners := os\<rparr>)), ?s)"
    using owner_run [where s = ?s and build = "\<lambda>owners.
      ?obj\<lparr>sec_Data := secret_data cr, sec_Owners := owners\<rparr>"] by blast
  then have run: "mutate_secret L config ?obj ?s =
      (Ret (Inr (?obj\<lparr>sec_Data := secret_data cr, sec_Owners := os\<rparr>)), ?s)"
    by (simp add: mutate_secret_def constructSecretSpec_def cr(1) go_simps Let_def)
  obtain t where t: "CreateOrPatch L KindSecret ?key (lib_createOrPatchSecret L) ?obj
      (mutate_secret L config) s = (Ret (OperationResultCreated, None), t)"
    "created L up KindSecret (lib_getSecret L) ?key
      (?obj\<lparr>sec_Data := secret_data cr, sec_Owners := os\<rparr>) s t"
    using CreateOrPatch_creates [where f = "mutate_secret L config" and obj = ?obj, OF writes(1) stored(1)
        _ gone up run] by (auto simp: child_key_def same_memory_def)
  have "cc_Namespace (rc_CommonConfig config) = k_Namespace k" by (simp add: config)
  then have "ensureSecret L config s = (Ret (config, None), t)"
    using t(1) by (simp add: ensureSecret_def Let_def go_simps cr live_names [OF live] child_key_def)
  with t(2) show ?thesis by auto
qed

lemma ensureService_creates:
  assumes up: "up (world s)" and live: "live k p (kode s)"
    and config: "config = InitKodeResourcesConfig k template"
    and gone: "answers_NotFound (lib_getService L (child_key k (GetServiceName k)) (world s))"
  shows "\<exists>t y. ensureService L config s = (Ret None, t) \<and>
    created L up KindService (lib_getService L) (child_key k (GetServiceName k)) y s t \<and>
    svc_Spec y = desired_service_spec config"
proof -
  let ?obj = "\<lparr>svc_Name = GetServiceName k, svc_Namespace = k_Namespace k,
    svc_Labels = config_labels config, svc_Owners = [], svc_Spec = \<lparr>svcs_Selector = [], svcs_Ports = []\<rparr>\<rparr>"
  let ?new = "\<lambda>owners. ?obj\<lparr>svc_Spec := desired_service_spec config, svc_Labels := [], svc_Owners := owners\<rparr>"
  let ?key = "child_key k (GetServiceName k)"
  let ?s = "s\<lparr>reqlog := reqlog s @ [ReqCreateOrPatch KindService ?key]\<rparr>"
  obtain os where "SetControllerReference L [] ?new ?s = (Ret (Inr (?new os)), ?s)"
    using owner_run [where s = ?s and build = ?new] by blast
  then have run: "mutate_service L config ?obj ?s = (Ret (Inr (?new os)), ?s)"
    by (simp add: mutate_service_def constructServiceSpec_def desired_service_spec_def Let_def)
  obtain t where t: "CreateOrPatch L KindService ?key (lib_createOrPatchService L) ?obj
      (mutate_service L config) s = (Ret (OperationResultCreated, None), t)"
    "created L up KindService (lib_getService L) ?key (?new os) s t"
    using CreateOrPatch_creates [where f = "mutate_service L config" and obj = ?obj, OF writes(2) stored(2)
        _ gone up run] by (auto simp: child_key_def same_memory_def)
  have "cc_Namespace (rc_CommonConfig config) = k_Namespace k" by (simp add: config)
  then have "ensureService L config s = (Ret None, t)"
    using t(1) by (simp add: ensureService_def Let_def go_simps live_names [OF live] child_key_def)
  with t(2) show ?thesis by auto
qed

lemma ensureStatefulSet_creates:
  assumes up: "up (world s)" and live: "live k p (kode s)"
    and d: "desired_statefulset L Y k config d"
    and gone: "answers_NotFound (lib_getStatefulSet L (child_key k (GetStatefulSetName k)) (world s))"
  shows "\<exists>t y. ensureStatefulSet L Y config s = (Ret None, t) \<and>
    created L up KindStatefulSet (lib_getStatefulSet L) (child_key k (GetStatefulSetName k)) y s t \<and>
    ss_Spec y = ss_Spec d"
proof -
  let ?obj = "\<lparr>ss_Name = GetStatefulSetName k, ss_Namespace = k_Namespace k,
    ss_Labels = Some (config_labels config), ss_Owners = [], ss_Spec = StatefulSetSpec_zero,
    ss_ReadyReplicas = 0\<rparr>"
  let ?new = "\<lambda>owners. ?obj\<lparr>ss_Spec := ss_Spec d,
    ss_Labels := Some (merge_into (config_labels config) (config_labels config)), ss_Owners := owners\<rparr>"
  let ?key = "child_key k (GetStatefulSetName k)"
  let ?s = "s\<lparr>reqlog := reqlog s @ [ReqCreateOrPatch KindStatefulSet ?key]\<rparr>"
  obtain os where "SetControllerReference L [] ?new ?s = (Ret (Inr (?new os)), ?s)"
    using owner_run [where s = ?s and build = ?new] by blast
  then have run: "mutate_statefulset L config d ?obj ?s = (Ret (Inr (?new os)), ?s)"
    by (simp add: mutate_statefulset_def Let_def)
  obtain t where t: "CreateOrPatch L KindStatefulSet ?key (lib_createOrPatchStatefulSet L) ?obj
      (mutate_statefulset L config d) s = (Ret (OperationResultCreated, None), t)"
    "created L up KindStatefulSet (lib_getStatefulSet L) ?key (?new os) s t"
    using CreateOrPatch_creates [where f = "mutate_statefulset L config d" and obj = ?obj,
        OF writes(3) stored(3) _ gone up run] by (auto simp: child_key_def same_memory_def)
  have "ensureStatefulSet L Y config s = (Ret None, t)"
    using t(1) d
    by (simp add: ensureStatefulSet_def Let_def go_simps live_names [OF live] child_key_def
        desired_statefulset_def)
  with t(2) show ?thesis by auto
qed

lemma ensureClaim_creates:
  assumes up: "up (world s)" and live: "live k p (kode s)"
    and config: "config = InitKodeResourcesConfig k template"
    and storage: "ks_Storage (k_Spec k) = Some storage" "st_ExistingVolumeClaim storage = None"
      "st_Resources storage \<noteq> None"
    and gone: "answers_NotFound (lib_getPVC L (child_key k (GetPVCName k)) (world s))"
  shows "\<exists>t y. ensurePersistentVolumeClaim L config b s = (Ret None, t) \<and>
    created L up KindPersistentVolumeClaim (lib_getPVC L) (child_key k (GetPVCName k)) y s t \<and>
    (\<exists>c. constructPVCSpec config s = (Ret (Inr c), s) \<and> pvc_Spec y = pvc_Spec c)"
proof -
  let ?obj = "\<lparr>pvc_Name = GetPVCName k, pvc_Namespace = k_Namespace k,
    pvc_Labels = config_labels config, pvc_Annotations = [], pvc_Owners = [],
    pvc_Spec = PVCSpec_zero, pvc_StatusPhase = ''''\<rparr>"
  let ?key = "child_key k (GetPVCName k)"
  let ?s = "s\<lparr>reqlog := reqlog s @ [ReqCreateOrPatch KindPersistentVolumeClaim ?key]\<rparr>"
  obtain c where c: "constructPVCSpec config u = (Ret (Inr c), u)" for u :: "'w st"
    using storage by (auto simp: constructPVCSpec_def config go_simps deref_go_def Let_def)
  let ?new = "\<lambda>owners. ?obj\<lparr>pvc_Spec := pvc_Spec c, pvc_Labels := pvc_Labels c,
    pvc_Annotations := pvc_Annotations c, pvc_Owners := owners\<rparr>"
  obtain e where e: "fst (lib_getPVC L ?key (world s)) = Inl e" "IsNotFound e"
    using gone by (auto simp: answers_NotFound_def split: sum.splits)
  have "\<exists>os t. mutate_pvc L config b ?obj ?s = (Ret (Inr (?new os)), t) \<and> same_memory s t"
  proof -
    obtain os where os: "lib_SetControllerReference L KindKode (kode_key (kode s)) [] = Inr os"
      using own by blast
    have e': "fst (lib_getPVC L (NamespacedName (k_Namespace k) (GetPVCName k)) (world s)) = Inl e"
      using e(1) by (simp add: child_key_def)
    show ?thesis
      by (simp add: mutate_pvc_def c go_simps pure_gets [OF reads_pure] e' e(2) mutate_pvc_new_def
          record_event_def typed Let_def SetControllerReference_def os same_memory_def)
  qed
  then obtain os t' where run: "mutate_pvc L config b ?obj ?s = (Ret (Inr (?new os)), t')" "same_memory s t'"
    by blast
  obtain t where t: "CreateOrPatch L KindPersistentVolumeClaim ?key (lib_createOrPatchPVC L) ?obj
      (mutate_pvc L config b) s = (Ret (OperationResultCreated, None), t)"
    "created L up KindPersistentVolumeClaim (lib_getPVC L) ?key (?new os) s t"
    using CreateOrPatch_creates [where f = "mutate_pvc L config b" and obj = ?obj,
        OF writes(4) stored(4) _ gone up run] by (auto simp: child_key_def)
  have "cc_Namespace (rc_CommonConfig config) = k_Namespace k" "ks_Storage (rc_KodeSpec config) = Some storage"
    by (simp_all add: config storage)
  then have "ensurePersistentVolumeClaim L config b s = (Ret None, t)"
    using t(1) storage(2)
    by (simp add: ensurePersistentVolumeClaim_def Let_def go_simps live_names [OF live] child_key_def)
  with t(2) c show ?thesis by fastforce
qed

text \<open>
  A step of applying the configuration does nothing if its child is not among the changes; otherwise
  the child is missing and is created.
\<close>

lemma serving_apply_step:
  fixes get :: "NamespacedName \<Rightarrow> 'w \<Rightarrow> (error + 'o) \<times> 'w"
  assumes skip: "key \<notin> set changes \<Longrightarrow> Q = Q' \<and> m = return_go r"
    and make: "\<And>s. key \<in> set changes \<Longrightarrow> up (world s) \<Longrightarrow> live k p (kode s) \<Longrightarrow> Q (world s) \<Longrightarrow>
      \<exists>t y. m s = (Ret r, t) \<and> created L up kind get name y s t \<and> Q' (world t)"
    and kind: "kind \<noteq> KindKode"
  shows "surely (serving L up k template Q p q) m (\<lambda>x. x = r) (serving L up k template Q' p q)"
proof (rule surelyI)
  fix s :: "'w st"
  assume I: "serving L up k template Q p q s"
  show "\<exists>x. fst (m s) = Ret x \<and> x = r \<and> serving L up k template Q' p q (snd (m s))"
  proof (cases "key \<in> set changes")
    case True
    obtain t y where t: "m s = (Ret r, t)" "created L up kind get name y s t" "Q' (world t)"
      using make [OF True, of s] I unfolding serving_def by blast
    from t(1) serving_created [where Q' = Q', OF I t(2) kind t(3)] show ?thesis by simp
  qed (use skip I in \<open>simp add: go_simps\<close>)
qed

lemma serving_apply_secret:
  assumes config: "config = InitKodeResourcesConfig k template"
    and cr: "rc_Credentials config = Some cr" "cr_ExistingSecret cr = None"
  shows "surely (serving L up k template (stage L Y config k changes 0) p q) (apply_secret L config changes)
    (\<lambda>x. x = (config, None)) (serving L up k template (stage L Y config k changes 1) p q)"
proof (rule serving_apply_step [where key = "''secret''" and kind = KindSecret and get = "lib_getSecret L"])
  fix s :: "'w st"
  assume key: "''secret'' \<in> set changes" and up: "up (world s)" and live: "live k p (kode s)"
    and Q: "stage L Y config k changes 0 (world s)"
  from key Q have gone: "answers_NotFound (lib_getSecret L (child_key k (GetSecretName k)) (world s))"
    by (simp add: stage_def)
  obtain t y where t: "ensureSecret L config s = (Ret (config, None), t)"
    "created L up KindSecret (lib_getSecret L) (child_key k (GetSecretName k)) y s t"
    "sec_Data y = secret_data cr" "sec_Labels y = config_labels config"
    using ensureSecret_creates [OF up live config cr gone] by blast
  have "hasRequiredLabels (config_labels config) (config_labels config)"
    by (simp add: config createLabels_def)
  then have "stage L Y config k changes 1 (world t)"
    using t(2-4) cr(1)
    by (intro stage_next(1) [OF Q]) (auto simp: created_def secret_fine_def secret_labelled_def)
  with key t(1,2) show "\<exists>t y. apply_secret L config changes s = (Ret (config, None), t) \<and>
      created L up KindSecret (lib_getSecret L) (child_key k (GetSecretName k)) y s t \<and>
      stage L Y config k changes 1 (world t)"
    by (auto simp: apply_secret_def go_simps)
qed (auto simp: stage_def apply_secret_def fun_eq_iff)

lemma serving_apply_service:
  assumes config: "config = InitKodeResourcesConfig k template"
  shows "surely (serving L up k template (stage L Y config k changes 1) p q) (apply_service L config changes)
    (\<lambda>x. x = None) (serving L up k template (stage L Y config k changes 2) p q)"
proof (rule serving_apply_step [where key = "''service''" and kind = KindService and get = "lib_getService L"])
  fix s :: "'w st"
  assume key: "''service'' \<in> set changes" and up: "up (world s)" and live: "live k p (kode s)"
    and Q: "stage L Y config k changes 1 (world s)"
  from key Q have gone: "answers_NotFound (lib_getService L (child_key k (GetServiceName k)) (world s))"
    by (simp add: stage_def)
  obtain t y where t: "ensureService L config s = (Ret None, t)"
    "created L up KindService (lib_getService L) (child_key k (GetServiceName k)) y s t"
    "svc_Spec y = desired_service_spec config"
    using ensureService_creates [OF up live config gone] by blast
  then have "stage L Y config k changes 2 (world t)"
    by (intro stage_next(2) [OF Q]) (auto simp: created_def service_fine_def)
  with key t(1,2) show "\<exists>t y. apply_service L config changes s = (Ret None, t) \<and>
      created L up KindService (lib_getService L) (child_key k (GetServiceName k)) y s t \<and>
      stage L Y config k changes 2 (world t)"
    by (auto simp: apply_service_def go_simps)
qed (auto simp: stage_def apply_service_def fun_eq_iff)

lemma serving_apply_statefulset:
  "surely (serving L up k template (stage L Y config k changes 2) p q) (apply_statefulset L Y config changes)
    (\<lambda>x. x = None) (serving L up k template (stage L Y config k changes 3) p q)"
proof (rule serving_apply_step [where key = "''statefulset''" and kind = KindStatefulSet
      and get = "lib_getStatefulSet L"])
  fix s :: "'w st"
  assume key: "''statefulset'' \<in> set changes" and up: "up (world s)" and live: "live k p (kode s)"
    and Q: "stage L Y config k changes 2 (world s)"
  from key Q have gone: "answers_NotFound (lib_getStatefulSet L (child_key k (GetStatefulSetName k)) (world s))"
    by (simp add: stage_def)
  obtain d pods where d: "desired_statefulset L Y k config d"
    "fst (lib_listPods L (k_Namespace k) (config_labels config) (world s)) = Inr pods"
    "\<forall>pod \<in> set pods. map c_Image (pod_Containers pod) =
       map c_Image (pt_Containers (sts_Template (ss_Spec d)))"
    using Q unfolding stage_def pods_fine_def by blast
  obtain t y where t: "ensureStatefulSet L Y config s = (Ret None, t)"
    "created L up KindStatefulSet (lib_getStatefulSet L) (child_key k (GetStatefulSetName k)) y s t"
    "ss_Spec y = ss_Spec d"
    using ensureStatefulSet_creates [OF up live d(1) gone] by blast
  have "set_fine L Y config k (world t)"
    unfolding set_fine_def
    using t(2,3) d
    by (intro exI [of _ y] exI [of _ d] exI [of _ pods]) (auto simp: created_def reads_likeD(9))
  then have "stage L Y config k changes 3 (world t)"
    using t(2) by (intro stage_next(3) [OF Q]) (auto simp: created_def)
  with key t(1,2) show "\<exists>t y. apply_statefulset L Y config changes s = (Ret None, t) \<and>
      created L up KindStatefulSet (lib_getStatefulSet L) (child_key k (GetStatefulSetName k)) y s t \<and>
      stage L Y config k changes 3 (world t)"
    by (auto simp: apply_statefulset_def go_simps)
qed (auto simp: stage_def apply_statefulset_def fun_eq_iff)

lemma serving_apply_pvc:
  assumes config: "config = InitKodeResourcesConfig k template" and storage: "storage_sound k"
  shows "surely (serving L up k template (stage L Y config k changes 3) p q) (apply_pvc L config changes)
    (\<lambda>x. x = None) (serving L up k template (stage L Y config k changes 4) p q)"
proof (rule serving_apply_step [where key = "''pvc''" and kind = KindPersistentVolumeClaim
      and get = "lib_getPVC L"])
  fix s :: "'w st"
  assume key: "''pvc'' \<in> set changes" and up: "up (world s)" and live: "live k p (kode s)"
    and Q: "stage L Y config k changes 3 (world s)"
  from key Q have gone: "answers_NotFound (lib_getPVC L (child_key k (GetPVCName k)) (world s))"
    and needs: "needs_claim k"
    by (simp_all add: stage_def)
  obtain st where st: "ks_Storage (k_Spec k) = Some st" "st_ExistingVolumeClaim st = None"
    "st_Resources st \<noteq> None" "\<not> IsEmpty (ks_Storage (k_Spec k))"
    using needs storage by (auto simp: needs_claim_def storage_sound_def split: option.splits)
  obtain t y c where t: "ensurePersistentVolumeClaim L config True s = (Ret None, t)"
    "created L up KindPersistentVolumeClaim (lib_getPVC L) (child_key k (GetPVCName k)) y s t"
    "constructPVCSpec config s = (Ret (Inr c), s)" "pvc_Spec y = pvc_Spec c"
    using ensureClaim_creates [OF up live config st(1-3) gone] by blast
  have "pvc_converged L config k (world t)"
    using t(2-4) st
    by (auto simp: pvc_converged_def created_def config constructPVCSpec_def go_simps deref_go_def
        quantity_Equal_def Let_def split: option.splits)
  then have "stage L Y config k changes 4 (world t)"
    using t(2) by (intro stage_next(4) [OF Q]) (auto simp: created_def)
  with key t(1,2) st(4) show "\<exists>t y. apply_pvc L config changes s = (Ret None, t) \<and>
      created L up KindPersistentVolumeClaim (lib_getPVC L) (child_key k (GetPVCName k)) y s t \<and>
      stage L Y config k changes 4 (world t)"
    by (auto simp: apply_pvc_def go_simps live_names [OF live])
next
  assume "''pvc'' \<notin> set changes"
  then show "stage L Y config k changes 3 = stage L Y config k changes 4 \<and>
      apply_pvc L config changes = return_go None"
    by (auto simp: stage_def apply_pvc_def fun_eq_iff go_simps)
qed simp

lemma serving_applyConfiguration:
  assumes config: "config = InitKodeResourcesConfig k template" and storage: "storage_sound k"
    and cr: "rc_Credentials config = Some cr" "cr_ExistingSecret cr = None"
  shows "surely (serving L up k template (stage L Y config k changes 0) p q)
    (applyConfiguration L Y config changes) (\<lambda>x. x = (config, None))
    (serving L up k template (stage L Y config k changes 4) p q)"
proof -
  let ?I = "\<lambda>n. serving L up k template (stage L Y config k changes n) p q"
  show ?thesis
    unfolding applyConfiguration_def
    by (rule triple_bind_known [OF serving_apply_secret [OF config cr]], simp,
        rule triple_bind_known [OF serving_apply_service [OF config, unfolded One_nat_def]], simp,
        rule triple_bind_known [OF serving_apply_statefulset], simp,
        rule triple_bind_known [OF serving_apply_pvc [OF config storage]], simp add: triple_return)
qed

subsection \<open>The handlers on the way up\<close>

lemma serving_seq:
  "(\<And>m. m \<in> set ms \<Longrightarrow> triple (serving L up k template Q p q) m
       (\<lambda>_. serving L up k template Q p q) (\<lambda>_. False)) \<Longrightarrow>
     triple (serving L up k template Q p q) (seq_go ms) (\<lambda>_. serving L up k template Q p q) (\<lambda>_. False)"
  by (rule triple_seq)

lemma serving_Pending:
  assumes Q: "apart L Q" and valid: "Valid (ValidateKode k)"
  shows "surely (serving L up k template Q PhasePending PhasePending) (handlePendingState L)
    (\<lambda>x. x = (PhaseConfiguring, result_requeue, None)) (serving L up k template Q PhasePending PhasePending)"
proof -
  have "Valid (ValidateKode (kode s))" if "serving L up k template Q PhasePending PhasePending s"
    for s :: "'w st"
    using valid live_spec [OF serving_live [OF that]] by (simp add: Valid_ValidateKode)
  then show ?thesis
    unfolding handlePendingState_def Let_def
    by (intro triple_gets_bind, simp only: simp_thms if_False)
      (rule triple_then [OF serving_seq]; (rule serving_update_or_fail [OF Q])?;
        auto intro: serving_set_condition triple_return)
qed

lemma serving_detectChanges:
  assumes "config = InitKodeResourcesConfig k template"
  shows "triple (serving L up k template (startable_in L Y k template) p q) (detectChanges L Y config)
    (\<lambda>r s. \<exists>changes. r = Inr changes \<and>
       serving L up k template (stage L Y config k changes 0) p q s) (\<lambda>_. False)"
  unfolding triple_def
proof (intro allI impI)
  fix s :: "'w st"
  assume I: "serving L up k template (startable_in L Y k template) p q s"
  then have live: "live k p (kode s)" and Q: "startable_in L Y k template (world s)"
    by (simp_all add: serving_def)
  note Q = Q [unfolded startable_in_def Let_def]
  let ?changes = "missing_children L k (world s)"
  have storage: "ks_Storage (rc_KodeSpec config) = ks_Storage (k_Spec k)" by (simp add: assms)
  note same = converged_alike(2,3) [OF live_alike [OF live]]
  have st: "startable L Y config (kode s) (world s)" unfolding same using Q by (simp add: assms)
  obtain t where t: "detectChanges L Y config s = (Ret (Inr ?changes), t)" "same_but_log s t"
    using detectChanges_exact [OF reads_pure st] storage by (auto simp: same live_names [OF live])
  have "stage L Y config k ?changes 0 (world s)"
    using Q by (intro stage_first storage) (simp_all add: assms)
  then have "serving L up k template (stage L Y config k ?changes 0) p q t"
    using serving_same_but_log [OF I t(2)] same_but_logD [OF t(2)] by (simp add: serving_def)
  then show "case detectChanges L Y config s of
      (Ret r, t) \<Rightarrow> \<exists>changes. r = Inr changes \<and>
        serving L up k template (stage L Y config k changes 0) p q t
    | (Panic, t) \<Rightarrow> False"
    by (simp add: t(1))
qed

text \<open>Every child is as configured.\<close>

lemma serving_validate:
  assumes config: "config = InitKodeResourcesConfig k template"
  shows "surely (serving L up k template (stage L Y config k changes 4) p q) (validateConfiguration L config)
    (\<lambda>err. err = None) (serving L up k template (stage L Y config k changes 4) p q)"
proof (rule surelyI)
  fix s :: "'w st"
  assume I: "serving L up k template (stage L Y config k changes 4) p q s"
  then have live: "live k p (kode s)" and Q: "converged L Y config k (world s)"
    "secret_labelled L config k (world s)"
    and at: "template_at L (ks_TemplateRef (k_Spec k)) (world s) template"
    by (simp_all add: serving_def stage_last)
  obtain spec where spec: "t_ContainerTemplateSpec template = Some spec"
    using template_at_spec [OF at] by blast
  have "converged L Y config (kode s) (world s)"
    using Q(1) by (simp add: converged_alike(1) [OF live_alike [OF live]])
  moreover have "config = InitKodeResourcesConfig (kode s) template"
    by (simp add: config live_names [OF live])
  moreover have "hasRequiredLabels (sec_Labels secret) (config_labels config)"
    if "fst (lib_getSecret L (child_key (kode s) (GetSecretName (kode s))) (world s)) = Inr secret" for secret
    using that Q(2) by (simp add: secret_labelled_def live_names [OF live])
  ultimately obtain t where t: "validateConfiguration L config s = (Ret None, t)" "same_but_log s t"
    using validateConfiguration_converged [OF lawful reads_pure, of Y config s template spec] spec by blast
  from serving_same_but_log [OF I t(2)] t(1)
  show "\<exists>err. fst (validateConfiguration L config s) = Ret err \<and> err = None \<and>
      serving L up k template (stage L Y config k changes 4) p q (snd (validateConfiguration L config s))"
    by simp
qed

lemma serving_Configuring:
  assumes k: "configurable k"
  shows "surely (serving L up k template (startable_in L Y k template) PhaseConfiguring q)
    (handleConfiguringState L Y) (\<lambda>x. x = (PhaseProvisioning, result_requeue, None))
    (serving L up k template (configured_in L Y k template) PhaseConfiguring PhaseConfiguring)"
proof -
  let ?c = "InitKodeResourcesConfig k template" and ?p = PhaseConfiguring
  let ?I = "\<lambda>Q. serving L up k template Q ?p ?p"
  obtain cr where cr: "rc_Credentials ?c = Some cr" "cr_ExistingSecret cr = None"
    using configurable_credentials [OF k] by blast
  have sound: "storage_sound k" using k by (simp add: configurable_def)
  have config: "InitKodeResourcesConfig (kode s) template = ?c" if "?I Q s" for Q and s :: "'w st"
    using live_names(9) [OF serving_live [OF that]] .
  have note_event: "triple (?I Q) (if b then emit L et re m else return_go ()) (\<lambda>_. ?I Q) (\<lambda>_. False)"
    for Q b et re m
    by (auto intro: serving_emit triple_return)
  have set: "triple (?I Q) (seq_go
       [set_condition L ConditionTypeReady ConditionFalse ''Configuring''
          ''Kode resources are being configured'',
        set_condition L ConditionTypeAvailable ConditionFalse ''Configuring''
          ''Kode is not yet available'',
        set_condition L ConditionTypeProgressing ConditionTrue ''Configuring''
          ''Kode resources are being configured'']) (\<lambda>_. ?I Q) (\<lambda>_. False)" for Q
    by (rule serving_seq) (auto intro: serving_set_condition)
  have finish: "surely (?I (configured_in L Y k template)) (update_or_fail L ''Failed to update status''
       (return_go (PhaseProvisioning, result_requeue, None)))
      (\<lambda>x. x = (PhaseProvisioning, result_requeue, None)) (?I (configured_in L Y k template))"
    by (rule serving_update_or_fail [OF apart_in(2)]) (auto intro: triple_return)
  show ?thesis
    unfolding handleConfiguringState_def
    by (rule triple_bind_known [OF serving_fetchTemplates [OF apart_in(1)]], simp only: sum.case,
        rule triple_gets_known [OF config], assumption,
        rule triple_bind_some [OF serving_detectChanges [OF refl]], simp only: sum.case,
        rule triple_then [OF note_event],
        rule triple_bind_known [OF serving_applyConfiguration [OF refl sound cr]], simp only: prod.case option.case,
        rule triple_then [OF note_event],
        rule triple_bind_known [OF serving_validate [OF refl]], simp only: option.case stage_configured,
        rule triple_then [OF set], rule finish)
qed

lemma serving_checkReady:
  assumes config: "config = InitKodeResourcesConfig k template"
  shows "surely (serving L up k template (provisioned_in L Y k template b) p q)
    (checkResourcesReady L config) (\<lambda>r. r = Inr b)
    (serving L up k template (provisioned_in L Y k template b) p q)"
proof (rule surelyI)
  fix s :: "'w st"
  let ?I = "serving L up k template (provisioned_in L Y k template b) p q"
  assume I: "?I s"
  then have live: "live k p (kode s)" and Q: "converged L Y config k (world s)"
    "all_ready L config k (world s) = b"
    and at: "template_at L (ks_TemplateRef (k_Spec k)) (world s) template"
    by (simp_all add: serving_def provisioned_in_def configured_in_def Let_def config)
  obtain spec where spec: "t_ContainerTemplateSpec template = Some spec"
    using template_at_spec [OF at] by blast
  have "converged L Y config (kode s) (world s)"
    using Q(1) by (simp add: converged_alike(1) [OF live_alike [OF live]])
  moreover have "config = InitKodeResourcesConfig (kode s) template"
    by (simp add: config live_names [OF live])
  moreover have "all_ready L config (kode s) (world s) = b"
    using Q(2) by (simp add: all_ready_alike [OF live_alike [OF live]])
  ultimately obtain t where t: "checkResourcesReady L config s = (Ret (Inr b), t)" "same_but_log s t"
    using checkResourcesReady_converged [OF reads_pure, of Y config s template spec] spec by blast
  from serving_same_but_log [OF I t(2)] t(1)
  show "\<exists>r. fst (checkResourcesReady L config s) = Ret r \<and> r = Inr b \<and>
      ?I (snd (checkResourcesReady L config s))"
    by simp
qed

text \<open>Provisioning is left for Active exactly when all children are ready.\<close>

lemma serving_Provisioning:
  "surely (serving L up k template (provisioned_in L Y k template b) PhaseProvisioning q)
    (handleProvisioningState L)
    (\<lambda>x. x = (if b then (PhaseActive, result_none, None)
               else (PhaseProvisioning, result_after (lib_ReconcileInterval L), None)))
    (serving L up k template (provisioned_in L Y k template b) PhaseProvisioning PhaseProvisioning)"
proof -
  let ?c = "InitKodeResourcesConfig k template"
  let ?I = "serving L up k template (provisioned_in L Y k template b) PhaseProvisioning PhaseProvisioning"
  have config: "InitKodeResourcesConfig (kode s) template = ?c" if "?I s" for s :: "'w st"
    using live_names(9) [OF serving_live [OF that]] .
  have finish: "surely ?I (update_or_fail L m h) (\<lambda>x. x = r) ?I"
    if "surely ?I h (\<lambda>x. x = r) ?I" for m h r
    by (rule serving_update_or_fail [OF apart_in(3) that])
  have stop: "surely ?I (then_go (emit L et re m) (return_go r)) (\<lambda>x. x = r') ?I"
    "surely ?I (return_go r) (\<lambda>x. x = r') ?I" if "r = r'" for et re m r r'
    using that by (auto intro: triple_then [OF serving_emit] triple_return)
  show ?thesis
    unfolding handleProvisioningState_def
    by (rule triple_bind_known [OF serving_fetchTemplates [OF apart_in(3)]], simp only: sum.case,
        rule triple_gets_known [OF config], assumption,
        rule triple_bind_known [OF serving_checkReady [OF refl]], simp only: sum.case, rule triple_if)
      (rule triple_then [OF serving_seq],
        (auto intro!: serving_set_condition serving_modify_status)[1], rule finish, rule stop, simp)+
qed

end

end
