(* ===== verification/Kode_Arrival.thy ===== *)
theory Kode_Arrival
  imports Kode_Rise
begin

text \<open>
  From one reconciliation to the next: what a reconciliation finds in the cluster and in the
  template cache (\<open>at_rest\<close>), and where it leaves a Kode that is on its way up.
\<close>

subsection \<open>Between reconciliations\<close>

text \<open>
  Only the world and the template cache outlive a reconciliation: the Kode in memory is the fetched one.
\<close>

definition at_rest ::
  "'w lib \<Rightarrow> ('w \<Rightarrow> bool) \<Rightarrow> Kode \<Rightarrow> Template \<Rightarrow> ('w \<Rightarrow> bool) \<Rightarrow> Phase \<Rightarrow> 'w st \<Rightarrow> bool" where
  "at_rest L up k template Q p s \<longleftrightarrow> up (world s) \<and>
     (\<exists>x. fst (lib_getKode L (kode_key k) (world s)) = Inr x \<and> live k p x) \<and>
     template_at L (ks_TemplateRef (k_Spec k)) (world s) template \<and>
     map_of (cache s) (getCacheKey (ks_TemplateRef (k_Spec k))) \<in> {None, Some template} \<and> Q (world s)"

lemma serving_at_rest: "serving L up k template Q p q s \<longleftrightarrow> live k p (kode s) \<and> at_rest L up k template Q q s"
  by (auto simp: serving_def at_rest_def)

lemma at_rest_weaken: "at_rest L up k template Q p s \<Longrightarrow> (\<And>w. Q w \<Longrightarrow> Q' w) \<Longrightarrow> at_rest L up k template Q' p s"
  by (simp add: at_rest_def)

text \<open>A Kode that a user has just created: its finalizer is not there yet.\<close>

definition newborn ::
  "'w lib \<Rightarrow> ('w \<Rightarrow> bool) \<Rightarrow> Kode \<Rightarrow> Template \<Rightarrow> ('w \<Rightarrow> bool) \<Rightarrow> 'w st \<Rightarrow> bool" where
  "newborn L up k template Q s \<longleftrightarrow> up (world s) \<and> k_DeletionTimestamp k = None \<and> \<not> has_finalizer k \<and>
     fst (lib_getKode L (kode_key k) (world s)) = Inr k \<and>
     template_at L (ks_TemplateRef (k_Spec k)) (world s) template \<and>
     map_of (cache s) (getCacheKey (ks_TemplateRef (k_Spec k))) \<in> {None, Some template} \<and> Q (world s)"

definition with_finalizer :: "'w lib \<Rightarrow> Kode \<Rightarrow> Kode" where
  "with_finalizer L k = k\<lparr>k_Finalizers := lib_AddFinalizer L (k_Finalizers k) (GetFinalizer k)\<rparr>"

lemma with_finalizer_simps [simp]:
  "k_DeletionTimestamp (with_finalizer L k) = k_DeletionTimestamp k"
  "k_Generation (with_finalizer L k) = k_Generation k" "k_Spec (with_finalizer L k) = k_Spec k"
  "k_Status (with_finalizer L k) = k_Status k" "kode_key (with_finalizer L k) = kode_key k"
  by (simp_all add: with_finalizer_def kode_key_def)

lemma has_finalizer_with: "lawful L \<Longrightarrow> has_finalizer (with_finalizer L k)"
  by (simp add: with_finalizer_def has_finalizer_def GetFinalizer_def lawful_simps)

lemma alike_with_finalizer: "alike k (with_finalizer L k)"
  by (simp add: with_finalizer_def alike_def)

lemmas in_with_finalizer = in_alike [OF alike_with_finalizer]

text \<open>Reconciliations one after the other, and nobody else at work.\<close>

definition reconciles :: "'w lib \<Rightarrow> yaml_lib \<Rightarrow> NamespacedName \<Rightarrow> nat \<Rightarrow> 'w st \<Rightarrow> 'w st" where
  "reconciles L Y key n s = ((\<lambda>s. snd (Reconcile L Y key s)) ^^ n) s"

lemma triple_pure: "(A \<Longrightarrow> triple P m Q E) \<Longrightarrow> triple (\<lambda>s. A \<and> P s) m Q E"
  by (auto simp: triple_def)

lemma reads_like_trans: "reads_like L kind u v \<Longrightarrow> reads_like L kind v w \<Longrightarrow> reads_like L kind u w"
  by (simp add: reads_like_def)

context api_server
begin

subsection \<open>The phase machine\<close>

lemma serving_run_machine:
  assumes Q': "apart L Q'" and h: "map_of (kode_machine L Y) p = Some h"
    and run: "triple (serving L up k template Q p p) h
      (\<lambda>x s. \<exists>a. x = (fst a, snd a, None) \<and> A a \<and> serving L up k template Q' p p s) (\<lambda>_. False)"
  shows "triple (serving L up k template Q p p) (run_machine L Y)
    (\<lambda>x s. \<exists>a. x = (snd a, None) \<and> A a \<and> serving L up k template Q' (fst a) (fst a) s) (\<lambda>_. False)"
proof -
  let ?I = "serving L up k template"
  let ?done = "\<lambda>x s. \<exists>a. x = (snd a, None) \<and> A a \<and> ?I Q' (fst a) (fst a) s"
  have store: "triple (?I Q' p p) (if fst a \<noteq> p then
         then_go (modify_go (st_SetPhase (fst a)))
        (bind_go (UpdateStatus L) (\<lambda>uerr. case uerr of
             Some e \<Rightarrow> return_go (result_after (lib_ReconcileInterval L), Some e)
           | None \<Rightarrow> return_go (snd a, None)))
       else return_go (snd a, None)) ?done (\<lambda>_. False)" if A: "A a" for a
  proof (rule triple_if)
    have "triple (?I Q' p p) (modify_go (st_SetPhase (fst a))) (\<lambda>_. ?I Q' (fst a) p) (\<lambda>_. False)"
      using serving_set_phase [of L up k template Q' p p "fst a"]
      by (simp add: set_phase_def st_SetPhase_def [abs_def])
    moreover have "triple (?I Q' (fst a) p) (bind_go (UpdateStatus L) (\<lambda>uerr. case uerr of
        Some e \<Rightarrow> return_go (result_after (lib_ReconcileInterval L), Some e)
      | None \<Rightarrow> return_go (snd a, None))) ?done (\<lambda>_. False)"
      using A by (intro triple_bind_known [OF serving_UpdateStatus [OF Q']]) (auto intro!: triple_return exI [of _ "fst a"])
    ultimately show "triple (?I Q' p p) (then_go (modify_go (st_SetPhase (fst a)))
        (bind_go (UpdateStatus L) (\<lambda>uerr. case uerr of
             Some e \<Rightarrow> return_go (result_after (lib_ReconcileInterval L), Some e)
           | None \<Rightarrow> return_go (snd a, None)))) ?done (\<lambda>_. False)"
      by (rule triple_then)
  qed (use A in \<open>auto intro!: triple_return exI [of _ "fst a"]\<close>)
  have "triple (?I Q p p)
      (HandleState st_GetPhase st_SetPhase (UpdateStatus L) (lib_ReconcileInterval L) (kode_machine L Y))
      ?done (\<lambda>_. False)"
    unfolding HandleState_def
    by (rule triple_gets_known [where a = p], simp add: st_GetPhase_def live_phase [OF serving_live],
        simp only: h option.case, rule triple_bind_some [OF run], simp only: prod.case option.case,
        rule triple_pure, erule store)
  then show ?thesis
    unfolding run_machine_def
    by (rule triple_bind_some, simp only: prod.case option.case)
      (rule triple_return, blast)
qed

lemma serving_reset_retries:
  assumes "apart L Q"
  shows "surely (serving L up k template Q p p) (reset_retries L) (\<lambda>err. err = None)
    (serving L up k template Q p p)"
  unfolding reset_retries_def
  by (rule triple_gets_bind, rule triple_if,
      rule triple_then [OF serving_modify_status serving_UpdateStatus [OF assms]])
    (auto intro: triple_return)

subsection \<open>One reconciliation\<close>

lemma Reconcile_fetches:
  assumes "at_rest L up k template Q p s"
  shows "\<exists>t. Reconcile L Y (kode_key k) s = reconcile_fetched L Y t \<and> serving L up k template Q p p t"
proof -
  obtain x where x: "fst (lib_getKode L (kode_key k) (world s)) = Inr x" "live k p x"
    using assms by (auto simp: at_rest_def)
  then have "lib_getKode L (kode_key k) (world s) = (Inr x, world s)"
    using more_pure(1) by (metis prod.collapse)
  then have "Reconcile L Y (kode_key k) s = reconcile_fetched L Y
      (s\<lparr>reqlog := reqlog s @ [ReqGet KindKode (kode_key k) Found], kode := x\<rparr>)"
    by (simp add: Reconcile_def api_get_def answer_of_def go_simps)
  moreover have "serving L up k template Q p p
      (s\<lparr>reqlog := reqlog s @ [ReqGet KindKode (kode_key k) Found], kode := x\<rparr>)"
    using assms x(2) by (simp add: serving_def at_rest_def)
  ultimately show ?thesis by blast
qed

text \<open>A reconciliation of a Kode in its phase is a run of the handler of the phase.\<close>

lemma Reconcile_runs:
  assumes Q: "apart L Q" "apart L Q'" and k: "k_DeletionTimestamp k = None" "has_finalizer k"
    and h: "map_of (kode_machine L Y) p = Some h"
    and run: "triple (serving L up k template Q p p) h
      (\<lambda>x s. \<exists>a. x = (fst a, snd a, None) \<and> A a \<and> serving L up k template Q' p p s) (\<lambda>_. False)"
    and s: "at_rest L up k template Q p s"
  shows "\<exists>q r t. Reconcile L Y (kode_key k) s = (Ret (r, None), t) \<and> A (q, r) \<and>
    at_rest L up k template Q' q t"
proof -
  let ?I = "serving L up k template"
  obtain t where t: "Reconcile L Y (kode_key k) s = reconcile_fetched L Y t" "?I Q p p t"
    using Reconcile_fetches [OF s] by blast
  have machine: "triple (?I Q p p) (bind_go (reset_retries L) (\<lambda>err.
      case err of Some e \<Rightarrow> return_go (result_requeue, Some e) | None \<Rightarrow> run_machine L Y))
      (\<lambda>x s. \<exists>a. x = (snd a, None) \<and> A a \<and> ?I Q' (fst a) (fst a) s) (\<lambda>_. False)"
    by (rule triple_bind_known [OF serving_reset_retries [OF Q(1)]])
      (simp only: option.case serving_run_machine [OF Q(2) h run])
  have x: "k_DeletionTimestamp (kode t) = None" "has_finalizer (kode t)"
    "k_Generation (kode t) = ObservedGeneration (k_Status (kode t))"
    using serving_live [OF t(2)] k by (auto simp: live_def has_finalizer_def GetFinalizer_def)
  then have "reconcile_fetched L Y t = bind_go (reset_retries L) (\<lambda>err.
      case err of Some e \<Rightarrow> return_go (result_requeue, Some e) | None \<Rightarrow> run_machine L Y) t"
    by (simp add: reconcile_fetched_def reconcile_live_def ContainsFinalizer_iff [OF lawful] go_simps)
  then show ?thesis
    using triple_case [OF machine t(2)]
    by (auto simp: t(1) serving_at_rest split: prod.splits outcome.splits)
qed

lemma Reconcile_runs_to:
  assumes "apart L Q" "apart L Q'" "k_DeletionTimestamp k = None" "has_finalizer k"
    and "map_of (kode_machine L Y) p = Some h"
    and run: "surely (serving L up k template Q p p) h (\<lambda>x. x = (q, r, None)) (serving L up k template Q' p p)"
    and "at_rest L up k template Q p s"
  shows "\<exists>t. Reconcile L Y (kode_key k) s = (Ret (r, None), t) \<and> at_rest L up k template Q' q t"
proof -
  have "triple (serving L up k template Q p p) h (\<lambda>x s. \<exists>a. x = (fst a, snd a, None) \<and> a = (q, r) \<and>
      serving L up k template Q' p p s) (\<lambda>_. False)"
    by (rule triple_weaken [OF run]) auto
  from Reconcile_runs [OF assms(1-5) this assms(7)] show ?thesis by auto
qed

text \<open>The first reconciliation takes possession of the Kode: its finalizer, and the phase Pending.\<close>

lemma Reconcile_initializes:
  assumes Q: "apart L Q" and new: "newborn L up k template Q s"
  shows "\<exists>t. Reconcile L Y (kode_key k) s = (Ret (result_requeue, None), t) \<and>
    at_rest L up (with_finalizer L k) template Q PhasePending t"
proof -
  let ?key = "kode_key k" and ?k = "with_finalizer L k"
  note new = new [unfolded newborn_def]
  have get: "lib_getKode L ?key (world s) = (Inr k, world s)"
    using new more_pure(1) by (metis prod.collapse)
  have key: "kode_key (k\<lparr>k_Finalizers := fs\<rparr>) = ?key" for fs by (simp add: kode_key_def)
  obtain w1 where w1: "lib_updateKode L ?k (world s) = (None, w1)" "up w1"
    "reads_like L KindKode (world s) w1" "fst (lib_getKode L ?key w1) = Inr ?k"
    using update [of "world s" ?k k] new by (auto simp: with_finalizer_def kode_key_def)
  let ?t = "(k_Status k)\<lparr>Phase_of := PhasePending, ObservedGeneration := k_Generation k\<rparr>"
  let ?u = "s\<lparr>world := w1, reqlog := reqlog s @ [ReqGet KindKode ?key Found, ReqGet KindKode ?key Found,
    ReqUpdateFinalizers ?key (k_Finalizers ?k) True], kode := k\<lparr>k_Status := ?t\<rparr>\<rparr>"
  have "Reconcile L Y ?key s = bind_go (UpdateStatus L) (\<lambda>uerr. case uerr of
      Some e \<Rightarrow> return_go (result_requeue, Some e) | None \<Rightarrow> return_go (result_requeue, None)) ?u"
    using new w1(1) [unfolded with_finalizer_def] key
    by (simp add: Reconcile_def api_get_def answer_of_def reconcile_fetched_def reconcile_live_def
        ContainsFinalizer_iff [OF lawful] initialize_def AddFinalizer_def api_update_def get
        set_phase_def SetPhase_def modify_status_def with_finalizer_def go_simps)
  moreover obtain w2 qs where w2: "UpdateStatus L ?u = (Ret None, ?u\<lparr>world := w2, reqlog := reqlog ?u @ qs\<rparr>)"
    "up w2" "reads_like L KindKode w1 w2"
    "fst (lib_getKode L ?key w2) = Inr (?k\<lparr>k_Status := ?t\<rparr>)"
    using UpdateStatus_run [of ?u ?k] w1(2,4) by (auto simp: kode_key_def)
  ultimately have "Reconcile L Y ?key s = (Ret (result_requeue, None), ?u\<lparr>world := w2, reqlog := reqlog ?u @ qs\<rparr>)"
    by (simp add: bind_go_def [of "UpdateStatus L"] go_simps)
  moreover have "at_rest L up ?k template Q PhasePending (?u\<lparr>world := w2, reqlog := reqlog ?u @ qs\<rparr>)"
    using new w2 reads_like_trans [OF w1(3) w2(3)]
    by (auto simp: at_rest_def live_def intro: template_at_like apart_like [OF Q])
  ultimately show ?thesis by blast
qed

subsection \<open>The way up\<close>

lemma comes_up:
  assumes new: "newborn L up k template (startable_in L Y k template) s"
    and valid: "Valid (ValidateKode k)" and k: "configurable k"
  shows "at_rest L up (with_finalizer L k) template (configured_in L Y k template) PhaseProvisioning
    (reconciles L Y (kode_key k) 3 s)"
proof -
  let ?k = "with_finalizer L k" and ?key = "kode_key k"
  let ?at = "at_rest L up ?k template" and ?R = "Reconcile L Y ?key"
  have fin: "k_DeletionTimestamp ?k = None" "has_finalizer ?k"
    using new by (simp_all add: newborn_def has_finalizer_with [OF lawful])
  have valid': "Valid (ValidateKode ?k)" using valid by (simp add: Valid_ValidateKode)
  obtain s1 where s1: "?R s = (Ret (result_requeue, None), s1)"
    "?at (startable_in L Y ?k template) PhasePending s1"
    using Reconcile_initializes [OF apart_in(1) new, of Y] by (auto simp: in_with_finalizer)
  obtain s2 where s2: "?R s1 = (Ret (result_requeue, None), s2)"
    "?at (startable_in L Y ?k template) PhaseConfiguring s2"
    using Reconcile_runs_to [OF apart_in(1,1) fin map_of_kode_machine(1)
        serving_Pending [OF apart_in(1) valid'] s1(2)] by auto
  have "configurable ?k" by (simp add: in_with_finalizer k)
  from Reconcile_runs_to [OF apart_in(1,2) fin map_of_kode_machine(2) serving_Configuring [OF this] s2(2)]
  obtain s3 where s3: "?R s2 = (Ret (result_requeue, None), s3)"
    "?at (configured_in L Y ?k template) PhaseProvisioning s3" by auto
  show ?thesis
    using s3(2) by (simp add: reconciles_def eval_nat_numeral s1(1) s2(1) s3(1) in_with_finalizer)
qed

lemma arrives:
  assumes "at_rest L up (with_finalizer L k) template (provisioned_in L Y k template b) PhaseProvisioning u"
    and "k_DeletionTimestamp k = None"
  shows "\<exists>v. Reconcile L Y (kode_key k) u =
      (Ret (if b then result_none else result_after (lib_ReconcileInterval L), None), v) \<and>
    at_rest L up (with_finalizer L k) template (provisioned_in L Y k template b)
      (if b then PhaseActive else PhaseProvisioning) v"
proof -
  let ?k = "with_finalizer L k"
  let ?at = "at_rest L up ?k template (provisioned_in L Y ?k template b)"
  have run: "surely (serving L up ?k template (provisioned_in L Y ?k template b) PhaseProvisioning PhaseProvisioning)
      (handleProvisioningState L)
      (\<lambda>x. x = (if b then PhaseActive else PhaseProvisioning,
        if b then result_none else result_after (lib_ReconcileInterval L), None))
      (serving L up ?k template (provisioned_in L Y ?k template b) PhaseProvisioning PhaseProvisioning)"
    by (rule triple_weaken [OF serving_Provisioning]) auto
  have "k_DeletionTimestamp ?k = None" "has_finalizer ?k" "?at PhaseProvisioning u"
    using assms by (simp_all add: has_finalizer_with [OF lawful] in_with_finalizer)
  from Reconcile_runs_to [OF apart_in(3,3) this(1,2) map_of_kode_machine(3) run this(3)] show ?thesis
    by (simp add: in_with_finalizer)
qed

end

end
