(* ===== verification/Kode_Repair.thy ===== *)
theory Kode_Repair
  imports Kode_Arrival
begin

text \<open>
  Self-healing: on a server that serves, the reconciliation of a Kode in the phase Updating makes the
  children that are missing, whichever they are, and leaves every child as configured.
\<close>

lemma provisioned_or: "configured_in L Y k template w \<longleftrightarrow> (\<exists>b. provisioned_in L Y k template b w)"
  by (simp add: provisioned_in_def)

lemma stage_none: "stage L Y config k [] 0 = stage L Y config k [] 4"
  by (simp add: stage_def fun_eq_iff)

context api_server
begin

lemma serving_checkReady_any:
  "triple (serving L up k template (configured_in L Y k template) p q)
    (checkResourcesReady L (InitKodeResourcesConfig k template))
    (\<lambda>r s. \<exists>b. r = Inr b \<and> serving L up k template (configured_in L Y k template) p q s) (\<lambda>_. False)"
  unfolding triple_def
proof (intro allI impI)
  fix s :: "'w st"
  let ?m = "checkResourcesReady L (InitKodeResourcesConfig k template)"
  assume I: "serving L up k template (configured_in L Y k template) p q s"
  then obtain b where "serving L up k template (provisioned_in L Y k template b) p q s"
    by (auto simp: serving_def provisioned_or)
  from triple_case [OF serving_checkReady [OF refl] this]
  show "case ?m s of (Ret r, t) \<Rightarrow> \<exists>b. r = Inr b \<and>
      serving L up k template (configured_in L Y k template) p q t | (Panic, t) \<Rightarrow> False"
    by (auto simp: serving_def provisioned_or split: prod.splits outcome.splits)
qed

text \<open>No change is detected where every child is as configured.\<close>

lemma serving_detect_none:
  assumes Q: "\<And>w. Q w \<Longrightarrow> configured_in L Y k template w"
  shows "surely (serving L up k template Q p q) (detectChanges L Y (InitKodeResourcesConfig k template))
    (\<lambda>r. r = Inr []) (serving L up k template Q p q)"
proof (rule surelyI)
  fix s :: "'w st"
  let ?c = "InitKodeResourcesConfig k template"
  assume I: "serving L up k template Q p q s"
  then have live: "live k p (kode s)" and "converged L Y ?c k (world s)"
    using Q [of "world s"] by (simp_all add: serving_def configured_in_def Let_def)
  then have "converged L Y ?c (kode s) (world s)"
    by (simp add: converged_alike(1) [OF live_alike [OF live]])
  then obtain t where t: "detectChanges L Y ?c s = (Ret (Inr []), t)" "same_but_log s t"
    using detectChanges_converged [OF reads_pure, of Y ?c s] by (auto simp: live_names [OF live])
  from serving_same_but_log [OF I t(2)] t(1)
  show "\<exists>r. fst (detectChanges L Y ?c s) = Ret r \<and> r = Inr [] \<and>
      serving L up k template Q p q (snd (detectChanges L Y ?c s))"
    by simp
qed

lemma serving_no_changes:
  assumes Q: "apart L Q"
  shows "surely (serving L up k template Q PhaseUpdating PhaseUpdating) (updating_no_changes L)
    (\<lambda>x. x = (PhaseActive, result_requeue, None)) (serving L up k template Q PhaseUpdating PhaseUpdating)"
proof -
  have gen: "k_Generation (kode s) = k_Generation k"
    if "serving L up k template Q PhaseUpdating PhaseUpdating s" for s :: "'w st"
    using serving_live [OF that] by (auto simp: live_def)
  show ?thesis
    unfolding updating_no_changes_def
    by (rule triple_gets_bind, simp only: gen, rule triple_then [OF serving_seq];
        (rule serving_update_or_fail [OF Q])?)
      (auto intro!: serving_modify_status intro: serving_set_condition triple_return)
qed

text \<open>The phases in which the handler of Updating leaves a Kode.\<close>

lemma serving_updating_finish:
  fixes k template Y
  defines "c \<equiv> InitKodeResourcesConfig k template"
  shows "triple (serving L up k template (configured_in L Y k template) PhaseUpdating PhaseUpdating)
    (updating_finish L template c)
    (\<lambda>x s. \<exists>a. x = (fst a, snd a, None) \<and> fst a \<in> {PhaseUpdating, PhaseActive} \<and>
       serving L up k template (configured_in L Y k template) PhaseUpdating PhaseUpdating s) (\<lambda>_. False)"
proof -
  let ?I = "serving L up k template (configured_in L Y k template) PhaseUpdating PhaseUpdating"
  let ?done = "\<lambda>x s. \<exists>a. x = (fst a, snd a, None) \<and> fst a \<in> {PhaseUpdating, PhaseActive} \<and> ?I s"
  have stop: "triple ?I (update_or_fail L m (return_go (p, r, None))) ?done (\<lambda>_. False)"
    "triple ?I (update_or_fail L m (then_go (emit L et re m') (return_go (p, r, None)))) ?done (\<lambda>_. False)"
    if "p \<in> {PhaseUpdating, PhaseActive}" for m p r et re m'
    using that
    by (auto intro!: serving_update_or_fail [OF apart_in(2)] triple_then [OF serving_emit] triple_return)
  have gen: "k_Generation (kode s) = k_Generation k" if "?I s" for s :: "'w st"
    using that by (auto simp: live_def dest!: serving_live)
  show ?thesis
    unfolding updating_finish_def c_def
    by (rule triple_bind_some [OF serving_checkReady_any], simp only: sum.case, rule triple_if,
        rule triple_then [OF serving_seq], (auto intro: serving_set_condition)[1], rule stop, simp,
        rule triple_gets_bind, simp only: gen)
      (rule triple_then [OF serving_seq],
        (auto intro!: serving_modify_status intro: serving_set_condition)[1], rule stop, simp)
qed

lemma serving_Updating:
  assumes k: "configurable k"
  shows "triple (serving L up k template (startable_in L Y k template) PhaseUpdating PhaseUpdating)
    (handleUpdatingState L Y)
    (\<lambda>x s. \<exists>a. x = (fst a, snd a, None) \<and> fst a \<in> {PhaseUpdating, PhaseActive} \<and>
       serving L up k template (configured_in L Y k template) PhaseUpdating PhaseUpdating s) (\<lambda>_. False)"
proof -
  let ?c = "InitKodeResourcesConfig k template" and ?p = PhaseUpdating
  let ?I = "\<lambda>Q. serving L up k template Q ?p ?p"
  let ?done = "\<lambda>x s. \<exists>a. x = (fst a, snd a, None) \<and> fst a \<in> {PhaseUpdating, PhaseActive} \<and>
    ?I (configured_in L Y k template) s"
  obtain cr where cr: "rc_Credentials ?c = Some cr" "cr_ExistingSecret cr = None"
    using configurable_credentials [OF k] by blast
  have sound: "storage_sound k" using k by (simp add: configurable_def)
  have config: "InitKodeResourcesConfig (kode s) template = ?c" if "?I Q s" for Q and s :: "'w st"
    using live_names(9) [OF serving_live [OF that]] .
  have idle: "triple (?I (stage L Y ?c k [] 0)) (updating_no_changes L) ?done (\<lambda>_. False)"
    unfolding stage_none stage_configured
    by (rule triple_weaken [OF serving_no_changes [OF apart_in(2)]]) auto
  have repair: "triple (?I (stage L Y ?c k changes 0)) (bind_go (applyConfiguration L Y ?c changes) (\<lambda>(config, err).
      case err of
        Some e \<Rightarrow> warn_and_fail L ''UpdateFailed'' ''Failed to apply updates: '' e ''Failed to apply updates''
      | None \<Rightarrow>
     bind_go (validateConfiguration L config) (\<lambda>verr.
       case verr of
         Some e \<Rightarrow> warn_and_fail L ''ValidationFailed'' ''Update validation failed: '' e
                     ''Failed to validate updates''
       | None \<Rightarrow> updating_finish L template config))) ?done (\<lambda>_. False)" for changes
    by (rule triple_bind_known [OF serving_applyConfiguration [OF refl sound cr]], simp only: prod.case option.case,
        rule triple_bind_known [OF serving_validate [OF refl]], simp only: option.case stage_configured,
        rule serving_updating_finish)
  show ?thesis
    unfolding handleUpdatingState_def
    by (rule triple_bind_known [OF serving_fetchTemplates [OF apart_in(1)]], simp only: sum.case,
        rule triple_gets_known [OF config], assumption,
        rule triple_bind_some [OF serving_detectChanges [OF refl]], simp only: sum.case,
        rule triple_if, simp only: idle, rule repair)
qed

lemma serving_Updating_idle:
  assumes Q: "apart L Q" and fine: "\<And>w. Q w \<Longrightarrow> configured_in L Y k template w"
  shows "surely (serving L up k template Q PhaseUpdating PhaseUpdating) (handleUpdatingState L Y)
    (\<lambda>x. x = (PhaseActive, result_requeue, None)) (serving L up k template Q PhaseUpdating PhaseUpdating)"
proof -
  let ?I = "serving L up k template Q PhaseUpdating PhaseUpdating"
  have config: "InitKodeResourcesConfig (kode s) template = InitKodeResourcesConfig k template"
    if "?I s" for s :: "'w st"
    using live_names(9) [OF serving_live [OF that]] .
  show ?thesis
    unfolding handleUpdatingState_def
    by (rule triple_bind_known [OF serving_fetchTemplates [OF Q]], simp only: sum.case,
        rule triple_gets_known [OF config], assumption,
        rule triple_bind_known [OF serving_detect_none [OF fine]], assumption,
        simp only: sum.case simp_thms if_True, rule serving_no_changes [OF Q])
qed

text \<open>An Active Kode with a child that is not ready goes to Updating.\<close>

lemma serving_Active_degraded:
  "surely (serving L up k template (provisioned_in L Y k template False) PhaseActive PhaseActive)
    (handleActiveState L) (\<lambda>x. x = (PhaseUpdating, result_after (lib_ReconcileInterval L), None))
    (serving L up k template (provisioned_in L Y k template False) PhaseActive PhaseActive)"
proof -
  let ?I = "serving L up k template (provisioned_in L Y k template False) PhaseActive PhaseActive"
  have observed: "k_Generation (kode s) = ObservedGeneration (k_Status (kode s))"
    and config: "InitKodeResourcesConfig (kode s) template = InitKodeResourcesConfig k template"
    if "?I s" for s :: "'w st"
    using live_names(9) [OF serving_live [OF that]] serving_live [OF that] by (auto simp: live_def)
  have degraded: "triple ?I (seq_go
       [set_condition L ConditionTypeReady ConditionFalse re1 m1,
        set_condition L ConditionTypeAvailable ConditionFalse re2 m2,
        set_condition L ConditionTypeProgressing ConditionTrue re3 m3]) (\<lambda>_. ?I) (\<lambda>_. False)"
    for re1 m1 re2 m2 re3 m3
    by (rule serving_seq) (auto intro: serving_set_condition)
  show ?thesis
    unfolding handleActiveState_def
    by (rule triple_gets_bind, simp only: observed simp_thms if_False,
        rule triple_bind_known [OF serving_fetchTemplates [OF apart_in(3)]], simp only: sum.case,
        rule triple_gets_known [OF config], assumption,
        rule triple_bind_known [OF serving_checkReady [OF refl]], simp only: sum.case simp_thms if_True,
        rule triple_then [OF degraded], rule serving_update_or_fail [OF apart_in(3)])
      (auto intro: triple_then [OF serving_emit] triple_return)
qed

lemma repairs:
  assumes k: "k_DeletionTimestamp k = None" "has_finalizer k" "configurable k"
    and s: "at_rest L up k template (startable_in L Y k template) PhaseUpdating s"
  shows "\<exists>q r t. Reconcile L Y (kode_key k) s = (Ret (r, None), t) \<and> q \<in> {PhaseUpdating, PhaseActive} \<and>
    at_rest L up k template (configured_in L Y k template) q t"
  using Reconcile_runs [OF apart_in(1,2) k(1,2) map_of_kode_machine(5) serving_Updating [OF k(3)] s]
  by auto

text \<open>Updating trusts children that are as configured, ready or not; Active does not.\<close>

lemma flaps:
  assumes k: "k_DeletionTimestamp k = None" "has_finalizer k"
    and s: "at_rest L up k template (provisioned_in L Y k template False) PhaseActive s"
  shows "at_rest L up k template (provisioned_in L Y k template False) PhaseUpdating
      (reconciles L Y (kode_key k) 1 s)"
    and "at_rest L up k template (provisioned_in L Y k template False) PhaseActive
      (reconciles L Y (kode_key k) 2 s)"
proof -
  have fine: "configured_in L Y k template w" if "provisioned_in L Y k template False w" for w
    using that by (simp add: provisioned_in_def)
  obtain t r where t: "Reconcile L Y (kode_key k) s = (Ret (r, None), t)"
    "at_rest L up k template (provisioned_in L Y k template False) PhaseUpdating t"
    using Reconcile_runs_to [OF apart_in(3,3) k map_of_kode_machine(4) serving_Active_degraded s] by blast
  obtain u r' where u: "Reconcile L Y (kode_key k) t = (Ret (r', None), u)"
    "at_rest L up k template (provisioned_in L Y k template False) PhaseActive u"
    using Reconcile_runs_to [OF apart_in(3,3) k map_of_kode_machine(5)
        serving_Updating_idle [OF apart_in(3) fine] t(2)] by blast
  show "at_rest L up k template (provisioned_in L Y k template False) PhaseUpdating
      (reconciles L Y (kode_key k) 1 s)"
    and "at_rest L up k template (provisioned_in L Y k template False) PhaseActive
      (reconciles L Y (kode_key k) 2 s)"
    using t u by (simp_all add: reconciles_def eval_nat_numeral)
qed

end

end
