(* ===== verification/Scenario_Arrival.thy ===== *)
theory Scenario_Arrival
  imports Kode_Repair Scenario
begin

text \<open>
  The in-memory API server of Fake_Cluster is one that serves: the interface \<open>api_server\<close> holds of it.
  Kodes in its store, just created, provisioned, degraded or with a child missing, for the witnesses.
\<close>

subsection \<open>The store serves\<close>

text \<open>Kodes are kept under their own keys.\<close>

definition keyed :: "store \<Rightarrow> bool" where
  "keyed w \<longleftrightarrow> list_all (\<lambda>(key, k). kode_key k = key) (AList.clearjunk (fk_kodes w))"

lemma keyed_iff: "keyed w \<longleftrightarrow> (\<forall>key k. map_of (fk_kodes w) key = Some k \<longrightarrow> kode_key k = key)"
proof -
  have "(key, k) \<in> set (AList.clearjunk (fk_kodes w)) \<longleftrightarrow> map_of (fk_kodes w) key = Some k" for key k
    by (metis map_of_clearjunk map_of_eq_Some_iff distinct_clearjunk)
  then show ?thesis
    unfolding keyed_def list_all_iff case_prod_beta by (metis fst_conv snd_conv prod.collapse)
qed

definition put_secret :: "NamespacedName \<Rightarrow> Secret \<Rightarrow> store \<Rightarrow> store" where
  "put_secret key x w = w\<lparr>fk_secrets := AList.update key x (fk_secrets w)\<rparr>"

definition put_service :: "NamespacedName \<Rightarrow> Service \<Rightarrow> store \<Rightarrow> store" where
  "put_service key x w = w\<lparr>fk_services := AList.update key x (fk_services w)\<rparr>"

definition put_set :: "NamespacedName \<Rightarrow> StatefulSet \<Rightarrow> store \<Rightarrow> store" where
  "put_set key x w = w\<lparr>fk_statefulsets := AList.update key x (fk_statefulsets w)\<rparr>"

definition put_claim :: "NamespacedName \<Rightarrow> PersistentVolumeClaim \<Rightarrow> store \<Rightarrow> store" where
  "put_claim key x w = w\<lparr>fk_pvcs := AList.update key x (fk_pvcs w)\<rparr>"

lemmas put_defs = put_secret_def put_service_def put_set_def put_claim_def

lemma fk_createOrPatch_create_or_patch:
  assumes "\<And>k x w. put' k x w = put (AList.update k x (field w)) w"
  shows "fk_createOrPatch key field put = create_or_patch key (fk_get field) put'"
proof (intro ext)
  fix obj f s
  show "fk_createOrPatch key field put obj f s = create_or_patch key (fk_get field) put' obj f s"
    by (cases "map_of (field (world s)) (key obj)")
      (simp_all add: fk_createOrPatch_def create_or_patch_def fk_get_def not_found_def assms go_simps
        Let_def cong: if_cong)
qed

lemma fk_retry_done: "f s = (Ret None, t) \<Longrightarrow> fk_retry n f s = (Ret None, t)"
  by (cases n) (simp_all add: go_simps)

interpretation fake: api_server L0 keyed put_secret put_service put_set put_claim
proof unfold_locales
  show "lawful L0" "reads_pure L0" by (rule lawful_L0, rule reads_pure_L0)
  show "snd (lib_getKode L0 key w) = w" "snd (lib_getEntryPoint L0 key w) = w"
    "snd (lib_getContainerTemplate L0 key w) = w" "snd (lib_getClusterContainerTemplate L0 key w) = w"
    for key w by (simp_all add: L0_def fk_get_def)
  show "keyed w \<Longrightarrow> fst (lib_getKode L0 key w) = Inr k \<Longrightarrow> kode_key k = key" for w key k
    by (simp add: L0_def fk_get_def keyed_iff split: option.splits)
  show "\<exists>w'. lib_patchKodeStatus L0 k base w = (None, w') \<and> keyed w' \<and> reads_like L0 KindKode w w' \<and>
      fst (lib_getKode L0 (kode_key k) w') = Inr (old\<lparr>k_Status := k_Status k\<rparr>)"
    if "keyed w" "fst (lib_getKode L0 (kode_key k) w) = Inr old" for w k old base
    using that
    by (auto simp: L0_def fk_get_def fk_patchStatus_def keyed_iff reads_like_def fk_listPods_def
        update_conv' kode_key_def split: option.splits)
  show "\<exists>w'. lib_updateKode L0 k w = (None, w') \<and> keyed w' \<and> reads_like L0 KindKode w w' \<and>
      fst (lib_getKode L0 (kode_key k) w') = Inr (k\<lparr>k_Status := k_Status old\<rparr>)"
    if "keyed w" "fst (lib_getKode L0 (kode_key k) w) = Inr old" "k_DeletionTimestamp k = None" for w k old
    using that
    by (auto simp: L0_def fk_get_def fk_updateKode_def keyed_iff reads_like_def fk_listPods_def
        update_conv' kode_key_def split: option.splits)
  show "f s = (Ret None, t) \<Longrightarrow> lib_RetryOnConflict L0 f s = (Ret None, t)" for f s t
    by (simp add: L0_def fk_retry_done)
  show "c s = (Ret (Inr (Some x)), t) \<Longrightarrow> lib_ExponentialBackoff L0 (Suc n) c s = (Ret (Inr x), t)"
    for c s x t n
    by (simp add: L0_def go_simps)
  show "AddTypeInformationToObject L0 (Some kind) = None" for kind
    by (simp add: AddTypeInformationToObject_def L0_def)
  show "\<exists>os. lib_SetControllerReference L0 KindKode key [] = Inr os" for key
    by (simp add: L0_def)
  show "lib_createOrPatchSecret L0 = create_or_patch secret_key (lib_getSecret L0) put_secret"
    "lib_createOrPatchService L0 = create_or_patch service_key (lib_getService L0) put_service"
    "lib_createOrPatchStatefulSet L0 = create_or_patch set_key (lib_getStatefulSet L0) put_set"
    "lib_createOrPatchPVC L0 = create_or_patch claim_key (lib_getPVC L0) put_claim"
    by (simp add: L0_def, rule fk_createOrPatch_create_or_patch, simp add: put_defs)+
  show "stores L0 keyed KindSecret (lib_getSecret L0) put_secret"
    "stores L0 keyed KindService (lib_getService L0) put_service"
    "stores L0 keyed KindStatefulSet (lib_getStatefulSet L0) put_set"
    "stores L0 keyed KindPersistentVolumeClaim (lib_getPVC L0) put_claim"
    by (simp_all add: stores_def L0_def fk_get_def put_defs keyed_def reads_like_def fk_listPods_def
        update_conv')
qed

subsection \<open>A new Kode in the store\<close>

lemma demo_alike: "alike fresh_kode (demo_kode p del)"
  by (simp add: alike_def demo_kode_def)

lemma demo_config_fresh: "InitKodeResourcesConfig fresh_kode template = InitKodeResourcesConfig (demo_kode p del) template"
  using alike_names(9) [OF demo_alike] by simp

lemma demo_desired: "desired_statefulset L0 demo_yaml fresh_kode (InitKodeResourcesConfig fresh_kode demo_template) demo_built"
  using demo_built_run
  by (simp add: desired_statefulset_def demo_config_def demo_config_fresh [of _ PhaseUpdating None]
      alike_names(10) [OF demo_alike, symmetric, of L0 demo_yaml _ PhaseUpdating None])

lemma demo_template_at: "fk_templates w = [(NamespacedName ''team'' ''dev'', demo_spec)] \<Longrightarrow>
    template_at L0 (ks_TemplateRef (k_Spec fresh_kode)) w demo_template"
  by (simp add: template_at_def run_defs demo_defs)

lemma demo_startable:
  "startable_in L0 demo_yaml fresh_kode demo_template (demo_store k)"
proof -
  have "pods_fine L0 demo_yaml (InitKodeResourcesConfig fresh_kode demo_template) fresh_kode (demo_store k)"
    unfolding pods_fine_def
    by (intro exI [of _ demo_built] exI [of _ "[]"]) (simp add: demo_desired, simp add: L0_def fk_listPods_def demo_store_def)
  moreover have "fst (lib_getSecret L0 key (demo_store k)) = Inl not_found"
    "fst (lib_getService L0 key (demo_store k)) = Inl not_found"
    "fst (lib_getStatefulSet L0 key (demo_store k)) = Inl not_found"
    "fst (lib_getPVC L0 key (demo_store k)) = Inl not_found" for key
    by (simp_all add: L0_def fk_get_def demo_store_def)
  moreover have "needs_claim fresh_kode" "IsNotFound not_found"
    by (simp_all add: needs_claim_def not_found_def IsEmpty_def demo_defs)
  ultimately show ?thesis
    by (simp add: startable_in_def startable_def answers_NotFound_def secret_labelled_def Let_def)
qed

lemma demo_newborn:
  "newborn L0 keyed fresh_kode demo_template (startable_in L0 demo_yaml fresh_kode demo_template)
     (demo_st fresh_kode)"
proof -
  have w: "world (demo_st fresh_kode) = demo_store fresh_kode" "cache (demo_st fresh_kode) = []"
    by (simp_all add: demo_st_def)
  have key: "kode_key fresh_kode = demo_key" by (simp add: kode_key_def fresh_kode_def demo_key_def)
  then have "keyed (demo_store fresh_kode)" by (simp add: keyed_def demo_store_def)
  moreover have "fst (lib_getKode L0 demo_key (demo_store fresh_kode)) = Inr fresh_kode"
    using demo_fetch [of fresh_kode] by (simp add: w)
  moreover have "template_at L0 (ks_TemplateRef (k_Spec fresh_kode)) (demo_store fresh_kode) demo_template"
    by (rule demo_template_at) (simp add: demo_store_def)
  ultimately show ?thesis by (simp add: newborn_def w key demo_startable)
qed

lemma demo_configurable: "configurable fresh_kode" "Valid (ValidateKode fresh_kode)"
  by (simp_all add: configurable_def storage_sound_def IsEmpty_def Valid_ValidateKode demo_defs)

subsection \<open>A Kode whose children are ready\<close>

definition demo_running_pod :: Pod where
  "demo_running_pod = demo_pod\<lparr>pod_Containers := pt_Containers (sts_Template (ss_Spec demo_built))\<rparr>"

definition demo_arrived_store :: store where
  "demo_arrived_store = (demo_store (demo_kode PhaseProvisioning None))
     \<lparr>fk_secrets := [(NamespacedName ''team'' ''alice-auth'', demo_secret)],
      fk_services := [(NamespacedName ''team'' ''alice-svc'', demo_service)],
      fk_statefulsets := [(NamespacedName ''team'' ''alice'', demo_set\<lparr>ss_ReadyReplicas := 1\<rparr>)],
      fk_pvcs := [(NamespacedName ''team'' ''alice-pvc'', demo_claim)],
      fk_pods := [demo_running_pod]\<rparr>"

definition demo_arrived_st :: "store st" where
  "demo_arrived_st = (demo_st fresh_kode)\<lparr>world := demo_arrived_store\<rparr>"

lemma demo_reads:
  "fst (lib_getSecret L0 (child_key fresh_kode (GetSecretName fresh_kode)) demo_arrived_store) = Inr demo_secret"
  "fst (lib_getService L0 (child_key fresh_kode (GetServiceName fresh_kode)) demo_arrived_store) = Inr demo_service"
  "fst (lib_getStatefulSet L0 (child_key fresh_kode (GetStatefulSetName fresh_kode)) demo_arrived_store) =
     Inr (demo_set\<lparr>ss_ReadyReplicas := 1\<rparr>)"
  "fst (lib_getPVC L0 (child_key fresh_kode (GetPVCName fresh_kode)) demo_arrived_store) = Inr demo_claim"
  by (simp_all add: L0_def fk_get_def demo_arrived_store_def demo_store_def child_key_def GetSecretName_def
      GetServiceName_def GetStatefulSetName_def GetPVCName_def fresh_kode_def demo_storage_def)

lemma demo_lists:
  "fst (lib_listPods L0 (k_Namespace fresh_kode)
     (config_labels (InitKodeResourcesConfig fresh_kode demo_template)) demo_arrived_store) = Inr [demo_running_pod]"
  by (simp add: L0_def fk_listPods_def demo_arrived_store_def demo_running_pod_def demo_pod_def demo_labels_def
      InitKodeResourcesConfig_def createLabels_def fresh_kode_def)

lemma demo_asks: "ks_Storage (k_Spec fresh_kode) = Some (demo_storage None)"
  "ks_Credentials (k_Spec fresh_kode) = None"
  by (simp_all add: fresh_kode_def)

lemma demo_replicas: "sts_Replicas (ss_Spec demo_built) = Some 1"
proof -
  have finish: "yields (finish_StatefulSet L Y k c spec m cs)
      (\<lambda>r. case r of Inl e \<Rightarrow> True | Inr d \<Rightarrow> sts_Replicas (ss_Spec d) = Some 1)" for L Y k c spec m cs
    unfolding finish_StatefulSet_def Let_def by (cases cs) (auto split: prod.split sum.split intro!: yield_rules)
  have "yields (constructStatefulSetSpec L Y k c)
      (\<lambda>r. case r of Inl e \<Rightarrow> True | Inr d \<Rightarrow> sts_Replicas (ss_Spec d) = Some 1)" for L Y k c
    unfolding constructStatefulSetSpec_def Let_def by (auto split: prod.split intro!: yield_rules finish)
  from yieldsD [OF this demo_built_run] show ?thesis by simp
qed

lemma demo_provisioned:
  "provisioned_in L0 demo_yaml fresh_kode demo_template True demo_arrived_store"
proof -
  let ?c = "InitKodeResourcesConfig fresh_kode demo_template"
  have pods: "pods_fine L0 demo_yaml ?c fresh_kode demo_arrived_store"
    unfolding pods_fine_def
    using demo_desired demo_lists
    by (intro exI [of _ demo_built] exI [of _ "[demo_running_pod]"] conjI) (simp_all add: demo_running_pod_def)
  have set: "set_fine L0 demo_yaml ?c fresh_kode demo_arrived_store"
    unfolding set_fine_def
    using demo_desired demo_lists
    by (intro exI [of _ "demo_set\<lparr>ss_ReadyReplicas := 1\<rparr>"] exI [of _ demo_built]
        exI [of _ "[demo_running_pod]"] conjI) (simp_all add: demo_reads demo_set_def demo_running_pod_def)
  have "map_eq (sec_Data demo_secret) (secret_data (the (rc_Credentials ?c)))"
    "hasRequiredLabels (sec_Labels demo_secret) (config_labels ?c)"
    "svc_Spec demo_service = desired_service_spec ?c" "rc_Credentials ?c \<noteq> None"
    by (simp_all add: map_eq_def createLabels_def secret_data_def fresh_kode_def DefaultUsername_def demo_secret_def demo_labels_def
        demo_service_def desired_service_spec_def InitKodeResourcesConfig_def demo_template_def demo_spec_def)
  then have "secret_fine L0 ?c fresh_kode demo_arrived_store" "service_fine L0 ?c fresh_kode demo_arrived_store"
    "secret_labelled L0 ?c fresh_kode demo_arrived_store"
    by (auto simp: secret_fine_def service_fine_def secret_labelled_def demo_reads)
  moreover have "pvc_converged L0 ?c fresh_kode demo_arrived_store"
    by (simp add: pvc_converged_def demo_asks demo_reads quantity_Equal_def Requests_Storage_def
        demo_claim_def demo_storage_def)
  moreover have "all_ready L0 ?c fresh_kode demo_arrived_store"
    unfolding all_ready_def secret_ready_def service_ready_def statefulset_ready_def pvc_ready_def pods_ready_def
      demo_reads demo_lists demo_asks
    by (simp add: required_fields_def isPodReady_def demo_asks demo_storage_def demo_secret_def demo_service_def
        demo_set_def demo_claim_def demo_running_pod_def demo_pod_def demo_template_def demo_pvc_def demo_replicas)
  ultimately show ?thesis
    using pods set by (simp add: provisioned_in_def configured_in_def converged_fine Let_def)
qed

lemma demo_arrived:
  "at_rest L0 keyed (with_finalizer L0 fresh_kode) demo_template
     (provisioned_in L0 demo_yaml fresh_kode demo_template True) PhaseProvisioning demo_arrived_st"
proof -
  have "template_at L0 (ks_TemplateRef (k_Spec fresh_kode)) demo_arrived_store demo_template"
    by (rule demo_template_at) (simp add: demo_arrived_store_def demo_store_def)
  moreover have "kode_key fresh_kode = demo_key" "kode_key (demo_kode PhaseProvisioning None) = demo_key"
    by (simp_all add: kode_key_def fresh_kode_def demo_kode_def demo_key_def)
  moreover have "live (with_finalizer L0 fresh_kode) PhaseProvisioning (demo_kode PhaseProvisioning None)"
    by (auto simp: live_def with_finalizer_def demo_kode_def fresh_kode_def L0_def GetFinalizer_def demo_status_def)
  moreover have "fk_kodes demo_arrived_store = [(demo_key, demo_kode PhaseProvisioning None)]"
    by (simp add: demo_arrived_store_def demo_store_def)
  ultimately show ?thesis
    using demo_provisioned
    by (auto simp: at_rest_def demo_arrived_st_def demo_st_def keyed_def L0_def fk_get_def)
qed

subsection \<open>Degraded Kodes\<close>

text \<open>The children are as configured, but the set has no replica ready and the pod is pending.\<close>

definition demo_degraded_st :: "store st" where
  "demo_degraded_st = demo_converged_st
     \<lparr>world := (world demo_converged_st)\<lparr>fk_kodes := [(demo_key, demo_kode PhaseActive None)]\<rparr>\<rparr>"

text \<open>Somebody has deleted the service.\<close>

definition demo_broken_st :: "store st" where
  "demo_broken_st = demo_converged_st\<lparr>world := (world demo_converged_st)\<lparr>fk_services := []\<rparr>\<rparr>"

lemma demo_worlds:
  "reads_like L0 KindKode (world demo_converged_st) (world demo_degraded_st)"
  "reads_like L0 KindService (world demo_converged_st) (world demo_broken_st)"
  by (simp_all add: reads_like_def L0_def fk_get_def fk_listPods_def demo_degraded_st_def demo_broken_st_def)

lemma demo_configured:
  "configured_in L0 demo_yaml fresh_kode demo_template (world demo_converged_st)"
proof -
  let ?k = "demo_kode PhaseUpdating None" and ?w = "world demo_converged_st"
  have k: "kode demo_converged_st = ?k" by (simp add: demo_converged_st_def demo_st_def)
  have reads: "fst (lib_getSecret L0 (child_key ?k (GetSecretName ?k)) ?w) = Inr demo_secret"
    "fst (lib_listPods L0 (k_Namespace ?k) (config_labels demo_config) ?w) = Inr [demo_image_pod]"
    by (simp_all add: demo_converged_st_def demo_config_def demo_image_pod_def run_defs demo_defs)
  have "hasRequiredLabels (sec_Labels demo_secret) (config_labels demo_config)"
    by (simp add: demo_config_def demo_secret_def demo_labels_def createLabels_def
        demo_config_fresh [symmetric])
  moreover have "desired_statefulset L0 demo_yaml ?k demo_config demo_built"
    by (simp add: desired_statefulset_def demo_built_run)
  ultimately have "configured_in L0 demo_yaml ?k demo_template ?w"
    using demo_converged [unfolded k] reads
    by (auto simp: configured_in_def demo_config_def [symmetric] Let_def secret_labelled_def pods_fine_def
        demo_image_pod_def intro!: exI [of _ demo_built])
  then show ?thesis by (simp add: in_alike [OF demo_alike])
qed

lemma demo_degraded:
  "at_rest L0 keyed (demo_kode PhaseActive None) demo_template
     (provisioned_in L0 demo_yaml (demo_kode PhaseActive None) demo_template False) PhaseActive demo_degraded_st"
proof -
  let ?k = "demo_kode PhaseActive None" and ?w = "world demo_degraded_st"
  have "configured_in L0 demo_yaml fresh_kode demo_template ?w"
    by (rule apart_like [OF apart_in(2) demo_configured demo_worlds(1)])
  moreover have "\<not> statefulset_ready L0 fresh_kode ?w"
    by (simp add: statefulset_ready_def demo_degraded_st_def demo_converged_st_def demo_set_def demo_replicas
        L0_def fk_get_def child_key_def GetStatefulSetName_def fresh_kode_def)
  ultimately have "provisioned_in L0 demo_yaml ?k demo_template False ?w"
    by (simp add: in_alike [OF demo_alike] provisioned_in_def all_ready_def)
  moreover have "template_at L0 (ks_TemplateRef (k_Spec fresh_kode)) ?w demo_template"
    by (rule demo_template_at) (simp add: demo_degraded_st_def demo_converged_st_def demo_store_def)
  moreover have "kode_key ?k = demo_key" by (simp add: kode_key_def fresh_kode_def demo_kode_def demo_key_def)
  moreover have "fk_kodes ?w = [(demo_key, ?k)]" "cache demo_degraded_st = []"
    by (simp_all add: demo_degraded_st_def demo_converged_st_def demo_st_def)
  moreover have "live ?k PhaseActive ?k" using live_self [of ?k] by simp
  ultimately show ?thesis by (auto simp: at_rest_def keyed_def L0_def fk_get_def)
qed

lemma demo_broken:
  "at_rest L0 keyed (demo_kode PhaseUpdating None) demo_template
     (startable_in L0 demo_yaml (demo_kode PhaseUpdating None) demo_template) PhaseUpdating demo_broken_st"
proof -
  let ?k = "demo_kode PhaseUpdating None" and ?w = "world demo_broken_st"
  have "fst (lib_getService L0 key ?w) = Inl not_found" for key
    by (simp add: L0_def fk_get_def demo_broken_st_def)
  then have "answers_NotFound (lib_getService L0 key ?w)" for key
    by (simp add: answers_NotFound_def not_found_def)
  then have "startable_in L0 demo_yaml fresh_kode demo_template ?w"
    using demo_configured
    by (simp add: startable_in_def startable_def configured_in_def converged_fine Let_def
        fine_like [OF demo_worlds(2)])
  then have "startable_in L0 demo_yaml ?k demo_template ?w"
    by (simp add: in_alike [OF demo_alike])
  moreover have "template_at L0 (ks_TemplateRef (k_Spec fresh_kode)) ?w demo_template"
    by (rule demo_template_at) (simp add: demo_broken_st_def demo_converged_st_def demo_store_def)
  moreover have "kode_key ?k = demo_key" by (simp add: kode_key_def fresh_kode_def demo_kode_def demo_key_def)
  moreover have "fk_kodes ?w = [(demo_key, ?k)]" "cache demo_broken_st = []"
    by (simp_all add: demo_broken_st_def demo_converged_st_def demo_st_def demo_store_def)
  moreover have "live ?k PhaseUpdating ?k" using live_self [of ?k] by simp
  ultimately show ?thesis by (auto simp: at_rest_def keyed_def L0_def fk_get_def)
qed

end
