(* ===== verification/Kode_Writes.thy ===== *)
theory Kode_Writes
  imports Kode_Lifecycle
begin

text \<open>
  What a reconciliation creates or patches: only the children of its Kode, never the secret or the claim
  the user brought along, and nothing at all outside the phases Configuring and Updating.
\<close>

subsection \<open>The objects of a Kode\<close>

definition brought_secret :: "Kode \<Rightarrow> string option" where
  "brought_secret k = (case ks_Credentials (k_Spec k) of None \<Rightarrow> None | Some cr \<Rightarrow> cr_ExistingSecret cr)"

definition brought_claim :: "Kode \<Rightarrow> string option" where
  "brought_claim k = (case ks_Storage (k_Spec k) of None \<Rightarrow> None | Some storage \<Rightarrow> st_ExistingVolumeClaim storage)"

definition own_children :: "Kode \<Rightarrow> (ObjKind \<times> NamespacedName) set" where
  "own_children k =
     {(KindService, child_key k (GetServiceName k)), (KindStatefulSet, child_key k (GetStatefulSetName k))} \<union>
     (if brought_secret k = None then {(KindSecret, child_key k (GetSecretName k))} else {}) \<union>
     (if ks_Storage (k_Spec k) \<noteq> None \<and> brought_claim k = None
      then {(KindPersistentVolumeClaim, child_key k (GetPVCName k))} else {})"

text \<open>\<open>writes_within K k log0\<close>: what was created or patched is in \<open>K\<close>, and the Kode is still the same one.\<close>

definition writes_within ::
  "(ObjKind \<times> NamespacedName) set \<Rightarrow> Kode \<Rightarrow> Request list \<Rightarrow> 'w st \<Rightarrow> bool" where
  "writes_within K k log0 s \<longleftrightarrow>
     same_identity k (kode s) \<and> brought_secret (kode s) = brought_secret k \<and>
     (\<exists>qs. reqlog s = log0 @ qs \<and> (\<forall>kind n. ReqCreateOrPatch kind n \<in> set qs \<longrightarrow> (kind, n) \<in> K))"

lemma writes_within_append:
  "writes_within K k log0 s \<Longrightarrow>
     (same_identity k (kode s) \<Longrightarrow> same_identity k (kode t)) \<Longrightarrow>
     brought_secret (kode t) = brought_secret (kode s) \<Longrightarrow> reqlog t = reqlog s @ qs \<Longrightarrow>
     (\<And>kind n. ReqCreateOrPatch kind n \<in> set qs \<Longrightarrow> (kind, n) \<in> K) \<Longrightarrow> writes_within K k log0 t"
  unfolding writes_within_def by (auto; blast)

lemma writes_within_same:
  "writes_within K k log0 s \<Longrightarrow>
     (same_identity k (kode s) \<Longrightarrow> same_identity k (kode t)) \<Longrightarrow>
     brought_secret (kode t) = brought_secret (kode s) \<Longrightarrow> reqlog t = reqlog s \<Longrightarrow> writes_within K k log0 t"
  by (rule writes_within_append [where qs = "[]"]) auto

lemma writes_within_snoc:
  "writes_within K k log0 s \<Longrightarrow>
     (same_identity k (kode s) \<Longrightarrow> same_identity k (kode t)) \<Longrightarrow>
     brought_secret (kode t) = brought_secret (kode s) \<Longrightarrow> reqlog t = reqlog s @ [q] \<Longrightarrow>
     (\<And>kind n. q = ReqCreateOrPatch kind n \<Longrightarrow> (kind, n) \<in> K) \<Longrightarrow> writes_within K k log0 t"
  by (erule writes_within_append) auto

lemma brought_secret_simps [simp]:
  "brought_secret (k\<lparr>k_Status := t\<rparr>) = brought_secret k"
  "brought_secret (SetPhase q k) = brought_secret k"
  "brought_secret (k_SetCondition n ct st re m k) = brought_secret k"
  "brought_secret (k\<lparr>k_Spec := spec_with_login u p (k_Spec k)\<rparr>) = brought_secret k"
  by (auto simp: brought_secret_def SetPhase_def k_SetCondition_def spec_with_login_def with_login_def
      split: option.split)

lemma tough_writes_within: "tough K (writes_within K k log0)"
  unfolding tough_defs
  by (intro conjI allI impI; (elim conjE)?)
    ((erule writes_within_same; (simp; fail)) | (erule writes_within_snoc, simp, simp, simp, simp))+

lemma fits_own_children: "fits (own_children k) (writes_within (own_children k) k log0)"
  unfolding fits_def
proof (intro allI impI)
  fix s s' :: "'a st" and template
  assume "writes_within (own_children k) k log0 s" "writes_within (own_children k) k log0 s'"
  then have id: "same_identity k (kode s)" "brought_secret (kode s) = brought_secret k"
    and id': "same_identity k (kode s')"
    by (auto simp: writes_within_def)
  have storage: "ks_Storage (k_Spec (kode s)) = ks_Storage (k_Spec k)"
    "k_Namespace (kode s) = k_Namespace k" "k_Namespace (kode s') = k_Namespace k"
    using id(1) id' by (simp_all add: same_identity_def)
  have secret: "cr_ExistingSecret cr = brought_secret k"
    if "rc_Credentials (InitKodeResourcesConfig (kode s) template) = Some cr" for cr
    using that id(2) by (auto simp: InitKodeResourcesConfig_def brought_secret_def split: option.splits)
  show "may_write (own_children k) (InitKodeResourcesConfig (kode s) template) (kode s')"
    using secret same_identity_resources [OF id']
    by (auto simp: may_write_def storage own_children_def child_key_def brought_claim_def)
qed

lemma writes_within_Cleanup: "keeps (writes_within K k log0) (cleanup_kode L)"
proof -
  have "writes_within K k log0 (snd (cleanup_kode L s))" if I: "writes_within K k log0 s" for s
  proof -
    let ?rs = "Kode_GetResources (kode s)" and ?d = "Kode_ShouldDelete (kode s)"
    obtain res err t ds where run: "manager_Cleanup L ?rs ?d s = (Ret (res, err), t)"
      "reqlog t = reqlog s @ ds" "kode t = kode s" "list_all is_delete ds"
      using kode_cleanup.Cleanup_run [of L "kode s" s] by blast
    then have "writes_within K k log0 t"
      by (intro writes_within_append [OF I]) (auto simp: list_all_iff)
    with run(1) show ?thesis by (simp add: cleanup_kode_def go_simps)
  qed
  then show ?thesis by (intro tripleI) force+
qed

subsection \<open>Whole reconciliations\<close>

lemma Reconcile_writes_within:
  fixes s :: "'w st"
  assumes L: "lawful L" and k: "fst (lib_getKode L req (world s)) = Inr k"
    and fits: "writes k \<Longrightarrow> fits K (writes_within K k (reqlog s) :: 'w st \<Rightarrow> bool)"
    and q: "ReqCreateOrPatch kind n \<in> set (new_requests s (snd (Reconcile L Y req s)))"
  shows "(kind, n) \<in> K"
proof -
  obtain u where u: "Reconcile L Y req s = reconcile_fetched L Y u" "kode u = k"
    "reqlog u = reqlog s @ [ReqGet KindKode req Found]"
    by (rule Reconcile_fetched [OF k])
  have "writes_within K k (reqlog s) u \<and> kode u = k" by (simp add: writes_within_def u)
  moreover have "triple (\<lambda>u. writes_within K k (reqlog s) u \<and> kode u = k) (reconcile_fetched L Y)
      (\<lambda>_. writes_within K k (reqlog s)) (writes_within K k (reqlog s))"
    by (rule tough_reconcile_fetched [OF L tough_writes_within writes_within_Cleanup]) (rule fits)
  ultimately have "writes_within K k (reqlog s) (snd (Reconcile L Y req s))"
    by (simp add: u(1) triple_snd)
  with q show ?thesis unfolding writes_within_def by (auto dest: new_requests_eq)
qed

lemma Reconcile_writes_own:
  assumes "lawful L" and "fst (lib_getKode L req (world s)) = Inr k"
    and "ReqCreateOrPatch kind n \<in> set (new_requests s (snd (Reconcile L Y req s)))"
  shows "(kind, n) \<in> own_children k"
  by (rule Reconcile_writes_within [OF assms(1,2) fits_own_children assms(3)])

lemma Reconcile_writes_when:
  assumes "lawful L" and "fst (lib_getKode L req (world s)) = Inr k"
    and "ReqCreateOrPatch kind n \<in> set (new_requests s (snd (Reconcile L Y req s)))"
  shows "writes k"
proof (rule ccontr)
  assume "\<not> writes k"
  then have "(kind, n) \<in> {}" by (intro Reconcile_writes_within [OF assms(1,2) _ assms(3)]) simp
  then show False by simp
qed

end
