(* ===== verification/Scenario_Writes.thy ===== *)
theory Scenario_Writes
  imports Scenario_Arrival Kode_Writes
begin

text \<open>
  A reconciliation that asks for a child and is refused, step by step, on a server that answers every
  read the same: the witness of what reconciliations write.
\<close>

text \<open>A server that answers the same to every read, takes every status and refuses secrets.\<close>

definition refusing_L0 :: "store lib" where
  "refusing_L0 = L0\<lparr>lib_getKode := (\<lambda>key w. (Inr (demo_kode PhaseUpdating None), w)),
     lib_patchKodeStatus := (\<lambda>k base w. (None, w)), lib_RetryOnConflict := (\<lambda>f. f),
     lib_getSecret := (\<lambda>key w. (Inl not_found, w)), lib_getService := (\<lambda>key w. (Inl not_found, w)),
     lib_getStatefulSet := (\<lambda>key w. (Inl not_found, w)), lib_getPVC := (\<lambda>key w. (Inl not_found, w)),
     lib_createOrPatchSecret := (\<lambda>obj f. return_go (OperationResultNone, Some not_found))\<rparr>"

definition cached_st :: "store st" where
  "cached_st = (demo_st (demo_kode PhaseUpdating None))
     \<lparr>cache := [(getCacheKey demo_ref, demo_template)]\<rparr>"

lemma refusing_simps [simp]:
  "lib_getKode refusing_L0 key w = (Inr (demo_kode PhaseUpdating None), w)"
  "lib_patchKodeStatus refusing_L0 k base w = (None, w)" "lib_RetryOnConflict refusing_L0 f = f"
  "lib_getSecret refusing_L0 key w = (Inl not_found, w)" "lib_getService refusing_L0 key w = (Inl not_found, w)"
  "lib_getStatefulSet refusing_L0 key w = (Inl not_found, w)" "lib_getPVC refusing_L0 key w = (Inl not_found, w)"
  "lib_createOrPatchSecret refusing_L0 obj g = return_go (OperationResultNone, Some not_found)"
  by (simp_all add: refusing_L0_def)

lemma lawful_refusing: "lawful refusing_L0" "reads_pure refusing_L0"
proof -
  have "retry_law (\<lambda>f. f)" by (simp add: retry_law_def)
  moreover have "create_or_patch_law (\<lambda>obj f. return_go (OperationResultNone, Some not_found))"
    by (auto simp: create_or_patch_law_def intro: triple_return)
  ultimately show "lawful refusing_L0" using lawful_L0 by (simp add: lawful_def refusing_L0_def L0_def)
  show "reads_pure refusing_L0" using reads_pure_L0 by (simp add: reads_pure_def refusing_L0_def)
qed

lemma refusing_UpdateStatus: "\<exists>qs. UpdateStatus refusing_L0 s = (Ret None, s\<lparr>reqlog := qs\<rparr>)"
  by (auto simp: UpdateStatus_def UpdateStatus_attempt_eq api_get_def api_patch_status_def go_simps)

lemma refusing_fetch:
  assumes "ks_TemplateRef (k_Spec (kode s)) = demo_ref" "cache s = [(getCacheKey demo_ref, demo_template)]"
  shows "\<exists>t. fetchTemplatesWithRetry refusing_L0 s = (Ret (Inr demo_template), t) \<and>
    alike (kode s) (kode t) \<and> world t = world s"
proof -
  let ?rt = "\<lparr>rt_Runtime = RuntimeContainer, rt_Type = ct_Runtime demo_spec\<rparr>"
  let ?u = "s\<lparr>kode := (kode s)\<lparr>k_Status := (k_Status (kode s))\<lparr>Runtime_of := Some ?rt\<rparr>\<rparr>\<rparr>"
  have "Fetch refusing_L0 demo_ref s = (Ret (Inr demo_template), s)"
    using assms(2) by (simp add: Fetch_def validateRef_def demo_ref_def TemplateKindContainer_def go_simps Let_def)
  moreover obtain qs where "UpdateStatus refusing_L0 ?u = (Ret None, ?u\<lparr>reqlog := qs\<rparr>)"
    using refusing_UpdateStatus by blast
  ultimately show ?thesis
    using assms(1)
    by (simp add: fetchTemplatesWithRetry_def SetRuntime_def modify_status_def go_simps Let_def
        demo_template_def deref_go_def demo_ref_def TemplateKindContainer_def alike_def)
qed

lemma refusing_detect:
  assumes k: "alike fresh_kode (kode s)" and w: "world s = demo_store k"
    and "config = InitKodeResourcesConfig (kode s) demo_template"
  shows "\<exists>t. detectChanges refusing_L0 demo_yaml config s =
      (Ret (Inr [''secret'', ''service'', ''statefulset'', ''pvc'']), t) \<and> same_but_log s t"
proof -
  have gone: "answers_NotFound (lib_getSecret refusing_L0 key v)" "answers_NotFound (lib_getService refusing_L0 key v)"
    "answers_NotFound (lib_getStatefulSet refusing_L0 key v)" "answers_NotFound (lib_getPVC refusing_L0 key v)" for key v
    by (simp_all add: answers_NotFound_def not_found_def)
  have claim: "needs_claim (kode s)"
    unfolding alike_names(11) [OF k] by (simp add: needs_claim_def IsEmpty_def demo_defs)
  show ?thesis
    using detectChanges_exact [OF lawful_refusing(2), of demo_yaml config s] gone claim
    by (simp add: startable_def missing_children_def assms(3))
qed

lemma refusing_apply:
  assumes k: "alike fresh_kode (kode s)" and "config = InitKodeResourcesConfig (kode s) demo_template"
  shows "\<exists>e t. applyConfiguration refusing_L0 demo_yaml config (''secret'' # changes) s =
      (Ret (config, Some e), t) \<and>
    ReqCreateOrPatch KindSecret (NamespacedName ''team'' ''alice-auth'') \<in> set (reqlog t)"
proof -
  have names: "child_key (kode s) (GetSecretName (kode s)) = NamespacedName ''team'' ''alice-auth''"
    unfolding alike_names [OF k] by (simp add: child_key_def GetSecretName_def fresh_kode_def)
  have "rc_Credentials config = Some \<lparr>cr_Username = DefaultUsername, cr_Password = '''',
      cr_ExistingSecret = None, cr_EnableBuiltinAuth = False\<rparr>"
    unfolding assms(2) alike_names [OF k] by (simp add: InitKodeResourcesConfig_def fresh_kode_def)
  moreover have "cc_Namespace (rc_CommonConfig config) = k_Namespace (kode s)" by (simp add: assms(2))
  ultimately show ?thesis
    using names
    by (auto simp: applyConfiguration_def apply_secret_def ensureSecret_def CreateOrPatch_def log_request_def
        fake.typed go_simps Let_def child_key_def AddTypeInformationToObject_def refusing_L0_def L0_def)
qed

lemma calm_logged: "calm (\<lambda>s. q \<in> set (reqlog s))"
  by (simp add: tame_def read_closed_def patch_closed_def cache_closed_def)

lemma cached_asks:
  "ReqCreateOrPatch KindSecret (NamespacedName ''team'' ''alice-auth'') \<in>
     set (new_requests cached_st (snd (Reconcile refusing_L0 demo_yaml demo_key cached_st)))"
proof -
  let ?L = refusing_L0 and ?k = "demo_kode PhaseUpdating None"
  let ?q = "ReqCreateOrPatch KindSecret (NamespacedName ''team'' ''alice-auth'')"
  let ?I = "\<lambda>s :: store st. ?q \<in> set (reqlog s)"
  let ?u = "cached_st\<lparr>reqlog := [ReqGet KindKode demo_key Found], kode := ?k\<rparr>"
  have u: "ks_TemplateRef (k_Spec (kode ?u)) = demo_ref" "cache ?u = [(getCacheKey demo_ref, demo_template)]"
    "alike fresh_kode (kode ?u)"
    by (simp_all add: cached_st_def alike_def fresh_kode_def demo_kode_def)
  obtain t where t: "fetchTemplatesWithRetry ?L ?u = (Ret (Inr demo_template), t)"
    "alike (kode ?u) (kode t)" "world t = world ?u"
    using refusing_fetch [OF u(1,2)] by blast
  have at: "alike fresh_kode (kode t)" using u(3) t(2) by (simp add: alike_def)
  let ?c = "InitKodeResourcesConfig (kode t) demo_template"
  have "world t = demo_store ?k" by (simp add: t(3) cached_st_def demo_st_def)
  then obtain v where v: "detectChanges ?L demo_yaml ?c t =
      (Ret (Inr [''secret'', ''service'', ''statefulset'', ''pvc'']), v)" "same_but_log t v"
    using refusing_detect [OF at _ refl] by blast
  then have "alike fresh_kode (kode v)" "?c = InitKodeResourcesConfig (kode v) demo_template"
    using at same_but_logD [OF v(2)] by simp_all
  from refusing_apply [OF this] obtain e w where w: "applyConfiguration ?L demo_yaml ?c
      [''secret'', ''service'', ''statefulset'', ''pvc''] v = (Ret (?c, Some e), w)" "?I w"
    by blast
  have "handleUpdatingState ?L demo_yaml ?u = warn_and_fail ?L ''UpdateFailed''
      ''Failed to apply updates: '' e ''Failed to apply updates'' w"
    by (simp add: handleUpdatingState_def go_simps t(1) v(1) w(1))
  moreover have "keeps ?I (warn_and_fail ?L a b e' c)" for a b e' c
    by (rule tame_warn_and_fail [OF lawful_refusing(1) calm_logged])
  ultimately have handled: "triple (\<lambda>s. s = ?u) (handleUpdatingState ?L demo_yaml) (\<lambda>_. ?I) ?I"
    using w(2) by (auto simp: triple_def)
  have "triple (\<lambda>s. s = ?u) (HandleState st_GetPhase st_SetPhase (UpdateStatus ?L)
      (lib_ReconcileInterval ?L) (kode_machine ?L demo_yaml)) (\<lambda>_. ?I) ?I"
    unfolding HandleState_def
    by (rule triple_gets_known [where a = PhaseUpdating], simp add: st_GetPhase_def,
        simp only: map_of_kode_machine option.case, rule triple_bind [OF handled],
        intro go_rules tame_UpdateStatus [OF lawful_refusing(1) calm_logged] triple_modify)
      (simp_all add: st_SetPhase_def)
  then have "triple (\<lambda>s. s = ?u) (run_machine ?L demo_yaml) (\<lambda>_. ?I) ?I"
    unfolding run_machine_def by (rule triple_bind) (intro go_rules)
  then have "?I (snd (run_machine ?L demo_yaml ?u))" by (rule triple_snd) simp
  moreover have "Reconcile ?L demo_yaml demo_key cached_st = run_machine ?L demo_yaml ?u"
  proof -
    have "RetryCount (k_Status ?k) = 0" "cached_st\<lparr>reqlog := r, kode := k'\<rparr> = cached_st\<lparr>kode := k', reqlog := r\<rparr>"
      for r k' by (simp_all add: demo_kode_def demo_status_def)
    then show ?thesis
      by (simp add: Reconcile_def api_get_def answer_of_def reconcile_fetched_def reconcile_live_def
          ContainsFinalizer_iff [OF lawful_refusing(1)] reset_retries_def go_simps cached_st_def demo_st_def)
  qed
  ultimately show ?thesis by (simp add: new_requests_def cached_st_def demo_st_def)
qed

end
