(* ===== verification/Entrypoint_Server.thy ===== *)
theory Entrypoint_Server
  imports Kode_Arrival Entrypoint_Safety
begin

text \<open>
  Publication: the interface \<open>gateway_server\<close> extends \<open>api_server\<close> by what the entrypoint controller
  may expect of a server that keeps routes and security policies, and the locale shows that one
  reconciliation publishes an active Kode.
\<close>

subsection \<open>What a server with a gateway promises\<close>

abbreviation route_key :: "HTTPRoute \<Rightarrow> NamespacedName" where
  "route_key x \<equiv> NamespacedName (ht_Namespace x) (ht_Name x)"

abbreviation policy_key :: "SecurityPolicy \<Rightarrow> NamespacedName" where
  "policy_key x \<equiv> NamespacedName (sy_Namespace x) (sy_Name x)"

text \<open>
  Besides the laws of the writes: \<open>owned\<close> are the owners that \<^verbatim>\<open>SetControllerReference\<close> gives to an object
  without owners, or to one that it gave them to before; with another controller it would fail.
\<close>

locale gateway_server = api_server L up putSecret putService putSet putClaim
  for L :: "'w lib" and up and putSecret and putService and putSet and putClaim +
  fixes G :: "'w gwlib" and getRoute and putRoute and getPolicy and putPolicy and owned :: "NamespacedName \<Rightarrow> string list"
  assumes gw_writes: "gw_createOrPatchHTTPRoute G = create_or_patch route_key getRoute putRoute"
      "gw_createOrPatchSecurityPolicy G = create_or_patch policy_key getPolicy putPolicy"
    and gw_stored: "stores L up KindHTTPRoute getRoute putRoute"
      "stores L up KindSecurityPolicy getPolicy putPolicy"
    and gw_apart: "fst (getPolicy key (putRoute key' x w)) = fst (getPolicy key w)"
    and adopts: "owners \<in> {[], owned key} \<Longrightarrow>
      lib_SetControllerReference L KindEntryPoint key owners = Inr (owned key)"

text \<open>The object is not there, or the one that is has the given owners.\<close>

definition ours ::
  "(NamespacedName \<Rightarrow> 'w \<Rightarrow> (error + 'o) \<times> 'w) \<Rightarrow> ('o \<Rightarrow> string list) \<Rightarrow> string list \<Rightarrow> NamespacedName
    \<Rightarrow> 'w \<Rightarrow> bool" where
  "ours get owners own key w \<longleftrightarrow>
     (case fst (get key w) of Inl e \<Rightarrow> IsNotFound e | Inr x \<Rightarrow> owners x = own)"

text \<open>What a write stores: the change \<open>g\<close> of the object that is there, or else of the given one.\<close>

definition written ::
  "(NamespacedName \<Rightarrow> 'w \<Rightarrow> (error + 'o) \<times> 'w) \<Rightarrow> ('o \<Rightarrow> 'o) \<Rightarrow> 'o \<Rightarrow> NamespacedName \<Rightarrow> 'w \<Rightarrow> 'o" where
  "written get g obj key w = g (case fst (get key w) of Inl e \<Rightarrow> obj | Inr x \<Rightarrow> x)"

text \<open>A property of the world that does not depend on the status of any Kode.\<close>

definition status_apart :: "'w lib \<Rightarrow> ('w \<Rightarrow> bool) \<Rightarrow> bool" where
  "status_apart L Q \<longleftrightarrow> (\<forall>k base w. Q w \<longrightarrow> Q (snd (lib_patchKodeStatus L k base w)))"

lemma status_apart_True: "status_apart L (\<lambda>_. True)"
  by (simp add: status_apart_def)

text \<open>No foreign route or policy is in the way.\<close>

definition gateway_free ::
  "(NamespacedName \<Rightarrow> 'w \<Rightarrow> (error + HTTPRoute) \<times> 'w) \<Rightarrow> (NamespacedName \<Rightarrow> 'w \<Rightarrow> (error + SecurityPolicy) \<times> 'w)
    \<Rightarrow> (NamespacedName \<Rightarrow> string list) \<Rightarrow> Kode \<Rightarrow> EntryPoint \<Rightarrow> EntryPointResourceConfig \<Rightarrow> 'w \<Rightarrow> bool" where
  "gateway_free getRoute getPolicy owned k e config w \<longleftrightarrow>
     ours getRoute ht_Owners (owned (ep_key e)) (NamespacedName (e_Namespace e) (k_Name k)) w \<and>
     (wants_policy config \<longrightarrow> ours getPolicy sy_Owners (owned (ep_key e))
        (NamespacedName (e_Namespace e) (k_Name k @ ''-security-policy'')) w)"

text \<open>
  An active Kode with a port whose template refers to an EntryPoint that is there, has a gateway, and
  gives the Kode the address \<open>a\<close>, which it does not have yet.
\<close>

definition publishable ::
  "'w lib \<Rightarrow> Kode \<Rightarrow> Template \<Rightarrow> EntryPoint \<Rightarrow> EntryPointResourceConfig \<Rightarrow> KodeAddress \<Rightarrow> 'w st \<Rightarrow> bool" where
  "publishable L k template e config a s \<longleftrightarrow>
     k_Namespace k \<noteq> '''' \<and> GetPhase k = PhaseActive \<and> GetPort k \<noteq> 0 \<and>
     KodeUrl (k_Status k) \<noteq> ka_Url a \<and>
     template_at L (ks_TemplateRef (k_Spec k)) (world s) template \<and>
     map_of (cache s) (getCacheKey (ks_TemplateRef (k_Spec k))) \<in> {None, Some template} \<and>
     (\<exists>spec r ns. t_ContainerTemplateSpec template = Some spec \<and> cs_EntryPointRef spec = Some r \<and>
        ref_Namespace r = Some ns \<and>
        fst (lib_getEntryPoint L (NamespacedName ns (ref_Name r)) (world s)) = Inr e) \<and>
     fst (InitEntryPointResourcesConfig e s) = Ret config \<and>
     GenerateKodeUrlForEntryPoint (es_RoutingType (e_Spec e)) (es_BaseDomain (e_Spec e)) (k_Name k)
       (ec_Protocol config) = Inr a"

lemma init_config_any:
  "fst (InitEntryPointResourcesConfig e s) = Ret config \<Longrightarrow> InitEntryPointResourcesConfig e t = (Ret config, t)"
  by (auto simp: InitEntryPointResourcesConfig_def go_simps Let_def deref_go_def
      split: option.splits outcome.splits)

lemma template_at_kind: "template_at L' ref w template \<Longrightarrow> t_Kind template = ref_Kind ref"
  unfolding template_at_def Let_def
  by (elim conjE exE) (auto split: if_split_asm option.split_asm sum.split_asm)

subsection \<open>The Kode while it is published\<close>

definition attended ::
  "'w lib \<Rightarrow> ('w \<Rightarrow> bool) \<Rightarrow> NamespacedName \<Rightarrow> ('w \<Rightarrow> bool) \<Rightarrow> (KodeStatus \<Rightarrow> bool) \<Rightarrow> (KodeStatus \<Rightarrow> bool)
    \<Rightarrow> 'w st \<Rightarrow> bool" where
  "attended L up key Q A B s \<longleftrightarrow> up (world s) \<and> Q (world s) \<and> kode_key (kode s) = key \<and>
     A (k_Status (kode s)) \<and> (\<exists>x. fst (lib_getKode L key (world s)) = Inr x \<and> B (k_Status x))"

definition active_at :: "string \<Rightarrow> KodeStatus \<Rightarrow> bool" where
  "active_at url t \<longleftrightarrow> Phase_of t = PhaseActive \<and> KodeUrl t = url"

lemma attended_weaken:
  "attended L up key Q A B s \<Longrightarrow> (\<And>w. Q w \<Longrightarrow> Q' w) \<Longrightarrow> attended L up key Q' A B s"
  by (auto simp: attended_def)

lemma attended_set_condition:
  "triple (attended L up key Q (active_at url) B) (set_condition L' ct st re m)
     (\<lambda>_. attended L up key Q (active_at url) B) (\<lambda>_. False)"
  unfolding set_condition_def
  by (rule triple_modify)
    (simp add: attended_def active_at_def k_SetCondition_def SetCondition_def kode_key_def)

lemma attended_modify:
  assumes "\<And>t. A t \<Longrightarrow> A' (f t)"
  shows "triple (attended L up key Q A B) (modify_status f) (\<lambda>_. attended L up key Q A' B) (\<lambda>_. False)"
  unfolding modify_status_def
  by (rule triple_modify) (simp add: attended_def assms kode_key_def)

context gateway_server
begin

lemma attended_emit:
  "triple (attended L up key Q A B) (emit L et re m) (\<lambda>_. attended L up key Q A B) (\<lambda>_. False)"
  by (rule emit_keeps) (simp add: attended_def)

lemma attended_UpdateStatus:
  assumes Q: "status_apart L Q"
  shows "surely (attended L up key Q A B) (UpdateStatus L) (\<lambda>err. err = None) (attended L up key Q A A)"
proof (rule surelyI)
  fix s :: "'w st"
  assume I: "attended L up key Q A B s"
  then obtain x where x: "up (world s)" "fst (lib_getKode L (kode_key (kode s)) (world s)) = Inr x"
    by (auto simp: attended_def)
  obtain qs where "UpdateStatus L s = (Ret None, s\<lparr>world := snd (lib_patchKodeStatus L
      (x\<lparr>k_Status := k_Status (kode s)\<rparr>) x (world s)), reqlog := reqlog s @ qs\<rparr>)"
    using UpdateStatus_patches(1) [OF x] by blast
  with UpdateStatus_patches(2,4) [OF x] I Q
  show "\<exists>err. fst (UpdateStatus L s) = Ret err \<and> err = None \<and>
      attended L up key Q A A (snd (UpdateStatus L s))"
    by (auto simp: attended_def status_apart_def)
qed

lemma attended_record_result:
  "surely (attended L up key Q A B) (record_result L r kind name) (\<lambda>err. err = None) (attended L up key Q A B)"
  unfolding record_result_def
  by (cases r) (auto intro!: triple_return triple_then [OF attended_emit])

text \<open>An object that is not there or ours is created or patched.\<close>

lemma attended_CreateOrPatch:
  assumes C: "C = create_or_patch keyof get put" and st: "stores L up kind get put" and kind: "kind \<noteq> KindKode"
    and obj: "keyof obj = okey" "owners obj = []"
    and mut: "\<And>x u. owners x \<in> {[], own} \<Longrightarrow> f x u = (Ret (Inr (g x)), u)"
    and Q: "\<And>w. Q w \<Longrightarrow> ours get owners own okey w"
    and Q': "\<And>w. Q w \<Longrightarrow> Q' (put okey (written get g obj okey w) w)"
  shows "triple (attended L up key Q A B) (CreateOrPatch L kind okey C obj f)
    (\<lambda>x s. snd x = None \<and> attended L up key Q' A B s) (\<lambda>_. False)"
proof -
  have "\<exists>r t. CreateOrPatch L kind okey C obj f s = (Ret (r, None), t) \<and> attended L up key Q' A B t"
    if I: "attended L up key Q A B s" for s
  proof -
    let ?s = "s\<lparr>reqlog := reqlog s @ [ReqCreateOrPatch kind okey]\<rparr>"
    define base where "base = (case fst (get okey (world s)) of Inl e \<Rightarrow> obj | Inr x \<Rightarrow> x)"
    have "ours get owners own okey (world s)" using I Q by (simp add: attended_def)
    then have base: "owners base \<in> {[], own}"
      "fst (get okey (world s)) = Inr base \<or> base = obj \<and> answers_NotFound (get okey (world s))"
      by (auto simp: base_def ours_def obj(2) answers_NotFound_def split: sum.splits)
    let ?y = "written get g obj okey (world s)"
    have y: "f base ?s = (Ret (Inr ?y), ?s)" using mut [OF base(1)] by (simp add: written_def base_def)
    have "\<exists>r. CreateOrPatch L kind okey C obj f s = (Ret (r, None), ?s\<lparr>world := put okey ?y (world s)\<rparr>)"
      using base(2) y
      by (auto simp: CreateOrPatch_def typed log_request_def C create_or_patch_def go_simps obj(1) Let_def
          answers_NotFound_def split: sum.splits)
    moreover have "attended L up key Q' A B (?s\<lparr>world := put okey ?y (world s)\<rparr>)"
      using I st Q' kind reads_likeD(1) [of L kind "world s" "put okey ?y (world s)" key]
      by (auto simp: attended_def stores_def)
    ultimately show ?thesis by blast
  qed
  then show ?thesis by (fastforce simp: triple_def)
qed

text \<open>What the mutate functions make of a route and of a policy.\<close>

abbreviation own_route :: "EntryPoint \<Rightarrow> HTTPRoute \<Rightarrow> HTTPRoute" where
  "own_route e x \<equiv> x\<lparr>ht_Owners := owned (ep_key e)\<rparr>"

abbreviation own_policy :: "EntryPoint \<Rightarrow> SecurityPolicy \<Rightarrow> SecurityPolicy" where
  "own_policy e x \<equiv> x\<lparr>sy_Owners := owned (ep_key e)\<rparr>"

lemma attended_route:
  assumes r: "ht_Owners route = []"
    and Q: "\<And>w. Q w \<Longrightarrow> ours getRoute ht_Owners (owned (ep_key e)) (route_key route) w"
    and Q': "\<And>w. Q w \<Longrightarrow> Q' (putRoute (route_key route)
      (written getRoute (own_route e) route (route_key route) w) w)"
  shows "surely (attended L up key Q A B) (createOrUpdateRoute L G e route) (\<lambda>err. err = None)
    (attended L up key Q' A B)"
proof -
  have "mutate_route L e x u = (Ret (Inr (own_route e x)), u)" if "ht_Owners x \<in> {[], owned (ep_key e)}"
    for x and u :: "'w st"
    using adopts [OF that] by (simp add: mutate_route_def ep_key_def go_simps)
  note C = attended_CreateOrPatch [where owners = ht_Owners and Q = Q and Q' = Q' and key = key and A = A and B = B,
      OF gw_writes(1) gw_stored(1) _ refl r this Q Q']
  show ?thesis
    unfolding createOrUpdateRoute_def
    by (rule triple_bind [OF C])
      (auto intro: triple_pre [OF attended_record_result] split: option.split)
qed

lemma attended_policy:
  assumes p: "constructSecurityPolicy config name = Inr policy"
    and Q: "\<And>w. Q w \<Longrightarrow> ours getPolicy sy_Owners (owned (ep_key e)) (policy_key policy) w"
    and Q': "\<And>w. Q w \<Longrightarrow> Q' (putPolicy (policy_key policy)
      (written getPolicy (own_policy e) policy (policy_key policy) w) w)"
  shows "surely (attended L up key Q A B) (createOrUpdateSecurityPolicy L G e config name)
    (\<lambda>err. err = None) (attended L up key Q' A B)"
proof -
  have o: "sy_Owners policy = []"
    using p by (auto simp: constructSecurityPolicy_def Let_def split: option.splits)
  have "mutate_policy L e x u = (Ret (Inr (own_policy e x)), u)" if "sy_Owners x \<in> {[], owned (ep_key e)}"
    for x and u :: "'w st"
    using adopts [OF that] by (simp add: mutate_policy_def ep_key_def go_simps)
  note C = attended_CreateOrPatch [where owners = sy_Owners and Q = Q and Q' = Q' and key = key and A = A
      and B = B, OF gw_writes(2) gw_stored(2) _ refl o this Q Q']
  show ?thesis
    unfolding createOrUpdateSecurityPolicy_def p sum.case
    by (rule triple_bind [OF C])
      (auto intro: triple_pre [OF attended_record_result] split: option.split)
qed

lemma attended_routes_ready:
  assumes "status_apart L Q"
  shows "surely (attended L up key Q (active_at url) B) (routes_ready L e) (\<lambda>x. x = (e, result_none, None))
     (attended L up key Q (active_at url) (active_at url))"
proof -
  have "surely (attended L up key Q (active_at url) B) (bind_go (UpdateStatus L) (\<lambda>err. case err of
       Some x \<Rightarrow> return_go (e, result_none, Some x) | None \<Rightarrow> return_go (e, result_none, None)))
      (\<lambda>x. x = (e, result_none, None)) (attended L up key Q (active_at url) (active_at url))"
    by (rule triple_bind_known [OF attended_UpdateStatus [OF assms]]) (simp add: triple_return)
  then show ?thesis
    unfolding routes_ready_def
    by (intro triple_then [OF triple_seq]) (auto intro: attended_set_condition)
qed

lemma attended_publish:
  assumes "url \<noteq> ''''" and Q: "status_apart L Q"
  shows "surely (attended L up key Q (active_at old) B) (publish_url L url) (\<lambda>x. x = (result_none, None))
    (attended L up key Q (active_at url) (active_at url))"
proof -
  have "surely (attended L up key Q (active_at url) B) (bind_go (UpdateStatus L) (\<lambda>err. case err of
       Some x \<Rightarrow> return_go (result_after (seconds 5), Some (Wrapped ''failed to update Kode URL: '' x))
     | None \<Rightarrow> return_go (result_none, None)))
      (\<lambda>x. x = (result_none, None)) (attended L up key Q (active_at url) (active_at url))"
    by (rule triple_bind_known [OF attended_UpdateStatus [OF Q]]) (simp add: triple_return)
  then show ?thesis
    using assms(1) unfolding publish_url_def
    by (simp, intro triple_then [OF attended_modify [where A' = "active_at url"]]
        triple_then [OF attended_set_condition]) (auto simp: active_at_def)
qed

text \<open>
  \<open>gateway_steps\<close>: \<open>Q\<close> before, \<open>R\<close> after the write of the route and \<open>F\<close> after that of the policy, where
  one is wanted; \<open>Q\<close> and \<open>R\<close> say that nothing foreign is in the way.
\<close>

definition gateway_steps ::
  "Kode \<Rightarrow> EntryPoint \<Rightarrow> EntryPointResourceConfig \<Rightarrow> HTTPRoute \<Rightarrow> ('w \<Rightarrow> bool) \<Rightarrow> ('w \<Rightarrow> bool)
    \<Rightarrow> ('w \<Rightarrow> bool) \<Rightarrow> bool" where
  "gateway_steps k e config route Q R F \<longleftrightarrow>
     (\<forall>w. Q w \<longrightarrow> gateway_free getRoute getPolicy owned k e config w \<and>
        R (putRoute (route_key route) (written getRoute (own_route e) route (route_key route) w) w)) \<and>
     (\<forall>w. R w \<longrightarrow> (if wants_policy config
        then ours getPolicy sy_Owners (owned (ep_key e))
            (NamespacedName (e_Namespace e) (k_Name k @ ''-security-policy'')) w \<and>
          (\<forall>p. constructSecurityPolicy config (k_Name k) = Inr p \<longrightarrow>
             F (putPolicy (policy_key p) (written getPolicy (own_policy e) p (policy_key p) w) w))
        else F w)) \<and>
     status_apart L F"

lemma constructHTTPRoute_own:
  assumes "constructHTTPRoute config k False host domain = Inr route"
    and "cc_Namespace (ec_CommonConfig config) = e_Namespace e"
  shows "route_key route = NamespacedName (e_Namespace e) (k_Name k)" "ht_Owners route = []"
    "ht_Name route = k_Name k"
  using constructHTTPRoute_ok(2,3) [OF assms(1)] assms
  by (auto simp: constructHTTPRoute_def Let_def split: if_splits)

lemma constructSecurityPolicy_key:
  "constructSecurityPolicy config (k_Name k) = Inr p \<Longrightarrow>
     cc_Namespace (ec_CommonConfig config) = e_Namespace e \<Longrightarrow>
     policy_key p = NamespacedName (e_Namespace e) (k_Name k @ ''-security-policy'')"
  using constructSecurityPolicy_ok(1,2) [of config "k_Name k" p] by simp

lemma attended_ensure:
  assumes route: "constructHTTPRoute config k False host domain = Inr route"
    and steps: "gateway_steps k e config route Q R F"
    and ns: "cc_Namespace (ec_CommonConfig config) = e_Namespace e"
  shows "surely (\<lambda>s. kode s = k \<and> attended L up key Q (active_at url) B s)
    (ensureHTTPRoutes L G e config host domain) (\<lambda>x. x = (e, result_none, None))
    (attended L up key F (active_at url) (active_at url))"
proof -
  let ?I = "\<lambda>Q. attended L up key Q (active_at url) B" and ?done = "\<lambda>x s. x = (e, result_none, None) \<and>
    attended L up key F (active_at url) (active_at url) s"
  note r = constructHTTPRoute_own [OF route ns]
  have F: "status_apart L F" using steps by (simp add: gateway_steps_def)
  have policy: "surely (?I R)
      (if wants_policy config then createOrUpdateSecurityPolicy L G e config (ht_Name route) else return_go None)
      (\<lambda>err. err = None) (?I F)"
  proof (rule triple_if)
    assume w: "wants_policy config"
    then obtain p where p: "constructSecurityPolicy config (k_Name k) = Inr p"
      by (auto simp: wants_policy_def constructSecurityPolicy_def Let_def split: option.splits)
    show "surely (?I R) (createOrUpdateSecurityPolicy L G e config (ht_Name route))
        (\<lambda>err. err = None) (?I F)"
      unfolding r(3) using steps w p
      by (intro attended_policy [OF p]) (simp_all add: constructSecurityPolicy_key [OF p ns] gateway_steps_def)
  qed (use steps in \<open>auto simp: gateway_steps_def intro!: triple_return elim: attended_weaken\<close>)
  have rest: "triple (?I R) (bind_go (if wants_policy config
         then createOrUpdateSecurityPolicy L G e config (ht_Name route) else return_go None) (\<lambda>err. case err of
       Some x \<Rightarrow> route_failure L e ''SecurityPolicyCreationFailed'' ''Failed to create or update SecurityPolicy: '' x
     | None \<Rightarrow> routes_ready L e)) ?done (\<lambda>_. False)"
    by (rule triple_bind_known [OF policy]) (simp add: attended_routes_ready [OF F])
  have "triple (?I Q) (createOrUpdateRoute L G e route) (\<lambda>err s. err = None \<and> ?I R s) (\<lambda>_. False)"
    using steps by (intro attended_route [OF r(2)]) (simp_all add: gateway_steps_def gateway_free_def r(1))
  then have whole: "triple (?I Q) (bind_go (createOrUpdateRoute L G e route) (\<lambda>err. case err of
       Some x \<Rightarrow> route_failure L e ''HTTPRouteCreationFailed'' ''Failed to create or update HTTPRoute: '' x
     | None \<Rightarrow> bind_go (if wants_policy config
         then createOrUpdateSecurityPolicy L G e config (ht_Name route) else return_go None) (\<lambda>err. case err of
           Some x \<Rightarrow> route_failure L e ''SecurityPolicyCreationFailed'' ''Failed to create or update SecurityPolicy: '' x
         | None \<Rightarrow> routes_ready L e))) ?done (\<lambda>_. False)"
    by (rule triple_bind_known) (simp add: rest)
  show ?thesis
    unfolding ensureHTTPRoutes_def
    by (rule triple_gets_known [where a = k], simp, simp only: route sum.case, rule triple_pre [OF whole], simp)
qed

subsection \<open>One reconciliation publishes\<close>

lemma findEntryPoint_run:
  assumes s: "kode s = k" "publishable L k template e config a s"
  shows "\<exists>u. findEntryPointForKode L s = (Ret (Inr e), u) \<and> kode u = k \<and> world u = world s"
proof -
  let ?ref = "ks_TemplateRef (k_Spec k)"
  obtain spec r ns where t: "t_ContainerTemplateSpec template = Some spec" "cs_EntryPointRef spec = Some r"
    "ref_Namespace r = Some ns" "fst (lib_getEntryPoint L (NamespacedName ns (ref_Name r)) (world s)) = Inr e"
    and at: "template_at L ?ref (world s) template" "map_of (cache s) (getCacheKey ?ref) \<in> {None, Some template}"
    using s(2) by (auto simp: publishable_def)
  then have kind: "t_Kind template = TemplateKindContainer \<or> t_Kind template = TemplateKindClusterContainer"
    using template_at_kind [OF at(1)] template_at_spec [OF at(1)] by simp
  obtain u c where u: "Fetch L ?ref s = (Ret (Inr template), u\<lparr>cache := c\<rparr>)" "same_but_log s u"
    using Fetch_run [OF at] by blast
  have "lib_getEntryPoint L (NamespacedName ns (ref_Name r)) (world s) = (Inr e, world s)"
    using t(4) more_pure(2) by (metis prod.collapse)
  then show ?thesis
    using u(1) same_but_logD [OF u(2)] t kind s(1)
    by (auto simp: findEntryPointForKode_def GetLatestEntryPoint_def api_get_def answer_of_def go_simps deref_go_def)
qed

lemma publishes_with:
  assumes up: "up (world s)" and x: "fst (lib_getKode L (kode_key k) (world s)) = Inr k"
    and p: "publishable L k template e config a s"
    and steps: "\<And>route. constructHTTPRoute config k False (ka_Hostname a) (ka_Domain a) = Inr route \<Longrightarrow>
      cc_Namespace (ec_CommonConfig config) = e_Namespace e \<Longrightarrow>
      gateway_steps k e config route (\<lambda>w. w = world s) R F"
  shows "\<exists>t y. ep_Reconcile L G (kode_key k) s = (Ret (result_none, None), t) \<and> up (world t) \<and> F (world t) \<and>
    fst (lib_getKode L (kode_key k) (world t)) = Inr y \<and> GetPhase y = PhaseActive \<and>
    KodeUrl (k_Status y) = ka_Url a"
proof -
  let ?s = "s\<lparr>reqlog := reqlog s @ [ReqGet KindKode (kode_key k) Found], kode := k\<rparr>"
  have "lib_getKode L (kode_key k) (world s) = (Inr k, world s)" using x more_pure(1) by (metis prod.collapse)
  then have run: "ep_Reconcile L G (kode_key k) s = reconcileKode L G ?s"
    using p by (simp add: ep_Reconcile_def publishable_def api_get_def answer_of_def go_simps kode_key_def)
  have "publishable L k template e config a ?s" using p init_config_any [of e s config ?s] by (simp add: publishable_def)
  from findEntryPoint_run [OF _ this] obtain u
    where u: "findEntryPointForKode L ?s = (Ret (Inr e), u)" "kode u = k" "world u = world s" by auto
  have init: "InitEntryPointResourcesConfig e u = (Ret config, u)"
    using p init_config_any by (auto simp: publishable_def)
  note ns = InitEntryPointResourcesConfig_run(3) [OF init]
  obtain route where route: "constructHTTPRoute config k False (ka_Hostname a) (ka_Domain a) = Inr route"
    using p constructHTTPRoute_port [of k config False "ka_Hostname a" "ka_Domain a"] by (auto simp: publishable_def)
  note steps = steps [OF route ns]
  let ?url = "KodeUrl (k_Status k)" and ?key = "kode_key k"
  have "kode u = k \<and> attended L up ?key (\<lambda>w. w = world s) (active_at ?url) (\<lambda>_. True) u"
    using u up x p by (simp add: attended_def active_at_def publishable_def GetPhase_def)
  note ready = triple_case [OF attended_ensure [OF route steps ns] this]
  obtain v where v: "ensureHTTPRoutes L G e config (ka_Hostname a) (ka_Domain a) u = (Ret (e, result_none, None), v)"
    "attended L up ?key F (active_at ?url) (active_at ?url) v"
    using ready
    by (cases "ensureHTTPRoutes L G e config (ka_Hostname a) (ka_Domain a) u";
        cases "fst (ensureHTTPRoutes L G e config (ka_Hostname a) (ka_Domain a) u)") auto
  have "ka_Url a \<noteq> ''''" "status_apart L F"
    using p GenerateKodeUrl_Some(1) steps by (auto simp: publishable_def gateway_steps_def)
  from triple_case [OF attended_publish [OF this] v(2)] obtain t
    where t: "publish_url L (ka_Url a) v = (Ret (result_none, None), t)"
      "attended L up ?key F (active_at (ka_Url a)) (active_at (ka_Url a)) t"
    by (cases "publish_url L (ka_Url a) v"; cases "fst (publish_url L (ka_Url a) v)") auto
  have "reconcileKode L G ?s = (Ret (result_none, None), t)"
    using p u(1) init v(1) t(1) by (simp add: reconcileKode_def publishable_def go_simps)
  with t(2) show ?thesis by (auto simp: run attended_def active_at_def GetPhase_def)
qed

lemma publishes:
  assumes "up (world s)" and "fst (lib_getKode L (kode_key k) (world s)) = Inr k"
    and "publishable L k template e config a s"
    and free: "gateway_free getRoute getPolicy owned k e config (world s)"
  shows "\<exists>t y. ep_Reconcile L G (kode_key k) s = (Ret (result_none, None), t) \<and> up (world t) \<and>
    fst (lib_getKode L (kode_key k) (world t)) = Inr y \<and> GetPhase y = PhaseActive \<and>
    KodeUrl (k_Status y) = ka_Url a"
proof -
  let ?policy_free = "\<lambda>w. wants_policy config \<longrightarrow> ours getPolicy sy_Owners (owned (ep_key e))
    (NamespacedName (e_Namespace e) (k_Name k @ ''-security-policy'')) w"
  have "gateway_steps k e config route (\<lambda>w. w = world s) ?policy_free (\<lambda>_. True)" for route
    using free by (simp add: gateway_steps_def status_apart_True) (simp add: gateway_free_def ours_def gw_apart)
  from publishes_with [OF assms(1-3) this] show ?thesis by blast
qed

end

subsection \<open>What stands behind a published URL\<close>

text \<open>
  A server that keeps routes and policies apart from each other and from the status of the Kodes.
\<close>

locale routing_server = gateway_server +
  assumes status_keeps: "fst (getRoute key (snd (lib_patchKodeStatus L k base w))) = fst (getRoute key w)"
      "fst (getPolicy key (snd (lib_patchKodeStatus L k base w))) = fst (getPolicy key w)"
    and policy_keeps: "fst (getRoute key (putPolicy key' x w)) = fst (getRoute key w)"

text \<open>
  The object under the key, with the given owners: it is as \<open>fresh\<close> says if there was none, and unchanged
  if there was one.
\<close>

definition stands ::
  "(NamespacedName \<Rightarrow> 'w \<Rightarrow> (error + 'o) \<times> 'w) \<Rightarrow> ('o \<Rightarrow> string list) \<Rightarrow> string list \<Rightarrow> NamespacedName
    \<Rightarrow> ('o \<Rightarrow> bool) \<Rightarrow> 'w \<Rightarrow> 'w \<Rightarrow> bool" where
  "stands get owners own key fresh w0 w \<longleftrightarrow>
     (case fst (get key w) of
        Inl e \<Rightarrow> False
      | Inr x \<Rightarrow> owners x = own \<and> (case fst (get key w0) of Inl e \<Rightarrow> fresh x | Inr old \<Rightarrow> x = old))"

text \<open>The route that publishes a Kode at its address, and the policy that guards the route.\<close>

definition route_made :: "Kode \<Rightarrow> EntryPointResourceConfig \<Rightarrow> KodeAddress \<Rightarrow> HTTPRoute \<Rightarrow> bool" where
  "route_made k config a x \<longleftrightarrow>
     hs_ParentRefs (ht_Spec x) =
       [\<lparr>pr_Name = ec_GatewayName config, pr_Namespace = Some (ec_GatewayNamespace config)\<rparr>] \<and>
     hs_Hostnames (ht_Spec x) = [ka_Domain a] \<and> forwards_to x (GetServiceName k) (GetPort k)"

definition policy_made :: "Kode \<Rightarrow> EntryPointResourceConfig \<Rightarrow> SecurityPolicy \<Rightarrow> bool" where
  "policy_made k config x \<longleftrightarrow>
     ps_TargetRef (sy_Spec x) =
       \<lparr>tr_Group = ''gateway.networking.k8s.io'', tr_Kind = ''HTTPRoute'', tr_Name = k_Name k\<rparr> \<and>
     (case es_AuthSpec (ec_EntryPointSpec config) of
        None \<Rightarrow> False
      | Some auth \<Rightarrow> (case au_SecurityPolicySpec auth of
          None \<Rightarrow> False
        | Some spec \<Rightarrow>
            ps_ExtAuth (sy_Spec x) = map_option (\<lambda>ea. configureExtAuth ea config) (spec_ExtAuth spec)))"

definition routed ::
  "(NamespacedName \<Rightarrow> 'w \<Rightarrow> (error + HTTPRoute) \<times> 'w) \<Rightarrow> (NamespacedName \<Rightarrow> 'w \<Rightarrow> (error + SecurityPolicy) \<times> 'w)
    \<Rightarrow> string list \<Rightarrow> Kode \<Rightarrow> EntryPoint \<Rightarrow> EntryPointResourceConfig \<Rightarrow> KodeAddress \<Rightarrow> 'w \<Rightarrow> 'w \<Rightarrow> bool" where
  "routed getRoute getPolicy own k e config a w0 w \<longleftrightarrow>
     stands getRoute ht_Owners own (NamespacedName (e_Namespace e) (k_Name k)) (route_made k config a) w0 w \<and>
     (wants_policy config \<longrightarrow>
        stands getPolicy sy_Owners own (NamespacedName (e_Namespace e) (k_Name k @ ''-security-policy''))
          (policy_made k config) w0 w)"

lemma stands_written:
  assumes "fst (get key w') = Inr (written get g obj key w)" and "ours get owners own key w"
    and "\<And>x. owners (g x) = own" and "\<And>x. owners x = own \<Longrightarrow> g x = x" and "fresh (g obj)"
    and "fst (get key w) = fst (get key w0)"
  shows "stands get owners own key fresh w0 w'"
  using assms by (auto simp: stands_def written_def ours_def split: sum.splits)

lemma route_made_constructed:
  "constructHTTPRoute config k False host (ka_Domain a) = Inr route \<Longrightarrow>
     route_made k config a (route\<lparr>ht_Owners := own\<rparr>)"
  using constructHTTPRoute_ok(4-6) [of config k host "ka_Domain a" route]
  by (simp add: route_made_def forwards_to_def constructParentReference_def)

lemma policy_made_constructed:
  "constructSecurityPolicy config (k_Name k) = Inr p \<Longrightarrow> policy_made k config (p\<lparr>sy_Owners := own\<rparr>)"
  by (auto simp: policy_made_def constructSecurityPolicy_def Let_def split: option.splits)

context routing_server
begin

lemma publishes_routed:
  assumes "up (world s)" and "fst (lib_getKode L (kode_key k) (world s)) = Inr k"
    and "publishable L k template e config a s"
    and free: "gateway_free getRoute getPolicy owned k e config (world s)"
  shows "\<exists>t y. ep_Reconcile L G (kode_key k) s = (Ret (result_none, None), t) \<and>
    fst (lib_getKode L (kode_key k) (world t)) = Inr y \<and> KodeUrl (k_Status y) = ka_Url a \<and>
    routed getRoute getPolicy (owned (ep_key e)) k e config a (world s) (world t)"
proof -
  let ?own = "owned (ep_key e)" and ?w0 = "world s"
  let ?rkey = "NamespacedName (e_Namespace e) (k_Name k)"
    and ?pkey = "NamespacedName (e_Namespace e) (k_Name k @ ''-security-policy'')"
  let ?route = "stands getRoute ht_Owners ?own ?rkey (route_made k config a) ?w0"
  let ?R = "\<lambda>w. up w \<and> ?route w \<and> fst (getPolicy ?pkey w) = fst (getPolicy ?pkey ?w0)"
  let ?F = "routed getRoute getPolicy ?own k e config a ?w0"
  have "gateway_steps k e config route (\<lambda>w. w = ?w0) ?R ?F"
    if r: "constructHTTPRoute config k False (ka_Hostname a) (ka_Domain a) = Inr route"
      and ns: "cc_Namespace (ec_CommonConfig config) = e_Namespace e" for route
    unfolding gateway_steps_def constructHTTPRoute_own(1) [OF r ns]
  proof (intro conjI allI impI)
    let ?x = "written getRoute (own_route e) route ?rkey ?w0"
    have put: "up (putRoute ?rkey ?x ?w0)" "fst (getRoute ?rkey (putRoute ?rkey ?x ?w0)) = Inr ?x"
      using gw_stored(1) assms(1) by (auto simp: stores_def)
    have "?route (putRoute ?rkey ?x ?w0)"
      by (rule stands_written [OF put(2)])
        (use free route_made_constructed [OF r] in \<open>simp_all add: gateway_free_def\<close>)
    then show "gateway_free getRoute getPolicy owned k e config w" and
      "up (putRoute ?rkey (written getRoute (own_route e) route ?rkey w) w)"
      "?route (putRoute ?rkey (written getRoute (own_route e) route ?rkey w) w)"
      "fst (getPolicy ?pkey (putRoute ?rkey (written getRoute (own_route e) route ?rkey w) w)) =
        fst (getPolicy ?pkey ?w0)"
      if "w = ?w0" for w using that free put(1) by (simp_all add: gw_apart)
  next
    fix w
    assume R: "?R w"
    show "if wants_policy config
      then ours getPolicy sy_Owners ?own ?pkey w \<and>
        (\<forall>p. constructSecurityPolicy config (k_Name k) = Inr p \<longrightarrow>
           ?F (putPolicy (policy_key p) (written getPolicy (own_policy e) p (policy_key p) w) w))
      else ?F w"
    proof (cases "wants_policy config")
      case True
      have ours: "ours getPolicy sy_Owners ?own ?pkey w"
        using free R True by (simp add: gateway_free_def ours_def)
      have "?F (putPolicy (policy_key p) (written getPolicy (own_policy e) p (policy_key p) w) w)"
        if p: "constructSecurityPolicy config (k_Name k) = Inr p" for p
      proof -
        let ?y = "written getPolicy (own_policy e) p ?pkey w"
        have "fst (getPolicy ?pkey (putPolicy ?pkey ?y w)) = Inr ?y"
          using gw_stored(2) R by (auto simp: stores_def)
        from stands_written [OF this ours, where fresh = "policy_made k config" and ?w0.0 = ?w0]
        have "stands getPolicy sy_Owners ?own ?pkey (policy_made k config) ?w0 (putPolicy ?pkey ?y w)"
          using policy_made_constructed [OF p] R by simp
        moreover have "?route (putPolicy ?pkey ?y w)" using R by (simp add: stands_def policy_keeps)
        ultimately show ?thesis by (simp add: routed_def constructSecurityPolicy_key [OF p ns])
      qed
      with ours True show ?thesis by simp
    qed (use R in \<open>simp add: routed_def\<close>)
  next
    show "status_apart L ?F"
      by (simp add: status_apart_def routed_def stands_def status_keeps)
  qed
  from publishes_with [OF assms(1-3) this] show ?thesis by blast
qed

end

end
