(* ===== verification/Scenario_Gateway.thy ===== *)
theory Scenario_Gateway
  imports Entrypoint_Server Scenario_Arrival Scenario_Entrypoint
begin

text \<open>
  The in-memory API server of Fake_Cluster keeps routes and security policies, apart from each other
  and from the Kodes: the interfaces \<open>gateway_server\<close> and \<open>routing_server\<close> hold of it. An active Kode that is not published yet, for the witness.
\<close>

subsection \<open>The store has a gateway\<close>

definition put_route :: "NamespacedName \<Rightarrow> HTTPRoute \<Rightarrow> store \<Rightarrow> store" where
  "put_route key x w = w\<lparr>fk_routes := AList.update key x (fk_routes w)\<rparr>"

definition put_policy :: "NamespacedName \<Rightarrow> SecurityPolicy \<Rightarrow> store \<Rightarrow> store" where
  "put_policy key x w = w\<lparr>fk_policies := AList.update key x (fk_policies w)\<rparr>"

interpretation fake_gateway: gateway_server L0 keyed put_secret put_service put_set put_claim
  G0 "fk_get fk_routes" put_route "fk_get fk_policies" put_policy "\<lambda>key. [nn_Name key]"
proof unfold_locales
  show "gw_createOrPatchHTTPRoute G0 = create_or_patch route_key (fk_get fk_routes) put_route"
    "gw_createOrPatchSecurityPolicy G0 = create_or_patch policy_key (fk_get fk_policies) put_policy"
    by (simp add: G0_def, rule fk_createOrPatch_create_or_patch, simp add: put_route_def put_policy_def)+
  show "stores L0 keyed KindHTTPRoute (fk_get fk_routes) put_route"
    "stores L0 keyed KindSecurityPolicy (fk_get fk_policies) put_policy"
    by (simp_all add: stores_def L0_def fk_get_def put_route_def put_policy_def keyed_def reads_like_def
        fk_listPods_def update_conv')
  show "fst (fk_get fk_policies key (put_route key' x w)) = fst (fk_get fk_policies key w)" for key key' x w
    by (simp add: fk_get_def put_route_def)
  show "lib_SetControllerReference L0 KindEntryPoint key owners = Inr [nn_Name key]" for key owners
    by (simp add: L0_def)
qed

interpretation fake_routing: routing_server L0 keyed put_secret put_service put_set put_claim
  G0 "fk_get fk_routes" put_route "fk_get fk_policies" put_policy "\<lambda>key. [nn_Name key]"
  by unfold_locales (simp_all add: L0_def fk_get_def fk_patchStatus_def put_policy_def split: option.split)

subsection \<open>A Kode to publish\<close>

definition gate_template :: Template where
  "gate_template = fill_template (demo_spec\<lparr>cs_EntryPointRef := Some gate_ref\<rparr>)
     \<lparr>t_Kind = ref_Kind demo_ref, t_Name = ref_Name demo_ref, t_Namespace = ''team'', t_Port = 0,
      t_ContainerTemplateSpec = None, t_EntryPointRef = None, t_EntryPointSpec = None\<rparr>"

definition gate_config :: EntryPointResourceConfig where
  "gate_config = \<lparr>ec_CommonConfig = \<lparr>cc_Labels = ep_createLabels (gate ''subdomain''), cc_Name = ''gate'',
       cc_Namespace = ''infra''\<rparr>,
     ec_EntryPointSpec = e_Spec (gate ''subdomain''), ec_GatewayName = ''gate-gateway'', ec_GatewayNamespace = '''',
     ec_Protocol = ''https'', ec_IdentityReference = Some ''sub''\<rparr>"

definition gate_address :: KodeAddress where
  "gate_address = \<lparr>ka_Hostname = ''alice'', ka_Domain = ''alice.kode.dev'',
     ka_Url = ''https://alice.kode.dev/'', ka_Path = ''/''\<rparr>"

lemma gate_publishable:
  "publishable L0 (active_kode '''') gate_template (gate ''subdomain'') gate_config gate_address
     (gate_st ''subdomain'' (active_kode ''''))"
proof -
  let ?k = "active_kode ''''" and ?s = "gate_st ''subdomain'' (active_kode '''')"
  have s: "world ?s = gate_store ''subdomain'' (active_kode '''')" "cache ?s = []"
    by (simp_all add: gate_st_def demo_st_def)
  have "template_at L0 demo_ref (world ?s) gate_template"
    by (simp add: template_at_def s gate_template_def demo_ref_def TemplateKindContainer_def L0_def fk_get_def
        gate_store_def demo_store_def not_found_def gate_ref_def Let_def)
  moreover have "t_ContainerTemplateSpec gate_template = Some (demo_spec\<lparr>cs_EntryPointRef := Some gate_ref\<rparr>)"
    by (simp add: gate_template_def fill_template_def Let_def)
  moreover have "fst (lib_getEntryPoint L0 (NamespacedName ''infra'' (ref_Name gate_ref)) (world ?s)) =
      Inr (gate ''subdomain'')"
    by (simp add: s L0_def fk_get_def gate_store_def gate_ref_def)
  moreover have "fst (InitEntryPointResourcesConfig (gate ''subdomain'') ?s) = Ret gate_config"
    by (simp add: InitEntryPointResourcesConfig_def gate_config_def gate_def gate_auth_def go_simps Let_def)
  moreover have "GenerateKodeUrlForEntryPoint ''subdomain'' ''kode.dev'' ''alice'' ''https'' = Inr gate_address"
    by (simp add: GenerateKodeUrlForEntryPoint_def RoutingTypeSubdomain_def RoutingTypePath_def Let_def
        gate_address_def)
  moreover have "k_Namespace ?k \<noteq> ''''" "ks_TemplateRef (k_Spec ?k) = demo_ref"
    "ObservedGeneration (k_Status ?k) = k_Generation ?k" "GetPort ?k \<noteq> 0" "k_Name ?k = ''alice''"
    "KodeUrl (k_Status ?k) \<noteq> ka_Url gate_address"
    by (simp_all add: active_kode_def demo_kode_def fresh_kode_def demo_status_def GetPort_def gate_address_def)
  moreover have "es_RoutingType (e_Spec (gate ''subdomain'')) = ''subdomain''"
    "es_BaseDomain (e_Spec (gate ''subdomain'')) = ''kode.dev''" "ec_Protocol gate_config = ''https''"
    "ref_Namespace gate_ref = Some ''infra''"
    by (simp_all add: gate_def gate_config_def gate_ref_def)
  ultimately show ?thesis
    unfolding publishable_def by (simp add: s(2))
qed

lemma gate_free:
  "gateway_free (fk_get fk_routes) (fk_get fk_policies) owned k e config (world (gate_st r x))"
  by (simp add: gateway_free_def ours_def fk_get_def gate_st_def gate_store_def demo_st_def demo_store_def
      not_found_def)

lemma gate_keyed: "keyed (world (gate_st r (active_kode u)))" "kode_key (active_kode u) = demo_key"
  by (simp_all add: keyed_def gate_st_def gate_store_def demo_st_def demo_store_def active_kode_def
      demo_kode_def fresh_kode_def kode_key_def demo_key_def)

end
