(* ===== verification/Rise_Properties.thy ===== *)
theory Rise_Properties
  imports Scenario_Writes Scenario_Gateway
begin

text \<open>
  Properties of the way up, on a server that serves (the interface \<open>api_server\<close>, which the in-memory
  server of Fake_Cluster provides), of publication (\<open>gateway_server\<close>), and of what reconciliations
  create on any server.
\<close>

section \<open>The way up\<close>



text \<open>
  C5. It arrives when its children are ready, and not before: whatever the cluster has done meanwhile,
  if the Kode is in Provisioning, its generation was observed and its children are as configured, the next reconciliation stores
  Active and asks for nothing more if all of them are ready, and otherwise stays in Provisioning and
  asks to be called again after the reconcile interval.
\<close>

theorem Kode_arrives:
  assumes "api_server L up putSecret putService putSet putClaim"
    and "at_rest L up (with_finalizer L k) template (provisioned_in L Y k template b) PhaseProvisioning s"
    and "k_DeletionTimestamp k = None"
  shows "\<exists>t. Reconcile L Y (kode_key k) s =
      (Ret (if b then result_none else result_after (lib_ReconcileInterval L), None), t) \<and>
    at_rest L up (with_finalizer L k) template (provisioned_in L Y k template b)
      (if b then PhaseActive else PhaseProvisioning) t"
  by (rule api_server.arrives [OF assms])

theorem Kode_arrives_witness:
  "\<exists>t x. Reconcile L0 demo_yaml demo_key demo_arrived_st = (Ret (result_none, None), t) \<and>
     fst (lib_getKode L0 demo_key (world t)) = Inr x \<and> GetPhase x = PhaseActive"
proof -
  have key: "kode_key fresh_kode = demo_key" by (simp add: kode_key_def fresh_kode_def demo_key_def)
  show ?thesis
    using Kode_arrives [OF fake.api_server_axioms demo_arrived]
    by (auto simp: at_rest_def key dest: live_phase)
qed

text \<open>
  C14. The operator repairs: on a server that serves, a reconciliation of a configurable Kode in the
  phase Updating, whose generation was observed, reports no error and leaves every child as the configuration wants it, whichever of
  them somebody has deleted; the Kode is then in Updating or Active.
\<close>

theorem Updating_repairs:
  assumes "api_server L up putSecret putService putSet putClaim"
    and "k_DeletionTimestamp k = None" and "has_finalizer k" and "configurable k"
    and "at_rest L up k template (startable_in L Y k template) PhaseUpdating s"
  shows "\<exists>p r t. Reconcile L Y (kode_key k) s = (Ret (r, None), t) \<and> p \<in> {PhaseUpdating, PhaseActive} \<and>
    at_rest L up k template (configured_in L Y k template) p t"
  by (rule api_server.repairs [OF assms])

theorem Updating_repairs_witness:
  "\<exists>t service. snd (Reconcile L0 demo_yaml demo_key demo_broken_st) = t \<and>
     fst (lib_getService L0 (NamespacedName ''team'' ''alice-svc'') (world t)) = Inr service"
proof -
  let ?k = "demo_kode PhaseUpdating None"
  have key: "kode_key ?k = demo_key" "child_key ?k (GetServiceName ?k) = NamespacedName ''team'' ''alice-svc''"
    by (simp_all add: kode_key_def demo_kode_def fresh_kode_def demo_key_def child_key_def GetServiceName_def)
  have "configurable ?k" using demo_configurable(1) by (simp add: in_alike [OF demo_alike])
  from Updating_repairs [OF fake.api_server_axioms _ _ this demo_broken] show ?thesis
    by (auto simp: key at_rest_def configured_in_def converged_fine service_fine_def Let_def)
qed

text \<open>
  C16. A Kode that is as configured but not ready flaps: from Active one reconciliation takes it to
  Updating, and the next, which detects no change, back to Active, although the same child is still
  not ready: the handler of Updating does not look at readiness when there is nothing to change.
\<close>

theorem degraded_flaps:
  assumes "api_server L up putSecret putService putSet putClaim"
    and "k_DeletionTimestamp k = None" and "has_finalizer k"
    and "at_rest L up k template (provisioned_in L Y k template False) PhaseActive s"
  shows "at_rest L up k template (provisioned_in L Y k template False) PhaseUpdating
      (reconciles L Y (kode_key k) 1 s) \<and>
    at_rest L up k template (provisioned_in L Y k template False) PhaseActive
      (reconciles L Y (kode_key k) 2 s)"
  using api_server.flaps [OF assms] by blast

theorem degraded_flaps_witness:
  "at_rest L0 keyed (demo_kode PhaseActive None) demo_template
     (provisioned_in L0 demo_yaml (demo_kode PhaseActive None) demo_template False) PhaseActive
     (reconciles L0 demo_yaml demo_key 2 demo_degraded_st)"
proof -
  have "kode_key (demo_kode PhaseActive None) = demo_key"
    by (simp add: kode_key_def demo_kode_def fresh_kode_def demo_key_def)
  then show ?thesis using degraded_flaps [OF fake.api_server_axioms _ _ demo_degraded] by simp
qed

section \<open>Publication\<close>

text \<open>
  C8. A Kode is published: on a server with a gateway, one reconciliation of the entrypoint controller
  gives an active Kode, with a port, the URL that its EntryPoint gives it, and stores it; the Kode stays
  active, no error is reported and nothing more asked for. It supposes that the template of the Kode
  can be had and is what the template cache holds, if it holds one under that reference; that it
  refers to the EntryPoint, which has a gateway; and that no foreign route or policy is in the way.
\<close>

theorem Kode_is_published:
  assumes "gateway_server L up putSecret putService putSet putClaim G getRoute putRoute getPolicy putPolicy owned"
    and "up (world s)" and "fst (lib_getKode L (kode_key k) (world s)) = Inr k"
    and "publishable L k template e config a s"
    and "gateway_free getRoute getPolicy owned k e config (world s)"
  shows "\<exists>t y. ep_Reconcile L G (kode_key k) s = (Ret (result_none, None), t) \<and> up (world t) \<and>
    fst (lib_getKode L (kode_key k) (world t)) = Inr y \<and> GetPhase y = PhaseActive \<and>
    KodeUrl (k_Status y) = ka_Url a"
  by (rule gateway_server.publishes [OF assms])

theorem Kode_is_published_witness:
  "\<exists>t y. ep_Reconcile L0 G0 demo_key (gate_st ''subdomain'' (active_kode '''')) = (Ret (result_none, None), t) \<and>
     fst (lib_getKode L0 demo_key (world t)) = Inr y \<and> KodeUrl (k_Status y) = ''https://alice.kode.dev/''"
  using Kode_is_published [OF fake_gateway.gateway_server_axioms gate_keyed(1) _ gate_publishable gate_free]
  by (auto simp: gate_keyed(2) gate_address_def)

text \<open>
  C9. A published URL has its route: on a server that keeps routes and policies, after the
  reconciliation that stores the URL the cluster has the route of the Kode, owned by the EntryPoint, and
  where the EntryPoint asks for one the security policy. A route that was not there before hangs on the
  gateway of the EntryPoint, has the domain of the address as its only host name and forwards every path
  to the name of the Service and the port of the Kode; a new policy targets this route and has the external
  authorisation of the EntryPoint. An object of the EntryPoint that was there before is left as it
  was, even if it is out of date: the code never updates it. And the backend is given without a
  namespace, so it is looked for in the namespace of the route, which is that of the EntryPoint and may
  not be that of the Service.
\<close>

theorem published_url_is_routed:
  assumes "routing_server L up putSecret putService putSet putClaim G getRoute putRoute getPolicy putPolicy owned"
    and "up (world s)" and "fst (lib_getKode L (kode_key k) (world s)) = Inr k"
    and "publishable L k template e config a s"
    and "gateway_free getRoute getPolicy owned k e config (world s)"
  shows "\<exists>t y. ep_Reconcile L G (kode_key k) s = (Ret (result_none, None), t) \<and>
    fst (lib_getKode L (kode_key k) (world t)) = Inr y \<and> KodeUrl (k_Status y) = ka_Url a \<and>
    routed getRoute getPolicy (owned (ep_key e)) k e config a (world s) (world t)"
  by (rule routing_server.publishes_routed [OF assms])

theorem published_url_is_routed_witness:
  "\<exists>t y route. ep_Reconcile L0 G0 demo_key (gate_st ''subdomain'' (active_kode '''')) = (Ret (result_none, None), t) \<and>
     fst (lib_getKode L0 demo_key (world t)) = Inr y \<and> KodeUrl (k_Status y) = ''https://alice.kode.dev/'' \<and>
     fst (fk_get fk_routes (NamespacedName ''infra'' ''alice'') (world t)) = Inr route \<and>
     hs_Hostnames (ht_Spec route) = [''alice.kode.dev'']"
proof -
  let ?k = "active_kode ''''" and ?s = "gate_st ''subdomain'' (active_kode '''')"
  have names: "e_Namespace (gate ''subdomain'') = ''infra''" "k_Name ?k = ''alice''"
    by (simp_all add: gate_def active_kode_def demo_kode_def fresh_kode_def)
  have "\<exists>e. fst (fk_get fk_routes (NamespacedName ''infra'' ''alice'') (world ?s)) = Inl e"
    by (simp add: fk_get_def gate_st_def gate_store_def demo_st_def demo_store_def)
  with published_url_is_routed [OF fake_routing.routing_server_axioms gate_keyed(1) _ gate_publishable gate_free]
  show ?thesis
    by (fastforce simp: gate_keyed(2) gate_address_def routed_def stands_def route_made_def names split: sum.splits)
qed

section \<open>What is created\<close>

text \<open>
  C4. A reconciliation writes only what is its Kode's: every object it asks to create or patch is a
  child of the Kode it fetched, under the name the Kode gives it, never the secret or the claim the
  user brought along; and it writes only for a Kode that is not being deleted, has its finalizer, has
  no generation to catch up with, and is in Configuring or Updating. Any request may fail.
\<close>

theorem Reconcile_writes_only_own:
  assumes "lawful L" and "fst (lib_getKode L req (world s)) = Inr k"
    and "ReqCreateOrPatch kind n \<in> set (new_requests s (snd (Reconcile L Y req s)))"
  shows "(kind, n) \<in> own_children k \<and> writes k"
  using Reconcile_writes_own [OF assms] Reconcile_writes_when [OF assms] by blast

theorem Reconcile_writes_only_own_witness:
  "writes (demo_kode PhaseUpdating None) \<and>
   (KindSecret, NamespacedName ''team'' ''alice-auth'') \<in> own_children (demo_kode PhaseUpdating None)"
  using Reconcile_writes_only_own [OF lawful_refusing(1) _ cached_asks, of "demo_kode PhaseUpdating None"]
  by simp

end
