(* ===== verification/Kode_Descent.thy ===== *)
theory Kode_Descent
  imports Kode_Arrival
begin

text \<open>
  The way down: the interface \<open>deleting_server\<close> extends \<open>api_server\<close> by what a client may expect of
  a server that deletes, and the locale shows where the reconciliations of a deleted Kode take it.
\<close>

subsection \<open>What a server that deletes promises\<close>

text \<open>Every child that is still found is as it was; nothing has happened to the Kodes.\<close>

definition as_it_was ::
  "(NamespacedName \<Rightarrow> 'w \<Rightarrow> (error + 'o) \<times> 'w) \<Rightarrow> 'w \<Rightarrow> 'w \<Rightarrow> bool" where
  "as_it_was get w w' \<longleftrightarrow> (\<forall>key. fst (get key w') = fst (get key w) \<or> answers_NotFound (get key w'))"

definition shrinks :: "'w lib \<Rightarrow> 'w \<Rightarrow> 'w \<Rightarrow> bool" where
  "shrinks L w w' \<longleftrightarrow> (\<forall>key. fst (lib_getKode L key w') = fst (lib_getKode L key w)) \<and>
     as_it_was (lib_getSecret L) w w' \<and> as_it_was (lib_getService L) w w' \<and>
     as_it_was (lib_getStatefulSet L) w w' \<and> as_it_was (lib_getPVC L) w w'"

text \<open>
  A child may be gone at once or later (its own finalizers, a grace period), so that it be gone is not
  promised: only that the request is accepted, or the object not found, and what it may not disturb.
\<close>

locale deleting_server = api_server +
  assumes delete: "up w \<Longrightarrow> kind \<in> {KindStatefulSet, KindService, KindSecret, KindPersistentVolumeClaim} \<Longrightarrow>
      \<exists>err w'. lib_delete L kind key w = (err, w') \<and> (\<forall>e. err = Some e \<longrightarrow> IsNotFound e) \<and> up w' \<and>
        reads_like L kind w w' \<and> shrinks L w w'"
    and update_deleted: "up w \<Longrightarrow> fst (lib_getKode L (kode_key k) w) = Inr old \<Longrightarrow>
      fst (lib_updateKode L k w) = None"

subsection \<open>A Kode on its way down\<close>

definition asked :: "Request list \<Rightarrow> (ObjKind \<times> NamespacedName) set" where
  "asked qs = {(kind, key). \<exists>b. ReqDelete kind key b \<in> set qs}"

lemma asked_append [simp]: "asked (qs @ qs') = asked qs \<union> asked qs'"
  by (auto simp: asked_def)

lemma asked_one [simp]: "asked [ReqDelete kind key b] = {(kind, key)}"
  by (auto simp: asked_def)

definition deleting_status :: "int \<Rightarrow> int \<Rightarrow> KodeStatus \<Rightarrow> bool" where
  "deleting_status g c t \<longleftrightarrow> Phase_of t = PhaseDeleting \<and> ObservedGeneration t = g \<and> DeletionCycle t = c"

text \<open>
  \<open>resting L up k log0 T Q B s\<close>: between two reconciliations, with a status of the Kode as \<open>B\<close> says;
  since the history \<open>log0\<close>, the deletion of all of \<open>T\<close> has been asked for. \<open>sinking\<close>: within one.
\<close>

definition resting ::
  "'w lib \<Rightarrow> ('w \<Rightarrow> bool) \<Rightarrow> Kode \<Rightarrow> Request list \<Rightarrow> (ObjKind \<times> NamespacedName) set \<Rightarrow> ('w \<Rightarrow> bool)
    \<Rightarrow> (KodeStatus \<Rightarrow> bool) \<Rightarrow> 'w st \<Rightarrow> bool" where
  "resting L up k log0 T Q B s \<longleftrightarrow> up (world s) \<and> Q (world s) \<and>
     (\<exists>t. fst (lib_getKode L (kode_key k) (world s)) = Inr (k\<lparr>k_Status := t\<rparr>) \<and> B t) \<and>
     (\<exists>qs. reqlog s = log0 @ qs \<and> T \<subseteq> asked qs)"

definition sinking ::
  "'w lib \<Rightarrow> ('w \<Rightarrow> bool) \<Rightarrow> Kode \<Rightarrow> Request list \<Rightarrow> (ObjKind \<times> NamespacedName) set \<Rightarrow> ('w \<Rightarrow> bool)
    \<Rightarrow> (KodeStatus \<Rightarrow> bool) \<Rightarrow> (KodeStatus \<Rightarrow> bool) \<Rightarrow> 'w st \<Rightarrow> bool" where
  "sinking L up k log0 T Q B A s \<longleftrightarrow> resting L up k log0 T Q B s \<and>
     (\<exists>t. kode s = k\<lparr>k_Status := t\<rparr> \<and> A t)"

text \<open>A Kode that a user has just deleted: its finalizer keeps it in the cluster.\<close>

definition doomed :: "'w lib \<Rightarrow> ('w \<Rightarrow> bool) \<Rightarrow> Kode \<Rightarrow> 'w st \<Rightarrow> bool" where
  "doomed L up k s \<longleftrightarrow> up (world s) \<and> k_DeletionTimestamp k \<noteq> None \<and> has_finalizer k \<and>
     DeletionCycle (k_Status k) = 0 \<and> fst (lib_getKode L (kode_key k) (world s)) = Inr k"

lemma resting_weaken:
  "resting L up k log0 T Q B s \<Longrightarrow> (\<And>w. Q w \<Longrightarrow> Q' w) \<Longrightarrow> (\<And>t. B t \<Longrightarrow> B' t) \<Longrightarrow>
     resting L up k log0 T Q' B' s"
  by (auto simp: resting_def)

lemma sinking_kode:
  "sinking L up k log0 T Q B A s \<Longrightarrow> A' (k_Status k') \<Longrightarrow> k' = k\<lparr>k_Status := k_Status k'\<rparr> \<Longrightarrow>
     sinking L up k log0 T Q B A' (s\<lparr>kode := k'\<rparr>)"
  by (auto simp: sinking_def resting_def)

lemma sinking_modify:
  assumes "\<And>t. A t \<Longrightarrow> A' (f t)"
  shows "triple (sinking L up k log0 T Q B A) (modify_status f) (\<lambda>_. sinking L up k log0 T Q B A')
    (\<lambda>_. False)"
  unfolding modify_status_def
  by (rule triple_modify) (auto simp: sinking_def resting_def assms)

lemma sinking_set_condition:
  "triple (sinking L up k log0 T Q B (deleting_status g c)) (set_condition L' ct st re m)
     (\<lambda>_. sinking L up k log0 T Q B (deleting_status g c)) (\<lambda>_. False)"
  unfolding set_condition_def
  by (rule triple_modify)
    (auto simp: sinking_def resting_def deleting_status_def k_SetCondition_def SetCondition_def)

lemma sinking_same_but_log:
  "sinking L up k log0 T Q B A s \<Longrightarrow> same_but_log s t \<Longrightarrow> sinking L up k log0 T Q B A t"
  by (fastforce simp: sinking_def resting_def same_but_log_def)

lemma sinking_status:
  assumes "sinking L up k log0 T Q B (deleting_status g c) s"
  shows "GetPhase (kode s) = PhaseDeleting" "DeletionCycle (k_Status (kode s)) = c"
  using assms by (auto simp: sinking_def deleting_status_def GetPhase_def)

text \<open>Whether the children are gone does not depend on the status.\<close>

lemma all_gone_status [simp]: "all_gone L (k\<lparr>k_Status := t\<rparr>) w = all_gone L k w"
proof -
  have id: "same_identity k (k\<lparr>k_Status := t\<rparr>)" by simp
  show ?thesis
    by (simp add: all_gone_def child_gone_def same_identity_resources [OF id])
qed

text \<open>The server tells for each child whether it is there.\<close>

definition answered :: "(NamespacedName \<Rightarrow> 'w \<Rightarrow> (error + 'o) \<times> 'w) \<Rightarrow> NamespacedName \<Rightarrow> 'w \<Rightarrow> bool" where
  "answered get key w \<longleftrightarrow> answers_NotFound (get key w) \<or> (\<exists>x. fst (get key w) = Inr x)"

definition children_answered :: "'w lib \<Rightarrow> Kode \<Rightarrow> 'w \<Rightarrow> bool" where
  "children_answered L k w \<longleftrightarrow>
     answered (lib_getStatefulSet L) (child_key k (GetStatefulSetName k)) w \<and>
     answered (lib_getSecret L) (child_key k (GetSecretName k)) w \<and>
     answered (lib_getService L) (child_key k (GetServiceName k)) w \<and>
     (skip_PVC L k \<or> answered (lib_getPVC L) (child_key k (GetPVCName k)) w)"

lemma children_answered_status [simp]: "children_answered L (k\<lparr>k_Status := t\<rparr>) w = children_answered L k w"
proof -
  have id: "same_identity k (k\<lparr>k_Status := t\<rparr>)" by simp
  show ?thesis by (simp add: children_answered_def same_identity_resources [OF id])
qed

lemma answers_NotFound_cong: "fst a = fst b \<Longrightarrow> answers_NotFound a = answers_NotFound b"
  by (simp add: answers_NotFound_def)

lemma answered_cong: "fst (get key w') = fst (get key w) \<Longrightarrow> answered get key w' = answered get key w"
  by (simp add: answered_def answers_NotFound_def)

lemma answered_shrinks: "as_it_was get w w' \<Longrightarrow> answered get key w \<Longrightarrow> answered get key w'"
  unfolding as_it_was_def
  by (erule allE [where x = key], erule disjE) (rule iffD2 [OF answered_cong], assumption, assumption, simp add: answered_def)

lemma children_answered_shrinks: "shrinks L w w' \<Longrightarrow> children_answered L k w \<Longrightarrow> children_answered L k w'"
  by (auto simp: shrinks_def children_answered_def dest: answered_shrinks)

lemma children_like:
  assumes "reads_like L KindKode w w'"
  shows "children_answered L k w' = children_answered L k w" and "all_gone L k w' = all_gone L k w"
  by (simp_all add: children_answered_def all_gone_def child_gone_def answered_def answers_NotFound_def
      reads_likeD(2-5) [OF assms])

lemma apart_children: "apart L (\<lambda>w. children_answered L k w \<and> all_gone L k w = b)"
  using children_like by (fastforce simp: apart_def)

lemma apart_conj: "apart L P \<Longrightarrow> apart L Q \<Longrightarrow> apart L (\<lambda>w. P w \<and> Q w)"
  by (auto simp: apart_def)

lemma apart_True: "apart L (\<lambda>_. True)"
  by (simp add: apart_def)

subsection \<open>The check of the children\<close>

lemma check_gone_run:
  assumes pure: "\<And>key w. snd (request key w) = w"
    and ans: "skip (kode s) \<or> answered request (child_key (kode s) (name (kode s))) (world s)"
  shows "\<exists>t. check_gone kind name skip request s =
      (Ret (Inr (child_gone name skip request (kode s) (world s))), t) \<and> same_but_log s t"
proof (cases "skip (kode s)")
  case True
  then show ?thesis by (simp add: check_gone_def child_gone_def go_simps)
next
  case False
  let ?key = "child_key (kode s) (name (kode s))"
  have "request ?key (world s) = (fst (request ?key (world s)), world s)"
    by (metis pure prod.collapse)
  then obtain r where r: "request ?key (world s) = (r, world s)" by blast
  show ?thesis
    using False ans
    by (cases r)
      (auto simp: check_gone_def child_gone_def answered_def answers_NotFound_def api_get_def r Let_def
        go_simps same_but_log_snoc)
qed

lemma run_checks_run:
  assumes "\<exists>t. c s = (Ret (Inr a), t) \<and> same_but_log s t"
    and "\<And>t. same_but_log s t \<Longrightarrow> \<exists>u. run_checks cs t = (Ret (Inr b), u) \<and> same_but_log t u"
  shows "\<exists>u. run_checks (c # cs) s = (Ret (Inr (a \<and> b)), u) \<and> same_but_log s u"
proof -
  obtain t where t: "c s = (Ret (Inr a), t)" "same_but_log s t" using assms(1) by blast
  obtain u where u: "run_checks cs t = (Ret (Inr b), u)" "same_but_log t u" using assms(2) t(2) by blast
  show ?thesis
    using t u same_but_log_trans [OF t(2) u(2)] by (cases a) (simp_all add: go_simps)
qed

lemma checkResourcesDeleted_run:
  assumes L: "reads_pure L" and ans: "children_answered L (kode s) (world s)"
  shows "\<exists>t. checkResourcesDeleted L s = (Ret (Inr (all_gone L (kode s) (world s))), t) \<and> same_but_log s t"
proof -
  let ?k = "kode s" and ?w = "world s"
  have one: "\<exists>u. check_gone kind name skip request t =
      (Ret (Inr (child_gone name skip request ?k ?w)), u) \<and> same_but_log t u"
    if "same_but_log s t" "\<And>key w. snd (request key w) = w"
      "skip ?k \<or> answered request (child_key ?k (name ?k)) ?w"
    for t kind name skip and request :: "NamespacedName \<Rightarrow> 'a \<Rightarrow> (error + 'o) \<times> 'a"
    using check_gone_run [of request skip t name kind] that same_but_logD [OF that(1)] by simp
  have "\<exists>t. checkResourcesDeleted L s = (Ret (Inr
      (child_gone GetStatefulSetName (\<lambda>_. False) (lib_getStatefulSet L) ?k ?w \<and>
       child_gone GetSecretName (\<lambda>_. False) (lib_getSecret L) ?k ?w \<and>
       child_gone GetServiceName (\<lambda>_. False) (lib_getService L) ?k ?w \<and>
       child_gone GetPVCName (skip_PVC L) (lib_getPVC L) ?k ?w \<and> True)), t) \<and> same_but_log s t"
    unfolding checkResourcesDeleted_def
    by (intro run_checks_run one)
      (use ans in \<open>auto simp: children_answered_def reads_pureD [OF L] go_simps
         elim: same_but_log_trans intro: same_but_log_trans\<close>)
  then show ?thesis by (simp add: all_gone_def)
qed

subsection \<open>Single steps on the way\<close>

abbreviation child_kinds :: "ObjKind set" where
  "child_kinds \<equiv> {KindStatefulSet, KindService, KindSecret, KindPersistentVolumeClaim}"

abbreviation cleanable :: "Kode \<Rightarrow> (ObjKind \<times> NamespacedName) list" where
  "cleanable k \<equiv> targets (Kode_GetResources k) (Kode_ShouldDelete k)"

text \<open>What the deletion of objects of certain kinds does not disturb.\<close>

definition spared :: "'w lib \<Rightarrow> ObjKind set \<Rightarrow> ('w \<Rightarrow> bool) \<Rightarrow> bool" where
  "spared L K Q \<longleftrightarrow> (\<forall>w w'. \<forall>kind \<in> K. Q w \<and> reads_like L kind w w' \<and> shrinks L w w' \<longrightarrow> Q w')"

lemma cleanable_facts:
  "cleanable k \<noteq> []" "res \<in> set (Kode_GetResources k) \<Longrightarrow> res_Object res \<in> child_kinds"
  by (auto simp: targets_def Kode_GetResources_def Kode_ShouldDelete_def split: option.splits if_splits)

text \<open>The answer of the handler of Deleting in a cycle while a child remains, and what it has asked for.\<close>

definition wait_time :: "'w lib \<Rightarrow> int \<Rightarrow> ctrl_Result" where
  "wait_time L c = (if c = 0 then result_after (seconds 1) else result_after (lib_ReconcileInterval L))"

definition asks :: "Kode \<Rightarrow> int \<Rightarrow> (ObjKind \<times> NamespacedName) set" where
  "asks k c = (if c = 0 then set (cleanable k) else {})"

lemma kode_key_status_eq: "kode_key (k\<lparr>k_Status := t\<rparr>) = kode_key k"
  by (simp add: kode_key_def)

context deleting_server
begin

lemma sinking_emit:
  "triple (sinking L up k log0 T Q B A) (emit L et re m) (\<lambda>_. sinking L up k log0 T Q B A) (\<lambda>_. False)"
  by (rule emit_keeps) (simp add: sinking_def resting_def)

lemma sinking_UpdateStatus:
  assumes Q: "apart L Q"
  shows "surely (sinking L up k log0 T Q B A) (UpdateStatus L) (\<lambda>err. err = None)
    (sinking L up k log0 T Q A A)"
proof (rule surelyI)
  fix s :: "'a st"
  assume I: "sinking L up k log0 T Q B A s"
  then obtain t u qs where x: "fst (lib_getKode L (kode_key k) (world s)) = Inr (k\<lparr>k_Status := t\<rparr>)"
    and k: "kode s = k\<lparr>k_Status := u\<rparr>" "A u" and w: "up (world s)" "Q (world s)"
    and log: "reqlog s = log0 @ qs" "T \<subseteq> asked qs"
    by (auto simp: sinking_def resting_def)
  obtain w' rs where w': "UpdateStatus L s = (Ret None, s\<lparr>world := w', reqlog := reqlog s @ rs\<rparr>)" "up w'"
    "reads_like L KindKode (world s) w'" "fst (lib_getKode L (kode_key k) w') = Inr (k\<lparr>k_Status := u\<rparr>)"
    using UpdateStatus_run [OF w(1), of "k\<lparr>k_Status := t\<rparr>"] x by (auto simp: k(1) kode_key_status_eq)
  have "sinking L up k log0 T Q A A (s\<lparr>world := w', reqlog := reqlog s @ rs\<rparr>)"
    using w'(2,4) k log apart_like [OF Q w(2) w'(3)] by (auto simp: sinking_def resting_def)
  with w'(1) show "\<exists>err. fst (UpdateStatus L s) = Ret err \<and> err = None \<and>
      sinking L up k log0 T Q A A (snd (UpdateStatus L s))"
    by simp
qed

lemma sinking_update_or_stay:
  assumes "apart L Q" and "triple (sinking L up k log0 T Q A A) h R (\<lambda>_. False)"
  shows "triple (sinking L up k log0 T Q B A) (update_or_stay L p h) R (\<lambda>_. False)"
  unfolding update_or_stay_def
  by (rule triple_bind_known [OF sinking_UpdateStatus [OF assms(1)]]) (simp add: assms(2))

lemma sinking_check:
  assumes Q: "\<And>w. Q w \<Longrightarrow> children_answered L k w \<and> all_gone L k w = b"
  shows "surely (sinking L up k log0 T Q B A) (checkResourcesDeleted L) (\<lambda>r. r = Inr b)
    (sinking L up k log0 T Q B A)"
proof (rule surelyI)
  fix s :: "'a st"
  assume I: "sinking L up k log0 T Q B A s"
  then obtain t where k: "kode s = k\<lparr>k_Status := t\<rparr>" and w: "Q (world s)"
    by (auto simp: sinking_def resting_def)
  obtain u where "checkResourcesDeleted L s = (Ret (Inr b), u)" "same_but_log s u"
    using checkResourcesDeleted_run [OF reads_pure, of s] Q [OF w] by (auto simp: k)
  then show "\<exists>r. fst (checkResourcesDeleted L s) = Ret r \<and> r = Inr b \<and>
      sinking L up k log0 T Q B A (snd (checkResourcesDeleted L s))"
    using sinking_same_but_log [OF I] by simp
qed

lemma sinking_deleteResource:
  assumes kind: "res_Object r \<in> child_kinds" and Q: "spared L {res_Object r} Q"
  shows "surely (sinking L up k log0 T Q B A) (deleteResource L r) (\<lambda>err. err = None)
    (sinking L up k log0 (insert (res_Object r, res_key r) T) Q B A)"
proof (rule surelyI)
  fix s :: "'a st"
  assume I: "sinking L up k log0 T Q B A s"
  then have w: "up (world s)" "Q (world s)" by (auto simp: sinking_def resting_def)
  obtain err w' where d: "lib_delete L (res_Object r) (res_key r) (world s) = (err, w')"
    "\<forall>e. err = Some e \<longrightarrow> IsNotFound e" "up w'" "reads_like L (res_Object r) (world s) w'"
    "shrinks L (world s) w'"
    using delete [OF w(1) kind] by blast
  have run: "deleteResource L r s = (Ret None, s\<lparr>world := w',
      reqlog := reqlog s @ [ReqDelete (res_Object r) (res_key r) (err = None)]\<rparr>)"
    using d(1,2) by (simp add: deleteResource_def api_delete_def go_simps split: option.split)
  have "Q w'" using Q w(2) d(4,5) by (auto simp: spared_def)
  moreover have "fst (lib_getKode L (kode_key k) w') = fst (lib_getKode L (kode_key k) (world s))"
    using d(5) by (simp add: shrinks_def)
  ultimately show "\<exists>e. fst (deleteResource L r s) = Ret e \<and> e = None \<and>
      sinking L up k log0 (insert (res_Object r, res_key r) T) Q B A (snd (deleteResource L r s))"
    using I d(3) by (auto simp: run sinking_def resting_def)
qed

lemma sinking_cleanup_loop:
  assumes "\<And>r. r \<in> set rs \<Longrightarrow> res_Object r \<in> child_kinds"
    and "\<And>r. r \<in> set rs \<Longrightarrow> should r \<Longrightarrow> spared L {res_Object r} Q"
  shows "surely (sinking L up k log0 T Q B A) (cleanup_loop L should rs init)
    (\<lambda>x. x = Inr (init \<or> targets rs should \<noteq> [])) (sinking L up k log0 (T \<union> set (targets rs should)) Q B A)"
  using assms
proof (induction rs arbitrary: init T)
  case Nil
  then show ?case by (auto simp: targets_def intro: triple_return)
next
  case (Cons r rs)
  show ?case
  proof (cases "should r")
    case True
    have rest: "surely (sinking L up k log0 (insert (res_Object r, res_key r) T) Q B A)
        (cleanup_loop L should rs True) (\<lambda>x. x = Inr (init \<or> targets (r # rs) should \<noteq> []))
        (sinking L up k log0 (T \<union> set (targets (r # rs) should)) Q B A)"
      using True Cons.IH [of "insert (res_Object r, res_key r) T" True] Cons.prems
      by (simp add: targets_def)
    show ?thesis
      unfolding cleanup_loop.simps if_P [OF True]
      by (rule triple_bind_known [OF sinking_deleteResource]) (use True Cons.prems rest in auto)
  next
    case False
    then show ?thesis using Cons.IH [of T init] Cons.prems by (simp add: targets_def)
  qed
qed

lemma sinking_cleanup:
  assumes "\<And>r. r \<in> set (Kode_GetResources k) \<Longrightarrow> Kode_ShouldDelete k r \<Longrightarrow> spared L {res_Object r} Q"
  shows "surely (sinking L up k log0 T Q B A) (cleanup_kode L) (\<lambda>x. x = (result_after (seconds 1), None))
    (sinking L up k log0 (T \<union> set (cleanable k)) Q B A)"
proof -
  have id: "same_identity k (k\<lparr>k_Status := t\<rparr>)" for t by simp
  have known: "manager_Cleanup L (Kode_GetResources (kode s)) (Kode_ShouldDelete (kode s)) =
      manager_Cleanup L (Kode_GetResources k) (Kode_ShouldDelete k)"
    if "sinking L up k log0 T Q B A s" for s
    using that same_identity_resources(1,2) [OF id] by (auto simp: sinking_def)
  have "surely (sinking L up k log0 T Q B A) (manager_Cleanup L (Kode_GetResources k) (Kode_ShouldDelete k))
      (\<lambda>x. x = (result_after (seconds 1), None)) (sinking L up k log0 (T \<union> set (cleanable k)) Q B A)"
    unfolding manager_Cleanup_def
    by (rule triple_bind_known [OF sinking_cleanup_loop])
      (use assms cleanable_facts in \<open>auto intro: triple_return\<close>)
  then show ?thesis
    unfolding cleanup_kode_def by (intro triple_gets_bind) (simp only: known)
qed

subsection \<open>The handler of Deleting\<close>

text \<open>A child remains: the first time the deletion of the children is asked for, then it is waited for.\<close>

lemma sinking_first_cycle:
  assumes Q: "apart L Q"
    and spare: "\<And>r. r \<in> set (Kode_GetResources k) \<Longrightarrow> Kode_ShouldDelete k r \<Longrightarrow> spared L {res_Object r} Q"
  shows "surely (sinking L up k log0 T Q B (deleting_status g 0)) (deleting_first_cycle L)
    (\<lambda>x. x = (PhaseDeleting, result_after (seconds 1), None))
    (sinking L up k log0 (T \<union> set (cleanable k)) Q (deleting_status g 1) (deleting_status g 1))"
proof -
  let ?I = "\<lambda>T B. sinking L up k log0 T Q B (deleting_status g 1)"
  have last: "surely (?I (T \<union> set (cleanable k)) B) (then_go (emit L EventTypeNormal ''DeletionStarted''
        ''Resource cleanup initiated'') (update_or_stay L PhaseDeleting
          (return_go (PhaseDeleting, result_after (seconds 1), None))))
      (\<lambda>x. x = (PhaseDeleting, result_after (seconds 1), None))
      (?I (T \<union> set (cleanable k)) (deleting_status g 1))"
    by (rule triple_then [OF sinking_emit sinking_update_or_stay [OF Q]]) (simp add: triple_return)
  have "surely (?I T B) (bind_go (cleanup_kode L) (\<lambda>(result, err). case err of
       Some e \<Rightarrow> warn_and_fail L ''CleanupFailed'' ''Failed to initiate cleanup: '' e
                   ''Failed to initiate cleanup''
     | None \<Rightarrow> then_go (emit L EventTypeNormal ''DeletionStarted'' ''Resource cleanup initiated'')
                 (update_or_stay L PhaseDeleting (return_go (PhaseDeleting, result, None)))))
      (\<lambda>x. x = (PhaseDeleting, result_after (seconds 1), None))
      (?I (T \<union> set (cleanable k)) (deleting_status g 1))"
    by (rule triple_bind_known [OF sinking_cleanup [OF spare]]) (simp_all add: last)
  moreover have "triple (sinking L up k log0 T Q B (deleting_status g 0)) (modify_deletion_cycle (\<lambda>_. 1))
      (\<lambda>_. ?I T B) (\<lambda>_. False)"
    unfolding modify_deletion_cycle_def by (rule sinking_modify) (simp add: deleting_status_def)
  ultimately show ?thesis unfolding deleting_first_cycle_eq by (rule triple_then [rotated])
qed

lemma sinking_next_cycle:
  assumes Q: "apart L Q"
  shows "surely (sinking L up k log0 T Q B (deleting_status g c)) (deleting_next_cycle L)
    (\<lambda>x. x = (PhaseDeleting, result_after (lib_ReconcileInterval L), None))
    (sinking L up k log0 T Q (deleting_status g (c + 1)) (deleting_status g (c + 1)))"
proof -
  let ?I = "\<lambda>B. sinking L up k log0 T Q B (deleting_status g (c + 1))"
  have chg: "triple (sinking L up k log0 T Q B (deleting_status g c)) (modify_deletion_cycle (\<lambda>n. n + 1))
      (\<lambda>_. ?I B) (\<lambda>_. False)"
    unfolding modify_deletion_cycle_def by (rule sinking_modify) (simp add: deleting_status_def)
  have warn: "triple (?I (deleting_status g (c + 1))) (if b then emit L et re m else return_go ())
      (\<lambda>_. ?I (deleting_status g (c + 1))) (\<lambda>_. False)" for b et re m
    by (rule triple_if) (rule sinking_emit, rule triple_return)
  show ?thesis
    unfolding deleting_next_cycle_def
    by (rule triple_then [OF chg sinking_update_or_stay [OF Q]], rule triple_gets_bind,
        rule triple_then [OF warn], rule triple_return) simp
qed

lemma sinking_handler:
  assumes Q: "apart L Q" and some: "\<And>w. Q w \<Longrightarrow> children_answered L k w \<and> \<not> all_gone L k w"
    and Q': "apart L Q'" "\<And>w. Q w \<Longrightarrow> Q' w"
    and spare: "\<And>r. c = 0 \<Longrightarrow> r \<in> set (Kode_GetResources k) \<Longrightarrow> Kode_ShouldDelete k r \<Longrightarrow>
      spared L {res_Object r} Q'"
  shows "surely (sinking L up k log0 T Q B (deleting_status g c)) (handleDeletingState L)
    (\<lambda>x. x = (PhaseDeleting, wait_time L c, None))
    (sinking L up k log0 (T \<union> asks k c) Q' (deleting_status g (c + 1)) (deleting_status g (c + 1)))"
proof -
  let ?I = "\<lambda>Q B. sinking L up k log0 T Q B (deleting_status g c)"
  let ?post = "\<lambda>x s. x = (PhaseDeleting, wait_time L c, None) \<and>
    sinking L up k log0 (T \<union> asks k c) Q' (deleting_status g (c + 1)) (deleting_status g (c + 1)) s"
  have cycle: "triple (?I Q (deleting_status g c)) (if c = 0 then deleting_first_cycle L else deleting_next_cycle L)
      ?post (\<lambda>_. False)"
  proof (rule triple_if)
    assume c: "c = 0"
    show "triple (?I Q (deleting_status g c)) (deleting_first_cycle L) ?post (\<lambda>_. False)"
      by (rule triple_weaken [OF sinking_first_cycle [where g = g, OF Q'(1) spare [OF c]]])
        (use Q'(2) in \<open>auto simp: c wait_time_def asks_def sinking_def resting_def\<close>)
  next
    assume c: "c \<noteq> 0"
    show "triple (?I Q (deleting_status g c)) (deleting_next_cycle L) ?post (\<lambda>_. False)"
      by (rule triple_weaken [OF sinking_next_cycle [where g = g and c = c, OF Q'(1)]])
        (use c Q'(2) in \<open>auto simp: wait_time_def asks_def sinking_def resting_def\<close>)
  qed
  have "triple (?I Q (deleting_status g c)) (bind_go (checkResourcesDeleted L) (\<lambda>d. case d of
       Inl e \<Rightarrow> warn_and_fail L ''DeletionCheckFailed''
                  ''Failed to check child resources deletion status: '' e
                  ''Failed to check child resources deletion''
     | Inr childResourcesDeleted \<Rightarrow>
         if \<not> childResourcesDeleted then
           bind_go (gets_go (\<lambda>s. DeletionCycle (k_Status (kode s)))) (\<lambda>cycle.
             if cycle = 0 then deleting_first_cycle L else deleting_next_cycle L)
         else deleting_finish L)) ?post (\<lambda>_. False)"
    by (rule triple_bind_known [OF sinking_check [where b = False]], simp add: some,
        simp only: sum.case simp_thms if_True, rule triple_gets_known [OF sinking_status(2)], assumption,
        rule cycle)
  then show ?thesis
    unfolding handleDeletingState_def
    by (intro triple_then [OF triple_seq sinking_update_or_stay [OF Q]]) (auto intro: sinking_set_condition)
qed

subsection \<open>One reconciliation\<close>

lemma sinking_reset_retries:
  assumes "apart L Q"
  shows "surely (sinking L up k log0 T Q (deleting_status g c) (deleting_status g c)) (reset_retries L)
    (\<lambda>err. err = None) (sinking L up k log0 T Q (deleting_status g c) (deleting_status g c))"
  unfolding reset_retries_def
  by (rule triple_gets_bind, rule triple_if,
      rule triple_then [OF sinking_modify sinking_UpdateStatus [OF assms]])
    (auto intro: triple_return simp: deleting_status_def)

text \<open>The Kode is fetched and stored in the phase Deleting, before anything else is looked at.\<close>

lemma Reconcile_enters:
  assumes Q: "apart L Q" and k: "k_DeletionTimestamp k \<noteq> None" "has_finalizer k"
    and s: "resting L up k log0 T Q (\<lambda>t. ObservedGeneration t = g \<and> DeletionCycle t = c) s"
  shows "\<exists>t. Reconcile L Y (kode_key k) s = reconcile_live L Y t \<and>
    sinking L up k log0 T Q (deleting_status g c) (deleting_status g c) t"
proof -
  obtain st qs where x: "fst (lib_getKode L (kode_key k) (world s)) = Inr (k\<lparr>k_Status := st\<rparr>)"
    and st: "ObservedGeneration st = g" "DeletionCycle st = c"
    and log: "reqlog s = log0 @ qs" "T \<subseteq> asked qs" and w: "up (world s)" "Q (world s)"
    using s by (auto simp: resting_def)
  then have get: "lib_getKode L (kode_key k) (world s) = (Inr (k\<lparr>k_Status := st\<rparr>), world s)"
    using more_pure(1) by (metis prod.collapse)
  let ?k = "SetPhase PhaseDeleting (k\<lparr>k_Status := st\<rparr>)"
  let ?u = "s\<lparr>reqlog := reqlog s @ [ReqGet KindKode (kode_key k) Found], kode := ?k\<rparr>"
  have run: "Reconcile L Y (kode_key k) s = bind_go (UpdateStatus L) (\<lambda>err. case err of
      Some e \<Rightarrow> return_go (result_requeue, Some e) | None \<Rightarrow> reconcile_live L Y) ?u"
    using k get ContainsFinalizer_iff [OF lawful, of k]
    by (simp add: Reconcile_def api_get_def answer_of_def reconcile_fetched_def set_phase_def go_simps
        GetFinalizer_def)
  have "sinking L up k log0 T Q (\<lambda>_. True) (deleting_status g c) ?u"
    using x st log w by (auto simp: sinking_def resting_def deleting_status_def SetPhase_def)
  from triple_case [OF sinking_UpdateStatus [OF Q] this] obtain t
    where "UpdateStatus L ?u = (Ret None, t)"
      "sinking L up k log0 T Q (deleting_status g c) (deleting_status g c) t"
    by (cases "UpdateStatus L ?u"; cases "fst (UpdateStatus L ?u)") auto
  then show ?thesis by (auto simp: run bind_go_def [of "UpdateStatus L"] intro!: exI [of _ t])
qed

lemma reconcile_live_deleted:
  assumes s: "sinking L up k log0 T Q B (deleting_status g c) s" and fin: "has_finalizer k"
  shows "reconcile_live L Y s =
    (if g \<noteq> k_Generation k then handleGenerationMismatch L s
     else bind_go (reset_retries L) (\<lambda>err.
       case err of Some e \<Rightarrow> return_go (result_requeue, Some e) | None \<Rightarrow> run_machine L Y) s)"
proof -
  obtain t where t: "kode s = k\<lparr>k_Status := t\<rparr>" "ObservedGeneration t = g"
    using s by (auto simp: sinking_def deleting_status_def)
  then show ?thesis
    using fin ContainsFinalizer_iff [OF lawful, of k]
    by (auto simp: reconcile_live_def GetFinalizer_def go_simps)
qed

text \<open>Deletion changes the generation of an object: the first reconciliation only takes note of it.\<close>

lemma Reconcile_observes:
  assumes Q: "apart L Q" and k: "k_DeletionTimestamp k \<noteq> None" "has_finalizer k" and g: "g \<noteq> k_Generation k"
    and s: "resting L up k log0 T Q (\<lambda>t. ObservedGeneration t = g \<and> DeletionCycle t = c) s"
  shows "\<exists>t. Reconcile L Y (kode_key k) s = (Ret (result_requeue, None), t) \<and>
    resting L up k log0 T Q (deleting_status (k_Generation k) c) t"
proof -
  obtain u where u: "Reconcile L Y (kode_key k) s = reconcile_live L Y u"
    "sinking L up k log0 T Q (deleting_status g c) (deleting_status g c) u"
    using Reconcile_enters [OF Q k s] by blast
  let ?I = "sinking L up k log0 T Q (deleting_status g c) (deleting_status g c)"
    and ?J = "sinking L up k log0 T Q (deleting_status (k_Generation k) c) (deleting_status (k_Generation k) c)"
  have "surely ?I (handleGenerationMismatch L) (\<lambda>x. x = (result_requeue, None)) ?J"
    unfolding handleGenerationMismatch_def
  proof (rule triple_gets_bind)
    fix s :: "'a st"
    assume s: "?I s"
    then have gen: "k_Generation (kode s) = k_Generation k" by (auto simp: sinking_def)
    have chg: "triple ?I (modify_status (\<lambda>t. t\<lparr>ObservedGeneration := k_Generation k\<rparr>))
        (\<lambda>_. sinking L up k log0 T Q (deleting_status g c) (deleting_status (k_Generation k) c)) (\<lambda>_. False)"
      by (rule sinking_modify) (simp add: deleting_status_def)
    show "surely ?I (then_go (modify_status (\<lambda>t. t\<lparr>ObservedGeneration := k_Generation (kode s)\<rparr>))
        (then_go (if GetPhase (kode s) \<noteq> PhaseDeleting then seq_go
             [set_phase PhaseUpdating,
              set_condition L ConditionTypeReady ConditionFalse ''GenerationMismatch''
                ''Generation mismatch detected, resource is being updated'',
              set_condition L ConditionTypeAvailable ConditionFalse ''GenerationMismatch''
                ''Generation mismatch detected, resource is being updated'',
              set_condition L ConditionTypeProgressing ConditionTrue ''GenerationMismatch''
                ''Generation mismatch detected, resource is being updated'']
           else return_go ())
        (bind_go (UpdateStatus L) (\<lambda>err. case err of
            Some e \<Rightarrow> return_go (result_requeue, Some e) | None \<Rightarrow> return_go (result_requeue, None)))))
        (\<lambda>x. x = (result_requeue, None)) ?J"
      unfolding gen sinking_status(1) [OF s] simp_thms if_False
      by (rule triple_then [OF chg], rule triple_then [OF triple_return], assumption,
          rule triple_bind_known [OF sinking_UpdateStatus [OF Q]]) (simp add: triple_return)
  qed
  from triple_case [OF this u(2)] show ?thesis
    using reconcile_live_deleted [OF u(2) k(2)] g
    by (auto simp: u(1) sinking_def split: prod.splits outcome.splits)
qed

lemma Reconcile_waits:
  assumes Q: "apart L Q" and k: "k_DeletionTimestamp k \<noteq> None" "has_finalizer k"
    and some: "\<And>w. Q w \<Longrightarrow> children_answered L k w \<and> \<not> all_gone L k w"
    and Q': "apart L Q'" "\<And>w. Q w \<Longrightarrow> Q' w"
    and spare: "\<And>r. c = 0 \<Longrightarrow> r \<in> set (Kode_GetResources k) \<Longrightarrow> Kode_ShouldDelete k r \<Longrightarrow>
      spared L {res_Object r} Q'"
    and s: "resting L up k log0 T Q (\<lambda>t. ObservedGeneration t = k_Generation k \<and> DeletionCycle t = c) s"
  shows "\<exists>t. Reconcile L Y (kode_key k) s = (Ret (wait_time L c, None), t) \<and>
    resting L up k log0 (T \<union> asks k c) Q' (deleting_status (k_Generation k) (c + 1)) t"
proof -
  let ?g = "k_Generation k"
  let ?I = "sinking L up k log0 T Q (deleting_status ?g c) (deleting_status ?g c)"
  obtain u where u: "Reconcile L Y (kode_key k) s = reconcile_live L Y u" "?I u"
    using Reconcile_enters [OF Q k s] by blast
  have "surely ?I (bind_go (reset_retries L) (\<lambda>err.
       case err of Some e \<Rightarrow> return_go (result_requeue, Some e) | None \<Rightarrow> run_machine L Y))
      (\<lambda>x. x = (wait_time L c, None))
      (sinking L up k log0 (T \<union> asks k c) Q' (deleting_status ?g (c + 1)) (deleting_status ?g (c + 1)))"
    by (rule triple_bind_known [OF sinking_reset_retries [OF Q]], simp only: option.case,
        rule deleting_machine [OF sinking_handler [OF Q some Q' spare] sinking_status(1)])
  from triple_case [OF this u(2)] show ?thesis
    using reconcile_live_deleted [OF u(2) k(2)]
    by (auto simp: u(1) sinking_def split: prod.splits outcome.splits)
qed

text \<open>Once the children are gone, one reconciliation gives up the finalizer.\<close>

lemma Reconcile_releases_gone:
  assumes k: "k_DeletionTimestamp k \<noteq> None" "has_finalizer k"
    and s: "resting L up k log0 T (all_gone L k) (\<lambda>t. ObservedGeneration t = k_Generation k) s"
  shows "\<exists>t. Reconcile L Y (kode_key k) s = (Ret (result_none, None), t) \<and> given_up k (reqlog s) t"
proof -
  obtain st where x: "fst (lib_getKode L (kode_key k) (world s)) = Inr (k\<lparr>k_Status := st\<rparr>)"
    and st: "ObservedGeneration st = k_Generation k" and w: "up (world s)" "all_gone L k (world s)"
    using s by (auto simp: resting_def)
  let ?x = "k\<lparr>k_Status := st\<rparr>"
  define R where "R w \<longleftrightarrow> up w \<and> all_gone L k w \<and> (\<exists>y. fst (lib_getKode L (kode_key k) w) = Inr y)" for w
  have key: "kode_key ?x = kode_key k" by (simp add: kode_key_def)
  have fetched: "\<exists>y w'. lib_getKode L (kode_key k) w = (Inr y, w') \<and> kode_key y = kode_key k \<and> R w'"
    if "R w" for w
    using that more_pure(1) [of "kode_key k" w] found_key [of w "kode_key k"]
    unfolding R_def by (metis prod.collapse)
  have patched: "fst (lib_patchKodeStatus L k' base w) = None \<and> R (snd (lib_patchKodeStatus L k' base w))"
    if "R w" "kode_key k' = kode_key k" for w k' base
    using that patch_status [of w k' _ base] children_like(2) by (fastforce simp: R_def)
  have updated: "fst (lib_updateKode L k' w) = None" if "R w" "kode_key k' = kode_key k" for w k'
    using that update_deleted [of w k'] by (auto simp: R_def)
  have gone: "gone_in R request key" if "\<And>w. R w \<Longrightarrow> answers_NotFound (request key w)"
    "\<And>w. snd (request key w) = w" for request :: "NamespacedName \<Rightarrow> 'a \<Rightarrow> (error + 'o) \<times> 'a" and key
    using that by (simp add: gone_in_def)
  have child: "gone_in R (lib_getStatefulSet L) (child_key k (GetStatefulSetName k))"
    "gone_in R (lib_getSecret L) (child_key k (GetSecretName k))"
    "gone_in R (lib_getService L) (child_key k (GetServiceName k))"
    "\<not> skip_PVC L k \<Longrightarrow> gone_in R (lib_getPVC L) (child_key k (GetPVCName k))"
    by (rule gone; simp add: R_def all_gone_def child_gone_def reads_pureD [OF reads_pure])+
  have id: "same_identity k ?x" by simp
  have "obliging L ?x R"
    unfolding obliging_def key same_identity_resources [OF id]
    using fetched patched updated child by blast
  from Reconcile_finishes_deletion [OF lawful this, of s Y] show ?thesis
    using x st w k by (auto simp: key R_def has_finalizer_def GetFinalizer_def given_up_def)
qed

subsection \<open>The way down\<close>

lemma apart_answered: "apart L (children_answered L k)"
  using children_like(1) by (fastforce simp: apart_def)

lemma goes_down:
  assumes d: "doomed L up k s" and some: "children_answered L k (world s)" "\<not> all_gone L k (world s)"
  shows "resting L up k (reqlog s) (set (cleanable k)) (children_answered L k)
    (deleting_status (k_Generation k) 1)
    (reconciles L Y (kode_key k) (if ObservedGeneration (k_Status k) = k_Generation k then 1 else 2) s)"
proof -
  let ?Q = "\<lambda>w. children_answered L k w \<and> \<not> all_gone L k w" and ?g = "ObservedGeneration (k_Status k)"
    and ?R = "\<lambda>s. snd (Reconcile L Y (kode_key k) s)"
  note Q = apart_children [of L k False, simplified]
  have k: "k_DeletionTimestamp k \<noteq> None" "has_finalizer k" using d by (auto simp: doomed_def)
  have start: "resting L up k (reqlog s) {} ?Q (\<lambda>t. ObservedGeneration t = ?g \<and> DeletionCycle t = 0) s"
    using d some by (auto simp: resting_def doomed_def intro!: exI [of _ "k_Status k"])
  have cleans: "resting L up k (reqlog s) (set (cleanable k)) (children_answered L k)
      (deleting_status (k_Generation k) 1) (?R u)"
    if "resting L up k (reqlog s) {} ?Q (\<lambda>t. ObservedGeneration t = k_Generation k \<and> DeletionCycle t = 0) u" for u
  proof -
    have "spared L {res_Object r} (children_answered L k)" for r
      by (auto simp: spared_def intro: children_answered_shrinks)
    from Reconcile_waits [where Q' = "children_answered L k", OF Q k _ apart_answered _ this that, of Y]
    show ?thesis by (auto simp: asks_def)
  qed
  show ?thesis
  proof (cases "?g = k_Generation k")
    case True
    then show ?thesis using cleans [of s] start by (simp add: reconciles_def)
  next
    case False
    from Reconcile_observes [OF Q k this start, of Y] obtain u where u: "?R s = u"
      "resting L up k (reqlog s) {} ?Q (deleting_status (k_Generation k) 0) u"
      by auto
    from cleans [OF resting_weaken [OF u(2)]] show ?thesis
      using False by (simp add: reconciles_def eval_nat_numeral u(1) deleting_status_def)
  qed
qed

lemma departs:
  assumes k: "k_DeletionTimestamp k \<noteq> None" "has_finalizer k" and c: "c \<noteq> 0"
    and s: "resting L up k log0 T (\<lambda>w. children_answered L k w \<and> all_gone L k w = b)
      (deleting_status (k_Generation k) c) s"
  shows "if b then \<exists>t. Reconcile L Y (kode_key k) s = (Ret (result_none, None), t) \<and> given_up k (reqlog s) t
    else \<exists>t. Reconcile L Y (kode_key k) s = (Ret (result_after (lib_ReconcileInterval L), None), t) \<and>
      resting L up k log0 T (\<lambda>w. children_answered L k w \<and> all_gone L k w = b)
        (deleting_status (k_Generation k) (c + 1)) t"
proof (cases b)
  case True
  have "resting L up k log0 T (all_gone L k) (\<lambda>t. ObservedGeneration t = k_Generation k) s"
    by (rule resting_weaken [OF s]) (simp_all add: True deleting_status_def)
  from Reconcile_releases_gone [OF k this] True show ?thesis by simp
next
  case False
  let ?Q = "\<lambda>w. children_answered L k w \<and> all_gone L k w = b"
  have "resting L up k log0 T ?Q (\<lambda>t. ObservedGeneration t = k_Generation k \<and> DeletionCycle t = c) s"
    by (rule resting_weaken [OF s]) (simp_all add: deleting_status_def)
  from Reconcile_waits [where Q' = ?Q, OF apart_children k _ apart_children _ _ this, of Y] False c show ?thesis
    by (simp add: asks_def wait_time_def)
qed

text \<open>A child that the operator does not delete is waited for as long as it is there.\<close>

lemma waits_forever:
  assumes k: "k_DeletionTimestamp k \<noteq> None" "has_finalizer k" and Q: "apart L Q"
    and some: "\<And>w. Q w \<Longrightarrow> children_answered L k w \<and> \<not> all_gone L k w"
    and spare: "\<And>r. r \<in> set (Kode_GetResources k) \<Longrightarrow> Kode_ShouldDelete k r \<Longrightarrow> spared L {res_Object r} Q"
    and s: "resting L up k [] {} Q (\<lambda>_. True) s"
  shows "resting L up k [] {} Q (\<lambda>_. True) (reconciles L Y (kode_key k) n s)"
proof (induction n)
  case 0
  then show ?case using s by (simp add: reconciles_def)
next
  case (Suc n)
  let ?s = "reconciles L Y (kode_key k) n s"
  obtain g c where at: "resting L up k [] {} Q (\<lambda>t. ObservedGeneration t = g \<and> DeletionCycle t = c) ?s"
    using Suc by (auto simp: resting_def)
  have "resting L up k [] {} Q (\<lambda>_. True) (snd (Reconcile L Y (kode_key k) ?s))"
  proof (cases "g = k_Generation k")
    case True
    from Reconcile_waits [OF Q k some Q _ spare at [unfolded True], of Y] show ?thesis
      by (auto simp: resting_def)
  next
    case False
    from Reconcile_observes [OF Q k this at, of Y] show ?thesis by (auto simp: resting_def)
  qed
  then show ?case by (simp add: reconciles_def)
qed

lemma kept_volume_waits:
  assumes k: "k_DeletionTimestamp k \<noteq> None" "has_finalizer k"
    and keep: "ks_Storage (k_Spec k) = Some storage" "st_KeepVolume storage = Some True"
      "st_ExistingVolumeClaim storage = None" "\<not> lib_IsTestEnvironment L"
    and w: "up (world s)" "fst (lib_getKode L (kode_key k) (world s)) = Inr k" "children_answered L k (world s)"
      "fst (lib_getPVC L (child_key k (GetPVCName k)) (world s)) = Inr claim"
  shows "\<exists>x. fst (lib_getKode L (kode_key k) (world (reconciles L Y (kode_key k) n s))) = Inr x \<and>
    has_finalizer x \<and> k_DeletionTimestamp x \<noteq> None"
proof -
  let ?Q = "\<lambda>w. children_answered L k w \<and> fst (lib_getPVC L (child_key k (GetPVCName k)) w) = Inr claim"
  have "apart L ?Q"
    by (rule apart_conj [OF apart_answered]) (auto simp: apart_def reads_likeD(5))
  moreover have "\<not> all_gone L k w" if "?Q w" for w
    using that keep by (simp add: all_gone_def child_gone_def skip_PVC_def answers_NotFound_def)
  moreover have "spared L {res_Object r} ?Q"
    if "r \<in> set (Kode_GetResources k)" "Kode_ShouldDelete k r" for r
  proof -
    have "res_Object r \<noteq> KindPersistentVolumeClaim"
      using that keep by (auto simp: Kode_GetResources_def Kode_ShouldDelete_def)
    then show ?thesis
      by (auto simp: spared_def reads_likeD(5) intro: children_answered_shrinks)
  qed
  moreover have "resting L up k [] {} ?Q (\<lambda>_. True) s"
    using w by (auto simp: resting_def intro: exI [of _ "k_Status k"])
  ultimately have "resting L up k [] {} ?Q (\<lambda>_. True) (reconciles L Y (kode_key k) n s)"
    by (intro waits_forever k) auto
  then show ?thesis using k by (auto simp: resting_def has_finalizer_def GetFinalizer_def)
qed

end

end
