(* ===== verification/Scenario_Descent.thy ===== *)
theory Scenario_Descent
  imports Kode_Descent Scenario_Arrival
begin

text \<open>
  The in-memory API server of Fake_Cluster is one that deletes: the interface \<open>deleting_server\<close> holds
  of it. Deleted Kodes in its store, with their children and without, for the witnesses.
\<close>

subsection \<open>The store deletes\<close>

lemma fk_delete_laws:
  assumes "kind \<in> child_kinds"
  shows "\<exists>err w'. fk_delete kind key w = (err, w') \<and> (\<forall>e. err = Some e \<longrightarrow> IsNotFound e) \<and>
    fk_kodes w' = fk_kodes w \<and> reads_like L0 kind w w' \<and> shrinks L0 w w'"
  using assms
  by (elim insertE)
    (auto simp: shrinks_def as_it_was_def reads_like_def answers_NotFound_def L0_def fk_get_def
      fk_listPods_def not_found_def delete_conv')

interpretation fake_deleting: deleting_server L0 keyed put_secret put_service put_set put_claim
proof unfold_locales
  fix w :: store and kind key
  assume "keyed w" and "kind \<in> child_kinds"
  moreover obtain err w' where "fk_delete kind key w = (err, w')" "\<forall>e. err = Some e \<longrightarrow> IsNotFound e"
    "fk_kodes w' = fk_kodes w" "reads_like L0 kind w w'" "shrinks L0 w w'"
    using fk_delete_laws [OF \<open>kind \<in> child_kinds\<close>] by blast
  ultimately show "\<exists>err w'. lib_delete L0 kind key w = (err, w') \<and> (\<forall>e. err = Some e \<longrightarrow> IsNotFound e) \<and>
      keyed w' \<and> reads_like L0 kind w w' \<and> shrinks L0 w w'"
    by (auto simp: L0_def keyed_def)
next
  show "fst (lib_updateKode L0 k w) = None" if "fst (lib_getKode L0 (kode_key k) w) = Inr old" for k w old
    using that by (auto simp: L0_def fk_get_def fk_updateKode_def split: option.splits)
qed

lemma children_answered_fake: "children_answered L0 k w"
  by (simp add: children_answered_def answered_def answers_NotFound_def L0_def fk_get_def not_found_def
      split: option.split)

subsection \<open>Deleted Kodes in the store\<close>

text \<open>An active Kode, deleted by its user: the deletion has changed the generation.\<close>

definition doomed_kode :: Kode where
  "doomed_kode = (demo_kode PhaseActive (Some 7))\<lparr>k_Generation := 2\<rparr>"

definition demo_doomed_st :: "store st" where
  "demo_doomed_st = demo_converged_st\<lparr>world := (world demo_converged_st)\<lparr>fk_kodes := [(demo_key, doomed_kode)]\<rparr>\<rparr>"

lemma doomed_kode_simps [simp]:
  "kode_key doomed_kode = demo_key" "k_DeletionTimestamp doomed_kode = Some 7" "has_finalizer doomed_kode"
  "k_Generation doomed_kode = 2" "ObservedGeneration (k_Status doomed_kode) = 1"
  by (simp_all add: doomed_kode_def kode_key_def demo_kode_def fresh_kode_def demo_key_def demo_status_def
      has_finalizer_def GetFinalizer_def)

lemma demo_doomed: "doomed L0 keyed doomed_kode demo_doomed_st"
  by (simp add: doomed_def keyed_def demo_doomed_st_def L0_def fk_get_def)
    (simp add: doomed_kode_def demo_kode_def demo_status_def)

lemma demo_not_gone: "\<not> all_gone L0 doomed_kode (world demo_doomed_st)"
  by (simp add: all_gone_def child_gone_def answers_NotFound_def child_key_def GetStatefulSetName_def
      doomed_kode_def demo_kode_def fresh_kode_def demo_doomed_st_def demo_converged_st_def L0_def fk_get_def)

text \<open>The same Kode in a later cycle, its children gone.\<close>

definition departing_kode :: Kode where
  "departing_kode = doomed_kode\<lparr>k_Status := (demo_status PhaseDeleting 2)\<lparr>DeletionCycle := 3\<rparr>\<rparr>"

lemma demo_departing:
  "resting L0 keyed doomed_kode [] {} (\<lambda>w. children_answered L0 doomed_kode w \<and> all_gone L0 doomed_kode w = True)
     (deleting_status (k_Generation doomed_kode) 3) (demo_st departing_kode)"
proof -
  have "all_gone L0 k (world (demo_st departing_kode))" for k
    by (simp add: all_gone_def child_gone_def answers_NotFound_def demo_st_def demo_store_def L0_def
        fk_get_def not_found_def)
  moreover have "keyed (world (demo_st departing_kode))"
    using doomed_kode_simps(1) by (simp add: keyed_def demo_st_def demo_store_def departing_kode_def kode_key_def)
  moreover have "deleting_status 2 3 (k_Status departing_kode)"
    by (simp add: departing_kode_def deleting_status_def demo_status_def)
  ultimately show ?thesis
    by (auto simp: resting_def children_answered_fake departing_kode_def)
qed

text \<open>A Kode whose claim is to be kept.\<close>

definition demo_kept_st :: "store st" where
  "demo_kept_st = demo_converged_st\<lparr>world := (world demo_converged_st)\<lparr>fk_kodes := [(demo_key, keeping_kode)]\<rparr>\<rparr>"

lemma demo_kept:
  "kode_key keeping_kode = demo_key" "keyed (world demo_kept_st)"
  "fst (lib_getKode L0 demo_key (world demo_kept_st)) = Inr keeping_kode"
  "fst (lib_getPVC L0 (child_key keeping_kode (GetPVCName keeping_kode)) (world demo_kept_st)) = Inr demo_claim"
  by (simp_all add: kode_key_def keyed_def demo_kept_st_def demo_converged_st_def keeping_kode_def
      demo_kode_def fresh_kode_def demo_key_def child_key_def GetPVCName_def L0_def fk_get_def demo_storage_def)

end
