(* ===== verification/Descent_Properties.thy ===== *)
theory Descent_Properties
  imports Scenario_Descent
begin

text \<open>
  Properties of the way down, on a server that deletes (the interface \<open>deleting_server\<close>, which the
  in-memory server of Fake_Cluster provides).
\<close>

text \<open>
  C6. A Kode goes down: on a server that deletes, the first reconciliation of a deleted Kode whose
  children are there, or the second if the deletion has changed the generation of the Kode, has asked
  for the deletion of every child that the Kode does not keep, and has stored the phase Deleting, the
  generation and the first deletion cycle; whatever phase the Kode was in.
\<close>

theorem Kode_goes_down:
  assumes "deleting_server L up putSecret putService putSet putClaim"
    and "doomed L up k s" and "children_answered L k (world s)" and "\<not> all_gone L k (world s)"
  shows "resting L up k (reqlog s) (set (targets (Kode_GetResources k) (Kode_ShouldDelete k)))
    (children_answered L k) (deleting_status (k_Generation k) 1)
    (reconciles L Y (kode_key k) (if ObservedGeneration (k_Status k) = k_Generation k then 1 else 2) s)"
  by (rule deleting_server.goes_down [OF assms])

theorem Kode_goes_down_witness:
  "\<exists>t. fst (lib_getKode L0 demo_key (world (reconciles L0 demo_yaml demo_key 2 demo_doomed_st))) =
     Inr (doomed_kode\<lparr>k_Status := t\<rparr>) \<and> Phase_of t = PhaseDeleting \<and> DeletionCycle t = 1"
  using Kode_goes_down [OF fake_deleting.deleting_server_axioms demo_doomed children_answered_fake
      demo_not_gone, of demo_yaml]
  by (auto simp: resting_def deleting_status_def)

text \<open>
  C15. It departs when its children are gone, and not before: in every later cycle, whatever the cluster
  has done meanwhile, a reconciliation gives up the finalizer, and the API server accepts it, if all
  children are gone; otherwise it counts the cycle and asks to be called again after the interval.
\<close>

theorem Kode_departs:
  assumes "deleting_server L up putSecret putService putSet putClaim"
    and "k_DeletionTimestamp k \<noteq> None" and "has_finalizer k" and "c \<noteq> 0"
    and "resting L up k log0 T (\<lambda>w. children_answered L k w \<and> all_gone L k w = b)
      (deleting_status (k_Generation k) c) s"
  shows "if b then \<exists>t. Reconcile L Y (kode_key k) s = (Ret (result_none, None), t) \<and> given_up k (reqlog s) t
    else \<exists>t. Reconcile L Y (kode_key k) s = (Ret (result_after (lib_ReconcileInterval L), None), t) \<and>
      resting L up k log0 T (\<lambda>w. children_answered L k w \<and> all_gone L k w = b)
        (deleting_status (k_Generation k) (c + 1)) t"
  by (rule deleting_server.departs [OF assms])

theorem Kode_departs_witness:
  "\<exists>t. Reconcile L0 demo_yaml demo_key (demo_st departing_kode) = (Ret (result_none, None), t) \<and>
     given_up doomed_kode (reqlog (demo_st departing_kode)) t"
  using Kode_departs [OF fake_deleting.deleting_server_axioms _ _ _ demo_departing, of demo_yaml] by simp

text \<open>
  C12. A volume that is to be kept blocks the deletion: on a server that deletes, and outside of the test
  environment, a deleted Kode with \<^verbatim>\<open>keepVolume\<close> whose own claim is there is still in the cluster,
  with its finalizer, after any number of reconciliations: the operator waits for a claim that it never
  asks to delete.
\<close>

theorem kept_volume_blocks_deletion:
  assumes "deleting_server L up putSecret putService putSet putClaim"
    and "k_DeletionTimestamp k \<noteq> None" and "has_finalizer k"
    and "ks_Storage (k_Spec k) = Some storage" and "st_KeepVolume storage = Some True"
    and "st_ExistingVolumeClaim storage = None" and "\<not> lib_IsTestEnvironment L"
    and "up (world s)" and "fst (lib_getKode L (kode_key k) (world s)) = Inr k"
    and "children_answered L k (world s)"
    and "fst (lib_getPVC L (child_key k (GetPVCName k)) (world s)) = Inr claim"
  shows "\<exists>x. fst (lib_getKode L (kode_key k) (world (reconciles L Y (kode_key k) n s))) = Inr x \<and>
    has_finalizer x \<and> k_DeletionTimestamp x \<noteq> None"
  by (rule deleting_server.kept_volume_waits [OF assms])

theorem kept_volume_blocks_deletion_witness:
  "\<exists>x. fst (lib_getKode L0 demo_key (world (reconciles L0 demo_yaml demo_key 100 demo_kept_st))) = Inr x \<and>
     has_finalizer x"
proof -
  have "\<not> lib_IsTestEnvironment L0" by (simp add: L0_def)
  from kept_volume_blocks_deletion [OF fake_deleting.deleting_server_axioms _ _ keeping_kode_simps(3) _ _ this
      demo_kept(2) _ children_answered_fake demo_kept(4), of demo_yaml 100]
  show ?thesis by (auto simp: demo_kept(1,3) demo_storage_def)
qed

end
