(* ===== verification/Manager.thy ===== *)
theory Manager
  imports Cluster
begin

text \<open>
  cmd/main.go and the SetupWithManager methods: the settings the flags stand for, the steps of the
  start-up in their order, the first that fails ending the program, and which objects the two
  controllers are called for. What a step does is third-party code and a parameter.
\<close>

subsection \<open>Flags\<close>

record Flags =
  fl_metricsAddr :: string
  fl_probeAddr :: string
  fl_enableLeaderElection :: bool
  fl_secureMetrics :: bool
  fl_enableHTTP2 :: bool
  fl_logLevel :: string
  fl_reconcileInterval :: Duration
  fl_longReconcileInterval :: Duration

definition default_flags :: Flags where
  "default_flags = \<lparr>fl_metricsAddr = '':8080'', fl_probeAddr = '':8081'',
     fl_enableLeaderElection = False, fl_secureMetrics = False, fl_enableHTTP2 = False,
     fl_logLevel = ''info'', fl_reconcileInterval = seconds 5,
     fl_longReconcileInterval = seconds (5 * 60)\<rparr>"

text \<open>The part of \<^verbatim>\<open>tls.Config\<close> that the operator sets.\<close>

record TLSConfig = tls_NextProtos :: "string list"

definition disableHTTP2 :: "TLSConfig \<Rightarrow> TLSConfig" where
  "disableHTTP2 c = c\<lparr>tls_NextProtos := [''http/1.1'']\<rparr>"

definition tlsOpts :: "Flags \<Rightarrow> (TLSConfig \<Rightarrow> TLSConfig) list" where
  "tlsOpts flags = (if \<not> fl_enableHTTP2 flags then [disableHTTP2] else [])"

record ManagerOptions =
  mo_MetricsBindAddress :: string
  mo_SecureServing :: bool
  mo_TLSOpts :: "(TLSConfig \<Rightarrow> TLSConfig) list"
  mo_WebhookTLSOpts :: "(TLSConfig \<Rightarrow> TLSConfig) list"
  mo_HealthProbeBindAddress :: string
  mo_LeaderElection :: bool
  mo_LeaderElectionID :: string

definition manager_options :: "Flags \<Rightarrow> ManagerOptions" where
  "manager_options flags =
     \<lparr>mo_MetricsBindAddress = fl_metricsAddr flags, mo_SecureServing = fl_secureMetrics flags,
      mo_TLSOpts = tlsOpts flags, mo_WebhookTLSOpts = tlsOpts flags,
      mo_HealthProbeBindAddress = fl_probeAddr flags,
      mo_LeaderElection = fl_enableLeaderElection flags,
      mo_LeaderElectionID = ''8d0abd8d.jacero.io''\<rparr>"

text \<open>The settings of a reconciler; its managers and its client are the fields of \<open>'w lib\<close>.\<close>

record ReconcilerSettings =
  rs_IsTestEnvironment :: bool
  rs_ReconcileInterval :: Duration
  rs_LongReconcileInterval :: Duration

definition kode_settings :: "Flags \<Rightarrow> ReconcilerSettings" where
  "kode_settings flags = \<lparr>rs_IsTestEnvironment = False,
     rs_ReconcileInterval = fl_reconcileInterval flags,
     rs_LongReconcileInterval = fl_longReconcileInterval flags\<rparr>"

definition entrypoint_settings :: ReconcilerSettings where
  "entrypoint_settings = \<lparr>rs_IsTestEnvironment = False, rs_ReconcileInterval = 0,
     rs_LongReconcileInterval = 0\<rparr>"

subsection \<open>Start-up\<close>

datatype step =
  ParseLogLevel string | BuildLogger bool | NewManager ManagerOptions
  | SetupKode ReconcilerSettings | SetupEntryPoint ReconcilerSettings
  | AddHealthzCheck | AddReadyzCheck | StartManager

definition main_steps :: "string \<Rightarrow> Flags \<Rightarrow> step list" where
  "main_steps env flags =
     (if env = ''production'' then [BuildLogger True]
      else [ParseLogLevel (fl_logLevel flags), BuildLogger False]) @
     [NewManager (manager_options flags), SetupKode (kode_settings flags),
      SetupEntryPoint entrypoint_settings, AddHealthzCheck, AddReadyzCheck, StartManager]"

text \<open>Every test of an error is followed by \<^verbatim>\<open>os.Exit(1)\<close>: the steps attempted, and the exit code.\<close>

fun attempt :: "(step \<Rightarrow> error option) \<Rightarrow> step list \<Rightarrow> step list \<times> int" where
  "attempt run [] = ([], 0)"
| "attempt run (x # xs) =
     (case run x of
        Some e \<Rightarrow> ([x], 1)
      | None \<Rightarrow> (let (ys, code) = attempt run xs in (x # ys, code)))"

definition main :: "(step \<Rightarrow> error option) \<Rightarrow> string \<Rightarrow> Flags \<Rightarrow> step list \<times> int" where
  "main run env flags = attempt run (main_steps env flags)"

lemma attempt_all: "\<forall>x \<in> set xs. run x = None \<Longrightarrow> attempt run xs = (xs, 0)"
  by (induction xs) simp_all

lemma attempt_fails:
  "\<forall>x \<in> set xs. run x = None \<Longrightarrow> run y = Some e \<Longrightarrow> attempt run (xs @ y # ys) = (xs @ [y], 1)"
  by (induction xs) simp_all

lemma attempt_last:
  "y \<notin> set xs \<Longrightarrow> y \<in> set (fst (attempt run (xs @ [y]))) \<longleftrightarrow> (\<forall>x \<in> set xs. run x = None)"
  by (induction xs) (auto split: option.split prod.split)

text \<open>The manager is started only when both controllers are registered and everything else went well.\<close>

lemma main_starts:
  "StartManager \<in> set (fst (main run env flags)) \<longleftrightarrow>
     (\<forall>x \<in> set (butlast (main_steps env flags)). run x = None)"
proof -
  have "main_steps env flags = butlast (main_steps env flags) @ [StartManager]"
    "StartManager \<notin> set (butlast (main_steps env flags))"
    by (simp_all add: main_steps_def)
  then show ?thesis unfolding main_def by (metis attempt_last)
qed

subsection \<open>What the controllers are called for\<close>

text \<open>
  The documented behaviour of the builder: an event on an object of the kind \<^verbatim>\<open>For\<close>, or
  of a kind watched with \<^verbatim>\<open>EnqueueRequestForObject\<close>, is a request with its key; one on an
  object of a kind in \<^verbatim>\<open>Owns\<close> is a request with the key of its controller, if that is of
  the kind \<^verbatim>\<open>For\<close>. The gateway, which the operator only owns in name, is no kind of the model.
\<close>

record Setup =
  su_For :: ObjKind
  su_Owns :: "ObjKind set"
  su_Watches :: "ObjKind set"
  su_MaxConcurrentReconciles :: nat

definition kode_SetupWithManager :: Setup where
  "kode_SetupWithManager = \<lparr>su_For = KindKode, su_Owns = {}, su_Watches = {},
     su_MaxConcurrentReconciles = 2\<rparr>"

definition ep_SetupWithManager :: Setup where
  "ep_SetupWithManager = \<lparr>su_For = KindEntryPoint, su_Owns = {KindHTTPRoute},
     su_Watches = {KindKode}, su_MaxConcurrentReconciles = 1\<rparr>"

definition requested ::
  "Setup \<Rightarrow> ObjKind \<Rightarrow> NamespacedName \<Rightarrow> (ObjKind \<times> NamespacedName) option \<Rightarrow> NamespacedName set" where
  "requested setup kind key controller =
     (if kind = su_For setup \<or> kind \<in> su_Watches setup then {key} else {}) \<union>
     (case controller of
        Some (owner, owner_key) \<Rightarrow>
          if kind \<in> su_Owns setup \<and> owner = su_For setup then {owner_key} else {}
      | None \<Rightarrow> {})"

text \<open>Both controllers are called for every change of a Kode, the Kode controller for nothing else.\<close>

lemma requested_kode:
  "requested kode_SetupWithManager kind key c = (if kind = KindKode then {key} else {})"
  "requested ep_SetupWithManager KindKode key c = {key}"
  "requested ep_SetupWithManager KindHTTPRoute key (Some (KindEntryPoint, owner)) = {owner}"
  by (auto simp: requested_def kode_SetupWithManager_def ep_SetupWithManager_def split: option.split)

end
