(* ===== verification/Spec2Isabelle.thy ===== *)
theory Spec2Isabelle
  imports Data_Properties Rise_Properties Descent_Properties Scenario_Entrypoint Manager
begin

text \<open>
  The kode-operator, modelled and verified. A Kode is a development environment that a user asks for; the
  operator brings it up from a template (Secret, Service, StatefulSet and PersistentVolumeClaim, with
  an Envoy sidecar), keeps its status, publishes it under a URL, and takes it down again. Two
  controllers do this, each by reconciliations that the runtime calls, one object at a time:

  \<^item> the Kode controller (internal/controllers/kode) runs a state machine over the phases Pending,
    Configuring, Provisioning, Active, Updating, Deleting, Failed and Unknown;

  \<^item> the entrypoint controller (internal/controllers/entrypoint) makes the HTTPRoute and the
    SecurityPolicy of an active Kode and writes its URL, or declares it failed.

  They share the Kode in the cluster and nothing in memory: each has a template cache of its own.

  \<^bold>\<open>How the code is modelled.\<close> Structs are records, enumerations are datatypes with a constructor for
  every other string, \<^verbatim>\<open>int32\<close> ports are words, Go's \<^verbatim>\<open>int\<close> counters (RetryCount,
  DeletionCycle) are unbounded integers, maps are association lists, nil pointers are \<^const>\<open>None\<close>. A function of the code that touches memory or the cluster is a
  computation of \<open>Go_Monad\<close>: from a state to an outcome (a result, or a panic where a nil pointer is
  dereferenced) and a new state. Errors are values of type \<open>error\<close>, as in Go, so every early return is a
  branch. The state \<open>'w st\<close> holds the Kode in memory, the template cache, the recorded events, the
  history of the requests made, and the world \<open>'w\<close>: everything behind the API server, of which
  nothing is known but what requests answer.

  \<^bold>\<open>What is a parameter.\<close> Code that is not in the repository is a field of the record \<open>'w lib\<close> (\<open>Cluster\<close>: the
  client, CreateOrPatch, RetryOnConflict, ExponentialBackoff, the finalizer helpers, the clock, the
  hash, the order of ranging over a map), of \<open>'w gwlib\<close> (\<open>Entrypoint_Object\<close>: the gateway's objects) or of
  \<open>yaml_lib\<close> (\<open>Envoy\<close>). What is assumed of it is its documentation: \<open>lawful\<close>, \<open>gw_lawful\<close> (a retry only calls
  its function again, CreateOrPatch changes nothing but the world except by the mutate function, the
  finalizer helpers are membership, insertion and removal) and, where a theorem compares
  several reads, \<open>reads_pure\<close>. Requests may fail at any time, with any error; only the theorems on
  progress suppose a server that answers (\<open>obliging\<close>, \<open>api_server\<close> with its extensions
  \<open>deleting_server\<close>, \<open>gateway_server\<close> and \<open>routing_server\<close>). \<open>Fake_Cluster\<close> is a concrete API server and libraries that
  satisfy all of it; the theories \<open>Scenario\<close>, \<open>Scenario_Entrypoint\<close>, \<open>Scenario_Arrival\<close>,
  \<open>Scenario_Descent\<close>, \<open>Scenario_Gateway\<close> and \<open>Scenario_Writes\<close> run the operator on it, for the
  witnesses. Its retry makes five attempts and
  its backoff as many steps as the code asks for; the theorems hold for any number.

  \<^bold>\<open>The theories,\<close> bottom up:

  \<^item> \<open>Prelude\<close>, \<open>Go_Monad\<close>: collections of rules, integers as text, paths; computations, their Hoare
    triples \<open>triple P m Q E\<close> (\<open>E\<close> holds after a panic), the invariants \<open>keeps\<close> and the results \<open>yields\<close>.
  \<^item> \<open>Kube_Types\<close>, \<open>Api_V1alpha2\<close>, \<open>Managed_Resource\<close>, \<open>Common_Types\<close>: Kubernetes types, the types and
    in-memory methods of api/v1alpha2, the interface both resources implement, internal/common.
  \<^item> \<open>Envoy_Types\<close>, \<open>Envoy\<close>, \<open>Validation\<close>: pkg/envoy, its types with their YAML form, and pkg/validation.
  \<^item> \<open>Cluster\<close>, \<open>Kode_Object\<close>: the state, requests, libraries and their laws, internal/resourcev1 and
    internal/event; the methods of Kode that talk to the API server (UpdateStatus, finalizers).
  \<^item> \<open>State_Machine\<close>, \<open>Cleanup\<close>, \<open>Template_Manager\<close>: internal/statemachine, internal/cleanup and the
    resource lists of both controllers, internal/template with its cache and backoff.
  \<^item> \<open>Kode_Constructors\<close>, \<open>Kode_Check\<close>, \<open>Kode_Ensure\<close>, \<open>Kode_Configure\<close>, \<open>Kode_Validate\<close>: the
    constructors of the children, their readiness and deletion checks, the ensure functions with
    their mutate functions, change detection and application, and validation.
  \<^item> \<open>Kode_Handlers\<close>, \<open>Kode_Reconciler\<close>: handlers.go and utils.go, the eight handlers; reconciler.go.
  \<^item> \<open>Entrypoint_Routes\<close>, \<open>Entrypoint_Object\<close>, \<open>Entrypoint_Reconciler\<close>: config.go and the constructors
    of ensure_routes.go; the methods of EntryPoint; the rest of ensure_routes.go, utils.go and
    reconciler.go of the entrypoint controller.
  \<^item> \<open>Manager\<close>: cmd/main.go and the set-up of both controllers.

  \<^bold>\<open>What the lemmas show.\<close>

  \<^item> \<open>Kode_Frame\<close>: an assertion that survives the elementary steps (\<open>calm\<close>, which leave the phase and the
    retry count alone) survives every operation below the handlers; proved once, used by all that follows.
  \<^item> \<open>Kode_Phases\<close>: the contract of a phase handler, as a locale with eight interpretations: it sends and
    announces only its phase and its successors. \<open>Kode_Reconciler\<close> lifts it to a reconciliation,
    \<open>Kode_Lifecycle\<close> to the objects the controller ever stores and to a transition relation.
  \<^item> \<open>Kode_Deletion\<close>: what may be deleted, and what the operator has seen before it gives up its finalizer.
  \<^item> \<open>Kode_Writes\<close>: what may be created or patched, and when.
  \<^item> \<open>Kode_Convergence\<close>: the checks, ensure functions, detection and validation fit together.
  \<^item> \<open>Entrypoint_Safety\<close>: what the entrypoint controller may send, and that it leaves a published Kode
    alone. \<open>Operator\<close>: both controllers interleaved, on however stale objects (\<open>operated\<close>).
  \<^item> \<open>Kode_Conditions\<close>: conditions are neither lost nor duplicated, and those the handler of Active
    reads without a test are there. \<open>Kode_Progress\<close>: how whole reconciliations count the attempts at
    recovery and when they give up; deletion ends.
  \<^item> \<open>Kode_Server\<close>: the locale \<open>api_server\<close>, what a client may expect of a server that is up (a status or
    a finalizer that is written is read back, CreateOrPatch creates or patches, and a write of one
    kind leaves the reads of the others alone), and what each request of the operator then does.
    \<open>Kode_Rise\<close>: the handlers from Pending to Provisioning on such a server; \<open>Kode_Arrival\<close>: whole
    reconciliations, one after the other; \<open>Kode_Repair\<close>: Updating makes what is missing.
    \<open>Scenario_Arrival\<close> interprets the locale on the server of \<open>Fake_Cluster\<close>.
  \<^item> \<open>Kode_Descent\<close>: the locale \<open>deleting_server\<close>, which extends \<open>api_server\<close> by deletion (the request is
    accepted or the object not found, and the other objects are left alone), and the way down: the
    deletion of the children is asked for once, they are waited for, and the finalizer is given up.
    \<open>Scenario_Descent\<close> interprets it on the same server.
  \<^item> \<open>Entrypoint_Server\<close>: the locale \<open>gateway_server\<close>, which extends \<open>api_server\<close> by routes and policies
    that are written as they are made, and publication; \<open>routing_server\<close> extends it by the independence
    of routes, policies and statuses, and shows what stands behind a published URL.
    \<open>Scenario_Gateway\<close> interprets both.
  \<^item> \<open>Data_Properties\<close>, \<open>Rise_Properties\<close>, \<open>Descent_Properties\<close> and this theory: the properties of the development, each with a witness.

  \<^bold>\<open>Bounds.\<close> The model has no fuel of its own: loops of the code are structural recursions over lists,
  retries belong to the libraries. \<open>maxRetries\<close> is 5 and the backoff has 5 steps, as in the code.

  \<^bold>\<open>What is abstracted.\<close> Log output. The context and its time-out: it is one of the errors a request may
  answer. The patch of a status is sent as a whole, and the answer of the server to it is not copied
  back into the local object, which the code drops. The text of one message that prints a pointer.
  The Kode controller runs two reconciliations at a time, on different Kodes; they share the template
  cache, and the race on that map, which has no lock, is not modelled.

  \<^bold>\<open>Not modelled.\<close> The accessors of the reconcilers; the watches of both controllers are
  in \<open>Manager\<close>, but nothing rests on them: they decide which requests arrive, and every order is
  considered. zz_generated.deepcopy.go and scheme registration (generated: values of the model share
  nothing, so a deep copy is the value itself); states.go of the entrypoint controller (commented
  out); the JSON methods of \<open>DynamicValue\<close>, which have no caller; tests.
\<close>

section \<open>The phases of a Kode\<close>

text \<open>
  C1. Every status a reconciliation sends to the API server carries a phase the reconciler is
  entitled to: Deleting for a deleted Kode, Pending for one without the finalizer, Updating (or still
  Deleting) on a generation mismatch, and otherwise the stored phase itself or a successor of it in
  the transition table of the handlers. Runs that panic and requests that fail are included.
\<close>

theorem Reconcile_phases:
  assumes "lawful L" and "fst (lib_getKode L req (world s)) = Inr k"
    and "ReqPatchStatus key st b \<in> set (new_requests s (snd (Reconcile L Y req s)))"
  shows "Phase_of st \<in> allowed_phases k"
  by (rule Reconcile_patch_allowed [OF assms])

text \<open>The witness runs the reconciliation of a Kode without its finalizer and looks at a patch.\<close>

lemma demo_first_patch:
  "ReqPatchStatus demo_key (demo_status PhasePending 1) True
     \<in> set (new_requests (demo_st fresh_kode) (snd (Reconcile L0 demo_yaml demo_key (demo_st fresh_kode))))"
  by (simp add: Reconcile_def reconcile_fetched_def reconcile_live_def initialize_def go_simps
      api_get_def L0_def fk_get_def demo_st_def demo_store_def fresh_kode_def AddFinalizer_def
      UpdateStatus_def UpdateStatus_attempt_eq api_update_def api_patch_status_def fk_updateKode_def
      fk_patchStatus_def set_phase_def modify_status_def kode_key_def demo_key_def SetPhase_def
      demo_status_def new_requests_def eval_nat_numeral GetFinalizer_def)

theorem Reconcile_phases_witness: "PhasePending \<in> allowed_phases fresh_kode"
  using Reconcile_phases [OF lawful_L0 demo_fetch demo_first_patch] by (simp add: demo_status_def)

text \<open>
  A Kode that starts its life with the empty phase of a new object never gets the phase Failed or
  Unknown from the Kode controller, whatever users do to its spec and metadata, whichever requests
  fail, and however stale the objects are that reconciliations work on. The controller never enters
  its own recovery of failed resources; only the entrypoint controller declares a Kode failed.
\<close>

theorem stored_phases:
  assumes "lawful L" and "stored L Y k"
  shows "GetPhase k \<in> {PhaseOther '''', PhasePending, PhaseConfiguring, PhaseProvisioning, PhaseActive,
    PhaseUpdating, PhaseDeleting}"
  using stored_visited [OF assms(2,1)] by (simp only: visited_def)

theorem stored_phases_witness:
  "GetPhase (fresh_kode\<lparr>k_Status := demo_status PhasePending 1\<rparr>) \<in> {PhaseOther '''', PhasePending,
     PhaseConfiguring, PhaseProvisioning, PhaseActive, PhaseUpdating, PhaseDeleting}"
  by (rule stored_phases [OF lawful_L0 stored.patched [OF stored.created demo_fetch demo_first_patch]])
    simp

section \<open>Deletion\<close>

text \<open>
  C10. Every object a reconciliation asks the API server to delete is a pod or one of the resources
  that the cleanup description of the fetched Kode lists and allows to be deleted.
\<close>

theorem Reconcile_deletes_only_deletable:
  assumes "lawful L" and "fst (lib_getKode L req (world s)) = Inr k"
    and "ReqDelete kind n b \<in> set (new_requests s (snd (Reconcile L Y req s)))"
  shows "deletable k kind n"
  using new_requestsI [OF Reconcile_deletes [OF assms(1,2) prod.collapse [symmetric]]] assms(3)
  by blast

lemma demo_secret_deleted:
  "ReqDelete KindSecret (NamespacedName ''team'' ''alice-auth'') True
     \<in> set (new_requests (demo_ready_st (demo_kode PhaseDeleting (Some 7)))
          (snd (Reconcile L0 demo_yaml demo_key (demo_ready_st (demo_kode PhaseDeleting (Some 7))))))"
  by (simp add: run_defs demo_defs new_requests_def eval_nat_numeral)

theorem Reconcile_deletes_only_deletable_witness:
  "deletable (demo_kode PhaseDeleting (Some 7)) KindSecret (NamespacedName ''team'' ''alice-auth'')"
  by (rule Reconcile_deletes_only_deletable [OF lawful_L0 demo_ready_fetch demo_secret_deleted])

text \<open>
  C11. A volume claim the user asked to keep, or brought along, is never deleted: no reconciliation of
  the Kode sends a delete request for any PersistentVolumeClaim.
\<close>

theorem Reconcile_keeps_volume:
  assumes "lawful L" and "fst (lib_getKode L req (world s)) = Inr k"
    and "ks_Storage (k_Spec k) = Some storage"
    and "st_KeepVolume storage = Some True \<or> st_ExistingVolumeClaim storage \<noteq> None"
  shows "ReqDelete KindPersistentVolumeClaim n b \<notin> set (new_requests s (snd (Reconcile L Y req s)))"
  using new_requestsI [OF Reconcile_deletes [OF assms(1,2) prod.collapse [symmetric]]]
    kept_volume_not_deletable [OF assms(3,4)] by blast

theorem Reconcile_keeps_volume_witness:
  "ReqDelete KindPersistentVolumeClaim (NamespacedName ''team'' ''alice-pvc'') True
     \<notin> set (new_requests (demo_st keeping_kode)
          (snd (Reconcile L0 demo_yaml demo_key (demo_st keeping_kode))))"
  by (rule Reconcile_keeps_volume [OF lawful_L0 demo_fetch keeping_kode_simps(3)])
    (simp add: demo_storage_def)

text \<open>
  C7. The finalizer is given up only when the children are gone: a reconciliation of a deleted Kode
  updates finalizers only if, in that same reconciliation, the API server answered NotFound for the
  StatefulSet, the Secret, the Service and, unless it is not the operator's, the volume claim.
\<close>

theorem Reconcile_releases_last:
  assumes "lawful L" and "fst (lib_getKode L req (world s)) = Inr k"
    and "k_DeletionTimestamp k \<noteq> None" and "has_finalizer k"
    and "ReqUpdateFinalizers key fs b \<in> set (new_requests s (snd (Reconcile L Y req s)))"
  shows "gone_evidence L k (new_requests s (snd (Reconcile L Y req s)))"
  using new_requestsI [OF Reconcile_releases [OF assms(1-4) prod.collapse [symmetric]]] assms(5)
  by blast

lemma demo_released:
  "ReqUpdateFinalizers demo_key [] True
     \<in> set (new_requests (demo_st (demo_kode PhaseDeleting (Some 7)))
          (snd (Reconcile L0 demo_yaml demo_key (demo_st (demo_kode PhaseDeleting (Some 7))))))"
  by (simp add: run_defs demo_defs new_requests_def eval_nat_numeral)

theorem Reconcile_releases_last_witness:
  "gone_evidence L0 (demo_kode PhaseDeleting (Some 7))
     (new_requests (demo_st (demo_kode PhaseDeleting (Some 7)))
        (snd (Reconcile L0 demo_yaml demo_key (demo_st (demo_kode PhaseDeleting (Some 7))))))"
  by (rule Reconcile_releases_last [OF lawful_L0 demo_fetch _ _ demo_released]) simp_all

text \<open>
  C23. A reconciliation that fetches a Kode without the finalizer creates, patches and deletes no
  child resource: it only asks for the finalizer and initialises the status, so no child can exist
  whose cleanup is not guarded.
\<close>

theorem Reconcile_finalizer_first:
  assumes "lawful L" and "fst (lib_getKode L req (world s)) = Inr k" and "\<not> has_finalizer k"
  shows "list_all (\<lambda>q. \<not> touches_child q) (new_requests s (snd (Reconcile L Y req s)))"
  using Reconcile_without_finalizer [OF assms, of Y] unfolding no_child_touched_def
  by (rule new_requestsI)

theorem Reconcile_finalizer_first_witness:
  "list_all (\<lambda>q. \<not> touches_child q) (new_requests (demo_st fresh_kode)
     (snd (Reconcile L0 demo_yaml demo_key (demo_st fresh_kode))))"
  by (rule Reconcile_finalizer_first [OF lawful_L0 demo_fetch]) simp

text \<open>
  C39. Cleanup is requested in the first deletion cycle only: once the deletion cycle of the status is
  positive, the handler of Deleting sends no delete request any more, whatever became of the first
  ones. A cleanup that failed half-way is therefore never taken up again, although the failure is
  stored with the cycle already counted.
\<close>

theorem Deleting_cleans_up_once:
  assumes "lawful L" and "DeletionCycle (k_Status (kode s)) > 0"
  shows "list_all (\<lambda>q. \<not> is_delete q) (new_requests s (snd (handleDeletingState L s)))"
proof -
  have "holds_field (\<lambda>t. DeletionCycle t > 0) True (no_delete (reqlog s)) s"
    using assms(2) by (simp add: holds_field_def no_delete_def)
  from triple_snd [OF handleDeletingState_later [OF assms(1)] this] show ?thesis
    unfolding holds_field_def no_delete_def by (auto dest: new_requests_eq)
qed

theorem Deleting_cleans_up_once_witness:
  "list_all (\<lambda>q. \<not> is_delete q) (new_requests
     (demo_ready_st (fresh_kode\<lparr>k_Status := (demo_status PhaseDeleting 1)\<lparr>DeletionCycle := 3\<rparr>\<rparr>))
     (snd (handleDeletingState L0
        (demo_ready_st (fresh_kode\<lparr>k_Status := (demo_status PhaseDeleting 1)\<lparr>DeletionCycle := 3\<rparr>\<rparr>)))))"
  by (rule Deleting_cleans_up_once [OF lawful_L0]) (simp add: demo_ready_st_def demo_st_def)

text \<open>
  The cleanup of a Kode that reports no error has asked to delete exactly the deletable resources
  of its cleanup description, each once and in that order, changed nothing in memory, and asks to be
  called again after a second unless there was nothing to delete.
\<close>

theorem Cleanup_exact:
  assumes "manager_Cleanup L (Kode_GetResources k) (Kode_ShouldDelete k) s = (Ret (res, None), t)"
  shows "map delete_target (new_requests s t) =
      map (\<lambda>r. Some (res_Object r, res_key r)) (filter (Kode_ShouldDelete k) (Kode_GetResources k)) \<and>
    kode t = kode s \<and>
    res = (if filter (Kode_ShouldDelete k) (Kode_GetResources k) = [] then result_none
           else result_after (seconds 1))"
  using kode_cleanup.Cleanup_run [of L k s] assms
  by (auto simp: targets_def comp_def dest: new_requests_eq)

theorem Cleanup_exact_witness:
  "map delete_target (new_requests (demo_ready_st keeping_kode)
      (snd (manager_Cleanup L0 (Kode_GetResources keeping_kode) (Kode_ShouldDelete keeping_kode)
         (demo_ready_st keeping_kode)))) =
     [Some (KindStatefulSet, NamespacedName ''team'' ''alice''),
      Some (KindService, NamespacedName ''team'' ''alice-svc''),
      Some (KindSecret, NamespacedName ''team'' ''alice-auth'')]"
proof -
  let ?run = "manager_Cleanup L0 (Kode_GetResources keeping_kode) (Kode_ShouldDelete keeping_kode)
    (demo_ready_st keeping_kode)"
  have "fst ?run = Ret (result_after (seconds 1), None)"
    by (simp add: run_defs demo_defs)
  then have "?run = (Ret (result_after (seconds 1), None), snd ?run)" by (metis prod.collapse)
  from Cleanup_exact [OF this] show ?thesis
    by (simp add: Kode_GetResources_def Kode_ShouldDelete_def demo_defs res_key_def GetServiceName_def
        GetSecretName_def)
qed

section \<open>Status and readiness\<close>

text \<open>
  \<open>UpdateStatus\<close> leaves the Kode in memory as it is, touches no child resource, and every status
  it sends, however often the patch is retried, is the status in memory. So the reset of
  \<^verbatim>\<open>LastError\<close> on a phase change, written between the assignment and the patch, never happens.
\<close>

theorem UpdateStatus_sends_memory:
  assumes "lawful L"
  shows "kode (snd (UpdateStatus L s)) = kode s \<and>
    (\<forall>q \<in> set (new_requests s (snd (UpdateStatus L s))). \<not> touches_child q \<and>
       (\<forall>key st b. q = ReqPatchStatus key st b \<longrightarrow> st = k_Status (kode s)))"
  using UpdateStatus_sends [OF assms, of s] unfolding sends_status_def
  by (auto dest: new_requests_eq)

theorem UpdateStatus_sends_memory_witness:
  "kode (snd (UpdateStatus L0 (demo_st fresh_kode))) = fresh_kode"
  using UpdateStatus_sends_memory [OF lawful_L0, of "demo_st fresh_kode"]
  by (simp add: demo_st_def)

text \<open>
  C20. The readiness check is exact: when it returns a verdict, the verdict says whether the secret
  has its fields, the service exposes the port, all replicas of the StatefulSet are ready, the volume
  claim is bound (or not needed) and at least one pod exists and every pod is running and ready; and
  it changes nothing.
\<close>

theorem checkResourcesReady_exact:
  assumes "reads_pure L" and "checkResourcesReady L config s = (Ret (Inr b), t)"
  shows "(b \<longleftrightarrow> all_ready L config (kode s) (world s)) \<and> world t = world s \<and> kode t = kode s"
  using resources_check.verdict [OF assms] only_reads_frame resources_check.run [OF assms(2)]
  by auto

lemma demo_ready_check:
  "fst (checkResourcesReady L0 demo_config (demo_ready_st (demo_kode PhaseProvisioning None))) =
     Ret (Inr True)"
  by (simp add: demo_config_def run_defs demo_defs)

theorem checkResourcesReady_exact_witness:
  "all_ready L0 demo_config (demo_kode PhaseProvisioning None)
     (world (demo_ready_st (demo_kode PhaseProvisioning None)))"
proof -
  let ?s = "demo_ready_st (demo_kode PhaseProvisioning None)"
  have "checkResourcesReady L0 demo_config ?s = (Ret (Inr True), snd (checkResourcesReady L0 demo_config ?s))"
    using demo_ready_check by (metis prod.collapse)
  from checkResourcesReady_exact [OF reads_pure_L0 this] show ?thesis
    by (simp add: demo_ready_st_def demo_st_def)
qed

text \<open>
  The deletion check is exact: when it returns a verdict, the verdict says whether the API server
  answers NotFound for the StatefulSet, the Secret, the Service and, where it is not skipped, the
  volume claim; it changes nothing.
\<close>

theorem checkResourcesDeleted_exact:
  assumes "reads_pure L" and "checkResourcesDeleted L s = (Ret (Inr b), t)"
  shows "(b \<longleftrightarrow> all_gone L (kode s) (world s)) \<and> world t = world s \<and> kode t = kode s"
  using deleted_check.verdict [OF assms] only_reads_frame deleted_check.run [OF assms(2)]
  by auto

theorem checkResourcesDeleted_exact_witness: "all_gone L0 fresh_kode (world (demo_st fresh_kode))"
proof -
  have "fst (checkResourcesDeleted L0 (demo_st fresh_kode)) = Ret (Inr True)"
    by (simp add: run_defs demo_defs)
  then have "checkResourcesDeleted L0 (demo_st fresh_kode) =
      (Ret (Inr True), snd (checkResourcesDeleted L0 (demo_st fresh_kode)))"
    by (metis prod.collapse)
  from checkResourcesDeleted_exact [OF reads_pure_L0 this] show ?thesis by (simp add: demo_st_def)
qed

text \<open>
  C17. Provisioning ends in Active only on evidence: if the handler announces Active, it fetched the
  template and every child resource of the Kode was ready, for the configuration made from that
  template, in the state the check saw.
\<close>

theorem Provisioning_to_Active:
  assumes "reads_pure L" and "handleProvisioningState L s = (Ret (PhaseActive, r, None), t)"
  shows "\<exists>template u. fetchTemplatesWithRetry L s = (Ret (Inr template), u) \<and>
    all_ready L (InitKodeResourcesConfig (kode u) template) (kode u) (world u)"
  by (rule all_ready_verdict [OF assms(1) Provisioning_evidence [OF assms(2)]])

theorem Provisioning_to_Active_witness:
  "\<exists>template u. fetchTemplatesWithRetry L0 (demo_ready_st (demo_kode PhaseProvisioning None)) =
       (Ret (Inr template), u) \<and>
     all_ready L0 (InitKodeResourcesConfig (kode u) template) (kode u) (world u)"
proof -
  let ?run = "handleProvisioningState L0 (demo_ready_st (demo_kode PhaseProvisioning None))"
  have "fst ?run = Ret (PhaseActive, result_none, None)"
    by (simp add: run_defs demo_defs eval_nat_numeral)
  then have "?run = (Ret (PhaseActive, result_none, None), snd ?run)" by (metis prod.collapse)
  from Provisioning_to_Active [OF reads_pure_L0 this] show ?thesis .
qed

text \<open>
  C40. Recovery is bounded: each run of the handler of Failed counts one attempt, and none once the
  count has reached the maximum, panics and failed requests included.
\<close>

theorem Failed_counts_attempts:
  assumes "lawful L"
  shows "RetryCount (k_Status (kode (snd (handleFailedState L s)))) =
    (if RetryCount (k_Status (kode s)) < maxRetries then RetryCount (k_Status (kode s)) + 1
     else RetryCount (k_Status (kode s)))"
  using handleFailedState_count [OF assms, of s] by auto

theorem Failed_counts_attempts_witness:
  "RetryCount (k_Status (kode (snd (handleFailedState L0 (demo_st (demo_kode PhaseFailed None)))))) = 1"
  using Failed_counts_attempts [OF lawful_L0, of "demo_st (demo_kode PhaseFailed None)"]
  by (simp add: maxRetries_def demo_defs)

section \<open>Configuration\<close>

text \<open>
  C25. What the ensure functions write is what the change detection wants: if every child in the
  cluster is a result of the mutate functions for the configuration (and the claim has the
  constructed spec and the pods run the images of the set), no change is detected, so the operator
  does not patch its own work again.
\<close>

theorem detect_after_ensure:
  assumes "reads_pure L" and "ensured L Y config (kode s) (world s)"
    and "ks_Storage (rc_KodeSpec config) = ks_Storage (k_Spec (kode s))"
  shows "\<exists>t. detectChanges L Y config s = (Ret (Inr []), t) \<and> world t = world s \<and> kode t = kode s"
  using detectChanges_converged [OF assms(1) ensured_converged [OF assms(2)] assms(3)]
  by (auto dest: same_but_logD)

theorem detect_after_ensure_witness:
  "\<exists>t. detectChanges L0 demo_yaml demo_config demo_converged_st = (Ret (Inr []), t) \<and>
     world t = world demo_converged_st \<and> kode t = kode demo_converged_st"
  by (rule detect_after_ensure [OF reads_pure_L0 demo_ensured])
    (simp add: demo_config_def demo_converged_st_def demo_st_def)

text \<open>
  C35. Changes are detected exactly: if each child is missing or as the configuration wants it, the
  detection answers the missing ones, in the order secret, service, StatefulSet and claim, and changes
  nothing. The claim counts only if the user asked for storage and brought none along.
\<close>

theorem detect_exact:
  assumes "reads_pure L" and "startable L Y config (kode s) (world s)"
    and "ks_Storage (rc_KodeSpec config) = ks_Storage (k_Spec (kode s))"
  shows "\<exists>t. detectChanges L Y config s = (Ret (Inr (missing_children L (kode s) (world s))), t) \<and>
    kode t = kode s \<and> world t = world s"
  using detectChanges_exact [OF assms] by (auto dest: same_but_logD)

theorem detect_exact_witness:
  "\<exists>t. detectChanges L0 demo_yaml demo_config (demo_st (demo_kode PhaseUpdating None)) =
     (Ret (Inr [''secret'', ''service'', ''statefulset'', ''pvc'']), t)"
proof -
  let ?k = "demo_kode PhaseUpdating None"
  have st: "kode (demo_st ?k) = ?k" "world (demo_st ?k) = demo_store ?k" by (simp_all add: demo_st_def)
  have "startable L0 demo_yaml demo_config ?k (demo_store ?k)"
    using demo_startable [of ?k]
    unfolding in_alike(1) [where x = ?k, OF demo_alike, symmetric]
    by (simp add: startable_in_def demo_config_def Let_def)
  moreover have "missing_children L0 ?k (demo_store ?k) = [''secret'', ''service'', ''statefulset'', ''pvc'']"
    by (simp add: missing_children_def needs_claim_def IsEmpty_def answers_NotFound_def L0_def fk_get_def
        not_found_def demo_store_def demo_storage_def demo_asks)
  ultimately show ?thesis
    using detect_exact [OF reads_pure_L0, of demo_yaml demo_config "demo_st ?k"]
    by (auto simp: st demo_config_def)
qed

text \<open>
  C36. Converged children pass the validation: if the children are as the configuration wants them and
  the secret carries the operator's labels, \<open>validateConfiguration\<close> finds nothing.
\<close>

theorem validate_converged:
  assumes "lawful L" and "reads_pure L" and "converged L Y config (kode s) (world s)"
    and "config = InitKodeResourcesConfig (kode s) template"
    and "t_ContainerTemplateSpec template = Some spec"
    and "\<And>secret. fst (lib_getSecret L (child_key (kode s) (GetSecretName (kode s))) (world s)) = Inr secret
      \<Longrightarrow> hasRequiredLabels (sec_Labels secret) (config_labels config)"
  shows "\<exists>t. validateConfiguration L config s = (Ret None, t) \<and> world t = world s"
  using validateConfiguration_converged [OF assms] by (auto dest: same_but_logD)

theorem validate_converged_witness:
  "\<exists>t. validateConfiguration L0 demo_config demo_converged_st = (Ret None, t) \<and>
     world t = world demo_converged_st"
  by (rule validate_converged [OF lawful_L0 reads_pure_L0 demo_converged,
        where template = demo_template and spec = demo_spec])
    (auto simp: demo_config_def demo_converged_st_def run_defs demo_defs)

text \<open>
  C37. The claim is written last, not where the documentation has it: the kinds that
  \<open>applyConfiguration\<close> asks to create or patch are, whatever changes it is given and wherever it stops,
  a subsequence of Secret, Service, StatefulSet, PersistentVolumeClaim. The comment in the code says
  that the order matters for dependencies (configure_resources.go:40), and the diagram
  docs/diagrams/kode-ensure-resources.mmd puts the claim before the StatefulSet whose pods mount it;
  the code contradicts the diagram.
\<close>

theorem apply_in_order:
  assumes "lawful L"
  shows "\<exists>ks. subseq ks [KindSecret, KindService, KindStatefulSet, KindPersistentVolumeClaim] \<and>
    created_kinds (reqlog (snd (applyConfiguration L Y config changes s))) =
      created_kinds (reqlog s) @ ks"
  using adds_apply [OF assms, of Y config changes] unfolding adds_def by blast

theorem apply_in_order_witness:
  "\<exists>ks. subseq ks [KindSecret, KindService, KindStatefulSet, KindPersistentVolumeClaim] \<and>
    created_kinds (reqlog (snd (applyConfiguration L0 demo_yaml demo_config [''pvc'', ''secret'']
      (demo_st fresh_kode)))) = [] @ ks"
  using apply_in_order [OF lawful_L0, of demo_yaml demo_config "[''pvc'', ''secret'']" "demo_st fresh_kode"]
  by (simp add: demo_st_def)

text \<open>
  C38. Patching a claim that exists leaves the fields alone that Kubernetes does not let one change:
  access modes, volume name and mode, storage class and selector stay those of the existing claim.
\<close>

theorem pvc_patch_keeps_immutable:
  assumes "mutate_pvc L config resizeSupported pvc s = (Ret (Inr pvc'), t)"
    and "fst (lib_getPVC L (NamespacedName (pvc_Namespace pvc) (pvc_Name pvc)) (world s)) = Inr existing"
  shows "same_immutable (pvc_Spec pvc') (pvc_Spec existing)"
  by (rule mutate_pvc_run [OF assms])

theorem pvc_patch_keeps_immutable_witness:
  "\<exists>pvc'. fst (mutate_pvc L0 demo_config True demo_pvc demo_converged_st) = Ret (Inr pvc') \<and>
     same_immutable (pvc_Spec pvc') (pvc_Spec demo_claim)"
proof -
  let ?run = "mutate_pvc L0 demo_config True demo_pvc demo_converged_st"
  have "\<exists>pvc'. fst ?run = Ret (Inr pvc')"
    by (simp add: demo_config_def demo_converged_st_def demo_claim_def run_defs demo_defs)
  then obtain pvc' where run: "?run = (Ret (Inr pvc'), snd ?run)" by (metis prod.collapse)
  have "fst (lib_getPVC L0 (NamespacedName (pvc_Namespace demo_pvc) (pvc_Name demo_pvc))
      (world demo_converged_st)) = Inr demo_claim"
    by (simp add: demo_converged_st_def run_defs demo_defs)
  from pvc_patch_keeps_immutable [OF run this] run show ?thesis by (metis fst_conv)
qed

section \<open>The entrypoint controller\<close>

text \<open>
  C18. The entrypoint controller keeps to its part: whatever it finds and whichever requests fail, it
  deletes nothing, touches no finalizer, creates or patches nothing but routes and security
  policies, and every status it sends is that of an active Kode, or of a failed one with an error
  text and the condition Error.
\<close>

theorem entrypoint_keeps_to_its_part:
  assumes "lawful L" and "gw_lawful G"
  shows "list_all entrypoint_request (new_requests s (snd (ep_Reconcile L G req s)))"
  by (rule new_requestsI [OF ep_Reconcile_requests [OF assms]])

theorem entrypoint_keeps_to_its_part_witness: "honest failed_status"
  using entrypoint_keeps_to_its_part [OF lawful_L0 gw_lawful_G0] gate_failed
  by (fastforce simp: list_all_iff)

text \<open>
  C26. A published Kode is left alone: if the Kode in memory already has the URL its EntryPoint gives
  it, the reconciliation answers nothing to do, and all it did was read. So the controller does not
  react to its own patch; it does not see a changed port or a lost route either.
\<close>

theorem published_is_settled:
  assumes "lawful L" and "findEntryPointForKode L s = (Ret (Inr e), u)"
    and "InitEntryPointResourcesConfig e u = (Ret config, u)"
    and "GenerateKodeUrlForEntryPoint (es_RoutingType (e_Spec e)) (es_BaseDomain (e_Spec e))
      (k_Name (kode s)) (ec_Protocol config) = Inr a"
    and "KodeUrl (k_Status (kode s)) = ka_Url a" and "GetPhase (kode s) = PhaseActive"
  shows "reconcileKode L G s = (Ret (result_none, None), u) \<and> kode u = kode s \<and>
    list_all is_read (new_requests s u)"
  using reconcileKode_settled [OF assms(2-6)] find_frame [OF assms(1,2)]
    find_only_gets [OF assms(1,2)]
  by (auto simp: only_gets_def dest: new_requests_eq)

lemma gate_found:
  "\<exists>u. findEntryPointForKode L0 (gate_st ''path'' k) = (Ret (Inr (gate ''path'')), u)"
  if "k = active_kode ''https://kode.dev/alice''" for k
  using that by (simp add: entrypoint_run_defs gate_defs run_defs demo_defs eval_nat_numeral)

theorem published_is_settled_witness:
  "fst (reconcileKode L0 G0 (gate_st ''path'' (active_kode ''https://kode.dev/alice''))) =
     Ret (result_none, None)"
proof -
  let ?k = "active_kode ''https://kode.dev/alice''"
  obtain u where u: "findEntryPointForKode L0 (gate_st ''path'' ?k) = (Ret (Inr (gate ''path'')), u)"
    using gate_found by blast
  obtain config where c: "InitEntryPointResourcesConfig (gate ''path'') u = (Ret config, u)"
      "ec_Protocol config = ''https''"
    by (simp add: InitEntryPointResourcesConfig_def gate_def go_simps Let_def)
  let ?a = "\<lparr>ka_Hostname = ''alice'', ka_Domain = ''kode.dev'', ka_Url = ''https://kode.dev/alice'',
    ka_Path = ''/alice''\<rparr>"
  have "GenerateKodeUrlForEntryPoint (es_RoutingType (e_Spec (gate ''path'')))
      (es_BaseDomain (e_Spec (gate ''path''))) (k_Name (kode (gate_st ''path'' ?k)))
      (ec_Protocol config) = Inr ?a"
    "KodeUrl (k_Status (kode (gate_st ''path'' ?k))) = ka_Url ?a"
    "GetPhase (kode (gate_st ''path'' ?k)) = PhaseActive"
    by (simp_all add: c(2) gate_def gate_st_def demo_st_def active_kode_def demo_kode_def
        fresh_kode_def demo_status_def GetPhase_def GenerateKodeUrlForEntryPoint_def
        RoutingTypePath_def RoutingTypeSubdomain_def Let_def)
  from published_is_settled [OF lawful_L0 u c(1) this, of G0] show ?thesis by simp
qed

text \<open>
  C32. Making the configuration of an EntryPoint panics exactly if the EntryPoint has no gateway spec,
  or refers to an existing gateway without naming its namespace; both are optional fields. Otherwise
  it changes nothing.
\<close>

theorem entrypoint_config_panics:
  "snd (InitEntryPointResourcesConfig e s) = s \<and>
   (fst (InitEntryPointResourcesConfig e s) = Panic \<longleftrightarrow>
     (case es_GatewaySpec (e_Spec e) of
        None \<Rightarrow> True
      | Some gateway \<Rightarrow>
          (case gw_ExistingGatewayRef gateway of None \<Rightarrow> False | Some ref \<Rightarrow> ref_Namespace ref = None)))"
  by (auto simp: InitEntryPointResourcesConfig_def go_simps Let_def deref_go_def split: option.split)

section \<open>The two controllers together\<close>

text \<open>
  C2. With both controllers at work on a Kode, in any interleaving and on however stale objects, the
  phase Unknown is never stored.
\<close>

theorem operated_phases_reached:
  assumes "lawful L" and "gw_lawful G" and "operated L G Y k"
  shows "GetPhase k \<in> {PhaseOther '''', PhasePending, PhaseConfiguring, PhaseProvisioning, PhaseActive,
    PhaseUpdating, PhaseDeleting, PhaseFailed}"
  using operated_visited [OF assms(3,1,2)] by (auto simp: operated_phases_def visited_def)

lemma operated_pending: "operated L0 G0 demo_yaml (fresh_kode\<lparr>k_Status := demo_status PhasePending 1\<rparr>)"
  by (rule operated.by_kode [OF operated.created demo_fetch demo_first_patch]) simp

theorem operated_phases_reached_witness:
  "GetPhase (fresh_kode\<lparr>k_Status := demo_status PhasePending 1\<rparr>) \<in> {PhaseOther '''', PhasePending,
     PhaseConfiguring, PhaseProvisioning, PhaseActive, PhaseUpdating, PhaseDeleting, PhaseFailed}"
  by (rule operated_phases_reached [OF lawful_L0 gw_lawful_G0 operated_pending])

text \<open>
  C21. A Kode is declared failed for one reason only: a status that turns a Kode which is not failed
  into a failed one is sent by the entrypoint controller, for an active Kode, with an error text and
  the condition Error. The Kode controller itself never declares a failure.
\<close>

theorem failure_is_explained:
  assumes "lawful L" and "gw_lawful G" and "fst (lib_getKode L req (world s)) = Inr k"
    and "ReqPatchStatus key st b \<in> set (new_requests s (snd (Reconcile L Y req s)) @
      new_requests s (snd (ep_Reconcile L G req s)))"
    and "GetPhase k \<noteq> PhaseFailed" and "Phase_of st = PhaseFailed"
  shows "GetPhase k = PhaseActive \<and> honest st \<and>
    ReqPatchStatus key st b \<notin> set (new_requests s (snd (Reconcile L Y req s)))"
proof -
  have "ReqPatchStatus key st b \<notin> set (new_requests s (snd (Reconcile L Y req s)))"
    using Reconcile_patch_allowed [OF assms(1,3)] assms(5,6) Failed_allowed by metis
  with assms(4) show ?thesis using entrypoint_patch [OF assms(1-3)] by auto
qed

theorem failure_is_explained_witness: "honest failed_status"
proof -
  let ?s = "gate_st ''host'' (active_kode '''')"
  have "ReqPatchStatus demo_key failed_status True \<in>
      set (new_requests ?s (snd (Reconcile L0 demo_yaml demo_key ?s)) @
        new_requests ?s (snd (ep_Reconcile L0 G0 demo_key ?s)))"
    using gate_failed by simp
  from failure_is_explained [OF lawful_L0 gw_lawful_G0 gate_fetch this] show ?thesis
    by (simp add: failed_status_def)
qed


text \<open>
  C24. Conditions are never lost or duplicated: if the types of the conditions of a Kode are distinct,
  then every status that a reconciliation of it sends, by either controller, has a condition of each
  of these types, and exactly one of each type it has.
\<close>

theorem conditions_distinct:
  assumes "lawful L" and "gw_lawful G" and "fst (lib_getKode L req (world s)) = Inr k"
    and "distinct (map co_Type (Conditions (k_Status k)))"
    and "ReqPatchStatus key st b \<in> set (new_requests s (snd (Reconcile L Y req s)) @
      new_requests s (snd (ep_Reconcile L G req s)))"
  shows "distinct (map co_Type (Conditions st)) \<and>
    set (map co_Type (Conditions (k_Status k))) \<subseteq> set (map co_Type (Conditions st))"
proof -
  have "P (Conditions st)" if "cond_closed P" "P (Conditions (k_Status k))" for P
    using assms(5) Reconcile_conditions [OF assms(1) that(1) assms(3) that(2)]
      ep_Reconcile_conditions [OF assms(1,2) that(1) assms(3) that(2)]
    by auto
  from this [OF cond_closed_distinct assms(4)] this [OF cond_closed_present subset_refl]
  show ?thesis by blast
qed

theorem conditions_distinct_witness:
  "distinct (map co_Type (Conditions failed_status)) \<and>
   distinct (map co_Type (Conditions updating_status))"
proof -
  let ?s = "gate_st ''host'' (active_kode '''')" and ?t = "demo_st edited_kode"
  have "ReqPatchStatus demo_key failed_status True \<in>
      set (new_requests ?s (snd (Reconcile L0 demo_yaml demo_key ?s)) @
        new_requests ?s (snd (ep_Reconcile L0 G0 demo_key ?s)))"
    "ReqPatchStatus demo_key updating_status True \<in>
      set (new_requests ?t (snd (Reconcile L0 demo_yaml demo_key ?t)) @
        new_requests ?t (snd (ep_Reconcile L0 G0 demo_key ?t)))"
    using gate_failed edited_patch by simp_all
  from conditions_distinct [OF lawful_L0 gw_lawful_G0 gate_fetch _ this(1)]
    conditions_distinct [OF lawful_L0 gw_lawful_G0 demo_fetch _ this(2)]
  show ?thesis by (simp add: active_kode_def edited_kode_def demo_status_def)
qed

text \<open>
  C31. The check of a healthy active Kode panics exactly if one of the conditions Ready, Available and
  Progressing is missing: it reads the three without a test for nil. Nothing else in it can panic,
  whatever the API server answers.
\<close>

theorem healthy_check_panics:
  assumes "lawful L"
  shows "fst (active_healthy L s) = Panic \<longleftrightarrow>
    \<not> {ConditionTypeReady, ConditionTypeAvailable, ConditionTypeProgressing}
        \<subseteq> set (map co_Type (Conditions (k_Status (kode s))))"
  using active_healthy_panics [OF assms, of s] by (simp only: announced_def)

theorem healthy_check_panics_witness:
  "fst (active_healthy L0 (demo_st (demo_kode PhaseActive None))) = Panic"
  using healthy_check_panics [OF lawful_L0, of "demo_st (demo_kode PhaseActive None)"]
  by (simp add: demo_st_def demo_kode_def demo_status_def)

text \<open>
  C13. That panic does not happen to a Kode the operator itself has brought there: with both controllers
  at work, in any interleaving and on however stale objects, a Kode that left the empty phase and
  Pending, and is not being deleted, has the three conditions, and the check returns.
\<close>

theorem operated_never_panics:
  assumes "lawful L" and "gw_lawful G" and "operated L G Y k"
    and "GetPhase k \<notin> {PhaseOther '''', PhasePending, PhaseDeleting}"
    and "Conditions (k_Status (kode s)) = Conditions (k_Status k)"
  shows "fst (active_healthy L s) \<noteq> Panic"
  using operated_equipped [OF assms(3,1,2)] assms(4,5)
  by (auto simp: active_healthy_panics [OF assms(1)] equipped_def GetPhase_def)

theorem operated_never_panics_witness:
  "fst (active_healthy L0 (demo_st (edited_kode\<lparr>k_Status := updating_status\<rparr>))) \<noteq> Panic"
  by (rule operated_never_panics [OF lawful_L0 gw_lawful_G0 edited_operated])
    (simp_all add: updating_status_def demo_status_def demo_st_def GetPhase_def)

section \<open>Progress\<close>

text \<open>
  C19. Recovery attempts are counted: every status that the Kode controller sends for a failed Kode whose
  generation was observed carries a retry count one higher than the fetched one, up to
  \<^const>\<open>maxRetries\<close> and never beyond; for one that is not failed, a positive count is set back to zero;
  initialisation and a generation mismatch leave it as it is, a deletion leaves it or sets it back, and
  the entrypoint controller never touches it. Any request may fail. So the count in the cluster stays
  between zero and the maximum, and a Kode that left the phase Failed and is declared failed again starts
  over: the limit holds for attempts in a row, not altogether.
\<close>

theorem retries_are_counted:
  assumes "lawful L" and "gw_lawful G" and "fst (lib_getKode L req (world s)) = Inr k"
  shows "(ReqPatchStatus key st b \<in> set (new_requests s (snd (Reconcile L Y req s))) \<longrightarrow>
      RetryCount st \<in> allowed_retries k) \<and>
    (ReqPatchStatus key st b \<in> set (new_requests s (snd (ep_Reconcile L G req s))) \<longrightarrow>
      RetryCount st = RetryCount (k_Status k))"
  using Reconcile_retries [OF assms(1,3)] ep_Reconcile_retries [OF assms] by blast

text \<open>A Kode that is failed, for the witnesses, with a number of attempts made.\<close>

definition failed_kode :: "int \<Rightarrow> Kode" where
  "failed_kode n = (demo_kode PhaseFailed None)\<lparr>k_Status := (demo_status PhaseFailed 1)\<lparr>RetryCount := n\<rparr>\<rparr>"

lemma failed_patches:
  "\<exists>st. ReqPatchStatus demo_key st True
     \<in> set (new_requests (demo_st (failed_kode n)) (snd (Reconcile L0 demo_yaml demo_key (demo_st (failed_kode n)))))"
  if "n = 5"
  using that
  by (simp add: failed_kode_def maxRetries_def run_defs demo_defs new_requests_def eval_nat_numeral)

lemma failed_fetch: "fst (lib_getKode L0 demo_key (world (demo_st (failed_kode n)))) = Inr (failed_kode n)"
  by (simp add: failed_kode_def L0_def fk_get_def demo_st_def demo_store_def demo_key_def demo_kode_def fresh_kode_def)

theorem retries_are_counted_witness:
  "\<exists>st. ReqPatchStatus demo_key st True
      \<in> set (new_requests (demo_st (failed_kode 5)) (snd (Reconcile L0 demo_yaml demo_key (demo_st (failed_kode 5))))) \<and>
     RetryCount st = 5"
proof -
  have "allowed_retries (failed_kode 5) = {5}"
    by (simp add: failed_kode_def allowed_retries_def has_finalizer_def GetFinalizer_def GetPhase_def attempt_count_def
        maxRetries_def Let_def demo_defs)
  with failed_patches [OF refl] retries_are_counted [OF lawful_L0 gw_lawful_G0 failed_fetch]
  show ?thesis by fastforce
qed



text \<open>
  Deletion ends: if the API server obliges, that is it finds the Kode, accepts its status and its
  finalizers and answers NotFound for its children, then one reconciliation of a deleted Kode
  whose generation was observed updates its finalizers to a list without the operator's, reports no
  error and asks for nothing more. The claim of a Kode that keeps its volume is among these children
  although it is never deleted.
\<close>

theorem deletion_ends:
  assumes "lawful L" and "obliging L k R" and "R (world s)"
    and "fst (lib_getKode L (kode_key k) (world s)) = Inr k"
    and "k_DeletionTimestamp k \<noteq> None" and "has_finalizer k"
    and "k_Generation k = ObservedGeneration (k_Status k)"
  shows "\<exists>t fs. Reconcile L Y (kode_key k) s = (Ret (result_none, None), t) \<and>
    ReqUpdateFinalizers (kode_key k) fs True \<in> set (new_requests s t) \<and> GetFinalizer k \<notin> set fs"
  using Reconcile_finishes_deletion [OF assms, of Y]
  by (auto simp: given_up_def dest: new_requests_eq)

theorem deletion_ends_witness:
  "\<exists>t fs. Reconcile L0 demo_yaml demo_key (demo_st (demo_kode PhaseConfiguring (Some 7))) =
     (Ret (result_none, None), t) \<and> ReqUpdateFinalizers demo_key fs True
       \<in> set (new_requests (demo_st (demo_kode PhaseConfiguring (Some 7))) t)"
proof -
  let ?k = "demo_kode PhaseConfiguring (Some 7)"
  have key: "kode_key ?k = demo_key" by simp
  from deletion_ends [OF lawful_L0 obliging_childless [OF key] childless_demo_st [OF key], of demo_yaml]
  show ?thesis by auto
qed

end
